(* ===== verification/Prelude.thy ===== *)
theory Prelude
  imports Main "HOL-Library.Word"
begin

text \<open>
  Shared ground of the development: machine integer types, the way a C++ step can end
  (normally, by an exception, by undefined behaviour), loops over containers, checked memory
  copies, and event systems with their invariants.
\<close>

section \<open>Machine types\<close>

type_synonym byte = "8 word"
type_synonym u16 = "16 word"
type_synonym u32 = "32 word"
type_synonym u64 = "64 word"
type_synonym ptr = nat

named_theorems outcome_simps \<open>how outcomes are composed\<close>
named_theorems layout_simps \<open>lengths and field positions in packed layouts\<close>

lemma unat_bound: "unat (w :: 'a::len word) < 2 ^ LENGTH('a)"
  by (rule unsigned_less)

section \<open>How a piece of C++ ends\<close>

text \<open>
  \<open>ub\<close> names the undefined behaviours the sources can run into, \<open>exn\<close> the exceptions that are
  thrown, \<open>Managed\<close> those of the .NET client. An exception keeps the state reached so far, since the
  changes made before the throw stay in memory; undefined behaviour keeps nothing.
\<close>

datatype ub = OutOfBounds | NullDeref | UseAfterFree | Terminate

datatype exn = SystemError string | Managed string

datatype 'w outcome = Done 'w | Throws exn 'w | Undefined ub

fun and_then :: "'w outcome \<Rightarrow> ('w \<Rightarrow> 'w outcome) \<Rightarrow> 'w outcome" where
  "and_then (Done w) f = f w"
| "and_then (Throws e w) f = Throws e w"
| "and_then (Undefined u) f = Undefined u"

fun lift_mem :: "ub + 'a \<Rightarrow> ('a \<Rightarrow> 'w outcome) \<Rightarrow> 'w outcome" where
  "lift_mem (Inl u) f = Undefined u"
| "lift_mem (Inr x) f = f x"

fun mem_bind :: "ub + 'a \<Rightarrow> ('a \<Rightarrow> ub + 'b) \<Rightarrow> ub + 'b" where
  "mem_bind (Inl u) f = Inl u"
| "mem_bind (Inr x) f = f x"

text \<open>A \<open>catch (std::exception &)\<close> that only prints: the state at the throw is kept.\<close>

fun catch_print :: "'w outcome \<Rightarrow> 'w outcome" where
  "catch_print (Done w) = Done w"
| "catch_print (Throws e w) = Done w"
| "catch_print (Undefined u) = Undefined u"

text \<open>A range-based \<open>for\<close> over a container.\<close>

fun for_each :: "('a \<Rightarrow> 'w \<Rightarrow> 'w outcome) \<Rightarrow> 'a list \<Rightarrow> 'w \<Rightarrow> 'w outcome" where
  "for_each f [] w = Done w"
| "for_each f (x # xs) w = and_then (f x w) (for_each f xs)"

declare and_then.simps [outcome_simps]
  and lift_mem.simps [outcome_simps]
  and mem_bind.simps [outcome_simps]

lemma and_then_eq_Done [outcome_simps]:
  "and_then r f = Done w' \<longleftrightarrow> (\<exists>w. r = Done w \<and> f w = Done w')"
  by (cases r) auto

lemma lift_mem_eq_Done [outcome_simps]:
  "lift_mem m f = Done w' \<longleftrightarrow> (\<exists>x. m = Inr x \<and> f x = Done w')"
  by (cases m) auto

lemma mem_bind_eq_Inr [outcome_simps]:
  "mem_bind m f = Inr y \<longleftrightarrow> (\<exists>x. m = Inr x \<and> f x = Inr y)"
  by (cases m) auto

lemma and_then_assoc: "and_then (and_then r f) g = and_then r (\<lambda>w. and_then (f w) g)"
  by (cases r) auto

lemma and_then_Done [simp]: "and_then r Done = r"
  by (cases r) auto

lemma for_each_append: "for_each f (xs @ ys) w = and_then (for_each f xs w) (for_each f ys)"
proof (induction xs arbitrary: w)
  case (Cons x xs)
  have "for_each f (xs @ ys) = (\<lambda>w. and_then (for_each f xs w) (for_each f ys))"
    using Cons by (rule ext)
  then show ?case by (simp add: and_then_assoc)
qed simp

text \<open>A loop whose body always succeeds is a fold.\<close>

lemma for_each_total: "for_each (\<lambda>x w. Done (g x w)) xs w = Done (fold g xs w)"
  by (induction xs arbitrary: w) auto

text \<open>What every body keeps, the loop keeps.\<close>

lemma for_each_inv:
  assumes "for_each f xs w = Done w'" and "P w"
    and "\<And>x v v'. x \<in> set xs \<Longrightarrow> P v \<Longrightarrow> f x v = Done v' \<Longrightarrow> P v'"
  shows "P w'"
  using assms
proof (induction xs arbitrary: w)
  case (Cons x xs)
  from Cons.prems(1) obtain v where v: "f x w = Done v" "for_each f xs v = Done w'"
    by (auto simp: outcome_simps)
  have "P v" by (rule Cons.prems(3) [OF _ Cons.prems(2) v(1)]) simp
  then show ?case
    by (rule Cons.IH [OF v(2)]) (auto intro: Cons.prems(3))
qed simp

section \<open>Checked memory\<close>

text \<open>
  An object is the list of its bytes. A copy that leaves the source or the destination
  object is undefined behaviour.
\<close>

definition read_at :: "nat \<Rightarrow> nat \<Rightarrow> byte list \<Rightarrow> ub + byte list" where
  "read_at off n src =
     (if off + n \<le> length src then Inr (take n (drop off src)) else Inl OutOfBounds)"

definition write_at :: "nat \<Rightarrow> byte list \<Rightarrow> byte list \<Rightarrow> ub + byte list" where
  "write_at off bs dst =
     (if off + length bs \<le> length dst
      then Inr (take off dst @ bs @ drop (off + length bs) dst) else Inl OutOfBounds)"

lemma write_at_0: "length bs \<le> length dst \<Longrightarrow> write_at 0 bs dst = Inr (bs @ drop (length bs) dst)"
  by (simp add: write_at_def)

lemma write_at_length: "write_at off bs dst = Inr dst' \<Longrightarrow> length dst' = length dst"
  by (auto simp: write_at_def split: if_splits)

lemma read_write_at:
  assumes "write_at off bs dst = Inr dst'"
  shows "read_at off (length bs) dst' = Inr bs"
  using assms by (auto simp: write_at_def read_at_def split: if_splits)

text \<open>Zeroed memory, as \<open>memset(p, 0, n)\<close> leaves it.\<close>

definition zeros :: "nat \<Rightarrow> byte list" where
  "zeros n = replicate n 0"

lemma length_zeros [simp]: "length (zeros n) = n"
  by (simp add: zeros_def)

lemma drop_zeros [simp]: "drop k (zeros n) = zeros (n - k)"
  by (simp add: zeros_def)

lemma take_zeros [simp]: "take k (zeros n) = zeros (min k n)"
  by (simp add: zeros_def min.commute)

lemma zeros_nth [simp]: "i < n \<Longrightarrow> zeros n ! i = 0"
  by (simp add: zeros_def)

lemma zeros_0 [simp]: "zeros 0 = []"
  by (simp add: zeros_def)

lemma zeros_append [simp]: "zeros m @ zeros n = zeros (m + n)"
  by (simp add: zeros_def replicate_add)

lemma zeros_append_rest [simp]: "zeros m @ zeros n @ bs = zeros (m + n) @ bs"
  by (simp add: zeros_def replicate_add)

lemma zero_in_zeros [simp]: "0 \<in> set (zeros n) \<longleftrightarrow> 0 < n"
  by (simp add: zeros_def)

lemma set_zeros: "set (zeros n) \<subseteq> {0}"
  by (auto simp: zeros_def)

text \<open>
  Storage that was never written: \<open>mem\<close> says what each position held before.
\<close>

definition stale :: "(nat \<Rightarrow> byte) \<Rightarrow> nat \<Rightarrow> nat \<Rightarrow> byte list" where
  "stale mem off n = map (\<lambda>i. mem (off + i)) [0..<n]"

lemma length_stale [simp]: "length (stale mem off n) = n"
  by (simp add: stale_def)

lemma stale_nth [simp]: "i < n \<Longrightarrow> stale mem off n ! i = mem (off + i)"
  by (simp add: stale_def)

text \<open>What a smart pointer points to, as a list.\<close>

definition option_list :: "'a option \<Rightarrow> 'a list" where
  "option_list x = (case x of None \<Rightarrow> [] | Some y \<Rightarrow> [y])"

lemma option_list_simps [simp]: "option_list None = []" "option_list (Some x) = [x]"
  by (simp_all add: option_list_def)

section \<open>Event systems\<close>

text \<open>
  A component driven by events: \<open>run\<close> executes handlers in the order the events come and
  stops at the first that is not enabled or does not return normally.
\<close>

fun run :: "('e \<Rightarrow> 'w \<Rightarrow> bool) \<Rightarrow> ('e \<Rightarrow> 'w \<Rightarrow> 'w outcome) \<Rightarrow> 'e list \<Rightarrow> 'w \<Rightarrow> 'w outcome option" where
  "run en h [] w = Some (Done w)"
| "run en h (e # es) w =
     (if en e w
      then (case h e w of Done w' \<Rightarrow> run en h es w' | r \<Rightarrow> Some r)
      else None)"

lemma run_append_Done:
  "run en h es w = Some (Done w') \<Longrightarrow> run en h (es @ fs) w = run en h fs w'"
  by (induction es arbitrary: w) (auto split: if_splits outcome.splits)

lemma run_step: "en e w \<Longrightarrow> h e w = Done w' \<Longrightarrow> run en h (e # es) w = run en h es w'"
  by simp

lemma run_undefined: "en e w \<Longrightarrow> h e w = Undefined u \<Longrightarrow> run en h (e # es) w = Some (Undefined u)"
  by simp

text \<open>
  The history of a run: what \<open>f\<close> sees in each step, from the event and the states around it, in the
  order of the steps.
\<close>

fun history :: "('e \<Rightarrow> 'w \<Rightarrow> 'w \<Rightarrow> 'a list) \<Rightarrow> ('e \<Rightarrow> 'w \<Rightarrow> 'w outcome) \<Rightarrow> 'e list \<Rightarrow> 'w \<Rightarrow> 'a list" where
  "history f h [] w = []"
| "history f h (e # es) w =
     (case h e w of Done w' \<Rightarrow> f e w w' @ history f h es w' | _ \<Rightarrow> [])"

locale event_system =
  fixes enabled :: "'e \<Rightarrow> 'w \<Rightarrow> bool"
    and handle :: "'e \<Rightarrow> 'w \<Rightarrow> 'w outcome"
    and inv :: "'w \<Rightarrow> bool"
  assumes handle_inv: "inv w \<Longrightarrow> enabled e w \<Longrightarrow> handle e w = Done w' \<Longrightarrow> inv w'"
begin

lemma run_inv: "inv w \<Longrightarrow> run enabled handle es w = Some (Done w') \<Longrightarrow> inv w'"
  by (induction es arbitrary: w) (auto split: if_splits outcome.splits intro: handle_inv)

text \<open>
  A queue: what each step takes out of it, followed by what is left, is what was there followed by what
  the step put in. Then the same holds of a whole run.
\<close>

lemma run_queue:
  assumes step: "\<And>e w w'. inv w \<Longrightarrow> enabled e w \<Longrightarrow> handle e w = Done w' \<Longrightarrow>
      \<exists>new. out e w w' @ queue w' = queue w @ new \<and> filter P new = put e w w'"
  shows "inv w \<Longrightarrow> run enabled handle es w = Some (Done w') \<Longrightarrow>
    \<exists>new. history out handle es w @ queue w' = queue w @ new \<and> filter P new = history put handle es w"
proof (induction es arbitrary: w)
  case (Cons e es)
  then obtain v where v: "enabled e w" "handle e w = Done v" "run enabled handle es v = Some (Done w')"
    by (auto split: if_splits outcome.splits)
  obtain new where new: "out e w v @ queue v = queue w @ new" "filter P new = put e w v"
    using step [OF Cons.prems(1) v(1,2)] by blast
  obtain more where more: "history out handle es v @ queue w' = queue v @ more" "filter P more = history put handle es v"
    using Cons.IH [OF handle_inv [OF Cons.prems(1) v(1,2)] v(3)] by blast
  have "out e w v @ history out handle es v @ queue w' = queue w @ new @ more"
    using more(1) new(1) by (metis append_assoc)
  moreover have "filter P (new @ more) = put e w v @ history put handle es v"
    using more(2) new(2) by simp
  ultimately show ?case using v(2) by (intro exI [of _ "new @ more"]) simp
qed simp

lemma run_prefix_inv:
  assumes "inv w" and "run enabled handle (es @ fs) w = Some (Done w')"
  shows "\<exists>v. run enabled handle es w = Some (Done v) \<and> inv v"
  using assms by (induction es arbitrary: w) (auto split: if_splits outcome.splits intro: handle_inv)

end

text \<open>An event system whose handlers never fail from a good state: progress as well as safety.\<close>

locale total_event_system = event_system +
  assumes handle_total: "inv w \<Longrightarrow> enabled e w \<Longrightarrow> \<exists>w'. handle e w = Done w'"
begin

lemma run_total:
  "inv w \<Longrightarrow> run enabled handle es w = None \<or> (\<exists>w'. run enabled handle es w = Some (Done w') \<and> inv w')"
proof (induction es arbitrary: w)
  case Nil
  then show ?case by simp
next
  case (Cons e es)
  show ?case
  proof (cases "enabled e w")
    case True
    then obtain w' where w': "handle e w = Done w'" using Cons.prems handle_total by blast
    have "inv w'" using handle_inv [OF Cons.prems True w'] .
    then show ?thesis using Cons.IH True w' by simp
  next
    case False
    then show ?thesis by simp
  qed
qed

end

text \<open>An event system whose events use something up: every run is finite, and some run ends where no event is left.\<close>

locale terminating_event_system = total_event_system +
  fixes left :: "'w \<Rightarrow> nat"
  assumes handle_less: "inv w \<Longrightarrow> enabled e w \<Longrightarrow> handle e w = Done w' \<Longrightarrow> left w' < left w"
begin

lemma run_bounded:
  "inv w \<Longrightarrow> run enabled handle es w = Some (Done w') \<Longrightarrow> length es + left w' \<le> left w"
proof (induction es arbitrary: w)
  case (Cons e es)
  then obtain v where v: "enabled e w" "handle e w = Done v" "run enabled handle es v = Some (Done w')"
    by (auto split: if_splits outcome.splits)
  have "length es + left w' \<le> left v" by (rule Cons.IH [OF handle_inv [OF Cons.prems(1) v(1,2)] v(3)])
  then show ?case using handle_less [OF Cons.prems(1) v(1,2)] by simp
qed simp

lemma run_to_the_end:
  "inv w \<Longrightarrow> \<exists>es w'. run enabled handle es w = Some (Done w') \<and> inv w' \<and> (\<forall>e. \<not> enabled e w')"
proof (induction "left w" arbitrary: w rule: less_induct)
  case less
  show ?case
  proof (cases "\<exists>e. enabled e w")
    case True
    then obtain e where e: "enabled e w" by blast
    then obtain v where v: "handle e w = Done v" using less.prems handle_total by blast
    obtain es w' where es: "run enabled handle es v = Some (Done w')" "inv w'" "\<forall>e. \<not> enabled e w'"
      using less.hyps [OF handle_less [OF less.prems e v] handle_inv [OF less.prems e v]] by blast
    have "run enabled handle (e # es) w = Some (Done w')" using e v es(1) by simp
    then show ?thesis using es(2,3) by blast
  next
    case False
    then show ?thesis using less.prems by (intro exI [of _ "[]"] exI [of _ w]) simp
  qed
qed

end

end
