(* ===== verification/Bytes.thy ===== *)
theory Bytes
  imports Prelude
begin

text \<open>
  The byte layer of \<open>nr_base.hpp\<close>: how integers lie in memory on a little and on a big endian
  host, and the byte swapping helpers. A codec is a pair of a writer and
  a reader of one fixed layout; the locale \<open>byte_codec\<close> states its laws.
\<close>

section \<open>Integers in memory\<close>

datatype endian = Little | Big

primrec le_bytes :: "nat \<Rightarrow> nat \<Rightarrow> byte list" where
  "le_bytes 0 x = []"
| "le_bytes (Suc n) x = word_of_nat (x mod 256) # le_bytes n (x div 256)"

primrec le_val :: "byte list \<Rightarrow> nat" where
  "le_val [] = 0"
| "le_val (b # bs) = unat b + 256 * le_val bs"

definition to_mem :: "endian \<Rightarrow> nat \<Rightarrow> nat \<Rightarrow> byte list" where
  "to_mem e n x = (case e of Little \<Rightarrow> le_bytes n x | Big \<Rightarrow> rev (le_bytes n x))"

definition of_mem :: "endian \<Rightarrow> byte list \<Rightarrow> nat" where
  "of_mem e bs = (case e of Little \<Rightarrow> le_val bs | Big \<Rightarrow> le_val (rev bs))"

lemma length_le_bytes [simp]: "length (le_bytes n x) = n"
  by (induction n arbitrary: x) auto

lemma length_to_mem [simp, layout_simps]: "length (to_mem e n x) = n"
  by (simp add: to_mem_def split: endian.split)

lemma unat_byte_mod [simp]: "unat (word_of_nat (x mod 256) :: byte) = x mod 256"
  by (simp add: unat_of_nat)

lemma le_val_le_bytes: "le_val (le_bytes n x) = x mod 256 ^ n"
proof (induction n arbitrary: x)
  case 0
  then show ?case by simp
next
  case (Suc n)
  have "le_val (le_bytes (Suc n) x) = x mod 256 + 256 * (x div 256 mod 256 ^ n)"
    using Suc by simp
  also have "\<dots> = x mod (256 * 256 ^ n)" by (simp add: mod_mult2_eq)
  finally show ?case by simp
qed

lemma le_bytes_add: "le_bytes (m + n) x = le_bytes m x @ le_bytes n (x div 256 ^ m)"
  by (induction m arbitrary: x) (simp_all add: div_mult2_eq)

lemma le_bytes_zero: "le_bytes n 0 = zeros n"
  by (induction n) (simp_all add: zeros_def)

lemma le_val_zeros_append: "le_val (zeros n @ bs) = 256 ^ n * le_val bs"
  by (induction n) (simp_all add: zeros_def)

lemma le_val_bound: "le_val bs < 256 ^ length bs"
proof (induction bs)
  case Nil
  then show ?case by simp
next
  case (Cons b bs)
  have "unat b < 256" using unat_bound [of b] by simp
  moreover have "le_val bs + 1 \<le> 256 ^ length bs" using Cons by simp
  then have "256 * (le_val bs + 1) \<le> 256 * 256 ^ length bs" by (rule mult_le_mono2)
  ultimately show ?case by simp
qed

lemma le_bytes_le_val [simp]: "le_bytes (length bs) (le_val bs) = bs"
proof (induction bs)
  case Nil
  then show ?case by simp
next
  case (Cons b bs)
  have "unat b < 256" using unat_bound [of b] by simp
  then have "(unat b + 256 * le_val bs) mod 256 = unat b"
    and "(unat b + 256 * le_val bs) div 256 = le_val bs" by simp_all
  then show ?case using Cons by simp
qed

lemma of_mem_to_mem [simp]: "of_mem e (to_mem e n x) = x mod 256 ^ n"
  by (cases e) (simp_all add: of_mem_def to_mem_def le_val_le_bytes)

lemma to_mem_of_mem [simp]: "to_mem e (length bs) (of_mem e bs) = bs"
  using le_bytes_le_val [of bs] le_bytes_le_val [of "rev bs"]
  by (cases e) (simp_all add: of_mem_def to_mem_def)

section \<open>Fields of a packed structure\<close>

definition mem16 :: "endian \<Rightarrow> u16 \<Rightarrow> byte list" where "mem16 e w = to_mem e 2 (unat w)"
definition mem32 :: "endian \<Rightarrow> u32 \<Rightarrow> byte list" where "mem32 e w = to_mem e 4 (unat w)"
definition mem64 :: "endian \<Rightarrow> u64 \<Rightarrow> byte list" where "mem64 e w = to_mem e 8 (unat w)"

definition get16 :: "endian \<Rightarrow> nat \<Rightarrow> byte list \<Rightarrow> u16" where
  "get16 e off bs = word_of_nat (of_mem e (take 2 (drop off bs)))"
definition get32 :: "endian \<Rightarrow> nat \<Rightarrow> byte list \<Rightarrow> u32" where
  "get32 e off bs = word_of_nat (of_mem e (take 4 (drop off bs)))"
definition get64 :: "endian \<Rightarrow> nat \<Rightarrow> byte list \<Rightarrow> u64" where
  "get64 e off bs = word_of_nat (of_mem e (take 8 (drop off bs)))"
definition get_buf :: "nat \<Rightarrow> nat \<Rightarrow> byte list \<Rightarrow> byte list" where
  "get_buf off n bs = take n (drop off bs)"

lemma length_mem16 [simp, layout_simps]: "length (mem16 e w) = 2" by (simp add: mem16_def)
lemma length_mem32 [simp, layout_simps]: "length (mem32 e w) = 4" by (simp add: mem32_def)
lemma length_mem64 [simp, layout_simps]: "length (mem64 e w) = 8" by (simp add: mem64_def)

lemma unat_mod_16 [simp]: "unat (w::u16) mod 65536 = unat w"
  using unat_bound [of w] by simp
lemma unat_mod_32 [simp]: "unat (w::u32) mod 4294967296 = unat w"
  using unat_bound [of w] by simp
lemma unat_mod_64 [simp]: "unat (w::u64) mod 18446744073709551616 = unat w"
  using unat_bound [of w] by simp

lemma get16_here [simp]: "get16 e 0 (mem16 e w @ rest) = w"
  by (simp add: get16_def mem16_def)
lemma get32_here [simp]: "get32 e 0 (mem32 e w @ rest) = w"
  by (simp add: get32_def mem32_def)
lemma get64_here [simp]: "get64 e 0 (mem64 e w @ rest) = w"
  by (simp add: get64_def mem64_def)
lemma get_buf_here [simp]: "length b = n \<Longrightarrow> get_buf 0 n (b @ rest) = b"
  by (simp add: get_buf_def)

text \<open>Reading past a field: the same read at a smaller offset in the rest.\<close>

lemma get16_skip [layout_simps]: "length b \<le> off \<Longrightarrow> get16 e off (b @ rest) = get16 e (off - length b) rest"
  by (simp add: get16_def)
lemma get32_skip [layout_simps]: "length b \<le> off \<Longrightarrow> get32 e off (b @ rest) = get32 e (off - length b) rest"
  by (simp add: get32_def)
lemma get64_skip [layout_simps]: "length b \<le> off \<Longrightarrow> get64 e off (b @ rest) = get64 e (off - length b) rest"
  by (simp add: get64_def)
lemma get_buf_skip [layout_simps]: "length b \<le> off \<Longrightarrow> get_buf off n (b @ rest) = get_buf (off - length b) n rest"
  by (simp add: get_buf_def)

section \<open>Codecs\<close>

locale byte_codec =
  fixes enc :: "'a \<Rightarrow> byte list"
    and dec :: "byte list \<Rightarrow> 'a"
    and sz :: nat
    and ok :: "'a \<Rightarrow> bool"
  assumes enc_length: "ok x \<Longrightarrow> length (enc x) = sz"
    and dec_enc_append: "ok x \<Longrightarrow> dec (enc x @ rest) = x"
begin

lemma dec_enc: "ok x \<Longrightarrow> dec (enc x) = x"
  using dec_enc_append [of x "[]"] by simp

lemma enc_inj: "ok x \<Longrightarrow> ok y \<Longrightarrow> enc x = enc y \<Longrightarrow> x = y"
  using dec_enc by metis

text \<open>The prefix property: an encoding never is a proper prefix of another.\<close>

lemma enc_append_inj: "ok x \<Longrightarrow> ok y \<Longrightarrow> enc x @ r = enc y @ s \<Longrightarrow> x = y \<and> r = s"
  using dec_enc_append enc_length by (metis append_eq_append_conv)

end

interpretation u16_codec: byte_codec "mem16 e" "get16 e 0" 2 "\<lambda>_. True" for e
  by unfold_locales simp_all

interpretation u32_codec: byte_codec "mem32 e" "get32 e 0" 4 "\<lambda>_. True" for e
  by unfold_locales simp_all

interpretation u64_codec: byte_codec "mem64 e" "get64 e 0" 8 "\<lambda>_. True" for e
  by unfold_locales simp_all

section \<open>Byte order of the host, and swapping\<close>

text \<open>\<open>is_system_little_endian\<close> looks at the first byte of the \<open>int\<close> 1.\<close>

definition is_system_little_endian :: "endian \<Rightarrow> bool" where
  "is_system_little_endian e = (hd (to_mem e 4 1) = 1)"

text \<open>
  \<open>swap_endian<T>\<close> reverses the bytes of a \<open>T\<close> through a union; \<open>n\<close> is
  \<open>sizeof(T)\<close>. The instances are at the widths of the words.
\<close>

definition swap_endian :: "endian \<Rightarrow> nat \<Rightarrow> nat \<Rightarrow> nat" where
  "swap_endian e n x = of_mem e (rev (to_mem e n x))"

definition swap_endian16 :: "endian \<Rightarrow> u16 \<Rightarrow> u16" where
  "swap_endian16 e w = word_of_nat (swap_endian e 2 (unat w))"
definition swap_endian32 :: "endian \<Rightarrow> u32 \<Rightarrow> u32" where
  "swap_endian32 e w = word_of_nat (swap_endian e 4 (unat w))"
definition swap_endian64 :: "endian \<Rightarrow> u64 \<Rightarrow> u64" where
  "swap_endian64 e w = word_of_nat (swap_endian e 8 (unat w))"

definition swap_byte_vector :: "byte list \<Rightarrow> byte list" where
  "swap_byte_vector origin = rev origin"

lemma rev_to_mem: "rev (to_mem e n x) = to_mem (case e of Little \<Rightarrow> Big | Big \<Rightarrow> Little) n x"
  by (cases e) (simp_all add: to_mem_def)

lemma swap_endian_bound: "swap_endian e n x < 256 ^ n"
  using le_val_bound [of "rev (to_mem e n x)"] le_val_bound [of "to_mem e n x"]
  by (cases e) (simp_all add: swap_endian_def of_mem_def)

lemma to_mem_swap: "to_mem e n (swap_endian e n x) = rev (to_mem e n x)"
  using to_mem_of_mem [of e "rev (to_mem e n x)"] by (simp add: swap_endian_def)

lemma swap_endian_twice: "swap_endian e n (swap_endian e n x) = x mod 256 ^ n"
  unfolding swap_endian_def [of e n "swap_endian e n x"] by (simp add: to_mem_swap)

lemma swap_endian_host: "swap_endian e n x = swap_endian Little n x"
  by (cases e) (simp_all add: swap_endian_def of_mem_def to_mem_def)

lemma unat_swap64: "unat (swap_endian64 e w) = swap_endian e 8 (unat w)"
  using swap_endian_bound [of e 8 "unat w"]
  by (simp add: swap_endian64_def unat_of_nat)

lemma unat_swap32: "unat (swap_endian32 e w) = swap_endian e 4 (unat w)"
  using swap_endian_bound [of e 4 "unat w"]
  by (simp add: swap_endian32_def unat_of_nat)

lemma unat_swap16: "unat (swap_endian16 e w) = swap_endian e 2 (unat w)"
  using swap_endian_bound [of e 2 "unat w"]
  by (simp add: swap_endian16_def unat_of_nat)

text \<open>What one host writes, a host of the other byte order reads as the swapped value.\<close>

lemma cross_endian_read:
  "e \<noteq> e' \<Longrightarrow> of_mem e' (to_mem e n x) = swap_endian e' n x"
  by (cases e; cases e') (simp_all add: swap_endian_def of_mem_def to_mem_def)

end
