(* ===== verification/Participant.thy ===== *)
theory Participant
  imports Bytes
begin

text \<open>
  \<open>participant.hpp\<close>: the part of a participant that the room sees, its public information
  block, and the comparisons by identifier that order the set of participants. A
  \<open>std::string\<close> is its bytes.
\<close>

type_synonym cpp_string = "byte list"

definition str :: "string \<Rightarrow> cpp_string" where
  "str s = map of_char s"

lemma length_str [simp]: "length (str s) = length s"
  by (simp add: str_def)

record nr_participant_info =
  ipv4_ip :: "byte list"
  info_name :: "byte list"
  info_m_id :: u64
  info_server_id :: u64

text \<open>The default constructor clears both arrays and leaves \<open>server_id_\<close> as the storage was.\<close>

definition init_participant_info :: "(nat \<Rightarrow> byte) \<Rightarrow> nr_participant_info" where
  "init_participant_info mem =
     \<lparr>ipv4_ip = zeros 512, info_name = zeros 1024, info_m_id = 0,
      info_server_id = get64 Little 0 (stale mem 1544 8)\<rparr>"

text \<open>
  The other constructor stores both identifiers; the statement that should clear the arrays
  creates a temporary object instead, so they stay as the storage was.
\<close>

definition init_participant_info_ids :: "(nat \<Rightarrow> byte) \<Rightarrow> u64 \<Rightarrow> u64 \<Rightarrow> nr_participant_info" where
  "init_participant_info_ids mem server_id pid =
     \<lparr>ipv4_ip = stale mem 0 512, info_name = stale mem 512 1024, info_m_id = pid,
      info_server_id = server_id\<rparr>"

definition wf_participant_info :: "nr_participant_info \<Rightarrow> bool" where
  "wf_participant_info i \<longleftrightarrow> length (ipv4_ip i) = 512 \<and> length (info_name i) = 1024"

lemma wf_init_participant_info [simp]: "wf_participant_info (init_participant_info mem)"
  by (simp add: wf_participant_info_def init_participant_info_def)

record nr_participant =
  m_name :: cpp_string
  IP :: cpp_string
  m_id :: u64
  info_ptr :: "nr_participant_info option"
  deaf :: bool
  m_descriptor :: "byte list"

definition participant_less :: "'a nr_participant_scheme \<Rightarrow> 'b nr_participant_scheme \<Rightarrow> bool" where
  "participant_less p1 p2 \<longleftrightarrow> m_id p1 < m_id p2"

definition participant_less_id :: "'a nr_participant_scheme \<Rightarrow> u64 \<Rightarrow> bool" where
  "participant_less_id p i \<longleftrightarrow> m_id p < i"

definition id_less_participant :: "u64 \<Rightarrow> 'a nr_participant_scheme \<Rightarrow> bool" where
  "id_less_participant i p \<longleftrightarrow> i < m_id p"

definition participant_eq :: "'a nr_participant_scheme \<Rightarrow> 'b nr_participant_scheme \<Rightarrow> bool" where
  "participant_eq p1 p2 \<longleftrightarrow> m_id p1 = m_id p2"

definition participant_eq_id :: "'a nr_participant_scheme \<Rightarrow> u64 \<Rightarrow> bool" where
  "participant_eq_id p i \<longleftrightarrow> m_id p = i"

definition id_eq_participant :: "u64 \<Rightarrow> 'a nr_participant_scheme \<Rightarrow> bool" where
  "id_eq_participant i p \<longleftrightarrow> i = m_id p"

text \<open>The constructor, and the \<open>set_keep_alive\<close> that a subclass without sockets would inherit.\<close>

definition new_nr_participant :: nr_participant where
  "new_nr_participant =
     \<lparr>m_name = [], IP = [], m_id = 0, info_ptr = None, deaf = False, m_descriptor = []\<rparr>"

definition default_set_keep_alive :: "bool \<Rightarrow> int" where
  "default_set_keep_alive b = 0"

text \<open>\<open>set_descriptor\<close> appends to the descriptor.\<close>

definition set_descriptor :: "byte list \<Rightarrow> u16 \<Rightarrow> 'a nr_participant_scheme \<Rightarrow> ub + 'a nr_participant_scheme" where
  "set_descriptor buffer buffersize p =
     mem_bind (read_at 0 (unat buffersize) buffer)
       (\<lambda>bs. Inr (p\<lparr>m_descriptor := m_descriptor p @ bs\<rparr>))"

definition is_deaf :: "'a nr_participant_scheme \<Rightarrow> bool" where
  "is_deaf p = deaf p"

definition set_deaf :: "bool \<Rightarrow> 'a nr_participant_scheme \<Rightarrow> 'a nr_participant_scheme" where
  "set_deaf d p = p\<lparr>deaf := d\<rparr>"

definition participant_info_of :: "'a nr_participant_scheme \<Rightarrow> nr_participant_info option" where
  "participant_info_of p = info_ptr p"

text \<open>The comparisons are one strict weak order by identifier, mixed forms included.\<close>

lemma participant_order:
  shows "\<not> participant_less p p"
    and "participant_less p q \<Longrightarrow> participant_less q r \<Longrightarrow> participant_less p r"
    and "participant_eq p q \<longleftrightarrow> \<not> participant_less p q \<and> \<not> participant_less q p"
    and "participant_less_id p (m_id q) \<longleftrightarrow> participant_less p q"
    and "id_less_participant (m_id p) q \<longleftrightarrow> participant_less p q"
    and "participant_eq_id p (m_id q) \<longleftrightarrow> participant_eq p q"
    and "id_eq_participant (m_id p) q \<longleftrightarrow> participant_eq p q"
  by (auto simp: participant_less_def participant_eq_def participant_less_id_def id_less_participant_def
      participant_eq_id_def id_eq_participant_def)

end
