(* ===== verification/Protocol.thy ===== *)
theory Protocol
  imports Bytes
begin

text \<open>
  The wire protocol of \<open>protocol.hpp\<close>: the message heads with their codes, and the packed
  structures that travel as payloads. Each structure is a record with its constructor, its
  layout in memory (\<open>enc_\<dots>\<close>), the fields read back through a cast pointer (\<open>dec_\<dots>\<close>) and
  its size; each is an instance of the codec interface. Bytes that a constructor leaves
  uninitialised are an argument of it, a function from positions to bytes.
\<close>

section \<open>Message heads\<close>

datatype EN_RAW_MESSAGE_HEAD =
    NONE
  | HANDSHAKE_HELLO
  | HANDSHAKE_HELLO_ACK
  | HANDSHAKE_CREDENTIALS
  | HANDSHAKE_CREDENTIALS_ACK
  | HANDSHAKE_STATISTICS_REQUEST
  | HANDSHAKE_STATISTICS_REQUEST_ACK
  | HANDSHAKE_PARTICIPANT_UPDATE
  | HANDSHAKE_PARTICIPANT_UPDATE_ACK
  | PARTICIPANT_JOIN
  | PARTICIPANT_JOIN_ACK
  | MESSAGE
  | MESSAGE_ACK
  | PARTICIPANT_NEW
  | PARTICIPANT_NEW_ACK
  | PARTICIPANT_LEAVE
  | PARTICIPANT_LEAVE_ACK
  | PARTICIPANT_INFO_REQUEST
  | PARTICIPANT_INFO_REQUEST_ACK
  | PARTICIPANT_UPDATE
  | PARTICIPANT_UPDATE_ACK
  | PARTICIPANT_EVENT
  | PARTICIPANT_EVENT_ACK
  | AVAR_MESSAGE
  | CHAT_MESSAGE
  | CONTROL

fun head_code :: "EN_RAW_MESSAGE_HEAD \<Rightarrow> u16" where
  "head_code NONE = 0"
| "head_code HANDSHAKE_HELLO = 1"
| "head_code HANDSHAKE_HELLO_ACK = 2"
| "head_code HANDSHAKE_CREDENTIALS = 3"
| "head_code HANDSHAKE_CREDENTIALS_ACK = 4"
| "head_code HANDSHAKE_STATISTICS_REQUEST = 5"
| "head_code HANDSHAKE_STATISTICS_REQUEST_ACK = 6"
| "head_code HANDSHAKE_PARTICIPANT_UPDATE = 7"
| "head_code HANDSHAKE_PARTICIPANT_UPDATE_ACK = 8"
| "head_code PARTICIPANT_JOIN = 9"
| "head_code PARTICIPANT_JOIN_ACK = 10"
| "head_code MESSAGE = 11"
| "head_code MESSAGE_ACK = 12"
| "head_code PARTICIPANT_NEW = 13"
| "head_code PARTICIPANT_NEW_ACK = 14"
| "head_code PARTICIPANT_LEAVE = 15"
| "head_code PARTICIPANT_LEAVE_ACK = 16"
| "head_code PARTICIPANT_INFO_REQUEST = 17"
| "head_code PARTICIPANT_INFO_REQUEST_ACK = 18"
| "head_code PARTICIPANT_UPDATE = 19"
| "head_code PARTICIPANT_UPDATE_ACK = 20"
| "head_code PARTICIPANT_EVENT = 21"
| "head_code PARTICIPANT_EVENT_ACK = 22"
| "head_code AVAR_MESSAGE = 23"
| "head_code CHAT_MESSAGE = 24"
| "head_code CONTROL = 25"

definition all_heads :: "EN_RAW_MESSAGE_HEAD list" where
  "all_heads =
    [NONE,
     HANDSHAKE_HELLO,
     HANDSHAKE_HELLO_ACK,
     HANDSHAKE_CREDENTIALS,
     HANDSHAKE_CREDENTIALS_ACK,
     HANDSHAKE_STATISTICS_REQUEST,
     HANDSHAKE_STATISTICS_REQUEST_ACK,
     HANDSHAKE_PARTICIPANT_UPDATE,
     HANDSHAKE_PARTICIPANT_UPDATE_ACK,
     PARTICIPANT_JOIN,
     PARTICIPANT_JOIN_ACK,
     MESSAGE,
     MESSAGE_ACK,
     PARTICIPANT_NEW,
     PARTICIPANT_NEW_ACK,
     PARTICIPANT_LEAVE,
     PARTICIPANT_LEAVE_ACK,
     PARTICIPANT_INFO_REQUEST,
     PARTICIPANT_INFO_REQUEST_ACK,
     PARTICIPANT_UPDATE,
     PARTICIPANT_UPDATE_ACK,
     PARTICIPANT_EVENT,
     PARTICIPANT_EVENT_ACK,
     AVAR_MESSAGE,
     CHAT_MESSAGE,
     CONTROL]"

definition head_of_code :: "u16 \<Rightarrow> EN_RAW_MESSAGE_HEAD option" where
  "head_of_code c = map_of (map (\<lambda>h. (head_code h, h)) all_heads) c"

lemma head_of_code_code [simp]: "head_of_code (head_code h) = Some h"
  by (cases h) (simp_all add: head_of_code_def all_heads_def)

lemma head_code_inject [simp]: "head_code h = head_code k \<longleftrightarrow> h = k"
  by (metis head_of_code_code option.inject)

lemma head_of_code_Some: "head_of_code c = Some h \<Longrightarrow> head_code h = c"
  by (auto simp: head_of_code_def dest!: map_of_SomeD)

text \<open>A scoped enumeration is ordered by its underlying value.\<close>

instantiation EN_RAW_MESSAGE_HEAD :: linorder
begin

definition less_eq_EN_RAW_MESSAGE_HEAD :: "EN_RAW_MESSAGE_HEAD \<Rightarrow> EN_RAW_MESSAGE_HEAD \<Rightarrow> bool" where
  "less_eq_EN_RAW_MESSAGE_HEAD h k = (head_code h \<le> head_code k)"

definition less_EN_RAW_MESSAGE_HEAD :: "EN_RAW_MESSAGE_HEAD \<Rightarrow> EN_RAW_MESSAGE_HEAD \<Rightarrow> bool" where
  "less_EN_RAW_MESSAGE_HEAD h k = (head_code h < head_code k)"

instance
  by standard
    (auto simp: less_eq_EN_RAW_MESSAGE_HEAD_def less_EN_RAW_MESSAGE_HEAD_def
      simp flip: head_code_inject)

end

text \<open>The codes are exactly the 26 values from 0 to 25.\<close>

lemma head_of_code_None: "head_of_code c = None \<longleftrightarrow> 25 < c"
proof -
  have "c \<in> set (map head_code all_heads) \<longleftrightarrow> c \<le> 25"
  proof -
    have "set (map head_code all_heads) = word_of_nat ` {..<26}"
      by (simp add: all_heads_def lessThan_nat_numeral lessThan_Suc) fast
    moreover have "c \<in> word_of_nat ` {..<26} \<longleftrightarrow> unat c < 26"
      by (auto simp: image_iff unat_of_nat intro: bexI [of _ "unat c"])
    ultimately show ?thesis by (simp add: word_le_nat_alt) arith
  qed
  then show ?thesis
    by (simp add: head_of_code_def map_of_eq_None_iff image_image not_le)
qed

section \<open>Payload structures\<close>

record ST_PARTICIPANT_LEAVE =
  pl_participant_id :: u64

definition enc_participant_leave :: "endian \<Rightarrow> ST_PARTICIPANT_LEAVE \<Rightarrow> byte list" where
  "enc_participant_leave e s =
     mem64 e (pl_participant_id s)"

definition dec_participant_leave :: "endian \<Rightarrow> byte list \<Rightarrow> ST_PARTICIPANT_LEAVE" where
  "dec_participant_leave e bs =
     \<lparr>pl_participant_id = get64 e 0 bs\<rparr>"

interpretation participant_leave_codec: byte_codec "enc_participant_leave e" "dec_participant_leave e" 8 "\<lambda>_. True" for e
  by unfold_locales
    (simp_all add: enc_participant_leave_def dec_participant_leave_def layout_simps)

record ST_PARTICIPANT_LEAVE_ACK =
  pla_participant_id :: u64

definition enc_participant_leave_ack :: "endian \<Rightarrow> ST_PARTICIPANT_LEAVE_ACK \<Rightarrow> byte list" where
  "enc_participant_leave_ack e s =
     mem64 e (pla_participant_id s)"

definition dec_participant_leave_ack :: "endian \<Rightarrow> byte list \<Rightarrow> ST_PARTICIPANT_LEAVE_ACK" where
  "dec_participant_leave_ack e bs =
     \<lparr>pla_participant_id = get64 e 0 bs\<rparr>"

interpretation participant_leave_ack_codec: byte_codec "enc_participant_leave_ack e" "dec_participant_leave_ack e" 8 "\<lambda>_. True" for e
  by unfold_locales
    (simp_all add: enc_participant_leave_ack_def dec_participant_leave_ack_def layout_simps)

record ST_PARTICIPANT_NEW =
  pn_participant_id :: u64
  pn_descriptor_buffersize :: u32
  pn_descriptor_buffer :: "byte list"

definition enc_participant_new :: "endian \<Rightarrow> ST_PARTICIPANT_NEW \<Rightarrow> byte list" where
  "enc_participant_new e s =
     mem64 e (pn_participant_id s) @ mem32 e (pn_descriptor_buffersize s) @
     pn_descriptor_buffer s"

definition dec_participant_new :: "endian \<Rightarrow> byte list \<Rightarrow> ST_PARTICIPANT_NEW" where
  "dec_participant_new e bs =
     \<lparr>pn_participant_id = get64 e 0 bs,
      pn_descriptor_buffersize = get32 e 8 bs,
      pn_descriptor_buffer = get_buf 12 20480 bs\<rparr>"

definition wf_participant_new :: "ST_PARTICIPANT_NEW \<Rightarrow> bool" where
  "wf_participant_new s \<longleftrightarrow> length (pn_descriptor_buffer s) = 20480"

interpretation participant_new_codec: byte_codec "enc_participant_new e" "dec_participant_new e" 20492 wf_participant_new for e
  by unfold_locales
    (simp_all add: enc_participant_new_def dec_participant_new_def wf_participant_new_def layout_simps)

text \<open>
  The constructor clears 1024 of the 20480 bytes of the buffer and leaves the identifier alone:
  \<open>mem\<close> is what the storage held before.
\<close>

definition init_participant_new :: "(nat \<Rightarrow> byte) \<Rightarrow> ST_PARTICIPANT_NEW" where
  "init_participant_new mem =
     \<lparr>pn_participant_id = get64 Little 0 (stale mem 0 8),
      pn_descriptor_buffersize = 0,
      pn_descriptor_buffer = zeros 1024 @ stale mem (12 + 1024) (1024 * 19)\<rparr>"

lemma wf_init_participant_new [simp]: "wf_participant_new (init_participant_new mem)"
  by (simp add: wf_participant_new_def init_participant_new_def)

record ST_PARTICIPANT_NEW_ACK =
  pna_participant_id :: u64

definition enc_participant_new_ack :: "endian \<Rightarrow> ST_PARTICIPANT_NEW_ACK \<Rightarrow> byte list" where
  "enc_participant_new_ack e s =
     mem64 e (pna_participant_id s)"

definition dec_participant_new_ack :: "endian \<Rightarrow> byte list \<Rightarrow> ST_PARTICIPANT_NEW_ACK" where
  "dec_participant_new_ack e bs =
     \<lparr>pna_participant_id = get64 e 0 bs\<rparr>"

interpretation participant_new_ack_codec: byte_codec "enc_participant_new_ack e" "dec_participant_new_ack e" 8 "\<lambda>_. True" for e
  by unfold_locales
    (simp_all add: enc_participant_new_ack_def dec_participant_new_ack_def layout_simps)

record ST_PARTICIPANT_JOIN =
  pj_participant_id :: u64
  pj_max_data_rate :: u16
  pj_allow_asynchronous_messages :: u16
  pj_message_buffersize :: u32
  pj_message_buffer :: "byte list"

definition enc_participant_join :: "endian \<Rightarrow> ST_PARTICIPANT_JOIN \<Rightarrow> byte list" where
  "enc_participant_join e s =
     mem64 e (pj_participant_id s) @ mem16 e (pj_max_data_rate s) @
     mem16 e (pj_allow_asynchronous_messages s) @
     mem32 e (pj_message_buffersize s) @ pj_message_buffer s"

definition dec_participant_join :: "endian \<Rightarrow> byte list \<Rightarrow> ST_PARTICIPANT_JOIN" where
  "dec_participant_join e bs =
     \<lparr>pj_participant_id = get64 e 0 bs,
      pj_max_data_rate = get16 e 8 bs,
      pj_allow_asynchronous_messages = get16 e 10 bs,
      pj_message_buffersize = get32 e 12 bs,
      pj_message_buffer = get_buf 16 10240 bs\<rparr>"

definition wf_participant_join :: "ST_PARTICIPANT_JOIN \<Rightarrow> bool" where
  "wf_participant_join s \<longleftrightarrow> length (pj_message_buffer s) = 10240"

interpretation participant_join_codec: byte_codec "enc_participant_join e" "dec_participant_join e" 10256 wf_participant_join for e
  by unfold_locales
    (simp_all add: enc_participant_join_def dec_participant_join_def wf_participant_join_def layout_simps)

definition init_participant_join :: ST_PARTICIPANT_JOIN where
  "init_participant_join =
     \<lparr>pj_participant_id = 0, pj_max_data_rate = 10, pj_allow_asynchronous_messages = 0xFFFF,
      pj_message_buffersize = 0, pj_message_buffer = zeros (1024 * 10)\<rparr>"

lemma wf_init_participant_join [simp]: "wf_participant_join init_participant_join"
  by (simp add: wf_participant_join_def init_participant_join_def)

record ST_PARTICIPANT_JOIN_ACK =
  pja_participant_id :: u64
  pja_json_buffersize :: u32
  pja_json_buffer :: "byte list"

definition enc_participant_join_ack :: "endian \<Rightarrow> ST_PARTICIPANT_JOIN_ACK \<Rightarrow> byte list" where
  "enc_participant_join_ack e s =
     mem64 e (pja_participant_id s) @ mem32 e (pja_json_buffersize s) @
     pja_json_buffer s"

definition dec_participant_join_ack :: "endian \<Rightarrow> byte list \<Rightarrow> ST_PARTICIPANT_JOIN_ACK" where
  "dec_participant_join_ack e bs =
     \<lparr>pja_participant_id = get64 e 0 bs,
      pja_json_buffersize = get32 e 8 bs,
      pja_json_buffer = get_buf 12 20480 bs\<rparr>"

definition wf_participant_join_ack :: "ST_PARTICIPANT_JOIN_ACK \<Rightarrow> bool" where
  "wf_participant_join_ack s \<longleftrightarrow> length (pja_json_buffer s) = 20480"

interpretation participant_join_ack_codec: byte_codec "enc_participant_join_ack e" "dec_participant_join_ack e" 20492 wf_participant_join_ack for e
  by unfold_locales
    (simp_all add: enc_participant_join_ack_def dec_participant_join_ack_def wf_participant_join_ack_def layout_simps)

definition init_participant_join_ack :: "(nat \<Rightarrow> byte) \<Rightarrow> ST_PARTICIPANT_JOIN_ACK" where
  "init_participant_join_ack mem =
     \<lparr>pja_participant_id = get64 Little 0 (stale mem 0 8), pja_json_buffersize = 0,
      pja_json_buffer = zeros (1024 * 20)\<rparr>"

record ST_PARTICIPANT_INFO_REQUEST =
  pir_participant_id :: u64

definition enc_participant_info_request :: "endian \<Rightarrow> ST_PARTICIPANT_INFO_REQUEST \<Rightarrow> byte list" where
  "enc_participant_info_request e s =
     mem64 e (pir_participant_id s)"

definition dec_participant_info_request :: "endian \<Rightarrow> byte list \<Rightarrow> ST_PARTICIPANT_INFO_REQUEST" where
  "dec_participant_info_request e bs =
     \<lparr>pir_participant_id = get64 e 0 bs\<rparr>"

interpretation participant_info_request_codec: byte_codec "enc_participant_info_request e" "dec_participant_info_request e" 8 "\<lambda>_. True" for e
  by unfold_locales
    (simp_all add: enc_participant_info_request_def dec_participant_info_request_def layout_simps)

definition build_participant_info_request :: "u64 \<Rightarrow> ST_PARTICIPANT_INFO_REQUEST" where
  "build_participant_info_request participant_id = \<lparr>pir_participant_id = participant_id\<rparr>"

record ST_PARTICIPANT_INFO_REQUEST_ACK =
  pira_participant_id :: u64
  pira_namebuffer_size :: u32
  pira_namebuffer :: "byte list"

definition enc_participant_info_request_ack :: "endian \<Rightarrow> ST_PARTICIPANT_INFO_REQUEST_ACK \<Rightarrow> byte list" where
  "enc_participant_info_request_ack e s =
     mem64 e (pira_participant_id s) @ mem32 e (pira_namebuffer_size s) @
     pira_namebuffer s"

definition dec_participant_info_request_ack :: "endian \<Rightarrow> byte list \<Rightarrow> ST_PARTICIPANT_INFO_REQUEST_ACK" where
  "dec_participant_info_request_ack e bs =
     \<lparr>pira_participant_id = get64 e 0 bs,
      pira_namebuffer_size = get32 e 8 bs,
      pira_namebuffer = get_buf 12 1024 bs\<rparr>"

definition wf_participant_info_request_ack :: "ST_PARTICIPANT_INFO_REQUEST_ACK \<Rightarrow> bool" where
  "wf_participant_info_request_ack s \<longleftrightarrow> length (pira_namebuffer s) = 1024"

interpretation participant_info_request_ack_codec: byte_codec "enc_participant_info_request_ack e" "dec_participant_info_request_ack e" 1036 wf_participant_info_request_ack for e
  by unfold_locales
    (simp_all add: enc_participant_info_request_ack_def dec_participant_info_request_ack_def wf_participant_info_request_ack_def layout_simps)

definition init_participant_info_request_ack :: ST_PARTICIPANT_INFO_REQUEST_ACK where
  "init_participant_info_request_ack =
     \<lparr>pira_participant_id = 0, pira_namebuffer_size = 0, pira_namebuffer = zeros 1024\<rparr>"

text \<open>
  \<open>ST_PARTICIPANT_UPDATE\<close> carries no packing attribute. The layout is the one of the server, where
  the \<open>pragma pack(1)\<close> of \<open>participant.hpp\<close> is in force when the structure is declared.
\<close>

record ST_PARTICIPANT_UPDATE =
  pu_origin_timestamp :: u64
  pu_reception_timestamp :: u64
  pu_deliver_timestamp :: u64
  pu_buffersize :: u32
  pu_buffer :: "byte list"

definition enc_participant_update :: "endian \<Rightarrow> ST_PARTICIPANT_UPDATE \<Rightarrow> byte list" where
  "enc_participant_update e s =
     mem64 e (pu_origin_timestamp s) @ mem64 e (pu_reception_timestamp s) @
     mem64 e (pu_deliver_timestamp s) @ mem32 e (pu_buffersize s) @
     pu_buffer s"

definition dec_participant_update :: "endian \<Rightarrow> byte list \<Rightarrow> ST_PARTICIPANT_UPDATE" where
  "dec_participant_update e bs =
     \<lparr>pu_origin_timestamp = get64 e 0 bs,
      pu_reception_timestamp = get64 e 8 bs,
      pu_deliver_timestamp = get64 e 16 bs,
      pu_buffersize = get32 e 24 bs,
      pu_buffer = get_buf 28 20480 bs\<rparr>"

definition wf_participant_update :: "ST_PARTICIPANT_UPDATE \<Rightarrow> bool" where
  "wf_participant_update s \<longleftrightarrow> length (pu_buffer s) = 20480"

interpretation participant_update_codec: byte_codec "enc_participant_update e" "dec_participant_update e" 20508 wf_participant_update for e
  by unfold_locales
    (simp_all add: enc_participant_update_def dec_participant_update_def wf_participant_update_def layout_simps)

record ST_PARTICIPANT_UPDATE_ACK =
  pua_participant_id :: u64
  pua_origin_timestamp :: u64
  pua_buffersize :: u32
  pua_buffer :: "byte list"

definition enc_participant_update_ack :: "endian \<Rightarrow> ST_PARTICIPANT_UPDATE_ACK \<Rightarrow> byte list" where
  "enc_participant_update_ack e s =
     mem64 e (pua_participant_id s) @ mem64 e (pua_origin_timestamp s) @
     mem32 e (pua_buffersize s) @ pua_buffer s"

definition dec_participant_update_ack :: "endian \<Rightarrow> byte list \<Rightarrow> ST_PARTICIPANT_UPDATE_ACK" where
  "dec_participant_update_ack e bs =
     \<lparr>pua_participant_id = get64 e 0 bs,
      pua_origin_timestamp = get64 e 8 bs,
      pua_buffersize = get32 e 16 bs,
      pua_buffer = get_buf 20 20480 bs\<rparr>"

definition wf_participant_update_ack :: "ST_PARTICIPANT_UPDATE_ACK \<Rightarrow> bool" where
  "wf_participant_update_ack s \<longleftrightarrow> length (pua_buffer s) = 20480"

interpretation participant_update_ack_codec: byte_codec "enc_participant_update_ack e" "dec_participant_update_ack e" 20500 wf_participant_update_ack for e
  by unfold_locales
    (simp_all add: enc_participant_update_ack_def dec_participant_update_ack_def wf_participant_update_ack_def layout_simps)

definition init_participant_update_ack :: "(nat \<Rightarrow> byte) \<Rightarrow> ST_PARTICIPANT_UPDATE_ACK" where
  "init_participant_update_ack mem =
     \<lparr>pua_participant_id = get64 Little 0 (stale mem 0 8), pua_origin_timestamp = 0,
      pua_buffersize = 0, pua_buffer = zeros (1024 * 20)\<rparr>"

lemma wf_init_participant_update_ack [simp]: "wf_participant_update_ack (init_participant_update_ack mem)"
  by (simp add: wf_participant_update_ack_def init_participant_update_ack_def)

record ST_HANDSHAKE_HELLO =
  hh_service_id :: u64
  hh_participant_id :: u64
  hh_server_timestamp :: u64
  hh_servername_buffersize :: u32
  hh_servername_buffer :: "byte list"

definition enc_handshake_hello :: "endian \<Rightarrow> ST_HANDSHAKE_HELLO \<Rightarrow> byte list" where
  "enc_handshake_hello e s =
     mem64 e (hh_service_id s) @ mem64 e (hh_participant_id s) @
     mem64 e (hh_server_timestamp s) @ mem32 e (hh_servername_buffersize s) @
     hh_servername_buffer s"

definition dec_handshake_hello :: "endian \<Rightarrow> byte list \<Rightarrow> ST_HANDSHAKE_HELLO" where
  "dec_handshake_hello e bs =
     \<lparr>hh_service_id = get64 e 0 bs,
      hh_participant_id = get64 e 8 bs,
      hh_server_timestamp = get64 e 16 bs,
      hh_servername_buffersize = get32 e 24 bs,
      hh_servername_buffer = get_buf 28 1024 bs\<rparr>"

definition wf_handshake_hello :: "ST_HANDSHAKE_HELLO \<Rightarrow> bool" where
  "wf_handshake_hello s \<longleftrightarrow> length (hh_servername_buffer s) = 1024"

interpretation handshake_hello_codec: byte_codec "enc_handshake_hello e" "dec_handshake_hello e" 1052 wf_handshake_hello for e
  by unfold_locales
    (simp_all add: enc_handshake_hello_def dec_handshake_hello_def wf_handshake_hello_def layout_simps)

text \<open>\<open>build_handshake_hello\<close> copies the whole name into the 1024 byte buffer.\<close>

definition build_handshake_hello :: "u64 \<Rightarrow> u64 \<Rightarrow> u64 \<Rightarrow> byte list \<Rightarrow> ub + ST_HANDSHAKE_HELLO" where
  "build_handshake_hello service_id participant_id server_timestamp servername =
     mem_bind (write_at 0 servername (zeros 1024))
       (\<lambda>buffer. Inr
          \<lparr>hh_service_id = service_id, hh_participant_id = participant_id,
           hh_server_timestamp = server_timestamp,
           hh_servername_buffersize = word_of_nat (length servername),
           hh_servername_buffer = buffer\<rparr>)"

lemma build_handshake_hello_wf:
  "build_handshake_hello sid pid ts name = Inr h \<Longrightarrow> wf_handshake_hello h"
  by (auto simp: build_handshake_hello_def wf_handshake_hello_def outcome_simps dest: write_at_length)

record ST_HANDSHAKE_HELLO_ACK =
  hha_participant_id :: u64
  hha_client_timestamp :: u64
  hha_configuration_buffersize :: u32
  hha_configuration_buffer :: "byte list"

definition enc_handshake_hello_ack :: "endian \<Rightarrow> ST_HANDSHAKE_HELLO_ACK \<Rightarrow> byte list" where
  "enc_handshake_hello_ack e s =
     mem64 e (hha_participant_id s) @ mem64 e (hha_client_timestamp s) @
     mem32 e (hha_configuration_buffersize s) @ hha_configuration_buffer s"

definition dec_handshake_hello_ack :: "endian \<Rightarrow> byte list \<Rightarrow> ST_HANDSHAKE_HELLO_ACK" where
  "dec_handshake_hello_ack e bs =
     \<lparr>hha_participant_id = get64 e 0 bs,
      hha_client_timestamp = get64 e 8 bs,
      hha_configuration_buffersize = get32 e 16 bs,
      hha_configuration_buffer = get_buf 20 20480 bs\<rparr>"

definition wf_handshake_hello_ack :: "ST_HANDSHAKE_HELLO_ACK \<Rightarrow> bool" where
  "wf_handshake_hello_ack s \<longleftrightarrow> length (hha_configuration_buffer s) = 20480"

interpretation handshake_hello_ack_codec: byte_codec "enc_handshake_hello_ack e" "dec_handshake_hello_ack e" 20500 wf_handshake_hello_ack for e
  by unfold_locales
    (simp_all add: enc_handshake_hello_ack_def dec_handshake_hello_ack_def wf_handshake_hello_ack_def layout_simps)

definition init_handshake_hello_ack :: ST_HANDSHAKE_HELLO_ACK where
  "init_handshake_hello_ack =
     \<lparr>hha_participant_id = 0, hha_client_timestamp = 0, hha_configuration_buffersize = 0,
      hha_configuration_buffer = zeros (1024 * 20)\<rparr>"

lemma wf_init_handshake_hello_ack [simp]: "wf_handshake_hello_ack init_handshake_hello_ack"
  by (simp add: wf_handshake_hello_ack_def init_handshake_hello_ack_def)

record ST_HANDSHAKE_CREDENTIALS =
  hc_server_certificate_buffersize :: u32
  hc_server_certificate_buffer :: "byte list"

definition enc_handshake_credentials :: "endian \<Rightarrow> ST_HANDSHAKE_CREDENTIALS \<Rightarrow> byte list" where
  "enc_handshake_credentials e s =
     mem32 e (hc_server_certificate_buffersize s) @
     hc_server_certificate_buffer s"

definition dec_handshake_credentials :: "endian \<Rightarrow> byte list \<Rightarrow> ST_HANDSHAKE_CREDENTIALS" where
  "dec_handshake_credentials e bs =
     \<lparr>hc_server_certificate_buffersize = get32 e 0 bs,
      hc_server_certificate_buffer = get_buf 4 20480 bs\<rparr>"

definition wf_handshake_credentials :: "ST_HANDSHAKE_CREDENTIALS \<Rightarrow> bool" where
  "wf_handshake_credentials s \<longleftrightarrow> length (hc_server_certificate_buffer s) = 20480"

interpretation handshake_credentials_codec: byte_codec "enc_handshake_credentials e" "dec_handshake_credentials e" 20484 wf_handshake_credentials for e
  by unfold_locales
    (simp_all add: enc_handshake_credentials_def dec_handshake_credentials_def wf_handshake_credentials_def layout_simps)

definition build_handshake_credentials :: ST_HANDSHAKE_CREDENTIALS where
  "build_handshake_credentials =
     \<lparr>hc_server_certificate_buffersize = 0,
      hc_server_certificate_buffer = zeros (20 * 1024)\<rparr>"

lemma wf_build_handshake_credentials [simp]: "wf_handshake_credentials build_handshake_credentials"
  by (simp add: wf_handshake_credentials_def build_handshake_credentials_def)

record ST_HANDSHAKE_CREDENTIALS_ACK =
  hca_participant_id :: u64
  hca_login_buffersize :: u16
  hca_login_buffer :: "byte list"
  hca_password_buffersize :: u16
  hca_password_buffer :: "byte list"
  hca_participant_certificate_buffersize :: u16
  hca_participant_certificate_buffer :: "byte list"

definition enc_handshake_credentials_ack :: "endian \<Rightarrow> ST_HANDSHAKE_CREDENTIALS_ACK \<Rightarrow> byte list" where
  "enc_handshake_credentials_ack e s =
     mem64 e (hca_participant_id s) @ mem16 e (hca_login_buffersize s) @
     hca_login_buffer s @ mem16 e (hca_password_buffersize s) @
     hca_password_buffer s @
     mem16 e (hca_participant_certificate_buffersize s) @
     hca_participant_certificate_buffer s"

definition dec_handshake_credentials_ack :: "endian \<Rightarrow> byte list \<Rightarrow> ST_HANDSHAKE_CREDENTIALS_ACK" where
  "dec_handshake_credentials_ack e bs =
     \<lparr>hca_participant_id = get64 e 0 bs,
      hca_login_buffersize = get16 e 8 bs,
      hca_login_buffer = get_buf 10 1024 bs,
      hca_password_buffersize = get16 e 1034 bs,
      hca_password_buffer = get_buf 1036 1024 bs,
      hca_participant_certificate_buffersize = get16 e 2060 bs,
      hca_participant_certificate_buffer = get_buf 2062 20480 bs\<rparr>"

definition wf_handshake_credentials_ack :: "ST_HANDSHAKE_CREDENTIALS_ACK \<Rightarrow> bool" where
  "wf_handshake_credentials_ack s \<longleftrightarrow> length (hca_login_buffer s) = 1024 \<and> length (hca_password_buffer s) = 1024 \<and> length (hca_participant_certificate_buffer s) = 20480"

interpretation handshake_credentials_ack_codec: byte_codec "enc_handshake_credentials_ack e" "dec_handshake_credentials_ack e" 22542 wf_handshake_credentials_ack for e
  by unfold_locales
    (simp_all add: enc_handshake_credentials_ack_def dec_handshake_credentials_ack_def wf_handshake_credentials_ack_def layout_simps)

definition init_handshake_credentials_ack :: "(nat \<Rightarrow> byte) \<Rightarrow> ST_HANDSHAKE_CREDENTIALS_ACK" where
  "init_handshake_credentials_ack mem =
     \<lparr>hca_participant_id = get64 Little 0 (stale mem 0 8),
      hca_login_buffersize = 0, hca_login_buffer = zeros 1024,
      hca_password_buffersize = 0, hca_password_buffer = zeros 1024,
      hca_participant_certificate_buffersize = 0,
      hca_participant_certificate_buffer = zeros (20 * 1024)\<rparr>"

lemma wf_init_handshake_credentials_ack [simp]:
  "wf_handshake_credentials_ack (init_handshake_credentials_ack mem)"
  by (simp add: wf_handshake_credentials_ack_def init_handshake_credentials_ack_def)

end
