(* ===== verification/XRMessage.thy ===== *)
theory XRMessage
  imports Protocol
begin

text \<open>
  \<open>XRMessage.hpp\<close>: the frame that carries every message. An \<open>XRMessage\<close> is a byte vector; all
  constructors but one make it 65536 bytes long, an 8 byte header and the payload, zero
  filled. The model of a message is its byte list.
\<close>

section \<open>The header\<close>

record xr_message_header =
  xh_head :: u16
  xh_buffersize :: u32
  xh_payload_is_big_endian :: u16

definition xr_message_header_default :: xr_message_header where
  "xr_message_header_default =
     \<lparr>xh_head = 0, xh_buffersize = 0, xh_payload_is_big_endian = 0xFFFF\<rparr>"

definition mk_xr_message_header :: "u16 \<Rightarrow> u32 \<Rightarrow> xr_message_header" where
  "mk_xr_message_header head bsize =
     \<lparr>xh_head = head, xh_buffersize = bsize, xh_payload_is_big_endian = 0xFFFF\<rparr>"

definition enc_header :: "endian \<Rightarrow> xr_message_header \<Rightarrow> byte list" where
  "enc_header e h =
     mem16 e (xh_head h) @ mem32 e (xh_buffersize h) @ mem16 e (xh_payload_is_big_endian h)"

definition dec_header :: "endian \<Rightarrow> byte list \<Rightarrow> xr_message_header" where
  "dec_header e bs =
     \<lparr>xh_head = get16 e 0 bs, xh_buffersize = get32 e 2 bs, xh_payload_is_big_endian = get16 e 6 bs\<rparr>"

interpretation header_codec: byte_codec "enc_header e" "dec_header e" 8 "\<lambda>_. True" for e
  by unfold_locales (simp_all add: enc_header_def dec_header_def layout_simps)

text \<open>
  Both fields go through \<open>swap_endian<uint64_t>\<close>, whatever their width: the argument is
  widened to 64 bits and the result cut back to the width of the field.
\<close>

definition swap_xr_message_header :: "endian \<Rightarrow> xr_message_header \<Rightarrow> xr_message_header" where
  "swap_xr_message_header e msg =
     msg\<lparr>xh_head := ucast (swap_endian64 e (ucast (xh_head msg))),
         xh_buffersize := ucast (swap_endian64 e (ucast (xh_buffersize msg)))\<rparr>"

lemma swap64_low_half:
  assumes "unat w < 256 ^ 4"
  shows "256 ^ 4 dvd unat (swap_endian64 e w)"
proof -
  have "le_bytes 8 (unat w) = le_bytes 4 (unat w) @ zeros 4"
    using assms le_bytes_add [of 4 4 "unat w"] by (simp add: le_bytes_zero)
  then have "rev (le_bytes 8 (unat w)) = zeros 4 @ rev (le_bytes 4 (unat w))"
    by (simp add: zeros_def)
  then have "swap_endian Little 8 (unat w) = 256 ^ 4 * le_val (rev (le_bytes 4 (unat w)))"
    by (simp add: swap_endian_def to_mem_def of_mem_def le_val_zeros_append)
  then show ?thesis by (simp add: unat_swap64 swap_endian_host [of e])
qed

section \<open>Frames\<close>

definition XR_FRAME :: nat where "XR_FRAME = 65536"
definition XR_HEADER :: nat where "XR_HEADER = 8"

text \<open>\<open>XRMessage(buffer, buffersize, check_endianess)\<close>; the flag is not looked at.\<close>

definition XRMessage_of_buffer :: "byte list \<Rightarrow> u32 \<Rightarrow> bool \<Rightarrow> ub + byte list" where
  "XRMessage_of_buffer buffer buffersize check_endianess =
     mem_bind (read_at 0 (unat buffersize) buffer)
       (\<lambda>bs. write_at 0 bs (zeros 65536))"

text \<open>\<open>XRMessage(head, buffer, buffersize)\<close>.\<close>

definition XRMessage_of_payload :: "endian \<Rightarrow> u16 \<Rightarrow> byte list \<Rightarrow> u32 \<Rightarrow> ub + byte list" where
  "XRMessage_of_payload e head buffer buffersize =
     mem_bind (write_at 0 (enc_header e (mk_xr_message_header head buffersize)) (zeros 65536))
       (\<lambda>msg. mem_bind (read_at 0 (unat buffersize) buffer)
          (\<lambda>bs. write_at 8 bs msg))"

text \<open>
  \<open>XRMessage(head, vector)\<close>: the body only creates a temporary from the other constructor
  and drops it; the object under construction stays the empty vector.
\<close>

definition XRMessage_of_vector :: "endian \<Rightarrow> u16 \<Rightarrow> byte list \<Rightarrow> ub + byte list" where
  "XRMessage_of_vector e head msg =
     mem_bind (XRMessage_of_payload e head msg (word_of_nat (length msg))) (\<lambda>_. Inr [])"

definition xr_head :: "endian \<Rightarrow> byte list \<Rightarrow> u16" where
  "xr_head e m = (if 8 \<le> length m then get16 e 0 m else 0)"

definition xr_get_header :: "endian \<Rightarrow> byte list \<Rightarrow> xr_message_header option" where
  "xr_get_header e m = (if 8 \<le> length m then Some (dec_header e m) else None)"

definition xr_payload_size :: "endian \<Rightarrow> byte list \<Rightarrow> u32" where
  "xr_payload_size e m = (if 8 \<le> length m then xh_buffersize (dec_header e m) else 0)"

text \<open>The payload pointer, as the bytes that follow it in the vector.\<close>

definition xr_payload :: "byte list \<Rightarrow> byte list option" where
  "xr_payload m = (if 8 \<le> length m then Some (drop 8 m) else None)"

definition xr_set_header :: "endian \<Rightarrow> xr_message_header \<Rightarrow> byte list \<Rightarrow> ub + byte list" where
  "xr_set_header e h m = write_at 0 (enc_header e h) m"

section \<open>What a frame holds\<close>

lemma length_enc_header [simp]: "length (enc_header e h) = 8"
  by (simp add: header_codec.enc_length)

definition frame :: "endian \<Rightarrow> u16 \<Rightarrow> byte list \<Rightarrow> byte list" where
  "frame e head payload =
     enc_header e (mk_xr_message_header head (word_of_nat (length payload))) @ payload @
     zeros (65528 - length payload)"

lemma length_frame: "length payload \<le> 65528 \<Longrightarrow> length (frame e head payload) = 65536"
  by (simp add: frame_def)

lemma drop_frame: "drop 8 (frame e head payload) = payload @ zeros (65528 - length payload)"
  by (simp add: frame_def)

lemma XRMessage_of_payload_eq:
  "XRMessage_of_payload e head buffer n =
     (if unat n \<le> length buffer \<and> unat n \<le> 65528
      then Inr (frame e head (take (unat n) buffer)) else Inl OutOfBounds)"
  by (auto simp: XRMessage_of_payload_def frame_def write_at_def read_at_def min_absorb2)

lemma XRMessage_of_buffer_eq:
  "XRMessage_of_buffer buffer n flag =
     (if unat n \<le> length buffer \<and> unat n \<le> 65536
      then Inr (take (unat n) buffer @ zeros (65536 - unat n)) else Inl OutOfBounds)"
  by (auto simp: XRMessage_of_buffer_def write_at_def read_at_def min_def)

lemma XRMessage_of_full_buffer:
  "length bs = 65536 \<Longrightarrow> XRMessage_of_buffer bs 65536 flag = Inr bs"
  by (simp add: XRMessage_of_buffer_eq)

lemma xr_head_frame [simp]: "xr_head e (frame e head payload) = head"
  by (simp add: xr_head_def frame_def enc_header_def mk_xr_message_header_def)

lemma xr_payload_frame [simp]:
  "xr_payload (frame e head payload) = Some (payload @ zeros (65528 - length payload))"
  by (simp add: xr_payload_def frame_def)

lemma xr_get_header_frame [simp]:
  "xr_get_header e (frame e head payload) =
     Some (mk_xr_message_header head (word_of_nat (length payload)))"
  by (simp add: xr_get_header_def frame_def header_codec.dec_enc_append)

section \<open>The delimiter\<close>

text \<open>
  The object around the bytes: no constructor sets these members, and no caller of the program
  uses them.
\<close>

record xr_message_object =
  xr_data :: "byte list"
  origin_timestamp :: u64
  deliver_timestamp :: u64
  m_b_delimiter :: bool
  m_base64 :: bool
  m_delimiter :: byte

definition xr_base64 :: "bool \<Rightarrow> xr_message_object \<Rightarrow> xr_message_object" where
  "xr_base64 b64 m = m\<lparr>m_base64 := b64\<rparr>"

definition use_delimiter :: "xr_message_object \<Rightarrow> bool" where
  "use_delimiter m = m_b_delimiter m"

text \<open>Setting the flag, to either value, writes the delimiter over the last byte.\<close>

definition set_use_delimiter :: "bool \<Rightarrow> xr_message_object \<Rightarrow> xr_message_object" where
  "set_use_delimiter del m =
     (let m1 = m\<lparr>m_b_delimiter := del\<rparr>
      in if length (xr_data m1) > XR_HEADER
         then m1\<lparr>xr_data := (xr_data m1)[length (xr_data m1) - 1 := m_delimiter m1]\<rparr>
         else m1)"

definition set_delimiter :: "byte \<Rightarrow> xr_message_object \<Rightarrow> xr_message_object" where
  "set_delimiter d m = m\<lparr>m_delimiter := d\<rparr>"

definition get_delimiter :: "xr_message_object \<Rightarrow> byte" where
  "get_delimiter m = m_delimiter m"

section \<open>Structures in frames\<close>

text \<open>A structure sent in a frame is read back unchanged, for every structure of the protocol.\<close>

context byte_codec
begin

lemma payload_of_frame:
  "ok x \<Longrightarrow> xr_payload (frame e head (enc x)) = Some p \<Longrightarrow> dec p = x"
  by (auto simp: dec_enc_append)

lemma send_struct:
  assumes "ok x" and "sz \<le> 65528"
  shows "XRMessage_of_payload e head (enc x) (word_of_nat sz) = Inr (frame e head (enc x))"
  using assms by (simp add: XRMessage_of_payload_eq enc_length unat_of_nat)

end

end
