(* ===== verification/Mersenne.thy ===== *)
theory Mersenne
  imports Prelude
begin

text \<open>
  The engine \<open>std::mt19937_64\<close> that draws the identifiers, as the C++ standard defines it: a
  window over the last 312 words of a linear recurrence, and a tempering of the newest one.
  \<open>nr_server\<close> and \<open>network_room\<close> each own an engine that is default constructed.
\<close>

unbundle bit_operations_syntax

type_synonym mt_state = "u64 list"

definition mt_init_step :: "u64 \<Rightarrow> u64 \<Rightarrow> u64" where
  "mt_init_step i prev = 6364136223846793005 * (prev XOR drop_bit 62 prev) + i"

primrec mt_seed_from :: "nat \<Rightarrow> u64 \<Rightarrow> u64 \<Rightarrow> mt_state" where
  "mt_seed_from 0 i prev = []"
| "mt_seed_from (Suc k) i prev =
     (let x = mt_init_step i prev in x # mt_seed_from k (i + 1) x)"

definition mt_seed :: "u64 \<Rightarrow> mt_state" where
  "mt_seed s = s # mt_seed_from 311 1 s"

text \<open>The default seed of the engine.\<close>

definition mt_default :: mt_state where
  "mt_default = mt_seed 5489"

definition mt_twist :: "u64 \<Rightarrow> u64 \<Rightarrow> u64 \<Rightarrow> u64" where
  "mt_twist x0 x1 xm =
     (let y = (x0 AND 0xFFFFFFFF80000000) OR (x1 AND 0x7FFFFFFF)
      in xm XOR drop_bit 1 y XOR (if odd y then 0xB5026F5AA96619E9 else 0))"

definition mt_temper :: "u64 \<Rightarrow> u64" where
  "mt_temper x =
     (let z1 = x XOR (drop_bit 29 x AND 0x5555555555555555);
          z2 = z1 XOR (push_bit 17 z1 AND 0x71D67FFFEDA60000);
          z3 = z2 XOR (push_bit 37 z2 AND 0xFFF7EEE000000000)
      in z3 XOR drop_bit 43 z3)"

definition mt_next :: "mt_state \<Rightarrow> u64 \<times> mt_state" where
  "mt_next st =
     (let x = mt_twist (st ! 0) (st ! 1) (st ! 156)
      in (mt_temper x, tl st @ [x]))"

definition mt_wf :: "mt_state \<Rightarrow> bool" where
  "mt_wf st \<longleftrightarrow> length st = 312"

lemma length_mt_seed_from [simp]: "length (mt_seed_from k i p) = k"
  by (induction k arbitrary: i p) (simp_all add: Let_def)

lemma mt_wf_seed [simp]: "mt_wf (mt_seed s)"
  by (simp add: mt_wf_def mt_seed_def)

lemma mt_wf_default [simp]: "mt_wf mt_default"
  by (simp add: mt_default_def)

lemma mt_wf_next: "mt_wf st \<Longrightarrow> mt_wf (snd (mt_next st))"
  by (cases st) (simp_all add: mt_wf_def mt_next_def Let_def)

text \<open>The seeding recurrence, one word at a time, without building the list.\<close>

primrec mt_seed_nth :: "nat \<Rightarrow> u64 \<Rightarrow> u64 \<Rightarrow> u64" where
  "mt_seed_nth 0 i prev = mt_init_step i prev"
| "mt_seed_nth (Suc k) i prev = mt_seed_nth k (i + 1) (mt_init_step i prev)"

lemma mt_seed_from_nth: "j < k \<Longrightarrow> mt_seed_from k i p ! j = mt_seed_nth j i p"
  by (induction k arbitrary: i p j) (auto simp: Let_def nth_Cons split: nat.splits)

lemma mt_first:
  "fst (mt_next (mt_seed s)) =
     mt_temper (mt_twist s (mt_seed_nth 0 1 s) (mt_seed_nth 155 1 s))"
  by (simp add: mt_next_def mt_seed_def mt_seed_from_nth Let_def del: mt_seed_nth.simps)

text \<open>The same recurrence on natural numbers, where a numeral is always reduced.\<close>

definition mt_init_nat :: "nat \<Rightarrow> nat \<Rightarrow> nat" where
  "mt_init_nat i p =
     (6364136223846793005 * (p XOR (p div 4611686018427387904)) + i) mod 18446744073709551616"

primrec mt_seed_nat :: "nat \<Rightarrow> nat \<Rightarrow> nat \<Rightarrow> nat" where
  "mt_seed_nat 0 i p = mt_init_nat i p"
| "mt_seed_nat (Suc k) i p = mt_seed_nat k (i + 1) (mt_init_nat i p)"

lemma mt_seed_nat_numeral:
  "mt_seed_nat (numeral k) i p = mt_seed_nat (pred_numeral k) (i + 1) (mt_init_nat i p)"
  by (simp add: numeral_eq_Suc)

lemma unat_mt_init_step: "unat (mt_init_step i p) = mt_init_nat (unat i) (unat p)"
proof -
  have "unat p div 4611686018427387904 < 18446744073709551616"
    using unat_bound [of p] by simp
  then have "unat p div 4611686018427387904 mod 18446744073709551616 = unat p div 4611686018427387904"
    by (rule mod_less)
  then show ?thesis
    by (simp add: mt_init_step_def mt_init_nat_def unat_word_ariths unsigned_xor_eq
        unat_drop_bit_eq mod_simps drop_bit_eq_div)
qed

lemma unat_mt_seed_nth:
  "unat i + k < 18446744073709551616 \<Longrightarrow> unat (mt_seed_nth k i p) = mt_seed_nat k (unat i) (unat p)"
proof (induction k arbitrary: i p)
  case 0
  then show ?case by (simp add: unat_mt_init_step)
next
  case (Suc k)
  then have "unat (i + 1) = unat i + 1" by (simp add: unat_word_ariths)
  with Suc show ?case by (simp add: unat_mt_init_step)
qed

lemma mt_seed_nat_155: "mt_seed_nat 155 1 5489 = 2619718836853156863"
  by (simp add: mt_seed_nat_numeral mt_init_nat_def)

lemma mt_seed_nth_155: "mt_seed_nth 155 1 5489 = 2619718836853156863"
proof -
  have "unat (mt_seed_nth 155 1 5489) = unat (2619718836853156863 :: u64)"
    by (simp add: unat_mt_seed_nth mt_seed_nat_155 del: One_nat_def)
  then show ?thesis by (simp only: word_unat_eq_iff)
qed

lemma mt_seed_nth_0: "mt_seed_nth 0 1 5489 = 13057201162865595358"
proof -
  have "unat (mt_seed_nth 0 1 5489) = unat (13057201162865595358 :: u64)"
    by (simp add: unat_mt_init_step mt_init_nat_def)
  then show ?thesis by (simp only: word_unat_eq_iff)
qed

lemma mt_temper_first:
  "mt_temper (mt_twist 5489 13057201162865595358 2619718836853156863) = 14514284786278117030"
  by (simp add: mt_temper_def mt_twist_def Let_def)

lemma mt_default_first: "fst (mt_next mt_default) = 14514284786278117030"
  unfolding mt_default_def mt_first mt_seed_nth_0 mt_seed_nth_155 by (rule mt_temper_first)

end
