(* ===== verification/Ordered_Set.thy ===== *)
theory Ordered_Set
  imports Prelude
begin

text \<open>
  \<open>std::set<nr_participant_ptr, std::less<>>\<close> as \<open>network_room\<close> uses it: pointers in the order
  of a key read through the pointer, looked up by pointer or by a bare key. The locale
  \<open>keyed_set\<close> is the contract the room relies on; the sorted list below provides it.
\<close>

section \<open>The contract\<close>

locale keyed_set =
  fixes key :: "'p \<Rightarrow> 'k::linorder"
    and ins :: "'p \<Rightarrow> 's \<Rightarrow> 's"
    and era :: "'k \<Rightarrow> 's \<Rightarrow> 's"
    and lookup :: "'k \<Rightarrow> 's \<Rightarrow> 'p option"
    and elems :: "'s \<Rightarrow> 'p list"
    and invar :: "'s \<Rightarrow> bool"
  assumes invar_ins: "invar s \<Longrightarrow> invar (ins x s)"
    and invar_era: "invar s \<Longrightarrow> invar (era k s)"
    and lookup_iff: "invar s \<Longrightarrow> lookup k s = Some p \<longleftrightarrow> p \<in> set (elems s) \<and> key p = k"
    and elems_ins: "invar s \<Longrightarrow>
      set (elems (ins x s)) = (if lookup (key x) s = None then insert x (set (elems s)) else set (elems s))"
    and elems_era: "invar s \<Longrightarrow> set (elems (era k s)) = {p \<in> set (elems s). key p \<noteq> k}"
    and distinct_elems: "invar s \<Longrightarrow> distinct (elems s)"
begin

lemma lookup_None: "invar s \<Longrightarrow> lookup k s = None \<longleftrightarrow> (\<forall>p \<in> set (elems s). key p \<noteq> k)"
  using lookup_iff [of s k] by (cases "lookup k s") auto

lemma lookup_ins: "invar s \<Longrightarrow>
  lookup k (ins x s) = (if k = key x \<and> lookup k s = None then Some x else lookup k s)"
proof -
  assume inv: "invar s"
  have "lookup k (ins x s) = Some p \<longleftrightarrow>
      (if k = key x \<and> lookup k s = None then Some x else lookup k s) = Some p" for p
    using lookup_iff [OF invar_ins [OF inv]] lookup_iff [OF inv] elems_ins [OF inv] lookup_None [OF inv]
    by auto
  then show ?thesis by (metis option.exhaust)
qed

lemma lookup_era: "invar s \<Longrightarrow> lookup k (era j s) = (if k = j then None else lookup k s)"
proof -
  assume inv: "invar s"
  have "lookup k (era j s) = Some p \<longleftrightarrow> (if k = j then None else lookup k s) = Some p" for p
    using lookup_iff [OF invar_era [OF inv]] lookup_iff [OF inv] elems_era [OF inv] by auto
  then show ?thesis by (metis option.exhaust)
qed

lemma keys_inj: "invar s \<Longrightarrow> inj_on key (set (elems s))"
  by (rule inj_onI) (metis lookup_iff option.inject)

lemma length_ins: "invar s \<Longrightarrow>
  length (elems (ins x s)) = (if lookup (key x) s = None then Suc (length (elems s)) else length (elems s))"
proof -
  assume inv: "invar s"
  have "x \<notin> set (elems s)" if "lookup (key x) s = None"
    using that lookup_None [OF inv] by auto
  then show ?thesis
    using distinct_card [OF distinct_elems [OF invar_ins [OF inv]], of x]
      distinct_card [OF distinct_elems [OF inv]] elems_ins [OF inv, of x] by auto
qed

lemma length_era: "invar s \<Longrightarrow>
  length (elems (era k s)) = length (elems s) - (if lookup k s = None then 0 else 1)"
proof -
  assume inv: "invar s"
  have len: "length (elems (era k s)) = card (set (elems (era k s)))"
    using distinct_card [OF distinct_elems [OF invar_era [OF inv]]] by simp
  have len0: "length (elems s) = card (set (elems s))"
    using distinct_card [OF distinct_elems [OF inv]] by simp
  show ?thesis
  proof (cases "lookup k s")
    case None
    then have "set (elems (era k s)) = set (elems s)"
      using elems_era [OF inv] lookup_None [OF inv] by auto
    then show ?thesis using len len0 None by simp
  next
    case (Some p)
    then have "set (elems (era k s)) = set (elems s) - {p}" and "p \<in> set (elems s)"
      using elems_era [OF inv] lookup_iff [OF inv] inj_onD [OF keys_inj [OF inv]] by auto
    then show ?thesis using len len0 Some by simp
  qed
qed

text \<open>Erasing what was just inserted restores every lookup.\<close>

lemma era_ins_restores:
  "invar s \<Longrightarrow> lookup (key x) s = None \<Longrightarrow> lookup k (era (key x) (ins x s)) = lookup k s"
  by (simp add: lookup_era invar_ins lookup_ins)

lemma era_twice: "invar s \<Longrightarrow> lookup k (era j (era j s)) = lookup k (era j s)"
  by (simp add: lookup_era invar_era)

end

section \<open>The provider\<close>

fun oset_insert :: "('p \<Rightarrow> 'k::linorder) \<Rightarrow> 'p \<Rightarrow> 'p list \<Rightarrow> 'p list" where
  "oset_insert key x [] = [x]"
| "oset_insert key x (y # ys) =
     (if key x < key y then x # y # ys
      else if key y < key x then y # oset_insert key x ys
      else y # ys)"

fun oset_find :: "('p \<Rightarrow> 'k::linorder) \<Rightarrow> 'k \<Rightarrow> 'p list \<Rightarrow> 'p option" where
  "oset_find key k [] = None"
| "oset_find key k (y # ys) =
     (if key y < k then oset_find key k ys
      else if k < key y then None
      else Some y)"

fun oset_erase :: "('p \<Rightarrow> 'k::linorder) \<Rightarrow> 'k \<Rightarrow> 'p list \<Rightarrow> 'p list" where
  "oset_erase key k [] = []"
| "oset_erase key k (y # ys) =
     (if key y < k then y # oset_erase key k ys
      else if k < key y then y # ys
      else ys)"

definition oset_ok :: "('p \<Rightarrow> 'k::linorder) \<Rightarrow> 'p list \<Rightarrow> bool" where
  "oset_ok key xs \<longleftrightarrow> sorted_wrt (\<lambda>x y. key x < key y) xs"

lemma oset_ok_Nil [simp]: "oset_ok key []"
  by (simp add: oset_ok_def)

lemma oset_ok_Cons: "oset_ok key (y # ys) \<longleftrightarrow> (\<forall>z \<in> set ys. key y < key z) \<and> oset_ok key ys"
  by (simp add: oset_ok_def)

lemma oset_find_Some:
  "oset_ok key xs \<Longrightarrow> oset_find key k xs = Some p \<longleftrightarrow> p \<in> set xs \<and> key p = k"
  by (induction xs) (auto simp: oset_ok_Cons)

lemma set_oset_insert:
  "oset_ok key xs \<Longrightarrow> set (oset_insert key x xs) =
     (if oset_find key (key x) xs = None then insert x (set xs) else set xs)"
  by (induction xs) (auto simp: oset_ok_Cons)

lemma set_oset_erase: "oset_ok key xs \<Longrightarrow> set (oset_erase key k xs) = {p \<in> set xs. key p \<noteq> k}"
  by (induction xs) (auto simp: oset_ok_Cons)

lemma oset_ok_insert: "oset_ok key xs \<Longrightarrow> oset_ok key (oset_insert key x xs)"
  by (induction xs) (auto simp: oset_ok_Cons set_oset_insert split: if_splits)

lemma oset_ok_erase: "oset_ok key xs \<Longrightarrow> oset_ok key (oset_erase key k xs)"
  by (induction xs) (auto simp: oset_ok_Cons set_oset_erase)

lemma oset_ok_distinct: "oset_ok key xs \<Longrightarrow> distinct xs"
  by (induction xs) (auto simp: oset_ok_Cons)

interpretation oset: keyed_set key "oset_insert key" "oset_erase key" "oset_find key" "\<lambda>xs. xs" "oset_ok key"
  for key :: "'p \<Rightarrow> 'k::linorder"
  by unfold_locales
    (auto simp: oset_ok_insert oset_ok_erase oset_find_Some set_oset_insert set_oset_erase oset_ok_distinct)

text \<open>The set only looks at the keys of its elements and of what it is given.\<close>

lemma oset_insert_cong:
  "(\<And>y. y \<in> set xs \<Longrightarrow> key y = key' y) \<Longrightarrow> key x = key' x \<Longrightarrow> oset_insert key x xs = oset_insert key' x xs"
  by (induction xs) auto

lemma oset_find_cong:
  "(\<And>y. y \<in> set xs \<Longrightarrow> key y = key' y) \<Longrightarrow> oset_find key k xs = oset_find key' k xs"
  by (induction xs) auto

lemma oset_erase_cong:
  "(\<And>y. y \<in> set xs \<Longrightarrow> key y = key' y) \<Longrightarrow> oset_erase key k xs = oset_erase key' k xs"
  by (induction xs) auto

lemma oset_ok_cong:
  "(\<And>y. y \<in> set xs \<Longrightarrow> key y = key' y) \<Longrightarrow> oset_ok key xs = oset_ok key' xs"
  by (induction xs) (auto simp: oset_ok_Cons)

lemma oset_erase_absent: "oset_ok key xs \<Longrightarrow> oset_find key k xs = None \<Longrightarrow> oset_erase key k xs = xs"
  by (induction xs) (auto simp: oset_ok_Cons split: if_splits)

lemma set_oset_erase_subset: "set (oset_erase key k xs) \<subseteq> set xs"
  by (induction xs) auto

lemma set_oset_insert_subset: "set (oset_insert key x xs) \<subseteq> insert x (set xs)"
  by (induction xs) auto

end
