(* ===== verification/Session_Object.thy ===== *)
theory Session_Object
  imports Participant XRMessage Mersenne Ordered_Set
begin

text \<open>
  The objects that live on the server: sessions (\<open>nr_session\<close> and its subclass
  \<open>handshake_session\<close>, which extend \<open>nr_participant\<close>), the room they join, and the part of
  \<open>session.hpp\<close> that does not need the room: the write queue, closing, socket options.

  Boost.Asio is not modelled. What the code hands to it is recorded in the session:
  \<open>posted\<close> holds the handlers given to \<open>post\<close> and not run yet, \<open>writing\<close> the buffers of the
  \<open>async_write\<close> calls that have not completed, \<open>reading\<close> the read loops waiting for an
  \<open>async_read\<close>. The order in which they complete is chosen from outside, by events.
\<close>

section \<open>Objects\<close>

datatype read_loop = Handshake_read | Session_read

record nr_session = nr_participant +
  is_open :: bool
  socket_keep_alive :: bool
  deque_write_buffer :: "byte list list"
  posted :: "byte list list"
  writing :: "byte list list"
  reading :: "read_loop list"
  m_service_id :: u64
  m_server_name :: cpp_string

record handshake_session = nr_session +
  m_b_ready :: bool
  last_status :: EN_RAW_MESSAGE_HEAD

text \<open>
  The constructors, from \<open>nr_participant()\<close> down; \<open>m_b_ready\<close> is not initialised.
\<close>

definition new_handshake_session :: "bool \<Rightarrow> u64 \<Rightarrow> cpp_string \<Rightarrow> handshake_session" where
  "new_handshake_session ready service_id server_name =
     \<lparr>m_name = [], IP = [], m_id = 0, info_ptr = None, deaf = False, m_descriptor = [],
      is_open = True, socket_keep_alive = False,
      deque_write_buffer = [], posted = [], writing = [], reading = [],
      m_service_id = service_id, m_server_name = server_name,
      m_b_ready = ready, last_status = NONE\<rparr>"

text \<open>What is left of a handshake session as a session: \<open>nr_session\<close>'s own constructor.\<close>

definition new_nr_session :: "u64 \<Rightarrow> cpp_string \<Rightarrow> nr_session" where
  "new_nr_session service_id server_name =
     nr_participant.extend new_nr_participant
       (nr_session.fields True False [] [] [] [] service_id server_name)"

lemma new_handshake_session_base: "nr_session.truncate (new_handshake_session b i n) = new_nr_session i n"
  by (simp add: new_handshake_session_def new_nr_session_def new_nr_participant_def
      nr_session.defs nr_participant.defs)

datatype signal =
    Sig_new_participant u64
  | Sig_new_message u64 "byte list" u32
  | Sig_participant_leave u64

text \<open>
  \<open>network_room\<close>. A slot of a signal is the number of the callback connected to it;
  \<open>participants\<close> are the pointers in the order of the set.
\<close>

record network_room =
  participants :: "ptr list"
  max_participants :: u16
  broadcast_participants_messages :: bool
  m_broadcast_last_message :: bool
  room_keep_alive :: bool
  max_recent_msgs :: nat
  max_participant_buffer_size :: u64
  auto_update_participants :: bool
  room_rng :: mt_state
  slots_new_participant :: "nat list"
  slots_new_message :: "nat list"
  slots_broadcast_message :: "nat list"
  slots_participant_leave :: "nat list"
  rx_queue :: "(u64 \<times> byte list) list"

text \<open>
  The world: the heap of sessions, the room, and the calls its signals made, as pairs of the
  callback and its arguments.
\<close>

record world =
  heap :: "ptr \<Rightarrow> handshake_session"
  next_ptr :: ptr
  room :: network_room
  emitted :: "(nat \<times> signal) list"

text \<open>
  What the model takes from its environment: the byte order of the host, whether a socket
  option can be set on an open or a closed socket, what uninitialised storage holds, and the
  clock.
\<close>

record asio_env =
  byte_order :: endian
  set_option_fails :: "bool \<Rightarrow> bool"
  stale_memory :: "nat \<Rightarrow> byte"
  timestamp_now :: u64

text \<open>As Boost.Asio documents it: an option is refused exactly on a closed socket.\<close>

definition options_need_open :: "asio_env \<Rightarrow> bool" where
  "options_need_open env \<longleftrightarrow> set_option_fails env False \<and> \<not> set_option_fails env True"

definition upd_session ::
  "ptr \<Rightarrow> (handshake_session \<Rightarrow> handshake_session) \<Rightarrow> 'a world_scheme \<Rightarrow> 'a world_scheme" where
  "upd_session p f w = w\<lparr>heap := (heap w)(p := f (heap w p))\<rparr>"

definition upd_room :: "(network_room \<Rightarrow> network_room) \<Rightarrow> 'a world_scheme \<Rightarrow> 'a world_scheme" where
  "upd_room f w = w\<lparr>room := f (room w)\<rparr>"

lemma upd_session_simps [simp]:
  "heap (upd_session p f w) = (heap w)(p := f (heap w p))"
  "next_ptr (upd_session p f w) = next_ptr w"
  "room (upd_session p f w) = room w"
  "emitted (upd_session p f w) = emitted w"
  "world.more (upd_session p f w) = world.more w"
  by (simp_all add: upd_session_def)

lemma upd_room_simps [simp]:
  "heap (upd_room f w) = heap w"
  "next_ptr (upd_room f w) = next_ptr w"
  "room (upd_room f w) = f (room w)"
  "emitted (upd_room f w) = emitted w"
  "world.more (upd_room f w) = world.more w"
  by (simp_all add: upd_room_def)

text \<open>
  Ownership: a session lives while the room holds it or an outstanding read or write handler
  keeps \<open>self\<close>. The handler that \<open>deliver_byte\<close> posts only captures \<open>this\<close>.
\<close>

definition alive :: "ptr \<Rightarrow> 'a world_scheme \<Rightarrow> bool" where
  "alive p w \<longleftrightarrow>
     p \<in> set (participants (room w)) \<or> reading (heap w p) \<noteq> [] \<or> writing (heap w p) \<noteq> []"

section \<open>Writing\<close>

text \<open>\<open>deliver_byte\<close> posts a handler that holds a copy of the buffer.\<close>

definition deliver_byte :: "ptr \<Rightarrow> byte list \<Rightarrow> 'a world_scheme \<Rightarrow> 'a world_scheme" where
  "deliver_byte p buffer = upd_session p (\<lambda>s. s\<lparr>posted := posted s @ [buffer]\<rparr>)"

text \<open>\<open>do_write_byte\<close>: the front buffer leaves the queue before its write has completed.\<close>

definition do_write_byte :: "ptr \<Rightarrow> 'a world_scheme \<Rightarrow> 'a world_scheme outcome" where
  "do_write_byte p w =
     (case deque_write_buffer (heap w p) of
        [] \<Rightarrow> Undefined OutOfBounds
      | btp # rest \<Rightarrow>
          Done (upd_session p (\<lambda>s. s\<lparr>deque_write_buffer := rest, writing := writing s @ [btp]\<rparr>) w))"

text \<open>The body of the handler that \<open>deliver_byte\<close> posts.\<close>

definition deliver_posted :: "ptr \<Rightarrow> byte list \<Rightarrow> 'a world_scheme \<Rightarrow> 'a world_scheme outcome" where
  "deliver_posted p buffer w =
     (let write_byte_in_progress = (deque_write_buffer (heap w p) \<noteq> []);
          w1 = upd_session p (\<lambda>s. s\<lparr>deque_write_buffer := deque_write_buffer s @ [buffer]\<rparr>) w
      in if \<not> write_byte_in_progress then do_write_byte p w1 else Done w1)"

text \<open>Running the oldest posted handler of a session. A handler of a dead session uses a dangling \<open>this\<close>.\<close>

definition run_posted :: "ptr \<Rightarrow> 'a world_scheme \<Rightarrow> 'a world_scheme outcome" where
  "run_posted p w =
     (if \<not> alive p w then Undefined UseAfterFree
      else case posted (heap w p) of
             [] \<Rightarrow> Done w
           | buffer # rest \<Rightarrow>
               deliver_posted p buffer (upd_session p (\<lambda>s. s\<lparr>posted := rest\<rparr>) w))"

text \<open>The completion of a write without an error: the next buffer, if one is queued.\<close>

definition write_completed :: "ptr \<Rightarrow> 'a world_scheme \<Rightarrow> 'a world_scheme outcome" where
  "write_completed p w =
     (if deque_write_buffer (heap w p) \<noteq> [] then do_write_byte p w else Done w)"

section \<open>Closing and socket options\<close>

text \<open>
  \<open>do_close\<close>: shutdown and close report errors through an error code that is only printed;
  closing leaves the socket closed either way.
\<close>

definition do_close :: "ptr \<Rightarrow> 'a world_scheme \<Rightarrow> 'a world_scheme" where
  "do_close p w =
     (if is_open (heap w p) then upd_session p (\<lambda>s. s\<lparr>is_open := False\<rparr>) w else w)"

definition disconnect :: "ptr \<Rightarrow> 'a world_scheme \<Rightarrow> 'a world_scheme" where
  "disconnect p w = do_close p w"

definition session_close :: "ptr \<Rightarrow> 'a world_scheme \<Rightarrow> 'a world_scheme" where
  "session_close p w = do_close p w"

text \<open>\<open>get_keep_alive\<close> calls the \<open>get_option\<close> that throws, under the same conditions.\<close>

definition session_get_keep_alive :: "asio_env \<Rightarrow> ptr \<Rightarrow> 'a world_scheme \<Rightarrow> exn + bool" where
  "session_get_keep_alive env p w =
     (if set_option_fails env (is_open (heap w p)) then Inl (SystemError ''get_option'')
      else Inr (socket_keep_alive (heap w p)))"

text \<open>\<open>set_keep_alive\<close> calls the \<open>set_option\<close> that throws.\<close>

definition session_set_keep_alive ::
  "asio_env \<Rightarrow> ptr \<Rightarrow> bool \<Rightarrow> 'a world_scheme \<Rightarrow> 'a world_scheme outcome" where
  "session_set_keep_alive env p keep_alive w =
     (if set_option_fails env (is_open (heap w p)) then Throws (SystemError ''set_option'') w
      else Done (upd_session p (\<lambda>s. s\<lparr>socket_keep_alive := keep_alive\<rparr>) w))"

section \<open>What the write path does\<close>

lemma deliver_byte_simps [simp]:
  "heap (deliver_byte p b w) = (heap w)(p := heap w p\<lparr>posted := posted (heap w p) @ [b]\<rparr>)"
  "next_ptr (deliver_byte p b w) = next_ptr w"
  "room (deliver_byte p b w) = room w"
  "emitted (deliver_byte p b w) = emitted w"
  "world.more (deliver_byte p b w) = world.more w"
  by (simp_all add: deliver_byte_def)

lemma do_close_simps [simp]:
  "heap (do_close p w) = (heap w)(p := heap w p\<lparr>is_open := False\<rparr>)"
  "next_ptr (do_close p w) = next_ptr w"
  "room (do_close p w) = room w"
  "emitted (do_close p w) = emitted w"
  "world.more (do_close p w) = world.more w"
  by (auto simp: do_close_def fun_eq_iff)

lemma disconnect_simps [simp]:
  "heap (disconnect p w) = (heap w)(p := heap w p\<lparr>is_open := False\<rparr>)"
  "next_ptr (disconnect p w) = next_ptr w"
  "room (disconnect p w) = room w"
  "emitted (disconnect p w) = emitted w"
  "world.more (disconnect p w) = world.more w"
  by (simp_all add: disconnect_def)

text \<open>
  From a state with an empty queue every posted buffer is handed to a write at once, whether
  or not other writes are still going on, and the queue is empty again.
\<close>

lemma deliver_posted_empty_queue:
  assumes "deque_write_buffer (heap w p) = []"
  shows "deliver_posted p b w =
    Done (upd_session p (\<lambda>s. s\<lparr>deque_write_buffer := [], writing := writing s @ [b]\<rparr>) w)"
  using assms by (simp add: deliver_posted_def do_write_byte_def upd_session_def)

end
