(* ===== verification/Room.thy ===== *)
theory Room
  imports Session_Object
begin

text \<open>
  \<open>network_room\<close> of \<open>room.hpp\<close>: the set of participants ordered by identifier, joining and
  leaving, the introduction of a newcomer, and delivery to everybody. The room reaches a
  participant only through the interface of \<open>participant.hpp\<close>.
\<close>

section \<open>Construction and lookup\<close>

text \<open>The members the constructor does not initialise keep what is in \<open>raw\<close>.\<close>

definition new_network_room :: "network_room \<Rightarrow> network_room" where
  "new_network_room raw =
     raw\<lparr>participants := [], m_broadcast_last_message := True, room_keep_alive := False,
         max_recent_msgs := 100, room_rng := mt_default,
         slots_new_participant := [], slots_new_message := [], slots_broadcast_message := [],
         slots_participant_leave := [], rx_queue := []\<rparr>"

definition pkey :: "'a world_scheme \<Rightarrow> ptr \<Rightarrow> u64" where
  "pkey w p = m_id (heap w p)"

definition get_participant_ptr :: "u64 \<Rightarrow> 'a world_scheme \<Rightarrow> ptr option" where
  "get_participant_ptr i w = oset_find (pkey w) i (participants (room w))"

text \<open>The comparisons of the set go through the pointers.\<close>

definition ptr_less :: "'a world_scheme \<Rightarrow> ptr \<Rightarrow> ptr \<Rightarrow> bool" where
  "ptr_less w p q \<longleftrightarrow> m_id (heap w p) < m_id (heap w q)"

definition ptr_less_id :: "'a world_scheme \<Rightarrow> ptr \<Rightarrow> u64 \<Rightarrow> bool" where
  "ptr_less_id w p i \<longleftrightarrow> m_id (heap w p) < i"

definition id_less_ptr :: "'a world_scheme \<Rightarrow> u64 \<Rightarrow> ptr \<Rightarrow> bool" where
  "id_less_ptr w i p \<longleftrightarrow> i < m_id (heap w p)"

lemma ptr_less_pkey:
  "ptr_less w p q \<longleftrightarrow> pkey w p < pkey w q" "ptr_less_id w p i \<longleftrightarrow> pkey w p < i"
  "id_less_ptr w i p \<longleftrightarrow> i < pkey w p"
  by (simp_all add: ptr_less_def ptr_less_id_def id_less_ptr_def pkey_def)

definition participant_exist :: "u64 \<Rightarrow> 'a world_scheme \<Rightarrow> bool" where
  "participant_exist i w = (get_participant_ptr i w \<noteq> None)"

definition participants_count :: "'a world_scheme \<Rightarrow> nat" where
  "participants_count w = length (participants (room w))"

section \<open>Signals\<close>

definition emit :: "nat list \<Rightarrow> signal \<Rightarrow> 'a world_scheme \<Rightarrow> 'a world_scheme" where
  "emit slots sig w = w\<lparr>emitted := emitted w @ map (\<lambda>c. (c, sig)) slots\<rparr>"

definition connect_on_new_participant :: "nat \<Rightarrow> 'a world_scheme \<Rightarrow> 'a world_scheme" where
  "connect_on_new_participant c =
     upd_room (\<lambda>r. r\<lparr>slots_new_participant := slots_new_participant r @ [c]\<rparr>)"

definition register_callback_new_participant :: "nat \<Rightarrow> 'a world_scheme \<Rightarrow> 'a world_scheme" where
  "register_callback_new_participant c =
     upd_room (\<lambda>r. r\<lparr>slots_new_participant := slots_new_participant r @ [c]\<rparr>)"

definition register_callback_new_message :: "nat \<Rightarrow> 'a world_scheme \<Rightarrow> 'a world_scheme" where
  "register_callback_new_message c =
     upd_room (\<lambda>r. r\<lparr>slots_new_message := slots_new_message r @ [c]\<rparr>)"

definition register_callback_participant_leave :: "nat \<Rightarrow> 'a world_scheme \<Rightarrow> 'a world_scheme" where
  "register_callback_participant_leave c =
     upd_room (\<lambda>r. r\<lparr>slots_participant_leave := slots_participant_leave r @ [c]\<rparr>)"

definition disconnect_all_callbacks :: "'a world_scheme \<Rightarrow> 'a world_scheme" where
  "disconnect_all_callbacks =
     upd_room (\<lambda>r. r\<lparr>slots_new_participant := [], slots_new_message := [],
                    slots_broadcast_message := [], slots_participant_leave := []\<rparr>)"

text \<open>\<open>new_message\<close> raises the signal under a mutex.\<close>

definition new_message :: "u64 \<Rightarrow> byte list \<Rightarrow> u32 \<Rightarrow> 'a world_scheme \<Rightarrow> 'a world_scheme" where
  "new_message i buffer n w = emit (slots_new_message (room w)) (Sig_new_message i buffer n) w"

section \<open>Delivery\<close>

definition deliver_to_all :: "byte list \<Rightarrow> 'a world_scheme \<Rightarrow> 'a world_scheme" where
  "deliver_to_all buffer w = fold (\<lambda>p. deliver_byte p buffer) (participants (room w)) w"

text \<open>Both overloads of \<open>deliver_to_all_except_to_one\<close>: a message is its bytes.\<close>

definition deliver_to_all_except_to_one :: "byte list \<Rightarrow> u64 \<Rightarrow> 'a world_scheme \<Rightarrow> 'a world_scheme" where
  "deliver_to_all_except_to_one buffer exception_id w =
     fold (\<lambda>p v. if m_id (heap v p) = exception_id then v else deliver_byte p buffer v)
       (participants (room w)) w"

section \<open>Joining\<close>

text \<open>
  A full room closes the newcomer's socket and returns. Otherwise the participant gets the next
  identifier of the engine, the keep alive option of the room (this may throw) and a fresh
  information block with its address; then it enters the set and the signal is raised.
\<close>

definition join :: "asio_env \<Rightarrow> ptr \<Rightarrow> 'a world_scheme \<Rightarrow> 'a world_scheme outcome" where
  "join env p w =
     (if unat (max_participants (room w)) \<le> length (participants (room w))
      then Done (disconnect p w)
      else
        let (i, rng') = mt_next (room_rng (room w));
            w1 = upd_session p (\<lambda>s. s\<lparr>m_id := i\<rparr>) (upd_room (\<lambda>r. r\<lparr>room_rng := rng'\<rparr>) w)
        in and_then (session_set_keep_alive env p (room_keep_alive (room w1)) w1)
          (\<lambda>w2.
            let info = (init_participant_info (stale_memory env))\<lparr>info_m_id := m_id (heap w2 p)\<rparr>
            in lift_mem (write_at 0 (IP (heap w2 p)) (ipv4_ip info))
              (\<lambda>ip.
                let w3 = upd_session p (\<lambda>s. s\<lparr>info_ptr := Some (info\<lparr>ipv4_ip := ip\<rparr>)\<rparr>) w2;
                    w4 = upd_room (\<lambda>r. r\<lparr>participants := oset_insert (pkey w3) p (participants r)\<rparr>) w3
                in Done (emit (slots_new_participant (room w4))
                           (Sig_new_participant (m_id (heap w4 p))) w4))))"

section \<open>Introducing a newcomer\<close>

text \<open>
  The three statements that describe a participant in a \<open>ST_PARTICIPANT_NEW\<close>: the size is cut to
  32 bits and that many bytes of the descriptor are copied over the front of the buffer.
\<close>

definition fill_participant_new :: "u64 \<Rightarrow> byte list \<Rightarrow> ST_PARTICIPANT_NEW \<Rightarrow> ub + ST_PARTICIPANT_NEW" where
  "fill_participant_new i descriptor newp =
     (let n = (word_of_nat (length descriptor) :: u32)
      in mem_bind (read_at 0 (unat n) descriptor)
        (\<lambda>bs. mem_bind (write_at 0 bs (pn_descriptor_buffer newp))
          (\<lambda>buffer. Inr (newp\<lparr>pn_participant_id := i, pn_descriptor_buffersize := n,
                             pn_descriptor_buffer := buffer\<rparr>))))"

definition participant_new_message :: "asio_env \<Rightarrow> ST_PARTICIPANT_NEW \<Rightarrow> ub + byte list" where
  "participant_new_message env newp =
     XRMessage_of_payload (byte_order env) (head_code PARTICIPANT_NEW)
       (enc_participant_new (byte_order env) newp) 20492"

definition new_paticipant_to_all :: "asio_env \<Rightarrow> u64 \<Rightarrow> 'a world_scheme \<Rightarrow> 'a world_scheme outcome" where
  "new_paticipant_to_all env np w =
     (case get_participant_ptr np w of
        None \<Rightarrow> Undefined NullDeref
      | Some nptr \<Rightarrow>
          lift_mem (fill_participant_new np (m_descriptor (heap w nptr))
                      (init_participant_new (stale_memory env)))
            (\<lambda>newp. lift_mem (participant_new_message env newp)
              (\<lambda>msg. Done (deliver_to_all_except_to_one msg np w))))"

text \<open>
  The first loop of \<open>send_list_of_players\<close> fills one variable over and over and copies it; what a
  longer descriptor left behind the end of a shorter one stays in the copy.
\<close>

fun collect_players ::
  "'a world_scheme \<Rightarrow> u64 \<Rightarrow> ST_PARTICIPANT_NEW \<Rightarrow> ptr list \<Rightarrow> ub + ST_PARTICIPANT_NEW list" where
  "collect_players w self_id newp [] = Inr []"
| "collect_players w self_id newp (p # ps) =
     (if m_id (heap w p) = self_id then collect_players w self_id newp ps
      else mem_bind (fill_participant_new (m_id (heap w p)) (m_descriptor (heap w p)) newp)
        (\<lambda>newp'. mem_bind (collect_players w self_id newp' ps)
          (\<lambda>rest. Inr (newp' # rest))))"

definition send_list_of_players :: "asio_env \<Rightarrow> ptr \<Rightarrow> 'a world_scheme \<Rightarrow> 'a world_scheme outcome" where
  "send_list_of_players env p w =
     lift_mem (collect_players w (m_id (heap w p)) (init_participant_new (stale_memory env))
                 (participants (room w)))
       (\<lambda>id_vector.
          for_each (\<lambda>newp v. lift_mem (participant_new_message env newp)
                      (\<lambda>msg. Done (deliver_byte p msg v)))
            id_vector w)"

definition init_new_participant :: "asio_env \<Rightarrow> u64 \<Rightarrow> 'a world_scheme \<Rightarrow> 'a world_scheme outcome" where
  "init_new_participant env participant_id w =
     (let np = get_participant_ptr participant_id w
      in and_then (new_paticipant_to_all env participant_id w)
        (\<lambda>w1. case np of
                None \<Rightarrow> Undefined NullDeref
              | Some p \<Rightarrow> send_list_of_players env p w1))"

section \<open>Leaving\<close>

definition participant_leave_message :: "asio_env \<Rightarrow> u64 \<Rightarrow> ub + byte list" where
  "participant_leave_message env i =
     XRMessage_of_payload (byte_order env) (head_code PARTICIPANT_LEAVE)
       (enc_participant_leave (byte_order env) \<lparr>pl_participant_id = i\<rparr>) 8"

text \<open>
  The test for a null pointer guards the erasure only; the next statement reads through the
  pointer in any case.
\<close>

definition disconnect_participant_ptr ::
  "asio_env \<Rightarrow> ptr option \<Rightarrow> 'a world_scheme \<Rightarrow> 'a world_scheme outcome" where
  "disconnect_participant_ptr env participant w =
     (let w1 = (case participant of
                  None \<Rightarrow> w
                | Some p \<Rightarrow>
                    upd_room (\<lambda>r. r\<lparr>participants := oset_erase (pkey w) (m_id (heap w p)) (participants r)\<rparr>) w)
      in case participant of
           None \<Rightarrow> Undefined NullDeref
         | Some p \<Rightarrow>
             lift_mem (participant_leave_message env (m_id (heap w1 p)))
               (\<lambda>msg. Done (deliver_to_all msg w1)))"

definition disconnect_participant :: "asio_env \<Rightarrow> u64 \<Rightarrow> 'a world_scheme \<Rightarrow> 'a world_scheme outcome" where
  "disconnect_participant env participant_id w =
     disconnect_participant_ptr env (get_participant_ptr participant_id w) w"

definition disconnect_all_participants :: "'a world_scheme \<Rightarrow> 'a world_scheme" where
  "disconnect_all_participants w = fold disconnect (participants (room w)) w"

definition leave :: "asio_env \<Rightarrow> ptr \<Rightarrow> 'a world_scheme \<Rightarrow> 'a world_scheme outcome" where
  "leave env p w =
     (let i = m_id (heap w p);
          w1 = emit (slots_participant_leave (room w)) (Sig_participant_leave i) w;
          w2 = upd_room (\<lambda>r. r\<lparr>participants := oset_erase (pkey w1) (m_id (heap w1 p)) (participants r)\<rparr>) w1
      in catch_print (lift_mem (participant_leave_message env i)
           (\<lambda>msg. Done (deliver_to_all msg w2))))"

text \<open>The destructor.\<close>

definition destroy_network_room :: "'a world_scheme \<Rightarrow> 'a world_scheme" where
  "destroy_network_room w = disconnect_all_participants (disconnect_all_callbacks w)"

section \<open>Settings and queries\<close>

definition set_auto_update_participants :: "bool \<Rightarrow> 'a world_scheme \<Rightarrow> 'a world_scheme" where
  "set_auto_update_participants au = upd_room (\<lambda>r. r\<lparr>auto_update_participants := au\<rparr>)"

definition set_max_participants :: "u16 \<Rightarrow> 'a world_scheme \<Rightarrow> 'a world_scheme" where
  "set_max_participants n = upd_room (\<lambda>r. r\<lparr>max_participants := n\<rparr>)"

definition set_room_keep_alive :: "bool \<Rightarrow> 'a world_scheme \<Rightarrow> 'a world_scheme" where
  "set_room_keep_alive b = upd_room (\<lambda>r. r\<lparr>room_keep_alive := b\<rparr>)"

definition set_message_buffer_size :: "nat \<Rightarrow> 'a world_scheme \<Rightarrow> 'a world_scheme" where
  "set_message_buffer_size n = upd_room (\<lambda>r. r\<lparr>max_recent_msgs := n\<rparr>)"

definition set_broadcast_messages :: "bool \<Rightarrow> 'a world_scheme \<Rightarrow> 'a world_scheme" where
  "set_broadcast_messages b = upd_room (\<lambda>r. r\<lparr>broadcast_participants_messages := b\<rparr>)"

definition set_max_participant_buffer_size :: "u64 \<Rightarrow> 'a world_scheme \<Rightarrow> 'a world_scheme" where
  "set_max_participant_buffer_size n = upd_room (\<lambda>r. r\<lparr>max_participant_buffer_size := n\<rparr>)"

definition get_auto_update_participants :: "'a world_scheme \<Rightarrow> bool" where
  "get_auto_update_participants w = auto_update_participants (room w)"

definition get_max_participants :: "'a world_scheme \<Rightarrow> u16" where
  "get_max_participants w = max_participants (room w)"

definition get_room_keep_alive :: "'a world_scheme \<Rightarrow> bool" where
  "get_room_keep_alive w = room_keep_alive (room w)"

definition get_message_buffer_size :: "'a world_scheme \<Rightarrow> nat" where
  "get_message_buffer_size w = max_recent_msgs (room w)"

definition get_broadcast_messages :: "'a world_scheme \<Rightarrow> bool" where
  "get_broadcast_messages w = broadcast_participants_messages (room w)"

definition get_max_participant_buffer_size :: "'a world_scheme \<Rightarrow> u64" where
  "get_max_participant_buffer_size w = max_participant_buffer_size (room w)"

definition NR_OK :: int where "NR_OK = 0"
definition NR_FAIL :: int where "NR_FAIL = -1"

definition set_participant_deaf :: "u64 \<Rightarrow> bool \<Rightarrow> 'a world_scheme \<Rightarrow> int \<times> 'a world_scheme" where
  "set_participant_deaf i d w =
     (case get_participant_ptr i w of
        Some p \<Rightarrow> (NR_OK, upd_session p (\<lambda>s. s\<lparr>deaf := d\<rparr>) w)
      | None \<Rightarrow> (NR_FAIL, w))"

definition get_participant_deaf :: "u64 \<Rightarrow> 'a world_scheme \<Rightarrow> bool" where
  "get_participant_deaf i w =
     (case get_participant_ptr i w of Some p \<Rightarrow> deaf (heap w p) | None \<Rightarrow> False)"

text \<open>
  \<open>get_participant_info\<close> fills the caller's block \<open>out\<close> from the information of the participant;
  the name is copied without its length being checked and without clearing what follows.
\<close>

definition get_participant_info ::
  "u64 \<Rightarrow> nr_participant_info \<Rightarrow> 'a world_scheme \<Rightarrow> ub + nr_participant_info" where
  "get_participant_info i out w =
     (case get_participant_ptr i w of
        None \<Rightarrow> Inr out
      | Some p \<Rightarrow>
          (case info_ptr (heap w p) of
             None \<Rightarrow> Inl NullDeref
           | Some info \<Rightarrow>
               mem_bind (write_at 0 (ipv4_ip info) (zeros 512))
                 (\<lambda>ip. mem_bind (write_at 0 (m_name (heap w p)) (info_name out))
                   (\<lambda>name. Inr (out\<lparr>info_m_id := info_m_id info, info_server_id := info_server_id info,
                                   ipv4_ip := ip, info_name := name\<rparr>)))))"

text \<open>\<open>add_rx_message\<close> inserts into a multimap: behind the entries with the same or a smaller key.\<close>

definition add_rx_message :: "u64 \<Rightarrow> byte list \<Rightarrow> 'a world_scheme \<Rightarrow> 'a world_scheme" where
  "add_rx_message pid msg =
     upd_room (\<lambda>r. r\<lparr>rx_queue := takeWhile (\<lambda>e. fst e \<le> pid) (rx_queue r) @ [(pid, msg)] @
                                  dropWhile (\<lambda>e. fst e \<le> pid) (rx_queue r)\<rparr>)"

end
