(* ===== verification/Session.thy ===== *)
theory Session
  imports Room
begin

text \<open>
  The reading side of \<open>nr_session\<close>: the read loop of a participant that has passed the
  handshake, and what it does with each kind of message.
\<close>

section \<open>The read loop\<close>

text \<open>\<open>do_read_byte\<close> starts a read of one whole frame.\<close>

definition do_read_byte :: "ptr \<Rightarrow> 'a world_scheme \<Rightarrow> 'a world_scheme" where
  "do_read_byte p = upd_session p (\<lambda>s. s\<lparr>reading := reading s @ [Session_read]\<rparr>)"

text \<open>
  \<open>PARTICIPANT_JOIN_ACK\<close>: the descriptor is replaced by as many bytes as the message says it
  has, and the participant the message names is introduced to the room.
\<close>

definition on_participant_join_ack ::
  "asio_env \<Rightarrow> ptr \<Rightarrow> byte list \<Rightarrow> 'a world_scheme \<Rightarrow> 'a world_scheme outcome" where
  "on_participant_join_ack env p payload w =
     (let pack = dec_participant_join_ack (byte_order env) payload;
          w1 = upd_session p (\<lambda>s. s\<lparr>m_descriptor := []\<rparr>) w
      in lift_mem (read_at 12 (unat (pja_json_buffersize pack)) payload)
        (\<lambda>descriptor.
           init_new_participant env (pja_participant_id pack)
             (upd_session p (\<lambda>s. s\<lparr>m_descriptor := m_descriptor s @ descriptor\<rparr>) w1)))"

text \<open>The switch over the head of a message.\<close>

definition session_dispatch ::
  "asio_env \<Rightarrow> ptr \<Rightarrow> byte list \<Rightarrow> 'a world_scheme \<Rightarrow> 'a world_scheme outcome" where
  "session_dispatch env p message w =
     (case xr_get_header (byte_order env) message of
        None \<Rightarrow> Undefined NullDeref
      | Some header \<Rightarrow>
          if xh_head header = head_code PARTICIPANT_JOIN_ACK then
            (case xr_payload message of
               None \<Rightarrow> Undefined NullDeref
             | Some payload \<Rightarrow> on_participant_join_ack env p payload w)
          else if xh_head header = head_code PARTICIPANT_NEW_ACK then Done w
          else if xh_head header = head_code PARTICIPANT_UPDATE_ACK then
            Done (deliver_to_all_except_to_one message (m_id (heap w p)) w)
          else if xh_head header = head_code PARTICIPANT_LEAVE_ACK then
            disconnect_participant env (m_id (heap w p)) w
          else Done (disconnect p w))"

text \<open>The completion handler of the read: without an error, and with one.\<close>

definition session_frame ::
  "asio_env \<Rightarrow> ptr \<Rightarrow> byte list \<Rightarrow> 'a world_scheme \<Rightarrow> 'a world_scheme outcome" where
  "session_frame env p read_buffer w =
     lift_mem (XRMessage_of_buffer read_buffer (word_of_nat (length read_buffer)) False)
       (\<lambda>message. and_then (session_dispatch env p message w)
          (\<lambda>w1. Done (do_read_byte p w1)))"

definition session_read_failed :: "asio_env \<Rightarrow> ptr \<Rightarrow> 'a world_scheme \<Rightarrow> 'a world_scheme outcome" where
  "session_read_failed env p w = leave env p w"

text \<open>The completion handler of a write that failed.\<close>

definition write_failed :: "asio_env \<Rightarrow> ptr \<Rightarrow> 'a world_scheme \<Rightarrow> 'a world_scheme outcome" where
  "write_failed env p w = leave env p w"

text \<open>\<open>nr_session::start\<close>, which the server replaces by \<open>handshake_session::start\<close>.\<close>

definition nr_session_start ::
  "asio_env \<Rightarrow> ptr \<Rightarrow> cpp_string option \<Rightarrow> 'a world_scheme \<Rightarrow> 'a world_scheme outcome" where
  "nr_session_start env p remote w =
     (case remote of
        None \<Rightarrow> Throws (SystemError ''remote_endpoint'') w
      | Some ip \<Rightarrow>
          and_then (join env p (upd_session p (\<lambda>s. s\<lparr>IP := ip\<rparr>) w))
            (\<lambda>w1. Done (do_read_byte p w1)))"

end
