(* ===== verification/Text_Output.thy ===== *)
theory Text_Output
  imports XRMessage Participant
begin

text \<open>
  What the program prints: the output stream with its sticky number base and its one-shot width,
  the stream operators of \<open>nr_base.hpp\<close>, \<open>protocol.hpp\<close> and \<open>XRMessage.hpp\<close>, and \<open>print_buffer\<close>.
  A character array is printed as a C string, up to the first zero byte; when there is none
  before the end of the allocation the array lies in, printing reads out of bounds.
\<close>

section \<open>Numbers and C strings\<close>

definition digit_char :: "nat \<Rightarrow> byte" where
  "digit_char d = (if d < 10 then word_of_nat (48 + d) else word_of_nat (87 + d))"

fun digits :: "nat \<Rightarrow> nat \<Rightarrow> byte list" where
  "digits b n =
     (if b < 2 \<or> n < b then [digit_char n] else digits b (n div b) @ [digit_char (n mod b)])"

declare digits.simps [simp del]

fun c_string :: "byte list \<Rightarrow> ub + byte list" where
  "c_string [] = Inl OutOfBounds"
| "c_string (b # bs) = (if b = 0 then Inr [] else mem_bind (c_string bs) (\<lambda>s. Inr (b # s)))"

lemma c_string_eq:
  "c_string bs = (if 0 \<in> set bs then Inr (takeWhile (\<lambda>b. b \<noteq> 0) bs) else Inl OutOfBounds)"
  by (induction bs) auto

section \<open>The stream\<close>

record ostream =
  os_base :: nat
  os_width :: nat
  os_fill :: byte
  os_text :: "byte list"

definition new_ostream :: ostream where
  "new_ostream = \<lparr>os_base = 10, os_width = 0, os_fill = 32, os_text = []\<rparr>"

text \<open>
  What one \<open><<\<close> takes: a text, a number, a character, a pointer to characters (the memory from
  there to the end of its allocation), or a manipulator.
\<close>

datatype insertion =
    Ins_text cpp_string
  | Ins_num nat
  | Ins_char byte
  | Ins_cstr "byte list"
  | Man_hex
  | Man_dec
  | Man_setw nat
  | Man_setfill byte
  | Man_endl

definition put_field :: "byte list \<Rightarrow> ostream \<Rightarrow> ostream" where
  "put_field s os =
     os\<lparr>os_text := os_text os @ replicate (os_width os - length s) (os_fill os) @ s, os_width := 0\<rparr>"

fun insert_one :: "insertion \<Rightarrow> ostream \<Rightarrow> ub + ostream" where
  "insert_one (Ins_text s) os = Inr (put_field s os)"
| "insert_one (Ins_num n) os = Inr (put_field (digits (os_base os) n) os)"
| "insert_one (Ins_char c) os = Inr (put_field [c] os)"
| "insert_one (Ins_cstr mem) os = mem_bind (c_string mem) (\<lambda>s. Inr (put_field s os))"
| "insert_one Man_hex os = Inr (os\<lparr>os_base := 16\<rparr>)"
| "insert_one Man_dec os = Inr (os\<lparr>os_base := 10\<rparr>)"
| "insert_one (Man_setw n) os = Inr (os\<lparr>os_width := n\<rparr>)"
| "insert_one (Man_setfill c) os = Inr (os\<lparr>os_fill := c\<rparr>)"
| "insert_one Man_endl os = Inr (os\<lparr>os_text := os_text os @ [10]\<rparr>)"

fun insert_all :: "insertion list \<Rightarrow> ostream \<Rightarrow> ub + ostream" where
  "insert_all [] os = Inr os"
| "insert_all (i # is) os = mem_bind (insert_one i os) (insert_all is)"

fun terminated :: "insertion \<Rightarrow> bool" where
  "terminated (Ins_cstr mem) \<longleftrightarrow> 0 \<in> set mem"
| "terminated i \<longleftrightarrow> True"

lemma insert_one_total: "terminated i \<Longrightarrow> \<exists>os'. insert_one i os = Inr os'"
  by (cases i) (auto simp: c_string_eq)

lemma insert_one_fails: "\<not> terminated i \<Longrightarrow> insert_one i os = Inl OutOfBounds"
  by (cases i) (auto simp: c_string_eq)

lemma insert_all_append: "insert_all (is @ js) os = mem_bind (insert_all is os) (insert_all js)"
proof (induction "is" arbitrary: os)
  case (Cons i "is")
  then show ?case by (cases "insert_one i os") auto
qed simp

text \<open>Whether printing succeeds depends on the terminators alone, never on the state of the stream.\<close>

lemma insert_all_outcome:
  "if list_all terminated is then \<exists>os'. insert_all is os = Inr os' else insert_all is os = Inl OutOfBounds"
proof (induction "is" arbitrary: os)
  case (Cons i "is")
  then show ?case
    using insert_one_total [of i os] insert_one_fails [of i os] by (cases "terminated i") auto
qed simp

text \<open>
  Inside a handler only the outcome of printing matters to the state: the text goes to the
  console of the process.
\<close>

definition printed :: "insertion list \<Rightarrow> ub + unit" where
  "printed is = mem_bind (insert_all is new_ostream) (\<lambda>_. Inr ())"

lemma printed_eq: "printed is = (if list_all terminated is then Inr () else Inl OutOfBounds)"
  using insert_all_outcome [of "is" new_ostream] by (auto simp: printed_def)

section \<open>Bytes\<close>

text \<open>\<open>operator<<(ostream, byte)\<close>: base and fill character are left as they are set here.\<close>

definition show_byte :: "byte \<Rightarrow> insertion list" where
  "show_byte b = [Man_hex, Man_setw 2, Ins_num (unat b)]"

text \<open>
  \<open>operator<<(ostream, vector<byte>)\<close>: the cast is to \<open>unsigned char\<close>, which the stream takes
  for a character, not for a number.
\<close>

definition show_byte_vector :: "byte list \<Rightarrow> insertion list" where
  "show_byte_vector buffer =
     concat (map (\<lambda>b. [Man_setfill 48, Man_setw 2, Man_hex, Ins_char b]) buffer)"

text \<open>\<open>printf("%02x ", \<dots>)\<close>.\<close>

definition printf_02x :: "nat \<Rightarrow> byte list" where
  "printf_02x n = replicate (2 - length (digits 16 n)) 48 @ digits 16 n @ [32]"

definition print_buffer :: "byte list \<Rightarrow> nat \<Rightarrow> ub + byte list" where
  "print_buffer buffer buffersize =
     mem_bind (read_at 0 buffersize buffer)
       (\<lambda>bs. Inr (concat (map (\<lambda>b. printf_02x (unat b)) bs)))"

section \<open>Headers\<close>

definition show_header :: "xr_message_header \<Rightarrow> insertion list" where
  "show_header h =
     [Ins_text (str ''head                  : ''), Man_hex, Man_setw 2, Ins_num (unat (xh_head h)), Man_endl,
      Ins_text (str ''buffersize            : ''), Man_hex, Man_setw 4, Ins_num (unat (xh_buffersize h)), Man_endl,
      Ins_text (str ''payload_is_big_endian : ''), Man_hex, Man_setw 2,
      Ins_num (unat (xh_payload_is_big_endian h))]"

text \<open>The operator for a pointer writes to \<open>std::cout\<close>, whatever stream it is given.\<close>

definition show_header_ptr :: "xr_message_header \<Rightarrow> insertion list" where
  "show_header_ptr h =
     [Ins_text (str ''head | buffersieze | is_big_endian '' @ [10]),
      Man_hex, Ins_num (unat (xh_head h)), Ins_text (str '' | ''),
      Man_hex, Ins_num (unat (xh_buffersize h)), Ins_text (str '' | ''),
      Man_hex, Ins_num (unat (xh_payload_is_big_endian h))]"

definition insert_header_ptr ::
  "xr_message_header \<Rightarrow> ostream \<Rightarrow> ostream \<Rightarrow> ub + ostream \<times> ostream" where
  "insert_header_ptr h os cout = mem_bind (insert_all (show_header_ptr h) cout) (\<lambda>cout'. Inr (os, cout'))"

section \<open>Structures taken by reference\<close>

text \<open>
  An operator that takes a reference reads the structure where it lies: \<open>mem\<close> is the memory from
  its first byte to the end of the allocation.
\<close>

definition show_handshake_hello :: "endian \<Rightarrow> byte list \<Rightarrow> insertion list" where
  "show_handshake_hello e mem =
     (let st_hello = dec_handshake_hello e mem in
      [Ins_text (str ''service_id            : ''), Man_hex, Ins_num (unat (hh_service_id st_hello)), Man_endl,
       Ins_text (str ''participant_id        : ''), Man_hex, Ins_num (unat (hh_participant_id st_hello)), Man_endl,
       Ins_text (str ''server_timestamp      : ''), Man_hex, Ins_num (unat (hh_server_timestamp st_hello)), Man_endl,
       Ins_text (str ''servername_buffersize : ''), Man_dec,
       Ins_num (unat (hh_servername_buffersize st_hello)), Man_endl,
       Ins_text (str ''servername_buffer     : ''), Man_hex, Ins_cstr (drop 28 mem)])"

definition show_handshake_hello_ack :: "endian \<Rightarrow> byte list \<Rightarrow> insertion list" where
  "show_handshake_hello_ack e mem =
     (let st_hello_ack = dec_handshake_hello_ack e mem in
      [Ins_text (str ''participant_id           : ''), Man_hex,
       Ins_num (unat (hha_participant_id st_hello_ack)), Man_endl,
       Ins_text (str ''client_timestamp         : ''), Man_hex,
       Ins_num (unat (hha_client_timestamp st_hello_ack)), Man_endl,
       Ins_text (str ''configuration_buffersize : ''), Man_dec,
       Ins_num (unat (hha_configuration_buffersize st_hello_ack)), Man_endl,
       Ins_text (str ''configuration_buffer     : ''), Ins_cstr (drop 20 mem)])"

definition show_handshake_credentials :: "endian \<Rightarrow> byte list \<Rightarrow> insertion list" where
  "show_handshake_credentials e mem =
     [Ins_text (str ''certificate buffersize: ''), Man_dec,
      Ins_num (unat (hc_server_certificate_buffersize (dec_handshake_credentials e mem))), Man_endl,
      Ins_text (str ''certificate:            ''), Ins_cstr (drop 4 mem), Man_endl]"

definition show_handshake_credentials_ack :: "endian \<Rightarrow> byte list \<Rightarrow> insertion list" where
  "show_handshake_credentials_ack e mem =
     (let ack = dec_handshake_credentials_ack e mem in
      [Ins_text (str ''participant_id: ''), Man_hex, Ins_num (unat (hca_participant_id ack)), Man_endl,
       Ins_text (str ''login_buffersize: ''), Man_dec, Ins_num (unat (hca_login_buffersize ack)), Man_endl,
       Ins_text (str ''login_buffer: ''), Ins_cstr (drop 10 mem), Man_endl,
       Ins_text (str ''password_buffersize: ''), Man_dec, Ins_num (unat (hca_password_buffersize ack)), Man_endl,
       Ins_text (str ''password_buffer: ''), Ins_cstr (drop 1036 mem), Man_endl,
       Ins_text (str ''participant_certificate_buffersize: ''), Man_dec,
       Ins_num (unat (hca_participant_certificate_buffersize ack)), Man_endl,
       Ins_text (str ''participant_certificate_buffer: ''), Ins_cstr (drop 2062 mem)])"

section \<open>Structures taken by value\<close>

text \<open>
  An operator that takes a value gets a copy of the structure: nothing lies behind its array but
  the end of the copy.
\<close>

definition show_participant_leave :: "endian \<Rightarrow> byte list \<Rightarrow> insertion list" where
  "show_participant_leave e mem =
     [Ins_text (str ''participant_id: ''), Man_hex, Ins_num (unat (pl_participant_id (dec_participant_leave e mem)))]"

definition show_participant_leave_ack :: "endian \<Rightarrow> byte list \<Rightarrow> insertion list" where
  "show_participant_leave_ack e mem =
     [Ins_text (str ''participant_id: ''), Ins_num (unat (pla_participant_id (dec_participant_leave_ack e mem)))]"

definition show_participant_new :: "endian \<Rightarrow> byte list \<Rightarrow> insertion list" where
  "show_participant_new e mem =
     (let part_new = dec_participant_new e mem in
      [Ins_text (str ''participant_id: ''), Man_hex, Ins_num (unat (pn_participant_id part_new)),
       Ins_text (str ''descriptor_buffersize: ''), Man_hex, Ins_num (unat (pn_descriptor_buffersize part_new)),
       Ins_text (str ''descriptor_buffer: ''), Ins_cstr (pn_descriptor_buffer part_new)])"

definition show_participant_new_ack :: "endian \<Rightarrow> byte list \<Rightarrow> insertion list" where
  "show_participant_new_ack e mem =
     [Ins_text (str ''new_participant_id: ''), Man_hex,
      Ins_num (unat (pna_participant_id (dec_participant_new_ack e mem)))]"

definition show_participant_join :: "endian \<Rightarrow> byte list \<Rightarrow> insertion list" where
  "show_participant_join e mem =
     (let join = dec_participant_join e mem in
      [Ins_text (str ''participant_id: ''), Man_hex, Ins_num (unat (pj_participant_id join)), Man_endl,
       Ins_text (str ''max_data_rate: ''), Ins_num (unat (pj_max_data_rate join)),
       Ins_text (str ''[messages/s]'' @ [10]),
       Ins_text (str ''allow_asynchronous_messages: ''), Man_hex,
       Ins_num (unat (pj_allow_asynchronous_messages join)), Man_endl,
       Ins_text (str ''message_buffersize: ''), Ins_num (unat (pj_message_buffersize join)),
       Ins_text (str '' bytes''), Man_endl,
       Ins_text (str ''message_buffer: ''), Ins_cstr (pj_message_buffer join)])"

definition show_participant_join_ack :: "endian \<Rightarrow> byte list \<Rightarrow> insertion list" where
  "show_participant_join_ack e mem =
     (let msg = dec_participant_join_ack e mem in
      [Ins_text (str ''participant_id: ''), Man_hex, Ins_num (unat (pja_participant_id msg)), Ins_text [10],
       Ins_text (str ''JSON buffersize: ''), Ins_num (unat (pja_json_buffersize msg)), Ins_text [10],
       Ins_text (str ''JSON: ''), Ins_cstr (pja_json_buffer msg), Man_endl])"

definition show_participant_update :: "endian \<Rightarrow> byte list \<Rightarrow> insertion list" where
  "show_participant_update e mem =
     (let update = dec_participant_update e mem in
      [Ins_text (str ''origin_timestamp: ''), Man_hex, Ins_num (unat (pu_origin_timestamp update)),
       Ins_text ([10] @ str ''reception_timestamp: ''), Man_hex, Ins_num (unat (pu_reception_timestamp update)),
       Ins_text ([10] @ str ''deliver_timestamp: ''), Man_hex, Ins_num (unat (pu_deliver_timestamp update)),
       Ins_text ([10] @ str ''buffersize: ''), Man_hex, Ins_num (unat (pu_buffersize update)),
       Ins_text ([10] @ str ''buffer: ''), Ins_cstr (pu_buffer update)])"

definition show_participant_update_ack :: "endian \<Rightarrow> byte list \<Rightarrow> insertion list" where
  "show_participant_update_ack e mem =
     (let msg = dec_participant_update_ack e mem in
      [Ins_text (str ''participant_id: ''), Man_hex, Ins_num (unat (pua_participant_id msg)),
       Ins_text ([10] @ str ''origin_timestamp: ''), Man_hex, Ins_num (unat (pua_origin_timestamp msg)),
       Ins_text ([10] @ str ''buffersize: 0x''), Man_hex, Ins_num (unat (pua_buffersize msg)),
       Ins_text (str ''(''), Man_dec, Ins_num (unat (pua_buffersize msg)), Ins_text (str '') bytes''),
       Ins_text ([10] @ str ''buffer: ''), Ins_cstr (pua_buffer msg)])"

section \<open>When printing stays in bounds\<close>

lemma printed_shows:
  "printed (show_handshake_hello e mem) = (if 0 \<in> set (drop 28 mem) then Inr () else Inl OutOfBounds)"
  "printed (show_handshake_hello_ack e mem) = (if 0 \<in> set (drop 20 mem) then Inr () else Inl OutOfBounds)"
  "printed (show_handshake_credentials e mem) = (if 0 \<in> set (drop 4 mem) then Inr () else Inl OutOfBounds)"
  "printed (show_handshake_credentials_ack e mem) =
     (if 0 \<in> set (drop 10 mem) \<and> 0 \<in> set (drop 1036 mem) \<and> 0 \<in> set (drop 2062 mem)
      then Inr () else Inl OutOfBounds)"
  "printed (show_participant_new e mem) =
     (if 0 \<in> set (pn_descriptor_buffer (dec_participant_new e mem)) then Inr () else Inl OutOfBounds)"
  "printed (show_participant_join e mem) =
     (if 0 \<in> set (pj_message_buffer (dec_participant_join e mem)) then Inr () else Inl OutOfBounds)"
  "printed (show_participant_update_ack e mem) =
     (if 0 \<in> set (pua_buffer (dec_participant_update_ack e mem)) then Inr () else Inl OutOfBounds)"
  "printed (show_header h) = Inr ()"
  by (simp_all add: printed_eq show_handshake_hello_def show_handshake_hello_ack_def
      show_handshake_credentials_def show_handshake_credentials_ack_def show_participant_new_def
      show_participant_join_def show_participant_update_ack_def show_header_def Let_def)

text \<open>The last of the three C strings of the credentials decides about all of them.\<close>

lemma printed_credentials_ack:
  "printed (show_handshake_credentials_ack e mem) =
     (if 0 \<in> set (drop 2062 mem) then Inr () else Inl OutOfBounds)"
proof -
  have "set (drop 2062 mem) \<subseteq> set (drop 1036 mem)" "set (drop 2062 mem) \<subseteq> set (drop 10 mem)"
    by (simp_all add: set_drop_subset_set_drop)
  then show ?thesis by (auto simp: printed_shows)
qed

end
