(* ===== verification/Handshake.thy ===== *)
theory Handshake
  imports Session Text_Output
begin

text \<open>
  \<open>handshake.hpp\<close>: the session of a connection that is not in the room yet. The server greets
  with \<open>HANDSHAKE_HELLO\<close>; \<open>HANDSHAKE_HELLO_ACK\<close> is answered by \<open>HANDSHAKE_CREDENTIALS\<close>, and
  \<open>HANDSHAKE_CREDENTIALS_ACK\<close> ends the handshake and joins the room.
\<close>

section \<open>C strings\<close>

text \<open>\<open>strcmp\<close>: the sign of the first difference, or undefined behaviour past the end of an array.\<close>

fun strcmp :: "byte list \<Rightarrow> byte list \<Rightarrow> ub + int" where
  "strcmp (a # as) (b # bs) =
     (if a \<noteq> b then Inr (if a < b then -1 else 1)
      else if a = 0 then Inr 0
      else strcmp as bs)"
| "strcmp as bs = Inl OutOfBounds"

definition cstr :: "string \<Rightarrow> byte list" where
  "cstr s = str s @ [0]"

section \<open>Starting\<close>

text \<open>\<open>do_read_handshake\<close> starts a read of one whole frame for the handshake.\<close>

definition do_read_handshake :: "ptr \<Rightarrow> 'a world_scheme \<Rightarrow> 'a world_scheme" where
  "do_read_handshake p =
     upd_session p (\<lambda>s. s\<lparr>m_b_ready := True, reading := reading s @ [Handshake_read]\<rparr>)"

text \<open>The greeting is printed before it is sent: a name that fills its array to the end has no terminator.\<close>

definition do_start_handshake :: "asio_env \<Rightarrow> ptr \<Rightarrow> 'a world_scheme \<Rightarrow> 'a world_scheme outcome" where
  "do_start_handshake env p w =
     (let w1 = do_read_handshake p w;
          s = heap w1 p
      in lift_mem (build_handshake_hello (m_service_id s) (m_id s) (timestamp_now env) (m_server_name s))
        (\<lambda>hh. lift_mem (printed (show_handshake_hello (byte_order env) (enc_handshake_hello (byte_order env) hh)))
           (\<lambda>_. lift_mem (XRMessage_of_payload (byte_order env) (head_code HANDSHAKE_HELLO)
                           (enc_handshake_hello (byte_order env) hh) 1052)
             (\<lambda>msg. lift_mem (print_buffer msg 60) (\<lambda>_. Done (deliver_byte p msg w1))))))"

text \<open>\<open>start\<close>: reading the address of the peer throws when the peer is gone.\<close>

definition handshake_start ::
  "asio_env \<Rightarrow> ptr \<Rightarrow> cpp_string option \<Rightarrow> 'a world_scheme \<Rightarrow> 'a world_scheme outcome" where
  "handshake_start env p remote w =
     (case remote of
        None \<Rightarrow> Throws (SystemError ''remote_endpoint'') w
      | Some ip \<Rightarrow> do_start_handshake env p (upd_session p (\<lambda>s. s\<lparr>IP := ip\<rparr>) w))"

section \<open>Answers of the client\<close>

text \<open>
  \<open>check_handshake_hello_ack\<close> appends as many bytes of the message to the descriptor as the
  message says its configuration has, and asks for the credentials.
\<close>

definition check_handshake_hello_ack ::
  "asio_env \<Rightarrow> ptr \<Rightarrow> byte list \<Rightarrow> 'a world_scheme \<Rightarrow> 'a world_scheme outcome" where
  "check_handshake_hello_ack env p payload w =
     (let st_hello_ack = dec_handshake_hello_ack (byte_order env) payload
      in lift_mem (read_at 20 (unat (hha_configuration_buffersize st_hello_ack)) payload)
        (\<lambda>configuration.
           let w1 = upd_session p (\<lambda>s. s\<lparr>m_descriptor := m_descriptor s @ configuration\<rparr>) w
           in lift_mem (XRMessage_of_payload (byte_order env) (head_code HANDSHAKE_CREDENTIALS)
                          (enc_handshake_credentials (byte_order env) build_handshake_credentials) 20484)
             (\<lambda>msg. lift_mem (print_buffer msg 60) (\<lambda>_. Done (deliver_byte p msg w1)))))"

text \<open>The test of the credentials: two \<open>strcmp\<close> and a short-circuit or.\<close>

definition credentials_rejected :: "ST_HANDSHAKE_CREDENTIALS_ACK \<Rightarrow> ub + bool" where
  "credentials_rejected msg =
     mem_bind (strcmp (hca_login_buffer msg) (cstr ''login''))
       (\<lambda>l. if l \<noteq> 0 then Inr True
            else mem_bind (strcmp (hca_password_buffer msg) (cstr ''password''))
              (\<lambda>pw. Inr (pw \<noteq> 0)))"

definition welcome_message :: cpp_string where
  "welcome_message = str ''accepted in room''"

definition participant_join_struct :: "u64 \<Rightarrow> ub + ST_PARTICIPANT_JOIN" where
  "participant_join_struct i =
     mem_bind (write_at 0 welcome_message (pj_message_buffer init_participant_join))
       (\<lambda>buffer. Inr (init_participant_join
          \<lparr>pj_participant_id := i, pj_max_data_rate := 1, pj_allow_asynchronous_messages := 0xFFFF,
           pj_message_buffersize := word_of_nat (length welcome_message), pj_message_buffer := buffer\<rparr>))"

text \<open>
  \<open>check_handshake_credentials_ack\<close>: wrong credentials close the socket, and the function goes
  on: it starts the read loop, joins the room and sends \<open>PARTICIPANT_JOIN\<close> in any case.
\<close>

definition check_handshake_credentials_ack ::
  "asio_env \<Rightarrow> ptr \<Rightarrow> ST_HANDSHAKE_CREDENTIALS_ACK \<Rightarrow> 'a world_scheme \<Rightarrow> 'a world_scheme outcome" where
  "check_handshake_credentials_ack env p msg w =
     lift_mem (credentials_rejected msg)
       (\<lambda>rejected.
          let w1 = (if rejected then disconnect p w else w);
              w2 = do_read_byte p w1
          in and_then (join env p w2)
            (\<lambda>w3. lift_mem (participant_join_struct (m_id (heap w3 p)))
               (\<lambda>join_st. lift_mem (printed (show_participant_join (byte_order env)
                                               (enc_participant_join (byte_order env) join_st)))
                  (\<lambda>_. lift_mem (XRMessage_of_payload (byte_order env) (head_code PARTICIPANT_JOIN)
                                   (enc_participant_join (byte_order env) join_st) 10256)
                    (\<lambda>xrmsg. Done (deliver_byte p xrmsg w3))))))"

text \<open>What the read handlers print of a message: the first 60 bytes of the buffer, and the structure.\<close>

definition printed_frame :: "byte list \<Rightarrow> insertion list \<Rightarrow> ub + unit" where
  "printed_frame read_buffer structure =
     mem_bind (print_buffer read_buffer 60) (\<lambda>_. printed structure)"

text \<open>
  The completion handler of the handshake read. Both known messages are printed before they are
  looked at. Only \<open>HANDSHAKE_CREDENTIALS_ACK\<close> leaves the loop; every other message, known or
  not, starts the next read.
\<close>

definition handshake_frame ::
  "asio_env \<Rightarrow> ptr \<Rightarrow> byte list \<Rightarrow> 'a world_scheme \<Rightarrow> 'a world_scheme outcome" where
  "handshake_frame env p read_buffer w =
     lift_mem (XRMessage_of_buffer read_buffer (word_of_nat (length read_buffer)) False)
       (\<lambda>message.
          case xr_get_header (byte_order env) message of
            None \<Rightarrow> Undefined NullDeref
          | Some header \<Rightarrow>
              (case xr_payload message of
                 None \<Rightarrow> Undefined NullDeref
               | Some payload \<Rightarrow>
                   if xh_head header = head_code HANDSHAKE_HELLO_ACK then
                     lift_mem (printed_frame read_buffer (show_handshake_hello_ack (byte_order env) payload))
                       (\<lambda>_. and_then (check_handshake_hello_ack env p payload w)
                         (\<lambda>w1. Done (do_read_handshake p w1)))
                   else if xh_head header = head_code HANDSHAKE_CREDENTIALS_ACK then
                     lift_mem (printed_frame read_buffer (show_handshake_credentials_ack (byte_order env) payload))
                       (\<lambda>_. check_handshake_credentials_ack env p
                         (dec_handshake_credentials_ack (byte_order env) payload) w)
                   else Done (do_read_handshake p w)))"

definition handshake_read_failed :: "ptr \<Rightarrow> 'a world_scheme \<Rightarrow> 'a world_scheme outcome" where
  "handshake_read_failed p w = Done (disconnect p w)"

end
