(* ===== verification/Nr_Server.thy ===== *)
theory Nr_Server
  imports Handshake
begin

text \<open>
  \<open>nr_server.hpp\<close>: the server owns the room and the acceptor. Here the handlers of the whole
  server are put together as one event system: each event is the completion of something the
  code handed to Boost.Asio, in any order the environment likes.
\<close>

section \<open>The server\<close>

record nr_server = world +
  acceptor_open :: bool
  accepting :: bool
  b_server_has_started :: bool
  srv_login :: cpp_string
  srv_password :: cpp_string
  srv_service_id :: u64
  srv_service_name :: cpp_string
  srv_rng :: mt_state

definition do_accept :: "nr_server \<Rightarrow> nr_server" where
  "do_accept w = w\<lparr>b_server_has_started := True, accepting := True\<rparr>"

text \<open>
  The constructor: the acceptor is bound and listening, the room holds at most
  \<open>DEFAULT_MAX_PARTICIPANTS\<close>, the service identifier is the first number of the server's own
  engine. \<open>raw\<close> stands for the members of the room that its constructor leaves alone.
\<close>

definition DEFAULT_MAX_PARTICIPANTS :: u16 where
  "DEFAULT_MAX_PARTICIPANTS = 10"

definition new_nr_server :: "network_room \<Rightarrow> nr_server" where
  "new_nr_server raw =
     (let (service_id, rng') = mt_next mt_default
      in do_accept (set_max_participants DEFAULT_MAX_PARTICIPANTS
           \<lparr>heap = (\<lambda>_. new_handshake_session False 0 []), next_ptr = 0,
            room = new_network_room raw, emitted = [],
            acceptor_open = True, accepting = False, b_server_has_started = False,
            srv_login = [], srv_password = [], srv_service_id = service_id,
            srv_service_name = [], srv_rng = rng'\<rparr>))"

definition set_credentials :: "cpp_string \<Rightarrow> cpp_string \<Rightarrow> nr_server \<Rightarrow> nr_server" where
  "set_credentials login password w = w\<lparr>srv_login := login, srv_password := password\<rparr>"

definition verify_credentials :: "cpp_string \<Rightarrow> cpp_string \<Rightarrow> nr_server \<Rightarrow> bool" where
  "verify_credentials login password w \<longleftrightarrow> srv_login w = login \<and> srv_password w = password"

definition set_service_name :: "cpp_string \<Rightarrow> nr_server \<Rightarrow> nr_server" where
  "set_service_name name w = w\<lparr>srv_service_name := name\<rparr>"

definition server_participants_count :: "nr_server \<Rightarrow> u16" where
  "server_participants_count w = word_of_nat (participants_count w)"

definition server_set_max_participants :: "u16 \<Rightarrow> nr_server \<Rightarrow> nr_server" where
  "server_set_max_participants n w = set_max_participants n w"

text \<open>The number of handshake connections is stored as the limit of the room.\<close>

definition set_max_handshake_connections :: "u16 \<Rightarrow> nr_server \<Rightarrow> nr_server" where
  "set_max_handshake_connections n w = set_max_participants n w"

definition server_set_keep_alive :: "bool \<Rightarrow> nr_server \<Rightarrow> nr_server" where
  "server_set_keep_alive b w = set_room_keep_alive b w"

definition server_set_broadcasting_all_messages :: "bool \<Rightarrow> nr_server \<Rightarrow> nr_server" where
  "server_set_broadcasting_all_messages b w = set_broadcast_messages b w"

definition server_register_new_participant :: "nat \<Rightarrow> nr_server \<Rightarrow> nr_server" where
  "server_register_new_participant c w = register_callback_new_participant c w"

definition server_register_new_message :: "nat \<Rightarrow> nr_server \<Rightarrow> nr_server" where
  "server_register_new_message c w = register_callback_new_message c w"

definition server_register_participant_leave :: "nat \<Rightarrow> nr_server \<Rightarrow> nr_server" where
  "server_register_participant_leave c w = register_callback_participant_leave c w"

definition server_disconnect_all_callbacks :: "nr_server \<Rightarrow> nr_server" where
  "server_disconnect_all_callbacks w = disconnect_all_callbacks w"

definition server_disconnect_all_participants :: "nr_server \<Rightarrow> nr_server" where
  "server_disconnect_all_participants w = disconnect_all_participants w"

definition server_set_auto_update_participants :: "bool \<Rightarrow> nr_server \<Rightarrow> nr_server" where
  "server_set_auto_update_participants au w = set_auto_update_participants au w"

text \<open>Queries.\<close>

definition server_get_auto_update_participants :: "nr_server \<Rightarrow> bool" where
  "server_get_auto_update_participants w = get_auto_update_participants w"

definition server_get_participant_deaf :: "u64 \<Rightarrow> nr_server \<Rightarrow> bool" where
  "server_get_participant_deaf i w = get_participant_deaf i w"

definition server_get_max_participants :: "nr_server \<Rightarrow> u16" where
  "server_get_max_participants w = get_max_participants w"

definition get_kep_alive :: "nr_server \<Rightarrow> bool" where
  "get_kep_alive w = get_room_keep_alive w"

definition get_broadcasintg_all_messages :: "nr_server \<Rightarrow> bool" where
  "get_broadcasintg_all_messages w = get_broadcast_messages w"

definition get_service_name :: "nr_server \<Rightarrow> cpp_string" where
  "get_service_name w = srv_service_name w"

definition server_disconnect_participant :: "asio_env \<Rightarrow> u64 \<Rightarrow> nr_server \<Rightarrow> nr_server outcome" where
  "server_disconnect_participant env i w = disconnect_participant env i w"

definition server_set_participant_deaf :: "u64 \<Rightarrow> bool \<Rightarrow> nr_server \<Rightarrow> nr_server" where
  "server_set_participant_deaf i d w = snd (set_participant_deaf i d w)"

definition has_started :: "nr_server \<Rightarrow> bool" where
  "has_started w = b_server_has_started w"

text \<open>\<open>stop\<close>: every participant's socket and the acceptor are closed.\<close>

definition server_stop :: "nr_server \<Rightarrow> nr_server" where
  "server_stop w =
     (let w1 = disconnect_all_participants w
      in if acceptor_open w1 then w1\<lparr>acceptor_open := False\<rparr> else w1)"

definition server_get_participant_info ::
  "u64 \<Rightarrow> nr_participant_info \<Rightarrow> nr_server \<Rightarrow> ub + nr_participant_info" where
  "server_get_participant_info i out w = get_participant_info i out w"

text \<open>
  The calls that other threads make on a running server. Each is one step of the event system
  below; the mutex-free interleaving inside a call is not modelled.
\<close>

datatype server_call =
    Call_set_credentials cpp_string cpp_string
  | Call_set_service_name cpp_string
  | Call_set_keep_alive bool
  | Call_set_max_participants u16
  | Call_set_max_handshake_connections u16
  | Call_register_new_participant nat
  | Call_register_new_message nat
  | Call_register_participant_leave nat
  | Call_disconnect_participant u64
  | Call_disconnect_all_participants
  | Call_set_broadcasting_all_messages bool
  | Call_disconnect_all_callbacks
  | Call_stop
  | Call_set_participant_deaf u64 bool
  | Call_set_auto_update_participants bool

fun do_server_call :: "asio_env \<Rightarrow> server_call \<Rightarrow> nr_server \<Rightarrow> nr_server outcome" where
  "do_server_call env (Call_set_credentials l p) w = Done (set_credentials l p w)"
| "do_server_call env (Call_set_service_name n) w = Done (set_service_name n w)"
| "do_server_call env (Call_set_keep_alive b) w = Done (server_set_keep_alive b w)"
| "do_server_call env (Call_set_max_participants n) w = Done (server_set_max_participants n w)"
| "do_server_call env (Call_set_max_handshake_connections n) w = Done (set_max_handshake_connections n w)"
| "do_server_call env (Call_register_new_participant c) w = Done (server_register_new_participant c w)"
| "do_server_call env (Call_register_new_message c) w = Done (server_register_new_message c w)"
| "do_server_call env (Call_register_participant_leave c) w = Done (server_register_participant_leave c w)"
| "do_server_call env (Call_disconnect_participant i) w = server_disconnect_participant env i w"
| "do_server_call env Call_disconnect_all_participants w = Done (server_disconnect_all_participants w)"
| "do_server_call env (Call_set_broadcasting_all_messages b) w = Done (server_set_broadcasting_all_messages b w)"
| "do_server_call env Call_disconnect_all_callbacks w = Done (server_disconnect_all_callbacks w)"
| "do_server_call env Call_stop w = Done (server_stop w)"
| "do_server_call env (Call_set_participant_deaf i d) w = Done (server_set_participant_deaf i d w)"
| "do_server_call env (Call_set_auto_update_participants b) w = Done (server_set_auto_update_participants b w)"

section \<open>Accepting\<close>

text \<open>
  The handler of \<open>async_accept\<close>: a new session on a new address is started and the next accept
  is armed; after an error nothing is.
\<close>

definition on_accept :: "asio_env \<Rightarrow> cpp_string option \<Rightarrow> nr_server \<Rightarrow> nr_server outcome" where
  "on_accept env remote w =
     (let p = next_ptr w;
          w1 = w\<lparr>heap := (heap w)(p := new_handshake_session False (srv_service_id w) (srv_service_name w)),
                 next_ptr := Suc p\<rparr>
      in and_then (handshake_start env p remote w1) (\<lambda>w2. Done (do_accept w2)))"

section \<open>Events\<close>

datatype server_event =
    Accept_ok "cpp_string option"
  | Accept_error
  | Run_posted ptr
  | Frame_received ptr read_loop "byte list"
  | Read_failed ptr read_loop
  | Write_done ptr nat
  | Write_failed ptr nat
  | Api server_call

text \<open>A read completes without an error only when its buffer of 65536 bytes is full.\<close>

fun server_enabled :: "server_event \<Rightarrow> nr_server \<Rightarrow> bool" where
  "server_enabled (Accept_ok remote) w = accepting w"
| "server_enabled Accept_error w = accepting w"
| "server_enabled (Run_posted p) w = (posted (heap w p) \<noteq> [])"
| "server_enabled (Frame_received p l bs) w = (l \<in> set (reading (heap w p)) \<and> length bs = 65536)"
| "server_enabled (Read_failed p l) w = (l \<in> set (reading (heap w p)))"
| "server_enabled (Write_done p i) w = (i < length (writing (heap w p)))"
| "server_enabled (Write_failed p i) w = (i < length (writing (heap w p)))"
| "server_enabled (Api call) w = True"

text \<open>An operation that completes is no longer outstanding when its handler runs.\<close>

definition read_over :: "ptr \<Rightarrow> read_loop \<Rightarrow> nr_server \<Rightarrow> nr_server" where
  "read_over p l = upd_session p (\<lambda>s. s\<lparr>reading := remove1 l (reading s)\<rparr>)"

definition write_over :: "ptr \<Rightarrow> nat \<Rightarrow> nr_server \<Rightarrow> nr_server" where
  "write_over p i = upd_session p (\<lambda>s. s\<lparr>writing := take i (writing s) @ drop (Suc i) (writing s)\<rparr>)"

fun server_handle :: "asio_env \<Rightarrow> server_event \<Rightarrow> nr_server \<Rightarrow> nr_server outcome" where
  "server_handle env (Accept_ok remote) w = on_accept env remote (w\<lparr>accepting := False\<rparr>)"
| "server_handle env Accept_error w = Done (w\<lparr>accepting := False\<rparr>)"
| "server_handle env (Run_posted p) w = run_posted p w"
| "server_handle env (Frame_received p l bs) w =
     (case l of
        Handshake_read \<Rightarrow> handshake_frame env p bs (read_over p l w)
      | Session_read \<Rightarrow> session_frame env p bs (read_over p l w))"
| "server_handle env (Read_failed p l) w =
     (case l of
        Handshake_read \<Rightarrow> handshake_read_failed p (read_over p l w)
      | Session_read \<Rightarrow> session_read_failed env p (read_over p l w))"
| "server_handle env (Write_done p i) w = write_completed p (write_over p i w)"
| "server_handle env (Write_failed p i) w = write_failed env p (write_over p i w)"
| "server_handle env (Api call) w = do_server_call env call w"

end
