(* ===== verification/Room_Correct.thy ===== *)
theory Room_Correct
  imports Room
begin

text \<open>
  What the operations of the room do: delivery as one parallel update, the well-formedness
  invariant of the room and the effect of joining, leaving and introducing a participant.
\<close>

section \<open>Delivery as an update of the whole heap\<close>

definition post_to :: "(ptr \<Rightarrow> bool) \<Rightarrow> byte list \<Rightarrow> 'a world_scheme \<Rightarrow> 'a world_scheme" where
  "post_to P b w =
     w\<lparr>heap := (\<lambda>q. if P q then (heap w q)\<lparr>posted := posted (heap w q) @ [b]\<rparr> else heap w q)\<rparr>"

lemma post_to_simps [simp]:
  "heap (post_to P b w) q =
     (if P q then (heap w q)\<lparr>posted := posted (heap w q) @ [b]\<rparr> else heap w q)"
  "next_ptr (post_to P b w) = next_ptr w"
  "room (post_to P b w) = room w"
  "emitted (post_to P b w) = emitted w"
  "world.more (post_to P b w) = world.more w"
  by (simp_all add: post_to_def)

lemma pkey_post_to [simp]: "pkey (post_to P b w) = pkey w"
  by (simp add: pkey_def fun_eq_iff)

lemma post_to_post_to:
  "(\<And>q. \<not> (P q \<and> Q q)) \<Longrightarrow> post_to Q b (post_to P b w) = post_to (\<lambda>q. P q \<or> Q q) b w"
  by (auto simp: post_to_def fun_eq_iff)

lemma post_to_none: "(\<And>q. \<not> P q) \<Longrightarrow> post_to P b w = w"
  by (simp add: post_to_def)

lemma deliver_byte_post_to: "deliver_byte p b w = post_to (\<lambda>q. q = p) b w"
  by (auto simp: deliver_byte_def upd_session_def post_to_def fun_eq_iff)

lemma fold_deliver:
  "distinct ps \<Longrightarrow> fold (\<lambda>p. deliver_byte p b) ps w = post_to (\<lambda>q. q \<in> set ps) b w"
proof (induction ps arbitrary: w)
  case Nil
  then show ?case by (simp add: post_to_none)
next
  case (Cons p ps)
  then have "fold (\<lambda>p. deliver_byte p b) (p # ps) w =
      post_to (\<lambda>q. q \<in> set ps) b (post_to (\<lambda>q. q = p) b w)"
    by (simp add: deliver_byte_post_to [of p])
  also have "\<dots> = post_to (\<lambda>q. q = p \<or> q \<in> set ps) b w"
    using Cons.prems by (intro post_to_post_to) auto
  finally show ?case by simp
qed

lemma fold_deliver_except:
  "distinct ps \<Longrightarrow>
   fold (\<lambda>p v. if m_id (heap v p) = x then v else deliver_byte p b v) ps w =
     post_to (\<lambda>q. q \<in> set ps \<and> m_id (heap w q) \<noteq> x) b w"
proof (induction ps arbitrary: w)
  case Nil
  then show ?case by (simp add: post_to_none)
next
  case (Cons p ps)
  show ?case
  proof (cases "m_id (heap w p) = x")
    case True
    then have "(\<lambda>q. q \<in> set (p # ps) \<and> m_id (heap w q) \<noteq> x) =
        (\<lambda>q. q \<in> set ps \<and> m_id (heap w q) \<noteq> x)" by (auto simp: fun_eq_iff)
    with True Cons show ?thesis by simp
  next
    case False
    let ?w = "post_to (\<lambda>q. q = p) b w"
    have "fold (\<lambda>p v. if m_id (heap v p) = x then v else deliver_byte p b v) (p # ps) w =
        post_to (\<lambda>q. q \<in> set ps \<and> m_id (heap ?w q) \<noteq> x) b ?w"
      using False Cons by (simp add: deliver_byte_post_to [of p])
    also have "\<dots> = post_to (\<lambda>q. q = p \<or> (q \<in> set ps \<and> m_id (heap ?w q) \<noteq> x)) b w"
      using Cons.prems by (intro post_to_post_to) auto
    also have "(\<lambda>q. q = p \<or> (q \<in> set ps \<and> m_id (heap ?w q) \<noteq> x)) =
        (\<lambda>q. q \<in> set (p # ps) \<and> m_id (heap w q) \<noteq> x)"
      using False by (auto simp: fun_eq_iff)
    finally show ?thesis .
  qed
qed

section \<open>The invariant of the room\<close>

definition info_ok :: "handshake_session \<Rightarrow> bool" where
  "info_ok s \<longleftrightarrow>
     (case info_ptr s of None \<Rightarrow> False | Some i \<Rightarrow> info_m_id i = m_id s \<and> wf_participant_info i)"

lemma info_ok_cong: "m_id s = m_id t \<Longrightarrow> info_ptr s = info_ptr t \<Longrightarrow> info_ok s = info_ok t"
  by (simp add: info_ok_def split: option.split)

definition room_ok :: "'a world_scheme \<Rightarrow> bool" where
  "room_ok w \<longleftrightarrow>
     oset_ok (pkey w) (participants (room w)) \<and>
     length (participants (room w)) \<le> 65535 \<and>
     mt_wf (room_rng (room w)) \<and>
     (\<forall>p \<in> set (participants (room w)). p < next_ptr w \<and> info_ok (heap w p))"

lemma room_ok_sorted: "room_ok w \<Longrightarrow> oset_ok (pkey w) (participants (room w))"
  by (simp add: room_ok_def)

lemma room_ok_distinct: "room_ok w \<Longrightarrow> distinct (participants (room w))"
  by (auto simp: room_ok_def dest: oset_ok_distinct)

text \<open>The invariant only depends on the set, the engine and the identity of the participants.\<close>

lemma room_ok_frame:
  assumes "room_ok w"
    and "participants (room w') = participants (room w)"
    and "room_rng (room w') = room_rng (room w)"
    and "next_ptr w \<le> next_ptr w'"
    and same: "\<And>p. p \<in> set (participants (room w)) \<Longrightarrow>
      m_id (heap w' p) = m_id (heap w p) \<and> info_ptr (heap w' p) = info_ptr (heap w p)"
  shows "room_ok w'"
proof -
  have "oset_ok (pkey w') (participants (room w)) = oset_ok (pkey w) (participants (room w))"
    by (rule oset_ok_cong) (simp add: pkey_def same)
  moreover have "info_ok (heap w' p) = info_ok (heap w p)" if "p \<in> set (participants (room w))" for p
    using same [OF that] by (intro info_ok_cong) auto
  ultimately show ?thesis
    using assms(1-4) by (auto simp: room_ok_def)
qed

lemma room_ok_post_to [simp]: "room_ok (post_to P b w) = room_ok w"
proof
  assume "room_ok (post_to P b w)"
  then show "room_ok w" by (rule room_ok_frame) auto
next
  assume "room_ok w"
  then show "room_ok (post_to P b w)" by (rule room_ok_frame) auto
qed

lemma room_ok_deliver_byte: "room_ok (deliver_byte p b w) = room_ok w"
  by (simp add: deliver_byte_post_to)

lemma room_ok_disconnect: "room_ok w \<Longrightarrow> room_ok (disconnect p w)"
  by (rule room_ok_frame) auto

lemma deliver_to_all_eq:
  "room_ok w \<Longrightarrow> deliver_to_all b w = post_to (\<lambda>q. q \<in> set (participants (room w))) b w"
  by (simp add: deliver_to_all_def fold_deliver room_ok_distinct)

lemma deliver_to_all_except_to_one_eq:
  "room_ok w \<Longrightarrow> deliver_to_all_except_to_one b x w =
     post_to (\<lambda>q. q \<in> set (participants (room w)) \<and> m_id (heap w q) \<noteq> x) b w"
  by (simp add: deliver_to_all_except_to_one_def fold_deliver_except room_ok_distinct)

lemma get_participant_ptr_iff:
  "room_ok w \<Longrightarrow> get_participant_ptr i w = Some p \<longleftrightarrow>
     p \<in> set (participants (room w)) \<and> m_id (heap w p) = i"
  using oset.lookup_iff [OF room_ok_sorted] by (simp add: get_participant_ptr_def pkey_def)

lemma get_participant_ptr_self:
  "room_ok w \<Longrightarrow> p \<in> set (participants (room w)) \<Longrightarrow> get_participant_ptr (m_id (heap w p)) w = Some p"
  by (simp add: get_participant_ptr_iff)

lemma get_participant_ptr_None:
  "room_ok w \<Longrightarrow> get_participant_ptr i w = None \<longleftrightarrow>
     (\<forall>p \<in> set (participants (room w)). m_id (heap w p) \<noteq> i)"
  using oset.lookup_None [OF room_ok_sorted] by (simp add: get_participant_ptr_def pkey_def)

section \<open>Messages the room builds\<close>

lemma length_enc_participant_new [simp]:
  "wf_participant_new s \<Longrightarrow> length (enc_participant_new e s) = 20492"
  by (rule participant_new_codec.enc_length)

lemma length_enc_participant_leave [simp]: "length (enc_participant_leave e s) = 8"
  by (rule participant_leave_codec.enc_length) simp

definition participant_new_frame :: "asio_env \<Rightarrow> ST_PARTICIPANT_NEW \<Rightarrow> byte list" where
  "participant_new_frame env s =
     frame (byte_order env) (head_code PARTICIPANT_NEW) (enc_participant_new (byte_order env) s)"

definition participant_leave_frame :: "asio_env \<Rightarrow> u64 \<Rightarrow> byte list" where
  "participant_leave_frame env i =
     frame (byte_order env) (head_code PARTICIPANT_LEAVE)
       (enc_participant_leave (byte_order env) \<lparr>pl_participant_id = i\<rparr>)"

lemma participant_new_message_eq:
  "wf_participant_new s \<Longrightarrow> participant_new_message env s = Inr (participant_new_frame env s)"
  by (simp add: participant_new_message_def participant_new_frame_def
      participant_new_codec.send_struct [simplified])

lemma participant_leave_message_eq:
  "participant_leave_message env i = Inr (participant_leave_frame env i)"
  by (simp add: participant_leave_message_def participant_leave_frame_def
      participant_leave_codec.send_struct [simplified])

section \<open>Joining\<close>

lemma join_full:
  "unat (max_participants (room w)) \<le> length (participants (room w)) \<Longrightarrow>
   join env p w = Done (disconnect p w)"
  by (simp add: join_def)

text \<open>The world after a successful join, written out.\<close>

definition joined :: "asio_env \<Rightarrow> ptr \<Rightarrow> 'a world_scheme \<Rightarrow> 'a world_scheme" where
  "joined env p w =
     (let i = fst (mt_next (room_rng (room w)));
          ip = IP (heap w p);
          info = (init_participant_info (stale_memory env))
                   \<lparr>info_m_id := i, ipv4_ip := ip @ zeros (512 - length ip)\<rparr>;
          w1 = upd_session p (\<lambda>s. s\<lparr>m_id := i, socket_keep_alive := room_keep_alive (room w),
                                     info_ptr := Some info\<rparr>) w
      in emit (slots_new_participant (room w)) (Sig_new_participant i)
          (upd_room (\<lambda>r. r\<lparr>room_rng := snd (mt_next (room_rng (room w))),
                            participants := oset_insert (pkey w1) p (participants (room w))\<rparr>) w1))"

lemma join_admits:
  assumes "length (participants (room w)) < unat (max_participants (room w))"
    and "\<not> set_option_fails env (is_open (heap w p))"
    and "length (IP (heap w p)) \<le> 512"
  shows "join env p w = Done (joined env p w)"
proof -
  have key: "pkey (upd_session p f (upd_session p g (upd_session p h (upd_room k w)))) =
      pkey (upd_session p (f \<circ> g \<circ> h) w)" for f g h k
    by (simp add: pkey_def fun_eq_iff)
  show ?thesis
    using assms
    by (simp add: join_def joined_def session_set_keep_alive_def Let_def case_prod_beta
        write_at_0 init_participant_info_def key o_def emit_def)
qed

lemma joined_simps:
  "room_rng (room (joined env p w)) = snd (mt_next (room_rng (room w)))"
  "max_participants (room (joined env p w)) = max_participants (room w)"
  "next_ptr (joined env p w) = next_ptr w"
  "emitted (joined env p w) = emitted w @
     map (\<lambda>c. (c, Sig_new_participant (fst (mt_next (room_rng (room w)))))) (slots_new_participant (room w))"
  "q \<noteq> p \<Longrightarrow> heap (joined env p w) q = heap w q"
  "m_id (heap (joined env p w) p) = fst (mt_next (room_rng (room w)))"
  "posted (heap (joined env p w) q) = posted (heap w q)"
  "reading (heap (joined env p w) q) = reading (heap w q)"
  "writing (heap (joined env p w) q) = writing (heap w q)"
  "deque_write_buffer (heap (joined env p w) q) = deque_write_buffer (heap w q)"
  "is_open (heap (joined env p w) q) = is_open (heap w q)"
  "world.more (joined env p w) = world.more w"
  by (simp_all add: joined_def Let_def emit_def)

lemma joined_info_ok: "length (IP (heap w p)) \<le> 512 \<Longrightarrow> info_ok (heap (joined env p w) p)"
  by (simp add: joined_def Let_def emit_def info_ok_def wf_participant_info_def init_participant_info_def)

lemma pkey_joined:
  "pkey (joined env p w) = (pkey w)(p := fst (mt_next (room_rng (room w))))"
  by (simp add: pkey_def fun_eq_iff joined_simps)

lemma participants_joined:
  "participants (room (joined env p w)) =
     oset_insert ((pkey w)(p := fst (mt_next (room_rng (room w))))) p (participants (room w))"
proof -
  have "pkey (upd_session p (\<lambda>s. s\<lparr>m_id := i, socket_keep_alive := k, info_ptr := f\<rparr>) w) = (pkey w)(p := i)"
    for i k f by (simp add: pkey_def fun_eq_iff)
  then show ?thesis by (simp add: joined_def Let_def emit_def)
qed

lemma oset_ok_new_key:
  "room_ok w \<Longrightarrow> p \<notin> set (participants (room w)) \<Longrightarrow> oset_ok ((pkey w)(p := i)) (participants (room w))"
  using oset_ok_cong [of "participants (room w)" "(pkey w)(p := i)" "pkey w"] room_ok_sorted [of w]
  by fastforce

lemma find_new_key:
  "p \<notin> set (participants (room w)) \<Longrightarrow>
   oset_find ((pkey w)(p := i)) j (participants (room w)) = get_participant_ptr j w"
  unfolding get_participant_ptr_def by (rule oset_find_cong) auto

text \<open>A join keeps the invariant, and adds the newcomer unless its identifier is taken.\<close>

lemma room_ok_joined:
  assumes ok: "room_ok w" and new: "p \<notin> set (participants (room w))" and "p < next_ptr w"
    and ip: "length (IP (heap w p)) \<le> 512"
    and room: "length (participants (room w)) < unat (max_participants (room w))"
  shows "room_ok (joined env p w)"
proof -
  let ?i = "fst (mt_next (room_rng (room w)))"
  let ?key = "(pkey w)(p := ?i)" and ?ps = "participants (room w)"
  have sorted: "oset_ok ?key (oset_insert ?key p ?ps)"
    using oset_ok_new_key [OF ok new] by (rule oset.invar_ins)
  have "length (oset_insert ?key p ?ps) \<le> Suc (length ?ps)"
    using oset.length_ins [OF oset_ok_new_key [OF ok new]] by auto
  also have "\<dots> \<le> 65535"
    using room unat_bound [of "max_participants (room w)"] by simp
  finally have count: "length (oset_insert ?key p ?ps) \<le> 65535" .
  have "info_ok (heap (joined env p w) q)" if "q \<in> insert p (set ?ps)" for q
  proof (cases "q = p")
    case True
    then show ?thesis by (simp add: joined_info_ok ip)
  next
    case False
    with that ok show ?thesis by (simp add: joined_simps room_ok_def)
  qed
  moreover have "q < next_ptr w" if "q \<in> insert p (set ?ps)" for q
    using that ok \<open>p < next_ptr w\<close> by (auto simp: room_ok_def)
  ultimately show ?thesis
    using sorted count ok set_oset_insert_subset [of ?key p ?ps]
    by (auto simp: room_ok_def participants_joined pkey_joined joined_simps mt_wf_next)
qed

lemma get_participant_ptr_joined:
  assumes "room_ok w" and "p \<notin> set (participants (room w))"
  shows "get_participant_ptr j (joined env p w) =
    (if j = fst (mt_next (room_rng (room w))) \<and> get_participant_ptr j w = None
     then Some p else get_participant_ptr j w)"
  using oset.lookup_ins [OF oset_ok_new_key [OF assms, of "fst (mt_next (room_rng (room w)))"], of j p]
    find_new_key [OF assms(2), of "fst (mt_next (room_rng (room w)))"]
  by (auto simp: get_participant_ptr_def participants_joined pkey_joined)

lemma participants_count_joined:
  assumes "room_ok w" and "p \<notin> set (participants (room w))"
  shows "participants_count (joined env p w) =
    (if get_participant_ptr (fst (mt_next (room_rng (room w)))) w = None
     then Suc (participants_count w) else participants_count w)"
  using oset.length_ins [OF oset_ok_new_key [OF assms, of "fst (mt_next (room_rng (room w)))"], of p]
    find_new_key [OF assms(2), of "fst (mt_next (room_rng (room w)))"]
  by (simp add: participants_count_def participants_joined)

text \<open>A join that throws leaves the set alone; the identifier has been drawn.\<close>

lemma join_throws:
  assumes "length (participants (room w)) < unat (max_participants (room w))"
    and "set_option_fails env (is_open (heap w p))"
  shows "join env p w = Throws (SystemError ''set_option'')
    (upd_session p (\<lambda>s. s\<lparr>m_id := fst (mt_next (room_rng (room w)))\<rparr>)
      (upd_room (\<lambda>r. r\<lparr>room_rng := snd (mt_next (room_rng (room w)))\<rparr>) w))"
  using assms by (simp add: join_def session_set_keep_alive_def case_prod_beta)

lemma join_overflow:
  assumes "length (participants (room w)) < unat (max_participants (room w))"
    and "\<not> set_option_fails env (is_open (heap w p))"
    and "512 < length (IP (heap w p))"
  shows "join env p w = Undefined OutOfBounds"
  using assms by (simp add: join_def session_set_keep_alive_def case_prod_beta write_at_def
      init_participant_info_def)

lemma join_Done_cases:
  assumes "join env p w = Done w'"
  obtains (full) "unat (max_participants (room w)) \<le> length (participants (room w))" "w' = disconnect p w"
  | (admitted) "length (participants (room w)) < unat (max_participants (room w))"
      "\<not> set_option_fails env (is_open (heap w p))" "length (IP (heap w p)) \<le> 512" "w' = joined env p w"
  using assms join_full [of w env p] join_admits [of w env p] join_throws [of w env p]
    join_overflow [of w env p]
  by (metis not_le_imp_less outcome.distinct(1) outcome.distinct(3) outcome.inject(1))

section \<open>Leaving\<close>

definition without :: "ptr \<Rightarrow> 'a world_scheme \<Rightarrow> 'a world_scheme" where
  "without p w =
     upd_room (\<lambda>r. r\<lparr>participants := oset_erase (pkey w) (m_id (heap w p)) (participants r)\<rparr>) w"

lemma without_simps [simp]:
  "heap (without p w) = heap w" "next_ptr (without p w) = next_ptr w" "emitted (without p w) = emitted w"
  "max_participants (room (without p w)) = max_participants (room w)"
  "room_rng (room (without p w)) = room_rng (room w)"
  "participants (room (without p w)) = oset_erase (pkey w) (m_id (heap w p)) (participants (room w))"
  "pkey (without p w) = pkey w"
  "world.more (without p w) = world.more w"
  by (simp_all add: without_def pkey_def fun_eq_iff)

lemma set_without:
  "room_ok w \<Longrightarrow> set (participants (room (without p w))) =
     {q \<in> set (participants (room w)). m_id (heap w q) \<noteq> m_id (heap w p)}"
  using oset.elems_era [OF room_ok_sorted] by (simp add: pkey_def)

lemma length_without_le: "length (participants (room (without p w))) \<le> length (participants (room w))"
proof -
  have "length (oset_erase key k xs) \<le> length xs" for key k and xs :: "ptr list"
    by (induction xs) auto
  then show ?thesis by simp
qed

lemma room_ok_without: "room_ok w \<Longrightarrow> room_ok (without p w)"
  using oset.invar_era [OF room_ok_sorted] length_without_le [of p w] set_without [of w p]
  by (auto simp: room_ok_def)

lemma room_ok_emit [simp]: "room_ok (emit cs sig w) = room_ok w"
proof
  assume "room_ok (emit cs sig w)"
  then show "room_ok w" by (rule room_ok_frame) (auto simp: emit_def)
next
  assume "room_ok w"
  then show "room_ok (emit cs sig w)" by (rule room_ok_frame) (auto simp: emit_def)
qed

lemma emit_simps [simp]:
  "heap (emit cs sig w) = heap w" "next_ptr (emit cs sig w) = next_ptr w" "room (emit cs sig w) = room w"
  "emitted (emit cs sig w) = emitted w @ map (\<lambda>c. (c, sig)) cs"
  "world.more (emit cs sig w) = world.more w"
  by (simp_all add: emit_def)

lemma pkey_emit [simp]: "pkey (emit cs sig w) = pkey w"
  by (simp add: pkey_def fun_eq_iff)

text \<open>Both ways to leave: the participant is erased and those who remain are told.\<close>

definition left_room :: "asio_env \<Rightarrow> ptr \<Rightarrow> 'a world_scheme \<Rightarrow> 'a world_scheme" where
  "left_room env p w =
     post_to (\<lambda>q. q \<in> set (participants (room w)) \<and> m_id (heap w q) \<noteq> m_id (heap w p))
       (participant_leave_frame env (m_id (heap w p))) (without p w)"

lemma disconnect_participant_ptr_Some:
  "room_ok w \<Longrightarrow> disconnect_participant_ptr env (Some p) w = Done (left_room env p w)"
  using room_ok_without [of w p] set_without [of w p]
  by (simp add: disconnect_participant_ptr_def participant_leave_message_eq left_room_def
      deliver_to_all_eq flip: without_def)

lemma leave_eq:
  assumes "room_ok w"
  shows "leave env p w =
    Done (left_room env p (emit (slots_participant_leave (room w)) (Sig_participant_leave (m_id (heap w p))) w))"
proof -
  let ?w1 = "emit (slots_participant_leave (room w)) (Sig_participant_leave (m_id (heap w p))) w"
  have ok1: "room_ok ?w1" using assms by simp
  then show ?thesis
    using room_ok_without [OF ok1, of p] set_without [OF ok1, of p]
    by (simp add: leave_def participant_leave_message_eq left_room_def deliver_to_all_eq Let_def
        flip: without_def)
qed

lemma room_ok_left_room: "room_ok w \<Longrightarrow> room_ok (left_room env p w)"
  by (simp add: left_room_def room_ok_without)

lemma set_left_room:
  "room_ok w \<Longrightarrow> set (participants (room (left_room env p w))) =
     {q \<in> set (participants (room w)). m_id (heap w q) \<noteq> m_id (heap w p)}"
  by (simp add: left_room_def set_without flip: without_simps(6))

section \<open>Introducing a newcomer\<close>

text \<open>What a \<open>ST_PARTICIPANT_NEW\<close> tells about a participant.\<close>

definition describes :: "'a world_scheme \<Rightarrow> ptr \<Rightarrow> ST_PARTICIPANT_NEW \<Rightarrow> bool" where
  "describes w p s \<longleftrightarrow>
     wf_participant_new s \<and> pn_participant_id s = m_id (heap w p) \<and>
     unat (pn_descriptor_buffersize s) = length (m_descriptor (heap w p)) \<and>
     take (length (m_descriptor (heap w p))) (pn_descriptor_buffer s) = m_descriptor (heap w p)"

lemma describes_wf: "describes w p s \<Longrightarrow> wf_participant_new s"
  by (simp add: describes_def)

lemma describes_post_to [simp]: "describes (post_to P b w) = describes w"
  by (auto simp: describes_def fun_eq_iff)

lemma fill_participant_new_ok:
  assumes "length (m_descriptor (heap w p)) \<le> 20480" and "wf_participant_new newp"
  shows "\<exists>s. fill_participant_new (m_id (heap w p)) (m_descriptor (heap w p)) newp = Inr s \<and> describes w p s"
  using assms
  by (simp add: fill_participant_new_def Let_def read_at_def write_at_0 unat_of_nat describes_def
      wf_participant_new_def)

lemma fill_participant_new_overflow:
  assumes "20480 < length d" and "length d < 4294967296" and "wf_participant_new newp"
  shows "fill_participant_new i d newp = Inl OutOfBounds"
  using assms
  by (simp add: fill_participant_new_def Let_def read_at_def write_at_def unat_of_nat wf_participant_new_def)

lemma collect_players_ok:
  assumes "wf_participant_new newp"
    and "\<forall>p \<in> set ps. m_id (heap w p) \<noteq> i \<longrightarrow> length (m_descriptor (heap w p)) \<le> 20480"
  shows "\<exists>l. collect_players w i newp ps = Inr l \<and>
    list_all2 (describes w) (filter (\<lambda>p. m_id (heap w p) \<noteq> i) ps) l"
  using assms
proof (induction ps arbitrary: newp)
  case Nil
  then show ?case by simp
next
  case (Cons p ps)
  show ?case
  proof (cases "m_id (heap w p) = i")
    case True
    with Cons show ?thesis by simp
  next
    case False
    then obtain s where s: "fill_participant_new (m_id (heap w p)) (m_descriptor (heap w p)) newp = Inr s"
      "describes w p s"
      using fill_participant_new_ok [of w p newp] Cons.prems by auto
    then obtain l where "collect_players w i s ps = Inr l"
      "list_all2 (describes w) (filter (\<lambda>p. m_id (heap w p) \<noteq> i) ps) l"
      using Cons.IH [of s] Cons.prems describes_wf by auto
    with False s show ?thesis by (simp add: outcome_simps)
  qed
qed

definition post_all :: "ptr \<Rightarrow> byte list list \<Rightarrow> 'a world_scheme \<Rightarrow> 'a world_scheme" where
  "post_all p msgs = upd_session p (\<lambda>s. s\<lparr>posted := posted s @ msgs\<rparr>)"

lemma post_all_Nil [simp]: "post_all p [] w = w"
  by (simp add: post_all_def upd_session_def)

lemma post_all_Cons: "post_all p msgs (deliver_byte p b w) = post_all p (b # msgs) w"
  by (simp add: post_all_def deliver_byte_def upd_session_def)

lemma post_all_simps [simp]:
  "heap (post_all p msgs w) = (heap w)(p := (heap w p)\<lparr>posted := posted (heap w p) @ msgs\<rparr>)"
  "next_ptr (post_all p msgs w) = next_ptr w"
  "room (post_all p msgs w) = room w"
  "emitted (post_all p msgs w) = emitted w"
  "world.more (post_all p msgs w) = world.more w"
  by (simp_all add: post_all_def)

lemma room_ok_post_all: "room_ok w \<Longrightarrow> room_ok (post_all p msgs w)"
  by (rule room_ok_frame) auto

lemma send_players:
  "\<forall>s \<in> set l. wf_participant_new s \<Longrightarrow>
   for_each (\<lambda>newp v. lift_mem (participant_new_message env newp) (\<lambda>msg. Done (deliver_byte p msg v))) l w =
     Done (post_all p (map (participant_new_frame env) l) w)"
  by (induction l arbitrary: w) (simp_all add: participant_new_message_eq post_all_Cons)

lemma send_list_of_players_ok:
  assumes "\<forall>q \<in> set (participants (room w)). length (m_descriptor (heap w q)) \<le> 20480"
  shows "\<exists>l. send_list_of_players env p w = Done (post_all p (map (participant_new_frame env) l) w) \<and>
    list_all2 (describes w)
      (filter (\<lambda>q. m_id (heap w q) \<noteq> m_id (heap w p)) (participants (room w))) l"
proof -
  obtain l where l: "collect_players w (m_id (heap w p)) (init_participant_new (stale_memory env))
        (participants (room w)) = Inr l"
    and all: "list_all2 (describes w)
      (filter (\<lambda>q. m_id (heap w q) \<noteq> m_id (heap w p)) (participants (room w))) l"
    using collect_players_ok [of "init_participant_new (stale_memory env)" "participants (room w)" w
        "m_id (heap w p)"] assms by auto
  have "\<forall>s \<in> set l. wf_participant_new s"
    using all describes_wf by (fastforce simp: in_set_conv_nth list_all2_conv_all_nth)
  then show ?thesis using l all by (auto simp: send_list_of_players_def send_players)
qed

lemma new_paticipant_to_all_ok:
  assumes "room_ok w" and "get_participant_ptr i w = Some p"
    and "length (m_descriptor (heap w p)) \<le> 20480"
  shows "\<exists>s. new_paticipant_to_all env i w =
      Done (post_to (\<lambda>q. q \<in> set (participants (room w)) \<and> m_id (heap w q) \<noteq> i)
             (participant_new_frame env s) w) \<and> describes w p s"
proof -
  have "m_id (heap w p) = i"
    using assms(1,2) by (simp add: get_participant_ptr_iff)
  then obtain s where "fill_participant_new i (m_descriptor (heap w p))
      (init_participant_new (stale_memory env)) = Inr s" "describes w p s"
    using fill_participant_new_ok [of w p "init_participant_new (stale_memory env)"] assms(3) by auto
  then show ?thesis
    using assms(1,2) describes_wf [of w p s]
    by (intro exI [of _ s]) (simp add: new_paticipant_to_all_def participant_new_message_eq deliver_to_all_except_to_one_eq)
qed

lemma init_new_participant_ok:
  assumes ok: "room_ok w" and p: "get_participant_ptr i w = Some p"
    and small: "\<forall>q \<in> set (participants (room w)). length (m_descriptor (heap w q)) \<le> 20480"
  shows "\<exists>s l. init_new_participant env i w =
      Done (post_all p (map (participant_new_frame env) l)
             (post_to (\<lambda>q. q \<in> set (participants (room w)) \<and> q \<noteq> p) (participant_new_frame env s) w)) \<and>
      describes w p s \<and>
      list_all2 (describes w) (filter (\<lambda>q. q \<noteq> p) (participants (room w))) l"
proof -
  have here: "p \<in> set (participants (room w))" "m_id (heap w p) = i"
    using ok p by (simp_all add: get_participant_ptr_iff)
  have same: "m_id (heap w q) \<noteq> i \<longleftrightarrow> q \<noteq> p" if "q \<in> set (participants (room w))" for q
    using get_participant_ptr_self [OF ok that] p here(2) by (metis option.inject)
  obtain s where s: "new_paticipant_to_all env i w =
      Done (post_to (\<lambda>q. q \<in> set (participants (room w)) \<and> m_id (heap w q) \<noteq> i)
             (participant_new_frame env s) w)" "describes w p s"
    using new_paticipant_to_all_ok [OF ok p, of env] small here by auto
  have pred: "(\<lambda>q. q \<in> set (participants (room w)) \<and> m_id (heap w q) \<noteq> i) =
      (\<lambda>q. q \<in> set (participants (room w)) \<and> q \<noteq> p)"
    using same by auto
  let ?w = "post_to (\<lambda>q. q \<in> set (participants (room w)) \<and> q \<noteq> p) (participant_new_frame env s) w"
  have others: "filter (\<lambda>q. m_id (heap ?w q) \<noteq> m_id (heap ?w p)) (participants (room ?w)) =
      filter (\<lambda>q. q \<noteq> p) (participants (room w))"
    using same here by (intro filter_cong) auto
  have "\<forall>q \<in> set (participants (room ?w)). length (m_descriptor (heap ?w q)) \<le> 20480"
    using small by auto
  then obtain l where "send_list_of_players env p ?w = Done (post_all p (map (participant_new_frame env) l) ?w)"
    "list_all2 (describes w) (filter (\<lambda>q. q \<noteq> p) (participants (room w))) l"
    using send_list_of_players_ok [of ?w env p] unfolding others describes_post_to by blast
  then show ?thesis
    using s p pred by (auto simp: init_new_participant_def)
qed

lemma init_new_participant_unknown:
  "get_participant_ptr i w = None \<Longrightarrow> init_new_participant env i w = Undefined NullDeref"
  by (simp add: init_new_participant_def new_paticipant_to_all_def)

text \<open>Whenever it ends normally, only messages were posted.\<close>

lemma for_each_deliver_room_ok:
  assumes "for_each (\<lambda>newp v. lift_mem (participant_new_message env newp) (\<lambda>msg. Done (deliver_byte p msg v))) l w = Done w'"
    and "room_ok w"
  shows "room_ok w'"
  using assms by (rule for_each_inv) (auto simp: outcome_simps room_ok_deliver_byte)

end
