(* ===== verification/Server_Correct.thy ===== *)
theory Server_Correct
  imports Nr_Server Room_Correct
begin

text \<open>
  The server as an event system: the invariant that every handler keeps, whatever order reads,
  writes, accepts and posted handlers complete in, and what one event does in each case.
\<close>

section \<open>The invariant\<close>

definition session_ok :: "ptr list \<Rightarrow> handshake_session \<Rightarrow> ptr \<Rightarrow> ptr \<Rightarrow> bool" where
  "session_ok ps s p n \<longleftrightarrow>
     deque_write_buffer s = [] \<and>
     length (reading s) \<le> 1 \<and>
     (Handshake_read \<in> set (reading s) \<longrightarrow> p \<notin> set ps) \<and>
     (reading s \<noteq> [] \<or> writing s \<noteq> [] \<or> posted s \<noteq> [] \<longrightarrow> p < n)"

definition server_inv :: "'a world_scheme \<Rightarrow> bool" where
  "server_inv w \<longleftrightarrow>
     room_ok w \<and> (\<forall>p. session_ok (participants (room w)) (heap w p) p (next_ptr w))"

lemma server_inv_room_ok: "server_inv w \<Longrightarrow> room_ok w"
  by (simp add: server_inv_def)

lemma server_inv_queue: "server_inv w \<Longrightarrow> deque_write_buffer (heap w p) = []"
  by (simp add: server_inv_def session_ok_def)

lemma server_inv_reading:
  assumes "server_inv w" and "l \<in> set (reading (heap w p))"
  shows "reading (heap w p) = [l]" and "p < next_ptr w"
    and "l = Handshake_read \<Longrightarrow> p \<notin> set (participants (room w))"
proof -
  have ok: "session_ok (participants (room w)) (heap w p) p (next_ptr w)"
    using assms(1) by (simp add: server_inv_def)
  then show "reading (heap w p) = [l]" and "p < next_ptr w"
    and "l = Handshake_read \<Longrightarrow> p \<notin> set (participants (room w))"
    using assms(2) by (cases "reading (heap w p)"; auto simp: session_ok_def)+
qed

lemma server_inv_posted: "server_inv w \<Longrightarrow> posted (heap w p) \<noteq> [] \<Longrightarrow> p < next_ptr w"
  by (simp add: server_inv_def session_ok_def)

lemma server_inv_writing: "server_inv w \<Longrightarrow> writing (heap w p) \<noteq> [] \<Longrightarrow> p < next_ptr w"
  by (simp add: server_inv_def session_ok_def)

lemma server_inv_busy: "server_inv w \<Longrightarrow> reading (heap w p) \<noteq> [] \<Longrightarrow> p < next_ptr w"
  by (simp add: server_inv_def session_ok_def)

section \<open>Quiet changes\<close>

text \<open>
  A quiet change starts no read or write, lets nobody into the room, posts only to sessions
  that exist, and touches neither the limit of the room nor what the server keeps outside it. All
  the operations of the room but \<open>join\<close> are quiet.
\<close>

definition quiet :: "'a world_scheme \<Rightarrow> 'a world_scheme \<Rightarrow> bool" where
  "quiet w w' \<longleftrightarrow>
     next_ptr w' = next_ptr w \<and>
     world.more w' = world.more w \<and>
     max_participants (room w') = max_participants (room w) \<and>
     set (participants (room w')) \<subseteq> set (participants (room w)) \<and>
     (\<forall>q. reading (heap w' q) = reading (heap w q) \<and> writing (heap w' q) = writing (heap w q) \<and>
          deque_write_buffer (heap w' q) = deque_write_buffer (heap w q) \<and>
          (posted (heap w' q) \<noteq> [] \<longrightarrow> posted (heap w q) \<noteq> [] \<or> q < next_ptr w))"

lemma quiet_refl [simp]: "quiet w w"
  by (simp add: quiet_def)

lemma quiet_trans: "quiet u v \<Longrightarrow> quiet v w \<Longrightarrow> quiet u w"
  unfolding quiet_def by (metis subset_trans)

lemma quiet_server_inv:
  assumes "server_inv w" and "quiet w w'" and "room_ok w'"
  shows "server_inv w'"
  using assms unfolding server_inv_def session_ok_def quiet_def by (metis subsetD)

lemma room_ok_less: "room_ok w \<Longrightarrow> p \<in> set (participants (room w)) \<Longrightarrow> p < next_ptr w"
  by (simp add: room_ok_def)

lemma quiet_post_to: "(\<And>q. P q \<Longrightarrow> q < next_ptr w) \<Longrightarrow> quiet w (post_to P b w)"
  by (auto simp: quiet_def)

lemma quiet_deliver_byte: "p < next_ptr w \<Longrightarrow> quiet w (deliver_byte p b w)"
  by (auto simp: quiet_def)

lemma quiet_disconnect: "quiet w (disconnect p w)"
  by (auto simp: quiet_def)

lemma quiet_without: "quiet w (without p w)"
  using set_oset_erase_subset by (fastforce simp: quiet_def)

lemma quiet_emit: "quiet w (emit cs sig w)"
  by (simp add: quiet_def)

lemma quiet_left_room: "room_ok w \<Longrightarrow> quiet w (left_room env p w)"
  unfolding left_room_def
  by (rule quiet_trans [OF quiet_without]) (rule quiet_post_to, simp add: room_ok_less)

lemma leave_keeps:
  "room_ok w \<Longrightarrow> leave env p w = Done w' \<Longrightarrow> quiet w w' \<and> room_ok w'"
  using quiet_trans [OF quiet_emit quiet_left_room] by (auto simp: leave_eq room_ok_left_room)

lemma disconnect_participant_keeps:
  "room_ok w \<Longrightarrow> disconnect_participant env i w = Done w' \<Longrightarrow> quiet w w' \<and> room_ok w'"
  by (cases "get_participant_ptr i w")
    (auto simp: disconnect_participant_def disconnect_participant_ptr_Some room_ok_left_room
      quiet_left_room disconnect_participant_ptr_def [of env None])

lemma quiet_except:
  "room_ok w \<Longrightarrow> quiet w (deliver_to_all_except_to_one b x w)"
  by (auto simp: deliver_to_all_except_to_one_eq intro!: quiet_post_to room_ok_less)

lemma room_ok_except: "room_ok w \<Longrightarrow> room_ok (deliver_to_all_except_to_one b x w)"
  by (simp add: deliver_to_all_except_to_one_eq)

lemma new_paticipant_to_all_keeps:
  "room_ok w \<Longrightarrow> new_paticipant_to_all env i w = Done w' \<Longrightarrow> quiet w w' \<and> room_ok w'"
  by (auto simp: new_paticipant_to_all_def outcome_simps quiet_except room_ok_except
      split: option.splits)

lemma send_list_of_players_keeps:
  assumes "room_ok w" and "p < next_ptr w" and "send_list_of_players env p w = Done w'"
  shows "quiet w w' \<and> room_ok w'"
proof -
  obtain l where "for_each (\<lambda>newp v. lift_mem (participant_new_message env newp)
      (\<lambda>msg. Done (deliver_byte p msg v))) l w = Done w'"
    using assms(3) by (auto simp: send_list_of_players_def outcome_simps)
  then show ?thesis
  proof (rule for_each_inv [where P = "\<lambda>v. quiet w v \<and> room_ok v"])
    show "quiet w w \<and> room_ok w" using assms(1) by simp
  next
    fix s v v'
    assume v: "quiet w v \<and> room_ok v"
      and step: "lift_mem (participant_new_message env s) (\<lambda>msg. Done (deliver_byte p msg v)) = Done v'"
    then obtain msg where "v' = deliver_byte p msg v" by (auto simp: outcome_simps)
    moreover have "p < next_ptr v" using v assms(2) by (simp add: quiet_def)
    ultimately show "quiet w v' \<and> room_ok v'"
      using v quiet_trans [OF _ quiet_deliver_byte] by (auto simp: room_ok_deliver_byte)
  qed
qed

lemma init_new_participant_keeps:
  assumes ok: "room_ok w" and "init_new_participant env i w = Done w'"
  shows "quiet w w' \<and> room_ok w'"
proof -
  from assms(2) obtain p v where p: "get_participant_ptr i w = Some p"
    and v: "new_paticipant_to_all env i w = Done v" "send_list_of_players env p v = Done w'"
    by (auto simp: init_new_participant_def Let_def outcome_simps split: option.splits)
  have keeps: "quiet w v \<and> room_ok v" by (rule new_paticipant_to_all_keeps [OF ok v(1)])
  have "p < next_ptr v"
    using ok p keeps by (auto simp: get_participant_ptr_iff room_ok_def quiet_def)
  then show ?thesis
    using send_list_of_players_keeps [OF _ _ v(2)] keeps quiet_trans by blast
qed

text \<open>Changing only the descriptor is quiet and keeps the room.\<close>

lemma quiet_descriptor: "quiet w (upd_session p (\<lambda>s. s\<lparr>m_descriptor := f s\<rparr>) w)"
  by (auto simp: quiet_def)

lemma room_ok_descriptor: "room_ok w \<Longrightarrow> room_ok (upd_session p (\<lambda>s. s\<lparr>m_descriptor := f s\<rparr>) w)"
  by (rule room_ok_frame) auto

lemma on_participant_join_ack_keeps:
  assumes "room_ok w" and "on_participant_join_ack env p payload w = Done w'"
  shows "quiet w w' \<and> room_ok w'"
proof -
  let ?w1 = "upd_session p (\<lambda>s. s\<lparr>m_descriptor := []\<rparr>) w"
  from assms(2) obtain d where step:
    "init_new_participant env (pja_participant_id (dec_participant_join_ack (byte_order env) payload))
       (upd_session p (\<lambda>s. s\<lparr>m_descriptor := m_descriptor s @ d\<rparr>) ?w1) = Done w'"
    (is "init_new_participant env ?i ?w2 = _")
    by (auto simp: on_participant_join_ack_def Let_def outcome_simps)
  have ok: "room_ok ?w2" by (intro room_ok_descriptor assms(1))
  have "quiet w ?w2" by (rule quiet_trans [OF quiet_descriptor quiet_descriptor])
  then show ?thesis
    using init_new_participant_keeps [OF ok step] quiet_trans [of w ?w2 w'] by simp
qed

lemma session_dispatch_keeps:
  assumes "room_ok w" and "session_dispatch env p m w = Done w'"
  shows "quiet w w' \<and> room_ok w'"
  using assms
  by (auto simp: session_dispatch_def quiet_except room_ok_except quiet_disconnect room_ok_disconnect
      split: option.splits if_splits
      dest: on_participant_join_ack_keeps [OF assms(1)] disconnect_participant_keeps [OF assms(1)])

section \<open>Changes of one session\<close>

lemma session_ok_mono: "session_ok ps s p n \<Longrightarrow> n \<le> n' \<Longrightarrow> session_ok ps s p n'"
  by (auto simp: session_ok_def)

lemma server_inv_one:
  assumes inv: "server_inv w"
    and ps: "participants (room w') = participants (room w)"
    and rng: "room_rng (room w') = room_rng (room w)"
    and n: "next_ptr w \<le> next_ptr w'"
    and same: "\<And>q. q \<noteq> p \<Longrightarrow> heap w' q = heap w q"
    and known: "p \<in> set (participants (room w)) \<Longrightarrow>
      m_id (heap w' p) = m_id (heap w p) \<and> info_ptr (heap w' p) = info_ptr (heap w p)"
    and here: "session_ok (participants (room w)) (heap w' p) p (next_ptr w')"
  shows "server_inv w'"
proof -
  have "room_ok w'"
    by (rule room_ok_frame [OF server_inv_room_ok [OF inv] ps rng n]) (metis known same)
  moreover have "session_ok (participants (room w')) (heap w' q) q (next_ptr w')" for q
    using inv here n session_ok_mono [OF _ n] unfolding ps server_inv_def by (cases "q = p") (auto simp: same)
  ultimately show ?thesis by (simp add: server_inv_def)
qed

lemma server_inv_session: "server_inv w \<Longrightarrow> session_ok (participants (room w)) (heap w p) p (next_ptr w)"
  by (simp add: server_inv_def)

lemma server_inv_do_read_byte:
  "server_inv w \<Longrightarrow> reading (heap w p) = [] \<Longrightarrow> p < next_ptr w \<Longrightarrow> server_inv (do_read_byte p w)"
  by (rule server_inv_one [where p = p])
    (auto simp: do_read_byte_def session_ok_def dest: server_inv_session [of w p])

lemma server_inv_do_read_handshake:
  "server_inv w \<Longrightarrow> reading (heap w p) = [] \<Longrightarrow> p < next_ptr w \<Longrightarrow>
   p \<notin> set (participants (room w)) \<Longrightarrow> server_inv (do_read_handshake p w)"
  by (rule server_inv_one [where p = p])
    (auto simp: do_read_handshake_def session_ok_def dest: server_inv_session [of w p])

lemma server_inv_deliver_byte:
  "server_inv w \<Longrightarrow> p < next_ptr w \<Longrightarrow> server_inv (deliver_byte p b w)"
  using quiet_server_inv quiet_deliver_byte room_ok_deliver_byte server_inv_room_ok by blast

lemma server_inv_disconnect: "server_inv w \<Longrightarrow> server_inv (disconnect p w)"
  using quiet_server_inv quiet_disconnect room_ok_disconnect server_inv_room_ok by blast

lemma server_inv_descriptor:
  "server_inv w \<Longrightarrow> server_inv (upd_session p (\<lambda>s. s\<lparr>m_descriptor := f s\<rparr>) w)"
  using quiet_server_inv [OF _ quiet_descriptor] room_ok_descriptor server_inv_room_ok by blast

lemma server_inv_read_over:
  "server_inv w \<Longrightarrow> server_inv (read_over p l w)"
  by (rule server_inv_one [where p = p])
    (auto simp: read_over_def session_ok_def length_remove1 dest: server_inv_session [of w p] notin_set_remove1
      intro: server_inv_busy)

lemma read_over_reading:
  "server_inv w \<Longrightarrow> l \<in> set (reading (heap w p)) \<Longrightarrow> reading (heap (read_over p l w) p) = []"
  by (simp add: read_over_def server_inv_reading(1))

lemma read_over_frame [simp]:
  "room (read_over p l w) = room w" "next_ptr (read_over p l w) = next_ptr w"
  "emitted (read_over p l w) = emitted w"
  by (simp_all add: read_over_def)

lemma server_inv_write_over: "server_inv w \<Longrightarrow> server_inv (write_over p i w)"
  by (rule server_inv_one [where p = p])
    (auto simp: write_over_def session_ok_def dest: server_inv_session [of w p] intro: server_inv_writing)

lemma server_inv_join:
  assumes inv: "server_inv w" and new: "p \<notin> set (participants (room w))" and less: "p < next_ptr w"
    and no_hs: "Handshake_read \<notin> set (reading (heap w p))"
    and step: "join env p w = Done w'"
  shows "server_inv w'"
  using step
proof (cases rule: join_Done_cases)
  case full
  then show ?thesis using inv by (simp add: server_inv_disconnect)
next
  case admitted
  have "room_ok w'"
    using room_ok_joined [OF server_inv_room_ok [OF inv] new less] admitted by simp
  moreover have "session_ok (participants (room w')) (heap w' q) q (next_ptr w')" for q
  proof -
    have "set (participants (room w')) \<subseteq> insert p (set (participants (room w)))"
      unfolding admitted(4) participants_joined by (rule set_oset_insert_subset)
    then show ?thesis
      using server_inv_session [OF inv, of q] no_hs
      by (auto simp: session_ok_def admitted(4) joined_simps)
  qed
  ultimately show ?thesis by (simp add: server_inv_def)
qed

section \<open>Every handler keeps the invariant\<close>

lemma write_completed_eq: "server_inv w \<Longrightarrow> write_completed p w = Done w"
  by (simp add: write_completed_def server_inv_queue)

lemma run_posted_eq:
  assumes "server_inv w" and "posted (heap w p) = b # rest"
  shows "run_posted p w =
    (if alive p w
     then Done (upd_session p (\<lambda>s. s\<lparr>posted := rest, deque_write_buffer := [], writing := writing s @ [b]\<rparr>) w)
     else Undefined UseAfterFree)"
  using assms(2) server_inv_queue [OF assms(1), of p]
  by (simp add: run_posted_def deliver_posted_def do_write_byte_def upd_session_def)

lemma run_posted_keeps:
  assumes inv: "server_inv w" and "posted (heap w p) \<noteq> []" and step: "run_posted p w = Done w'"
  shows "server_inv w'"
proof -
  obtain b rest where b: "posted (heap w p) = b # rest" using assms(2) by (cases "posted (heap w p)") auto
  have w': "w' = upd_session p (\<lambda>s. s\<lparr>posted := rest, deque_write_buffer := [], writing := writing s @ [b]\<rparr>) w"
    using step unfolding run_posted_eq [OF inv b] by (simp split: if_splits)
  show ?thesis unfolding w'
    by (rule server_inv_one [OF inv, where p = p])
      (use server_inv_session [OF inv, of p] server_inv_posted [OF inv assms(2)] in
        \<open>auto simp: session_ok_def\<close>)
qed

lemma check_handshake_hello_ack_keeps:
  assumes "server_inv w" and "p < next_ptr w" and "check_handshake_hello_ack env p payload w = Done w'"
  shows "server_inv w' \<and> reading (heap w' p) = reading (heap w p) \<and> next_ptr w' = next_ptr w \<and>
    participants (room w') = participants (room w)"
  using assms
  by (auto simp: check_handshake_hello_ack_def Let_def outcome_simps
      intro!: server_inv_deliver_byte server_inv_descriptor)

lemma check_handshake_credentials_ack_keeps:
  assumes inv: "server_inv w" and less: "p < next_ptr w" and new: "p \<notin> set (participants (room w))"
    and idle: "reading (heap w p) = []"
    and step: "check_handshake_credentials_ack env p msg w = Done w'"
  shows "server_inv w'"
proof -
  from step obtain r w3 m where w3: "join env p (do_read_byte p (if r then disconnect p w else w)) = Done w3"
    and w': "w' = deliver_byte p m w3"
    by (auto simp: check_handshake_credentials_ack_def Let_def outcome_simps)
  let ?w1 = "if r then disconnect p w else w"
  have "server_inv ?w1" and "reading (heap ?w1 p) = []" and "p < next_ptr ?w1"
    and "p \<notin> set (participants (room ?w1))"
    using inv idle less new by (auto simp: server_inv_disconnect)
  then have "server_inv (do_read_byte p ?w1)" and "p \<notin> set (participants (room (do_read_byte p ?w1)))"
    and "p < next_ptr (do_read_byte p ?w1)"
    and "Handshake_read \<notin> set (reading (heap (do_read_byte p ?w1) p))"
    using server_inv_do_read_byte [of ?w1 p] by (simp_all add: do_read_byte_def)
  then have "server_inv w3" using w3 by (rule server_inv_join)
  moreover have "p < next_ptr w3"
    using w3 \<open>p < next_ptr (do_read_byte p ?w1)\<close>
    by (cases rule: join_Done_cases) (auto simp: joined_simps)
  ultimately show ?thesis by (simp add: w' server_inv_deliver_byte)
qed

lemma handshake_frame_cases:
  assumes "handshake_frame env p bs w = Done w'"
  obtains (hello) payload w1 where "check_handshake_hello_ack env p payload w = Done w1"
        "w' = do_read_handshake p w1"
    | (creds) msg where "check_handshake_credentials_ack env p msg w = Done w'"
    | (other) "w' = do_read_handshake p w"
proof -
  from assms obtain m where m:
    "(case xr_get_header (byte_order env) m of
        None \<Rightarrow> Undefined NullDeref
      | Some header \<Rightarrow>
          (case xr_payload m of
             None \<Rightarrow> Undefined NullDeref
           | Some payload \<Rightarrow>
               if xh_head header = head_code HANDSHAKE_HELLO_ACK then
                 lift_mem (printed_frame bs (show_handshake_hello_ack (byte_order env) payload))
                   (\<lambda>_. and_then (check_handshake_hello_ack env p payload w) (\<lambda>w1. Done (do_read_handshake p w1)))
               else if xh_head header = head_code HANDSHAKE_CREDENTIALS_ACK then
                 lift_mem (printed_frame bs (show_handshake_credentials_ack (byte_order env) payload))
                   (\<lambda>_. check_handshake_credentials_ack env p (dec_handshake_credentials_ack (byte_order env) payload) w)
               else Done (do_read_handshake p w))) = Done w'"
    unfolding handshake_frame_def lift_mem_eq_Done by blast
  then obtain h payload where "xr_get_header (byte_order env) m = Some h" "xr_payload m = Some payload"
    by (auto split: option.splits)
  with m show thesis
    by (cases "xh_head h = head_code HANDSHAKE_HELLO_ACK"; cases "xh_head h = head_code HANDSHAKE_CREDENTIALS_ACK")
      (use that in \<open>auto simp: outcome_simps\<close>)
qed

lemma handshake_frame_keeps:
  assumes inv: "server_inv w" and less: "p < next_ptr w" and new: "p \<notin> set (participants (room w))"
    and idle: "reading (heap w p) = []" and step: "handshake_frame env p bs w = Done w'"
  shows "server_inv w'"
proof -
  from step consider (hello) payload w1 where "check_handshake_hello_ack env p payload w = Done w1"
        "w' = do_read_handshake p w1"
    | (creds) msg where "check_handshake_credentials_ack env p msg w = Done w'"
    | (other) "w' = do_read_handshake p w"
    by (rule handshake_frame_cases)
  then show ?thesis
  proof cases
    case hello
    then show ?thesis
      using check_handshake_hello_ack_keeps [OF inv less hello(1)] less new idle
      by (auto intro!: server_inv_do_read_handshake)
  next
    case creds
    then show ?thesis by (rule check_handshake_credentials_ack_keeps [OF inv less new idle])
  next
    case other
    then show ?thesis using inv less new idle by (simp add: server_inv_do_read_handshake)
  qed
qed

lemma session_frame_keeps:
  assumes inv: "server_inv w" and less: "p < next_ptr w"
    and idle: "reading (heap w p) = []" and step: "session_frame env p bs w = Done w'"
  shows "server_inv w'"
proof -
  from step obtain m v where v: "session_dispatch env p m w = Done v" and w': "w' = do_read_byte p v"
    by (auto simp: session_frame_def outcome_simps)
  have keeps: "quiet w v" "room_ok v"
    using session_dispatch_keeps [OF server_inv_room_ok [OF inv] v] by auto
  then have "server_inv v" by (rule quiet_server_inv [OF inv])
  moreover have "reading (heap v p) = []" "p < next_ptr v"
    using keeps(1) idle less by (auto simp: quiet_def)
  ultimately show ?thesis by (simp add: w' server_inv_do_read_byte)
qed

lemma leave_keeps_inv: "server_inv w \<Longrightarrow> leave env p w = Done w' \<Longrightarrow> server_inv w'"
  using leave_keeps quiet_server_inv server_inv_room_ok by blast

lemma pkey_heap: "heap w = heap w' \<Longrightarrow> pkey w = pkey w'"
  by (simp add: pkey_def fun_eq_iff)

lemma server_inv_accepting [simp]: "server_inv (w\<lparr>accepting := b\<rparr>) = server_inv w"
  using pkey_heap [of "w\<lparr>accepting := b\<rparr>" w] by (simp add: server_inv_def room_ok_def)

lemma server_inv_do_accept [simp]: "server_inv (do_accept w) = server_inv w"
  using pkey_heap [of "do_accept w" w] by (simp add: do_accept_def server_inv_def room_ok_def)

lemma on_accept_keeps:
  assumes inv: "server_inv w" and step: "on_accept env remote w = Done w'"
  shows "server_inv w'"
proof -
  let ?p = "next_ptr w"
  from step obtain ip v where ip: "remote = Some ip" and w': "w' = do_accept v"
    and v: "do_start_handshake env ?p (upd_session ?p (\<lambda>s. s\<lparr>IP := ip\<rparr>)
      (w\<lparr>heap := (heap w)(?p := new_handshake_session False (srv_service_id w) (srv_service_name w)),
         next_ptr := Suc ?p\<rparr>)) = Done v" (is "do_start_handshake env ?p ?w1 = _")
    by (auto simp: on_accept_def handshake_start_def Let_def outcome_simps split: option.splits)
  have out: "?p \<notin> set (participants (room w))"
    using room_ok_less [OF server_inv_room_ok [OF inv]] by blast
  have "server_inv ?w1"
    by (rule server_inv_one [OF inv, where p = ?p])
      (use out in \<open>auto simp: session_ok_def new_handshake_session_def\<close>)
  then have "server_inv (do_read_handshake ?p ?w1)"
    using out by (intro server_inv_do_read_handshake) (auto simp: new_handshake_session_def)
  moreover from v obtain m where "v = deliver_byte ?p m (do_read_handshake ?p ?w1)"
    by (auto simp: do_start_handshake_def Let_def outcome_simps)
  moreover have "?p < next_ptr (do_read_handshake ?p ?w1)" by (simp add: do_read_handshake_def)
  ultimately show ?thesis by (simp add: w' server_inv_deliver_byte)
qed

text \<open>A call that leaves the set, the engine, the heap and the next address alone keeps the invariant.\<close>

lemma server_inv_frame:
  assumes "server_inv w" and "heap w' = heap w" and "next_ptr w' = next_ptr w"
    and "participants (room w') = participants (room w)" and "room_rng (room w') = room_rng (room w)"
  shows "server_inv w'"
  by (rule server_inv_one [OF assms(1)]) (use assms server_inv_session [OF assms(1)] in auto)

lemma server_inv_deaf:
  assumes "server_inv w"
  shows "server_inv (upd_session p (\<lambda>s. s\<lparr>deaf := d\<rparr>) w)"
  by (rule server_inv_one [OF assms, where p = p])
    (use server_inv_session [OF assms, of p] in \<open>auto simp: session_ok_def\<close>)

lemma server_inv_set_participant_deaf: "server_inv w \<Longrightarrow> server_inv (snd (set_participant_deaf i d w))"
  by (auto simp: set_participant_deaf_def server_inv_deaf split: option.split)

lemma server_inv_disconnect_all: "server_inv w \<Longrightarrow> server_inv (disconnect_all_participants w)"
proof -
  have "server_inv (fold disconnect ps w)" if "server_inv w" for ps
    using that by (induction ps arbitrary: w) (simp_all add: server_inv_disconnect)
  then show "server_inv w \<Longrightarrow> ?thesis" by (simp add: disconnect_all_participants_def)
qed

lemmas room_settings =
  set_max_participants_def set_room_keep_alive_def set_broadcast_messages_def
  set_auto_update_participants_def disconnect_all_callbacks_def
  register_callback_new_participant_def register_callback_new_message_def
  register_callback_participant_leave_def

lemmas server_settings =
  set_credentials_def set_service_name_def server_set_keep_alive_def server_set_max_participants_def
  set_max_handshake_connections_def server_set_broadcasting_all_messages_def

lemmas server_forwards [simp] =
  server_register_new_participant_def server_register_new_message_def server_register_participant_leave_def
  server_disconnect_all_callbacks_def server_disconnect_all_participants_def
  server_set_auto_update_participants_def

lemma server_inv_stop: "server_inv w \<Longrightarrow> server_inv (server_stop w)"
  using server_inv_disconnect_all [of w]
  by (auto simp: server_stop_def Let_def elim: server_inv_frame)

lemma do_server_call_keeps:
  assumes inv: "server_inv w" and step: "do_server_call env call w = Done w'"
  shows "server_inv w'"
proof (cases call)
  case (Call_disconnect_participant i)
  then show ?thesis
    using step disconnect_participant_keeps [OF server_inv_room_ok [OF inv]] quiet_server_inv [OF inv]
    by (auto simp: server_disconnect_participant_def)
next
  case Call_disconnect_all_participants
  then show ?thesis using step server_inv_disconnect_all [OF inv] by auto
next
  case Call_stop
  then show ?thesis using step server_inv_stop [OF inv] by auto
next
  case (Call_set_participant_deaf i d)
  then show ?thesis using step server_inv_set_participant_deaf [OF inv]
    by (auto simp: server_set_participant_deaf_def)
qed (use step in \<open>auto simp: room_settings server_settings intro: server_inv_frame [OF inv]\<close>)

lemma server_handle_inv:
  assumes inv: "server_inv w" and en: "server_enabled e w" and step: "server_handle env e w = Done w'"
  shows "server_inv w'"
proof (cases e)
  case (Accept_ok remote)
  then show ?thesis using inv step on_accept_keeps [of "w\<lparr>accepting := False\<rparr>"] by simp
next
  case Accept_error
  then show ?thesis using inv step by auto
next
  case (Run_posted p)
  then show ?thesis using run_posted_keeps [OF inv] en step by simp
next
  case (Frame_received p l bs)
  with en have l: "l \<in> set (reading (heap w p))" by simp
  let ?w = "read_over p l w"
  have ok: "server_inv ?w" "p < next_ptr ?w" "reading (heap ?w p) = []"
    using server_inv_read_over [OF inv] server_inv_reading(2) [OF inv l] read_over_reading [OF inv l] by simp_all
  show ?thesis
  proof (cases l)
    case Handshake_read
    then show ?thesis
      using handshake_frame_keeps [OF ok(1,2) _ ok(3)] server_inv_reading(3) [OF inv l] step Frame_received
      by auto
  next
    case Session_read
    then show ?thesis using session_frame_keeps [OF ok] step Frame_received by auto
  qed
next
  case (Read_failed p l)
  then show ?thesis
    using leave_keeps_inv [OF server_inv_read_over [OF inv]] server_inv_disconnect [OF server_inv_read_over [OF inv]] step
    by (cases l) (auto simp: handshake_read_failed_def session_read_failed_def)
next
  case (Write_done p i)
  then show ?thesis using write_completed_eq [OF server_inv_write_over [OF inv]] server_inv_write_over [OF inv] step by auto
next
  case (Write_failed p i)
  then show ?thesis
    using leave_keeps_inv [OF server_inv_write_over [OF inv]] step by (auto simp: write_failed_def)
next
  case (Api call)
  then show ?thesis using do_server_call_keeps [OF inv] step by simp
qed

interpretation server: event_system server_enabled "server_handle env" server_inv for env
  by unfold_locales (rule server_handle_inv)

lemma server_inv_new: "server_inv (new_nr_server raw)"
  unfolding new_nr_server_def Let_def case_prod_beta server_inv_do_accept
  by (simp add: set_max_participants_def upd_room_def server_inv_def
      room_ok_def new_network_room_def session_ok_def new_handshake_session_def)

end
