(* ===== verification/Server_Progress.thy ===== *)
theory Server_Progress
  imports Server_Correct
begin

text \<open>
  What one frame does, written out, and progress: a server whose peers follow the protocol never
  runs into undefined behaviour and never throws. \<open>well_behaved\<close> says what following the
  protocol amounts to, event by event.
\<close>

section \<open>Frames of full size\<close>

lemma XRMessage_of_read:
  "length bs = 65536 \<Longrightarrow> XRMessage_of_buffer bs (word_of_nat (length bs)) flag = Inr bs"
  by (simp add: XRMessage_of_buffer_eq)

lemma xr_get_header_full: "length bs = 65536 \<Longrightarrow> xr_get_header e bs = Some (dec_header e bs)"
  by (simp add: xr_get_header_def)

lemma xr_payload_full: "length bs = 65536 \<Longrightarrow> xr_payload bs = Some (drop 8 bs)"
  by (simp add: xr_payload_def)

lemma xh_head_full: "length bs = 65536 \<Longrightarrow> xh_head (dec_header e bs) = xr_head e bs"
  by (simp add: dec_header_def xr_head_def)

lemmas full_frame = XRMessage_of_read XRMessage_of_full_buffer xr_get_header_full xr_payload_full xh_head_full

lemma print_buffer_total: "60 \<le> length bs \<Longrightarrow> lift_mem (print_buffer bs 60) (\<lambda>_. r) = r"
  by (simp add: print_buffer_def read_at_def)

lemma printed_frame_full: "length bs = 65536 \<Longrightarrow> printed_frame bs is = printed is"
  by (simp add: printed_frame_def print_buffer_def read_at_def)

lemma handshake_frame_full:
  "length bs = 65536 \<Longrightarrow> handshake_frame env p bs w =
     (if xr_head (byte_order env) bs = head_code HANDSHAKE_HELLO_ACK then
        if 0 \<in> set (drop 28 bs)
        then and_then (check_handshake_hello_ack env p (drop 8 bs) w) (\<lambda>w1. Done (do_read_handshake p w1))
        else Undefined OutOfBounds
      else if xr_head (byte_order env) bs = head_code HANDSHAKE_CREDENTIALS_ACK then
        if 0 \<in> set (drop 2070 bs)
        then check_handshake_credentials_ack env p (dec_handshake_credentials_ack (byte_order env) (drop 8 bs)) w
        else Undefined OutOfBounds
      else Done (do_read_handshake p w))"
  by (simp add: handshake_frame_def full_frame printed_frame_full printed_credentials_ack printed_shows(2)
      del: head_code.simps)

lemma session_dispatch_full:
  "length bs = 65536 \<Longrightarrow> session_dispatch env p bs w =
     (if xr_head (byte_order env) bs = head_code PARTICIPANT_JOIN_ACK then
        on_participant_join_ack env p (drop 8 bs) w
      else if xr_head (byte_order env) bs = head_code PARTICIPANT_NEW_ACK then Done w
      else if xr_head (byte_order env) bs = head_code PARTICIPANT_UPDATE_ACK then
        Done (deliver_to_all_except_to_one bs (m_id (heap w p)) w)
      else if xr_head (byte_order env) bs = head_code PARTICIPANT_LEAVE_ACK then
        disconnect_participant env (m_id (heap w p)) w
      else Done (disconnect p w))"
  by (simp add: session_dispatch_def full_frame del: head_code.simps)

lemma session_frame_full:
  "length bs = 65536 \<Longrightarrow>
   session_frame env p bs w = and_then (session_dispatch env p bs w) (\<lambda>w1. Done (do_read_byte p w1))"
  by (simp add: session_frame_def full_frame)

section \<open>Credentials\<close>

text \<open>Against a terminated string of at most its own length, \<open>strcmp\<close> stays inside both arrays.\<close>

lemma strcmp_total: "0 \<in> set bs \<Longrightarrow> length bs \<le> length as \<Longrightarrow> \<exists>r. strcmp as bs = Inr r"
  by (induction as bs rule: strcmp.induct) auto

lemma strcmp_eq_iff:
  "0 \<in> set bs \<Longrightarrow> length bs \<le> length as \<Longrightarrow>
   strcmp as bs = Inr 0 \<longleftrightarrow> takeWhile (\<lambda>b. b \<noteq> 0) as = takeWhile (\<lambda>b. b \<noteq> 0) bs \<and> 0 \<in> set as"
  by (induction as bs rule: strcmp.induct) auto

lemma credentials_rejected_total:
  assumes "wf_handshake_credentials_ack msg"
  shows "\<exists>r. credentials_rejected msg = Inr r"
proof -
  obtain l pw where "strcmp (hca_login_buffer msg) (cstr ''login'') = Inr l"
    "strcmp (hca_password_buffer msg) (cstr ''password'') = Inr pw"
    using strcmp_total [of "cstr ''login''" "hca_login_buffer msg"]
      strcmp_total [of "cstr ''password''" "hca_password_buffer msg"] assms
    by (auto simp: cstr_def str_def wf_handshake_credentials_ack_def)
  then show ?thesis by (cases "l = 0") (auto simp: credentials_rejected_def)
qed

lemma wf_dec_handshake_credentials_ack:
  "22542 \<le> length bs \<Longrightarrow> wf_handshake_credentials_ack (dec_handshake_credentials_ack e bs)"
  by (simp add: wf_handshake_credentials_ack_def dec_handshake_credentials_ack_def get_buf_def)

section \<open>Peers that follow the protocol\<close>

definition good_handshake_frame :: "asio_env \<Rightarrow> ptr \<Rightarrow> byte list \<Rightarrow> 'a world_scheme \<Rightarrow> bool" where
  "good_handshake_frame env p bs w =
     (let head = xr_head (byte_order env) bs; payload = drop 8 bs in
      if head = head_code HANDSHAKE_HELLO_ACK then
        0 \<in> set (drop 20 payload) \<and>
        length (m_descriptor (heap w p)) +
          unat (hha_configuration_buffersize (dec_handshake_hello_ack (byte_order env) payload)) \<le> 20480
      else if head = head_code HANDSHAKE_CREDENTIALS_ACK then
        0 \<in> set (drop 2062 payload) \<and>
        (unat (max_participants (room w)) \<le> length (participants (room w)) \<or>
         credentials_rejected (dec_handshake_credentials_ack (byte_order env) payload) = Inr False \<and>
           \<not> set_option_fails env (is_open (heap w p)))
      else True)"

definition good_session_frame :: "asio_env \<Rightarrow> ptr \<Rightarrow> byte list \<Rightarrow> 'a world_scheme \<Rightarrow> bool" where
  "good_session_frame env p bs w =
     (let head = xr_head (byte_order env) bs;
          pack = dec_participant_join_ack (byte_order env) (drop 8 bs) in
      if head = head_code PARTICIPANT_JOIN_ACK then
        unat (pja_json_buffersize pack) \<le> 20480 \<and> participant_exist (pja_participant_id pack) w
      else if head = head_code PARTICIPANT_LEAVE_ACK then participant_exist (m_id (heap w p)) w
      else True)"

fun well_behaved :: "asio_env \<Rightarrow> server_event \<Rightarrow> nr_server \<Rightarrow> bool" where
  "well_behaved env (Accept_ok remote) w = (case remote of None \<Rightarrow> False | Some ip \<Rightarrow> length ip \<le> 512)"
| "well_behaved env (Run_posted p) w = alive p w"
| "well_behaved env (Frame_received p l bs) w =
     (case l of
        Handshake_read \<Rightarrow> good_handshake_frame env p bs w
      | Session_read \<Rightarrow> good_session_frame env p bs w)"
| "well_behaved env (Api call) w =
     (case call of
        Call_disconnect_participant i \<Rightarrow> participant_exist i w
      | Call_set_service_name n \<Rightarrow> length n < 1024
      | _ \<Rightarrow> True)"
| "well_behaved env e w = True"

text \<open>The sizes the server relies on and never checks.\<close>

definition texts_ok :: "nr_server \<Rightarrow> bool" where
  "texts_ok w \<longleftrightarrow>
     length (srv_service_name w) < 1024 \<and>
     (\<forall>p. length (m_descriptor (heap w p)) \<le> 20480 \<and> length (IP (heap w p)) \<le> 512)"

definition safe :: "nr_server \<Rightarrow> bool" where
  "safe w \<longleftrightarrow> server_inv w \<and> texts_ok w"

section \<open>Operations that leave the texts alone\<close>

definition same_texts :: "nr_server \<Rightarrow> nr_server \<Rightarrow> bool" where
  "same_texts w w' \<longleftrightarrow>
     srv_service_name w' = srv_service_name w \<and>
     (\<forall>q. m_descriptor (heap w' q) = m_descriptor (heap w q) \<and> IP (heap w' q) = IP (heap w q))"

lemma same_texts_ok: "texts_ok w \<Longrightarrow> same_texts w w' \<Longrightarrow> texts_ok w'"
  by (simp add: texts_ok_def same_texts_def)

lemma srv_service_name_simps [simp]:
  "srv_service_name (upd_session p f w) = srv_service_name w"
  "srv_service_name (upd_room g w) = srv_service_name w"
  "srv_service_name (emit cs sig w) = srv_service_name w"
  "srv_service_name (post_to P b w) = srv_service_name w"
  by (simp_all add: upd_session_def upd_room_def emit_def post_to_def)

lemma same_texts_refl [simp]: "same_texts w w"
  by (simp add: same_texts_def)

lemma same_texts_trans: "same_texts u v \<Longrightarrow> same_texts v w \<Longrightarrow> same_texts u w"
  by (simp add: same_texts_def)

lemma same_texts_post_to [simp]: "same_texts w (post_to P b w)"
  by (simp add: same_texts_def)

lemma same_texts_session:
  "(\<And>s. m_descriptor (f s) = m_descriptor s \<and> IP (f s) = IP s) \<Longrightarrow> same_texts w (upd_session p f w)"
  by (simp add: same_texts_def)

lemma same_texts_room [simp]: "same_texts w (upd_room f w)"
  by (simp add: same_texts_def)

lemma same_texts_emit [simp]: "same_texts w (emit cs sig w)"
  by (simp add: same_texts_def)

lemma same_texts_deliver_byte [simp]: "same_texts w (deliver_byte p b w)"
  by (simp add: deliver_byte_post_to)

lemma same_texts_disconnect [simp]: "same_texts w (disconnect p w)"
  by (auto simp: disconnect_def do_close_def intro: same_texts_session)

lemma same_texts_reads [simp]:
  "same_texts w (do_read_byte p w)" "same_texts w (do_read_handshake p w)"
  "same_texts w (read_over p l w)" "same_texts w (write_over p i w)"
  by (auto simp: do_read_byte_def do_read_handshake_def read_over_def write_over_def intro: same_texts_session)

lemma same_texts_post_all [simp]: "same_texts w (post_all p msgs w)"
  by (auto simp: post_all_def intro: same_texts_session)

lemma same_texts_without [simp]: "same_texts w (without p w)"
  by (simp add: without_def)

lemma same_texts_left_room [simp]: "same_texts w (left_room env p w)"
  unfolding left_room_def by (rule same_texts_trans [OF same_texts_without same_texts_post_to])

lemma same_texts_joined [simp]: "same_texts w (joined env p w)"
  by (simp add: same_texts_def joined_def Let_def)

section \<open>Progress, handler by handler\<close>

definition succeeds :: "nr_server outcome \<Rightarrow> bool" where
  "succeeds r \<longleftrightarrow> (\<exists>w'. r = Done w' \<and> texts_ok w')"

lemma succeeds_Done [simp]: "succeeds (Done w) = texts_ok w"
  by (simp add: succeeds_def)

lemma participant_existE:
  assumes "participant_exist i w"
  obtains p where "get_participant_ptr i w = Some p"
  using assms by (auto simp: participant_exist_def)

lemma disconnect_participant_succeeds:
  assumes "server_inv w" and "texts_ok w" and "participant_exist i w"
  shows "\<exists>p. disconnect_participant env i w = Done (left_room env p w)"
  using assms(3)
proof (rule participant_existE)
  fix p assume "get_participant_ptr i w = Some p"
  then show ?thesis
    by (auto simp: disconnect_participant_def disconnect_participant_ptr_Some server_inv_room_ok [OF assms(1)])
qed

lemma leave_succeeds:
  assumes "server_inv w" and "texts_ok w"
  shows "succeeds (leave env p w)"
  using assms(2)
  by (simp add: leave_eq server_inv_room_ok [OF assms(1)])
    (rule same_texts_ok, assumption, rule same_texts_trans [OF same_texts_emit same_texts_left_room])

lemma texts_ok_descriptor:
  "texts_ok w \<Longrightarrow> length d \<le> 20480 \<Longrightarrow> texts_ok (upd_session p (\<lambda>s. s\<lparr>m_descriptor := d\<rparr>) w)"
  by (simp add: texts_ok_def)

lemma on_participant_join_ack_succeeds:
  assumes ok: "server_inv w" "texts_ok w" and n: "20492 \<le> length payload"
    and size: "unat (pja_json_buffersize (dec_participant_join_ack (byte_order env) payload)) \<le> 20480"
    and known: "participant_exist (pja_participant_id (dec_participant_join_ack (byte_order env) payload)) w"
  shows "succeeds (on_participant_join_ack env p payload w)"
proof -
  let ?pack = "dec_participant_join_ack (byte_order env) payload"
  let ?d = "take (unat (pja_json_buffersize ?pack)) (drop 12 payload)"
  let ?w = "upd_session p (\<lambda>s. s\<lparr>m_descriptor := ?d\<rparr>) w"
  have step: "on_participant_join_ack env p payload w = init_new_participant env (pja_participant_id ?pack) ?w"
    using n size by (simp add: on_participant_join_ack_def Let_def read_at_def upd_session_def)
  have w: "room_ok ?w" "texts_ok ?w"
    using ok size by (auto simp: server_inv_room_ok room_ok_descriptor texts_ok_descriptor)
  have "get_participant_ptr i ?w = get_participant_ptr i w" for i
    unfolding get_participant_ptr_def upd_session_simps by (rule oset_find_cong) (simp add: pkey_def)
  then obtain q where "get_participant_ptr (pja_participant_id ?pack) ?w = Some q"
    using known by (auto elim: participant_existE)
  then obtain s l where "init_new_participant env (pja_participant_id ?pack) ?w =
      Done (post_all q (map (participant_new_frame env) l)
        (post_to (\<lambda>r. r \<in> set (participants (room ?w)) \<and> r \<noteq> q) (participant_new_frame env s) ?w))"
    using init_new_participant_ok [OF w(1), of _ q env] w(2) unfolding texts_ok_def by blast
  then show ?thesis
    unfolding step
    using same_texts_ok [OF w(2)] same_texts_trans [OF same_texts_post_to same_texts_post_all] by auto
qed

lemma session_dispatch_succeeds:
  assumes ok: "server_inv w" "texts_ok w" and n: "length bs = 65536" and good: "good_session_frame env p bs w"
  shows "succeeds (session_dispatch env p bs w)"
  unfolding session_dispatch_full [OF n]
  using good on_participant_join_ack_succeeds [OF ok, of "drop 8 bs" env p] n
    disconnect_participant_succeeds [OF ok, of "m_id (heap w p)" env]
    same_texts_ok [OF ok(2)] ok(2) server_inv_room_ok [OF ok(1)]
  by (auto simp: good_session_frame_def Let_def deliver_to_all_except_to_one_eq
      simp del: head_code.simps split: if_splits)

lemma check_handshake_hello_ack_succeeds:
  assumes ok: "texts_ok w" and n: "20500 \<le> length payload"
    and size: "length (m_descriptor (heap w p)) +
      unat (hha_configuration_buffersize (dec_handshake_hello_ack (byte_order env) payload)) \<le> 20480"
  shows "succeeds (check_handshake_hello_ack env p payload w)"
proof -
  let ?n = "unat (hha_configuration_buffersize (dec_handshake_hello_ack (byte_order env) payload))"
  let ?w = "upd_session p (\<lambda>s. s\<lparr>m_descriptor := m_descriptor s @ take ?n (drop 20 payload)\<rparr>) w"
  have "texts_ok ?w" using ok size n by (simp add: texts_ok_def)
  then have "texts_ok (deliver_byte p b ?w)" for b by (rule same_texts_ok) simp
  then show ?thesis
    using n size handshake_credentials_codec.send_struct [of build_handshake_credentials]
    by (simp add: check_handshake_hello_ack_def Let_def read_at_def print_buffer_total length_frame
        handshake_credentials_codec.enc_length)
qed

definition participant_join_frame :: "asio_env \<Rightarrow> u64 \<Rightarrow> byte list" where
  "participant_join_frame env i =
     frame (byte_order env) (head_code PARTICIPANT_JOIN)
       (enc_participant_join (byte_order env)
          (init_participant_join
             \<lparr>pj_participant_id := i, pj_max_data_rate := 1, pj_allow_asynchronous_messages := 0xFFFF,
              pj_message_buffersize := 16, pj_message_buffer := welcome_message @ zeros 10224\<rparr>))"

lemma length_welcome_message [simp]: "length welcome_message = 16"
  by (simp add: welcome_message_def str_def)

lemma participant_join_message_eq:
  "lift_mem (participant_join_struct i)
     (\<lambda>st. lift_mem (printed (show_participant_join (byte_order env) (enc_participant_join (byte_order env) st)))
        (\<lambda>_. lift_mem (XRMessage_of_payload (byte_order env) (head_code PARTICIPANT_JOIN)
                 (enc_participant_join (byte_order env) st) 10256) f)) =
   f (participant_join_frame env i)"
proof -
  let ?st = "init_participant_join
    \<lparr>pj_participant_id := i, pj_max_data_rate := 1, pj_allow_asynchronous_messages := 0xFFFF,
     pj_message_buffersize := 16, pj_message_buffer := welcome_message @ zeros 10224\<rparr>"
  have wf: "wf_participant_join ?st" by (simp add: wf_participant_join_def)
  moreover have "printed (show_participant_join e (enc_participant_join e ?st)) = Inr ()" for e
    using wf by (simp add: printed_shows participant_join_codec.dec_enc)
  moreover have "participant_join_struct i = Inr ?st"
    by (simp add: participant_join_struct_def write_at_0 init_participant_join_def)
  ultimately show ?thesis
    using participant_join_codec.send_struct [of ?st "byte_order env"]
    by (simp add: participant_join_frame_def del: head_code.simps)
qed

lemma check_handshake_credentials_ack_eq:
  assumes "credentials_rejected msg = Inr r"
  shows "check_handshake_credentials_ack env p msg w =
    and_then (join env p (do_read_byte p (if r then disconnect p w else w)))
      (\<lambda>w3. Done (deliver_byte p (participant_join_frame env (m_id (heap w3 p))) w3))"
  unfolding check_handshake_credentials_ack_def assms participant_join_message_eq
  by (simp add: Let_def)

lemma check_handshake_credentials_ack_succeeds:
  assumes ok: "texts_ok w" and wf: "wf_handshake_credentials_ack msg"
    and good: "unat (max_participants (room w)) \<le> length (participants (room w)) \<or>
      credentials_rejected msg = Inr False \<and> \<not> set_option_fails env (is_open (heap w p))"
  shows "succeeds (check_handshake_credentials_ack env p msg w)"
proof -
  obtain r where r: "credentials_rejected msg = Inr r" using credentials_rejected_total [OF wf] by blast
  let ?w = "do_read_byte p (if r then disconnect p w else w)"
  have texts: "texts_ok ?w"
    using same_texts_ok [OF ok] same_texts_trans [OF same_texts_disconnect same_texts_reads(1)] by simp
  have room: "room ?w = room w" by (simp add: do_read_byte_def)
  have "succeeds (join env p ?w)"
  proof (cases "unat (max_participants (room w)) \<le> length (participants (room w))")
    case True
    then show ?thesis using same_texts_ok [OF texts] by (simp add: join_full room)
  next
    case False
    with good r have "r = False" "\<not> set_option_fails env (is_open (heap w p))" by auto
    moreover have "length (IP (heap ?w p)) \<le> 512" using texts by (simp add: texts_ok_def)
    ultimately have "join env p ?w = Done (joined env p ?w)"
      using False by (intro join_admits) (auto simp: room do_read_byte_def)
    then show ?thesis using same_texts_ok [OF texts] by simp
  qed
  then obtain w3 where "join env p ?w = Done w3" "texts_ok w3" by (auto simp: succeeds_def)
  then show ?thesis
    using same_texts_ok [of w3] by (simp add: check_handshake_credentials_ack_eq [OF r])
qed

lemma handshake_frame_succeeds:
  assumes ok: "texts_ok w" and n: "length bs = 65536" and good: "good_handshake_frame env p bs w"
  shows "succeeds (handshake_frame env p bs w)"
proof -
  have again: "succeeds (and_then r (\<lambda>w1. Done (do_read_handshake p w1)))" if "succeeds r" for r
    using that same_texts_ok by (auto simp: succeeds_def)
  have "texts_ok (do_read_handshake p w)" by (rule same_texts_ok [OF ok]) simp
  moreover have "wf_handshake_credentials_ack (dec_handshake_credentials_ack (byte_order env) (drop 8 bs))"
    using n by (intro wf_dec_handshake_credentials_ack) simp
  ultimately show ?thesis
    unfolding handshake_frame_full [OF n]
    using good n check_handshake_credentials_ack_succeeds [OF ok]
      again [OF check_handshake_hello_ack_succeeds [OF ok, of "drop 8 bs" p env]]
    by (auto simp: good_handshake_frame_def Let_def simp del: head_code.simps split: if_splits)
qed

lemma session_frame_succeeds:
  assumes "server_inv w" "texts_ok w" and n: "length bs = 65536" and "good_session_frame env p bs w"
  shows "succeeds (session_frame env p bs w)"
proof -
  obtain w1 where "session_dispatch env p bs w = Done w1" "texts_ok w1"
    using session_dispatch_succeeds [OF assms] by (auto simp: succeeds_def)
  then show ?thesis using same_texts_ok [of w1] by (simp add: session_frame_full [OF n])
qed

lemma texts_ok_new_session:
  "texts_ok w \<Longrightarrow> length ip \<le> 512 \<Longrightarrow>
   texts_ok (w\<lparr>next_ptr := k, heap := (heap w)(p := (new_handshake_session b i n)\<lparr>IP := ip\<rparr>)\<rparr>)"
  by (simp add: texts_ok_def new_handshake_session_def)

lemma texts_ok_accepting [simp]: "texts_ok (w\<lparr>accepting := b\<rparr>) = texts_ok w"
  by (simp add: texts_ok_def)

lemma texts_ok_do_accept [simp]: "texts_ok (do_accept w) = texts_ok w"
  by (simp add: texts_ok_def do_accept_def)

lemma greeting_printed:
  assumes "length name < 1024" and "build_handshake_hello sid pid ts name = Inr hh"
  shows "printed (show_handshake_hello e (enc_handshake_hello e hh)) = Inr ()"
proof -
  have "drop 28 (enc_handshake_hello e hh) = name @ zeros (1024 - length name)"
    using assms by (auto simp: build_handshake_hello_def write_at_0 enc_handshake_hello_def)
  then show ?thesis using assms(1) by (simp add: printed_shows zeros_def)
qed

lemma greeting_fails:
  assumes "1024 \<le> length name" and "0 \<notin> set name"
  shows "lift_mem (build_handshake_hello sid pid ts name)
    (\<lambda>hh. lift_mem (printed (show_handshake_hello e (enc_handshake_hello e hh))) (f hh)) = Undefined OutOfBounds"
proof (cases "length name = 1024")
  case True
  then obtain hh where hh: "build_handshake_hello sid pid ts name = Inr hh"
    by (simp add: build_handshake_hello_def write_at_0)
  then have "drop 28 (enc_handshake_hello e hh) = name"
    using True by (auto simp: build_handshake_hello_def write_at_0 enc_handshake_hello_def)
  then show ?thesis using hh assms(2) by (simp add: printed_shows)
next
  case False
  then show ?thesis using assms(1) by (simp add: build_handshake_hello_def write_at_def)
qed

lemma handshake_hello_message:
  assumes "length name < 1024"
  shows "\<exists>b. \<forall>f. lift_mem (build_handshake_hello sid pid ts name)
    (\<lambda>hh. lift_mem (printed (show_handshake_hello e (enc_handshake_hello e hh)))
      (\<lambda>_. lift_mem (XRMessage_of_payload e (head_code HANDSHAKE_HELLO) (enc_handshake_hello e hh) 1052)
        (\<lambda>msg. lift_mem (print_buffer msg 60) (\<lambda>_. f msg)))) = f b"
proof -
  obtain hh where hh: "build_handshake_hello sid pid ts name = Inr hh"
    using assms by (simp add: build_handshake_hello_def write_at_0)
  then have "XRMessage_of_payload e (head_code HANDSHAKE_HELLO) (enc_handshake_hello e hh) 1052 =
      Inr (frame e (head_code HANDSHAKE_HELLO) (enc_handshake_hello e hh))"
    using handshake_hello_codec.send_struct [OF build_handshake_hello_wf [OF hh], of e] by simp
  moreover have "length (enc_handshake_hello e hh) \<le> 65528"
    using build_handshake_hello_wf [OF hh] by (simp add: handshake_hello_codec.enc_length)
  ultimately show ?thesis
    using greeting_printed [OF assms hh, of e]
    by (intro exI [of _ "frame e (head_code HANDSHAKE_HELLO) (enc_handshake_hello e hh)"])
      (simp add: hh print_buffer_total length_frame del: head_code.simps)
qed

lemma do_start_handshake_ok:
  assumes "length (m_server_name (heap (do_read_handshake p w) p)) < 1024"
  shows "\<exists>b. do_start_handshake env p w = Done (deliver_byte p b (do_read_handshake p w))"
proof -
  let ?v = "do_read_handshake p w"
  obtain b where b: "\<forall>f :: byte list \<Rightarrow> 'a world_scheme outcome. lift_mem (build_handshake_hello
      (m_service_id (heap ?v p)) (m_id (heap ?v p)) (timestamp_now env) (m_server_name (heap ?v p)))
    (\<lambda>hh. lift_mem (printed (show_handshake_hello (byte_order env) (enc_handshake_hello (byte_order env) hh)))
      (\<lambda>_. lift_mem (XRMessage_of_payload (byte_order env) (head_code HANDSHAKE_HELLO)
             (enc_handshake_hello (byte_order env) hh) 1052)
        (\<lambda>msg. lift_mem (print_buffer msg 60) (\<lambda>_. f msg)))) = f b"
    by (rule exE [OF handshake_hello_message [OF assms]])
  show ?thesis
    unfolding do_start_handshake_def Let_def
    by (rule exI [of _ b], rule b [rule_format, of "\<lambda>msg. Done (deliver_byte p msg ?v)"])
qed

lemma on_accept_succeeds:
  assumes ok: "texts_ok w" and "length ip \<le> 512"
  shows "succeeds (on_accept env (Some ip) w)"
proof -
  let ?p = "next_ptr w"
  let ?w = "w\<lparr>next_ptr := Suc ?p,
              heap := (heap w)(?p := (new_handshake_session False (srv_service_id w) (srv_service_name w))\<lparr>IP := ip\<rparr>)\<rparr>"
  have texts: "texts_ok ?w" by (rule texts_ok_new_session [OF assms])
  have start: "on_accept env (Some ip) w =
      and_then (do_start_handshake env ?p ?w) (\<lambda>w2. Done (do_accept w2))"
    by (simp add: on_accept_def handshake_start_def Let_def upd_session_def)
  have "m_server_name (heap (do_read_handshake ?p ?w) ?p) = srv_service_name w"
    by (simp add: do_read_handshake_def new_handshake_session_def)
  then have "length (m_server_name (heap (do_read_handshake ?p ?w) ?p)) < 1024"
    using ok by (simp add: texts_ok_def)
  then obtain b where "do_start_handshake env ?p ?w = Done (deliver_byte ?p b (do_read_handshake ?p ?w))"
    using do_start_handshake_ok by blast
  then show ?thesis
    using same_texts_ok [OF texts] same_texts_trans [OF same_texts_reads(2) same_texts_deliver_byte]
    by (simp add: start)
qed

lemma texts_ok_settings:
  assumes "texts_ok w" and "heap w' = heap w" and "srv_service_name w' = srv_service_name w"
  shows "texts_ok w'"
  using assms by (simp add: texts_ok_def)

lemma texts_ok_disconnect_all: "texts_ok w \<Longrightarrow> texts_ok (disconnect_all_participants w)"
proof -
  have "texts_ok (fold disconnect ps w)" if "texts_ok w" for ps
    using that same_texts_ok [OF _ same_texts_disconnect] by (induction ps arbitrary: w) simp_all
  then show "texts_ok w \<Longrightarrow> ?thesis" by (simp add: disconnect_all_participants_def)
qed

lemma do_server_call_succeeds:
  assumes inv: "server_inv w" and ok: "texts_ok w" and good: "well_behaved env (Api call) w"
  shows "succeeds (do_server_call env call w)"
proof (cases call)
  case (Call_set_service_name n)
  then show ?thesis using ok good by (simp add: set_service_name_def texts_ok_def)
next
  case (Call_disconnect_participant i)
  then show ?thesis
    using disconnect_participant_succeeds [OF inv ok, of i env] good same_texts_ok [OF ok]
    by (auto simp: server_disconnect_participant_def)
next
  case Call_disconnect_all_participants
  then show ?thesis using texts_ok_disconnect_all [OF ok] by simp
next
  case Call_stop
  then show ?thesis
    using texts_ok_disconnect_all [OF ok] by (auto simp: server_stop_def Let_def elim: texts_ok_settings)
next
  case (Call_set_participant_deaf i d)
  then show ?thesis
    using same_texts_ok [OF ok] same_texts_session [of "\<lambda>s. s\<lparr>deaf := d\<rparr>"] ok
    by (auto simp: server_set_participant_deaf_def set_participant_deaf_def split: option.split)
qed (use ok in \<open>auto simp: room_settings server_settings intro: texts_ok_settings [OF ok]\<close>)

lemma run_posted_succeeds:
  assumes "server_inv w" and ok: "texts_ok w" and "posted (heap w p) \<noteq> []" and "alive p w"
  shows "succeeds (run_posted p w)"
proof -
  obtain b rest where b: "posted (heap w p) = b # rest" using assms(3) by (cases "posted (heap w p)") auto
  show ?thesis
    using assms(4) same_texts_ok [OF ok] same_texts_session
    by (simp add: run_posted_eq [OF assms(1) b])
qed

section \<open>Progress of the server\<close>

lemma server_handle_succeeds:
  assumes inv: "server_inv w" and ok: "texts_ok w"
    and en: "server_enabled e w" and good: "well_behaved env e w"
  shows "succeeds (server_handle env e w)"
proof (cases e)
  case (Accept_ok remote)
  then show ?thesis
    using good on_accept_succeeds [of "w\<lparr>accepting := False\<rparr>"] ok by (auto split: option.splits)
next
  case Accept_error
  then show ?thesis using ok by simp
next
  case (Run_posted p)
  then show ?thesis using run_posted_succeeds [OF inv ok] en good by simp
next
  case (Frame_received p l bs)
  let ?w = "read_over p l w"
  have w: "server_inv ?w" "texts_ok ?w" "length bs = 65536"
    using server_inv_read_over [OF inv] same_texts_ok [OF ok same_texts_reads(3)] en Frame_received by auto
  have ids: "m_id (heap ?w q) = m_id (heap w q)" and here: "is_open (heap ?w q) = is_open (heap w q)"
    "m_descriptor (heap ?w q) = m_descriptor (heap w q)" for q
    by (auto simp: read_over_def)
  have "participant_exist i ?w = participant_exist i w" for i
    unfolding participant_exist_def get_participant_ptr_def read_over_frame
    by (intro arg_cong2 [where f = "(\<noteq>)"] oset_find_cong) (simp_all add: pkey_def ids)
  then have "good_handshake_frame env p bs ?w = good_handshake_frame env p bs w"
    and "good_session_frame env p bs ?w = good_session_frame env p bs w"
    by (simp_all add: good_handshake_frame_def good_session_frame_def here ids)
  then show ?thesis
    using Frame_received good handshake_frame_succeeds [OF w(2,3)] session_frame_succeeds [OF w]
    by (cases l) auto
next
  case (Read_failed p l)
  have w: "server_inv (read_over p l w)" "texts_ok (read_over p l w)"
    using server_inv_read_over [OF inv] same_texts_ok [OF ok same_texts_reads(3)] by auto
  then show ?thesis
    using Read_failed leave_succeeds [OF w] same_texts_ok [OF w(2) same_texts_disconnect]
    by (cases l) (auto simp: handshake_read_failed_def session_read_failed_def)
next
  case (Write_done p i)
  then show ?thesis
    using write_completed_eq [OF server_inv_write_over [OF inv]] same_texts_ok [OF ok same_texts_reads(4)]
    by simp
next
  case (Write_failed p i)
  then show ?thesis
    using leave_succeeds [OF server_inv_write_over [OF inv] same_texts_ok [OF ok same_texts_reads(4)]]
    by (simp add: write_failed_def)
next
  case (Api call)
  then show ?thesis using do_server_call_succeeds [OF inv ok] good by simp
qed

interpretation served: total_event_system
  "\<lambda>e w. server_enabled e w \<and> well_behaved env e w" "server_handle env" safe for env
proof unfold_locales
  fix w e w'
  assume "safe w" "server_enabled e w \<and> well_behaved env e w" "server_handle env e w = Done w'"
  then show "safe w'"
    using server_handle_inv [of w e env w'] server_handle_succeeds [of w e env]
    by (auto simp: safe_def succeeds_def)
next
  fix w e
  assume "safe w" "server_enabled e w \<and> well_behaved env e w"
  then show "\<exists>w'. server_handle env e w = Done w'"
    using server_handle_succeeds [of w e env] by (auto simp: safe_def succeeds_def)
qed

lemma safe_new: "safe (new_nr_server raw)"
proof -
  have "texts_ok (new_nr_server raw)"
    unfolding new_nr_server_def Let_def case_prod_beta texts_ok_do_accept
    by (simp add: set_max_participants_def upd_room_def texts_ok_def new_handshake_session_def)
  then show ?thesis by (simp add: safe_def server_inv_new)
qed

end
