(* ===== verification/Chat_Client.thy ===== *)
theory Chat_Client
  imports Handshake
begin

text \<open>
  The test client of \<open>nr_client.cpp\<close>. As on the server, what it hands to Boost.Asio is recorded
  (\<open>cl_posted\<close>, \<open>cl_writing\<close>, \<open>cl_reading\<close>, \<open>cl_timers\<close>) and completes by events.
\<close>

section \<open>State\<close>

datatype client_task = Post_write "byte list" | Post_close

record chat_client =
  cl_open :: bool
  cl_deque :: "byte list list"
  cl_participant_id :: u64
  cl_service_id :: u64
  cl_posted :: "client_task list"
  cl_writing :: "byte list list"
  cl_reading :: bool
  cl_timers :: nat

text \<open>The constructor starts to connect; the identifiers are not initialised.\<close>

definition new_chat_client :: "u64 \<Rightarrow> u64 \<Rightarrow> chat_client" where
  "new_chat_client stale_pid stale_sid =
     \<lparr>cl_open = True, cl_deque = [], cl_participant_id = stale_pid, cl_service_id = stale_sid,
      cl_posted = [], cl_writing = [], cl_reading = False, cl_timers = 0\<rparr>"

section \<open>Writing\<close>

definition write_byte :: "byte list \<Rightarrow> chat_client \<Rightarrow> chat_client" where
  "write_byte msg c = c\<lparr>cl_posted := cl_posted c @ [Post_write msg]\<rparr>"

definition client_close :: "chat_client \<Rightarrow> chat_client" where
  "client_close c = c\<lparr>cl_posted := cl_posted c @ [Post_close]\<rparr>"

text \<open>\<open>do_write_byte\<close> writes the front of the queue and leaves it there.\<close>

definition client_do_write_byte :: "chat_client \<Rightarrow> chat_client outcome" where
  "client_do_write_byte c =
     (case cl_deque c of
        [] \<Rightarrow> Undefined OutOfBounds
      | msg # rest \<Rightarrow> Done (c\<lparr>cl_writing := cl_writing c @ [msg]\<rparr>))"

definition client_post_write :: "byte list \<Rightarrow> chat_client \<Rightarrow> chat_client outcome" where
  "client_post_write msg c =
     (let write_in_progress = (cl_deque c \<noteq> []);
          c1 = c\<lparr>cl_deque := cl_deque c @ [msg]\<rparr>
      in if \<not> write_in_progress then client_do_write_byte c1 else Done c1)"

text \<open>The completion of a write: only now the front leaves the queue.\<close>

definition client_write_done :: "chat_client \<Rightarrow> chat_client outcome" where
  "client_write_done c =
     (case cl_deque c of
        [] \<Rightarrow> Undefined OutOfBounds
      | msg # rest \<Rightarrow>
          let c1 = c\<lparr>cl_deque := rest\<rparr>
          in if rest \<noteq> [] then client_do_write_byte c1 else Done c1)"

definition client_write_failed :: "chat_client \<Rightarrow> chat_client outcome" where
  "client_write_failed c = Done (client_close c)"

section \<open>Reading\<close>

definition client_do_read_byte :: "chat_client \<Rightarrow> chat_client" where
  "client_do_read_byte c = c\<lparr>cl_reading := True\<rparr>"

definition client_configuration :: cpp_string where
  "client_configuration = str ''ABCDEFGHIJKLMNOPQRST''"

definition client_json :: cpp_string where
  \<open>client_json = str ''{"m_position":{"x":0.0,"y":0.0,"z":0.0},"m_rotation":{"x":0.0,"y":0.0,"z":0.0,"w":0.0},"m_name":"Pedro Urdemales","m_id":14514284786278117030,"m_id_hex":"C96D191CF6F6AEA6","m_prefab_path":"Assets/Resources/XRNetwork/Characters/MarkerMan.fbx","m_auto_update":false,"objectType":4,"m_devices":[],"m_prefab":{"instanceID":13558}}''\<close>

text \<open>\<open>begin_participant_update\<close> restarts the timer, which cancels the waits that are pending.\<close>

definition begin_participant_update :: "chat_client \<Rightarrow> chat_client" where
  "begin_participant_update c = c\<lparr>cl_timers := 1\<rparr>"

definition participant_update_struct :: "asio_env \<Rightarrow> u64 \<Rightarrow> ub + ST_PARTICIPANT_UPDATE_ACK" where
  "participant_update_struct env pid =
     (let puack = init_participant_update_ack (stale_memory env)
      in mem_bind (write_at 0 (client_json @ [0]) (pua_buffer puack))
        (\<lambda>buffer. Inr (puack\<lparr>pua_participant_id := pid, pua_origin_timestamp := timestamp_now env,
                            pua_buffersize := word_of_nat (length client_json), pua_buffer := buffer\<rparr>)))"

text \<open>
  The handler of the timer. The message is built from a \<open>ST_PARTICIPANT_UPDATE_ACK\<close> of 20500
  bytes with the size of a \<open>ST_PARTICIPANT_UPDATE\<close>. In the client's translation unit that structure
  is not packed: its 20508 bytes of members are padded to a multiple of 8.
\<close>

definition sizeof_ST_PARTICIPANT_UPDATE :: u32 where
  "sizeof_ST_PARTICIPANT_UPDATE = 20512"

definition client_timer :: "asio_env \<Rightarrow> chat_client \<Rightarrow> chat_client outcome" where
  "client_timer env c =
     lift_mem (participant_update_struct env (cl_participant_id c))
       (\<lambda>puack. lift_mem (XRMessage_of_payload (byte_order env) (head_code PARTICIPANT_UPDATE_ACK)
                           (enc_participant_update_ack (byte_order env) puack) sizeof_ST_PARTICIPANT_UPDATE)
          (\<lambda>msg. lift_mem (printed (show_participant_update_ack (byte_order env)
                                     (enc_participant_update_ack (byte_order env) puack)))
             (\<lambda>_. Done (begin_participant_update (write_byte msg c)))))"

definition client_hello_ack_struct :: "asio_env \<Rightarrow> u64 \<Rightarrow> ub + ST_HANDSHAKE_HELLO_ACK" where
  "client_hello_ack_struct env pid =
     mem_bind (write_at 0 client_configuration (zeros (1024 * 20)))
       (\<lambda>buffer. Inr (init_handshake_hello_ack
          \<lparr>hha_participant_id := pid, hha_client_timestamp := timestamp_now env,
           hha_configuration_buffersize := word_of_nat (length client_configuration),
           hha_configuration_buffer := buffer\<rparr>))"

text \<open>The identifier kept from the greeting is the one of the service, in both fields.\<close>

definition client_on_hello :: "asio_env \<Rightarrow> byte list \<Rightarrow> chat_client \<Rightarrow> chat_client outcome" where
  "client_on_hello env payload c =
     (let st_hello = dec_handshake_hello (byte_order env) payload;
          c1 = c\<lparr>cl_participant_id := hh_service_id st_hello, cl_service_id := hh_service_id st_hello\<rparr>
      in lift_mem (printed (show_handshake_hello (byte_order env) payload))
        (\<lambda>_. lift_mem (client_hello_ack_struct env (cl_participant_id c1))
          (\<lambda>hhack. lift_mem (XRMessage_of_payload (byte_order env) (head_code HANDSHAKE_HELLO_ACK)
                              (enc_handshake_hello_ack (byte_order env) hhack) 20500)
             (\<lambda>msg. lift_mem (printed (show_handshake_hello_ack (byte_order env)
                                        (enc_handshake_hello_ack (byte_order env) hhack)))
                (\<lambda>_. Done (write_byte msg c1))))))"

definition client_credentials_struct :: "asio_env \<Rightarrow> ub + ST_HANDSHAKE_CREDENTIALS_ACK" where
  "client_credentials_struct env =
     (let hcack = init_handshake_credentials_ack (stale_memory env);
          login = str ''login'';
          password = str ''password''
      in mem_bind (write_at 0 login (hca_login_buffer hcack))
        (\<lambda>lb. mem_bind (write_at 0 password (hca_password_buffer hcack))
          (\<lambda>pb. Inr (hcack\<lparr>hca_participant_id := 0,
                          hca_login_buffersize := word_of_nat (length login), hca_login_buffer := lb,
                          hca_password_buffersize := word_of_nat (length password),
                          hca_password_buffer := pb\<rparr>))))"

text \<open>The answer is built with the size of the request, \<open>sizeof(ST_HANDSHAKE_CREDENTIALS)\<close>.\<close>

definition client_on_credentials :: "asio_env \<Rightarrow> byte list \<Rightarrow> chat_client \<Rightarrow> chat_client outcome" where
  "client_on_credentials env payload c =
     lift_mem (printed (show_handshake_credentials (byte_order env) payload))
       (\<lambda>_. lift_mem (client_credentials_struct env)
         (\<lambda>hcack. lift_mem (printed (show_handshake_credentials_ack (byte_order env)
                                      (enc_handshake_credentials_ack (byte_order env) hcack)))
            (\<lambda>_. lift_mem (XRMessage_of_payload (byte_order env) (head_code HANDSHAKE_CREDENTIALS_ACK)
                             (enc_handshake_credentials_ack (byte_order env) hcack) 20484)
               (\<lambda>msg. Done (write_byte msg c)))))"

definition client_on_join :: "asio_env \<Rightarrow> byte list \<Rightarrow> chat_client \<Rightarrow> chat_client outcome" where
  "client_on_join env payload c =
     lift_mem (printed (show_participant_join (byte_order env) payload))
       (\<lambda>_. Done (begin_participant_update
          (c\<lparr>cl_participant_id := pj_participant_id (dec_participant_join (byte_order env) payload)\<rparr>)))"

text \<open>
  The switch of the read handler. Two messages are only printed: that changes nothing, but it
  reads their buffers up to a terminator.
\<close>

definition client_dispatch :: "asio_env \<Rightarrow> byte list \<Rightarrow> chat_client \<Rightarrow> chat_client outcome" where
  "client_dispatch env message c =
     (case xr_get_header (byte_order env) message of
        None \<Rightarrow> Undefined NullDeref
      | Some header \<Rightarrow>
          (case xr_payload message of
             None \<Rightarrow> Undefined NullDeref
           | Some payload \<Rightarrow>
               if xh_head header = head_code HANDSHAKE_HELLO then client_on_hello env payload c
               else if xh_head header = head_code HANDSHAKE_CREDENTIALS then client_on_credentials env payload c
               else if xh_head header = head_code PARTICIPANT_JOIN then client_on_join env payload c
               else if xh_head header = head_code PARTICIPANT_NEW then
                 lift_mem (printed (show_participant_new (byte_order env) payload)) (\<lambda>_. Done c)
               else if xh_head header = head_code PARTICIPANT_UPDATE_ACK then
                 lift_mem (printed (show_participant_update_ack (byte_order env) payload)) (\<lambda>_. Done c)
               else Done c))"

definition client_frame :: "asio_env \<Rightarrow> byte list \<Rightarrow> chat_client \<Rightarrow> chat_client outcome" where
  "client_frame env read_buffer c =
     lift_mem (XRMessage_of_buffer read_buffer (word_of_nat (length read_buffer)) False)
       (\<lambda>message. and_then (client_dispatch env message c)
          (\<lambda>c1. Done (client_do_read_byte c1)))"

text \<open>A failed read closes the connection and does not start another.\<close>

definition client_read_failed :: "chat_client \<Rightarrow> chat_client outcome" where
  "client_read_failed c = Done (client_close c)"

section \<open>Connecting\<close>

definition client_connected :: "chat_client \<Rightarrow> chat_client" where
  "client_connected c = client_do_read_byte c"

definition client_connect_failed :: "chat_client \<Rightarrow> chat_client outcome" where
  "client_connect_failed c = Done (client_close c)"

section \<open>Events\<close>

datatype client_event =
    Connected
  | Connect_failed
  | Client_run_posted
  | Client_frame "byte list"
  | Client_read_failed
  | Client_write_done
  | Client_write_failed
  | Client_timer
  | Client_submit "byte list"

fun client_enabled :: "client_event \<Rightarrow> chat_client \<Rightarrow> bool" where
  "client_enabled Connected c = (\<not> cl_reading c)"
| "client_enabled Connect_failed c = (\<not> cl_reading c)"
| "client_enabled Client_run_posted c = (cl_posted c \<noteq> [])"
| "client_enabled (Client_frame bs) c = (cl_reading c \<and> length bs = 65536)"
| "client_enabled Client_read_failed c = cl_reading c"
| "client_enabled Client_write_done c = (cl_writing c \<noteq> [])"
| "client_enabled Client_write_failed c = (cl_writing c \<noteq> [])"
| "client_enabled Client_timer c = (0 < cl_timers c)"
| "client_enabled (Client_submit msg) c = True"

fun client_handle :: "asio_env \<Rightarrow> client_event \<Rightarrow> chat_client \<Rightarrow> chat_client outcome" where
  "client_handle env Connected c = Done (client_connected c)"
| "client_handle env Connect_failed c = client_connect_failed c"
| "client_handle env Client_run_posted c =
     (case cl_posted c of
        [] \<Rightarrow> Done c
      | Post_write msg # rest \<Rightarrow> client_post_write msg (c\<lparr>cl_posted := rest\<rparr>)
      | Post_close # rest \<Rightarrow> Done (c\<lparr>cl_posted := rest, cl_open := False\<rparr>))"
| "client_handle env (Client_frame bs) c = client_frame env bs (c\<lparr>cl_reading := False\<rparr>)"
| "client_handle env Client_read_failed c = client_read_failed (c\<lparr>cl_reading := False\<rparr>)"
| "client_handle env Client_write_done c = client_write_done (c\<lparr>cl_writing := tl (cl_writing c)\<rparr>)"
| "client_handle env Client_write_failed c = client_write_failed (c\<lparr>cl_writing := tl (cl_writing c)\<rparr>)"
| "client_handle env Client_timer c = client_timer env (c\<lparr>cl_timers := cl_timers c - 1\<rparr>)"
| "client_handle env (Client_submit msg) c = Done (write_byte msg c)"

end
