(* ===== verification/Client_Correct.thy ===== *)
theory Client_Correct
  imports Chat_Client
begin

text \<open>
  The client: its write queue is a first-in first-out writer with one write under way at a time,
  and every handler but the one of the timer returns normally.
\<close>

section \<open>The contract of a writer\<close>

text \<open>
  A writer accepts messages and writes them to a stream. \<open>pending\<close> are the messages accepted
  and not yet written, \<open>under_way\<close> the buffers handed to \<open>async_write\<close>.
\<close>

datatype 'm writer_op = Accept 'm | Complete

fun accepted :: "'m writer_op list \<Rightarrow> 'm list" where
  "accepted [] = []"
| "accepted (Accept m # ops) = m # accepted ops"
| "accepted (Complete # ops) = accepted ops"

text \<open>The messages written by a sequence of calls and completions, and the state reached.\<close>

fun writer_run ::
  "('m \<Rightarrow> 's \<Rightarrow> 's outcome) \<Rightarrow> ('s \<Rightarrow> 's outcome) \<Rightarrow> ('s \<Rightarrow> 'm list) \<Rightarrow> 'm writer_op list \<Rightarrow> 's \<Rightarrow>
   ('m list \<times> 's) option" where
  "writer_run acc com under_way [] s = Some ([], s)"
| "writer_run acc com under_way (Accept m # ops) s =
     (case acc m s of Done s' \<Rightarrow> writer_run acc com under_way ops s' | _ \<Rightarrow> None)"
| "writer_run acc com under_way (Complete # ops) s =
     (case under_way s of
        [] \<Rightarrow> None
      | m # _ \<Rightarrow>
          (case com s of
             Done s' \<Rightarrow> map_option (\<lambda>(ms, t). (m # ms, t)) (writer_run acc com under_way ops s')
           | _ \<Rightarrow> None))"

locale fifo_writer =
  fixes accept :: "'m \<Rightarrow> 's \<Rightarrow> 's outcome"
    and complete :: "'s \<Rightarrow> 's outcome"
    and pending :: "'s \<Rightarrow> 'm list"
    and under_way :: "'s \<Rightarrow> 'm list"
    and inv :: "'s \<Rightarrow> bool"
  assumes front: "inv s \<Longrightarrow> under_way s = take 1 (pending s)"
    and accept_ok: "inv s \<Longrightarrow> \<exists>s'. accept m s = Done s' \<and> inv s' \<and> pending s' = pending s @ [m]"
    and complete_ok: "inv s \<Longrightarrow> pending s = m # ms \<Longrightarrow> \<exists>s'. complete s = Done s' \<and> inv s' \<and> pending s' = ms"
begin

lemma fifo:
  "inv s \<Longrightarrow> writer_run accept complete under_way ops s = Some (ws, t) \<Longrightarrow>
   inv t \<and> ws @ pending t = pending s @ accepted ops"
proof (induction ops arbitrary: s ws)
  case Nil
  then show ?case by simp
next
  case (Cons op ops)
  show ?case
  proof (cases op)
    case (Accept m)
    obtain s' where "accept m s = Done s'" "inv s'" "pending s' = pending s @ [m]"
      using accept_ok Cons.prems(1) by blast
    then show ?thesis using Cons.IH [of s' ws] Cons.prems(2) Accept by simp
  next
    case Complete
    then obtain m ms where p: "pending s = m # ms"
      using Cons.prems front [of s] by (cases "pending s") auto
    obtain s' where s': "complete s = Done s'" "inv s'" "pending s' = ms"
      using complete_ok [OF Cons.prems(1) p] by blast
    then obtain ws' where "writer_run accept complete under_way ops s' = Some (ws', t)" "ws = m # ws'"
      using Cons.prems Complete front [of s] p by auto
    then show ?thesis using Cons.IH [OF s'(2)] s'(3) p Complete by simp
  qed
qed

text \<open>Whatever is pending gets written, in order, by as many completions.\<close>

lemma drains:
  "inv s \<Longrightarrow> \<exists>t. writer_run accept complete under_way (replicate (length (pending s)) Complete) s =
     Some (pending s, t) \<and> pending t = [] \<and> inv t"
proof (induction "pending s" arbitrary: s)
  case Nil
  then show ?case by (intro exI [of _ s]) simp
next
  case (Cons m ms)
  then obtain s' where s': "complete s = Done s'" "inv s'" "pending s' = ms"
    using complete_ok [of s m ms] by auto
  then obtain t where "writer_run accept complete under_way (replicate (length ms) Complete) s' = Some (ms, t)"
      "pending t = []" "inv t"
    using Cons.hyps(1) [of s'] by auto
  then show ?case
    using s' front [OF Cons.prems] Cons.hyps(2) [symmetric] by simp
qed

end

section \<open>The client's writer\<close>

definition client_queue_ok :: "chat_client \<Rightarrow> bool" where
  "client_queue_ok c \<longleftrightarrow> cl_writing c = take 1 (cl_deque c)"

lemma client_post_write_eq:
  "client_queue_ok c \<Longrightarrow> client_post_write m c =
     Done (c\<lparr>cl_deque := cl_deque c @ [m], cl_writing := take 1 (cl_deque c @ [m])\<rparr>)"
  by (cases "cl_deque c") (auto simp: client_post_write_def client_do_write_byte_def client_queue_ok_def Let_def)

lemma client_write_done_eq:
  "client_queue_ok c \<Longrightarrow> cl_deque c = m # ms \<Longrightarrow> client_handle env Client_write_done c =
     Done (c\<lparr>cl_deque := ms, cl_writing := take 1 ms\<rparr>)"
  by (cases ms) (auto simp: client_write_done_def client_do_write_byte_def client_queue_ok_def Let_def)

interpretation client_writer: fifo_writer
  client_post_write "client_handle env Client_write_done" cl_deque cl_writing client_queue_ok for env
proof unfold_locales
  show "client_queue_ok s \<Longrightarrow> cl_writing s = take 1 (cl_deque s)" for s
    by (simp add: client_queue_ok_def)
next
  show "\<exists>s'. client_post_write m s = Done s' \<and> client_queue_ok s' \<and> cl_deque s' = cl_deque s @ [m]"
    if "client_queue_ok s" for s m
    using client_post_write_eq [OF that] by (simp add: client_queue_ok_def)
next
  show "\<exists>s'. client_handle env Client_write_done s = Done s' \<and> client_queue_ok s' \<and> cl_deque s' = ms"
    if "client_queue_ok s" "cl_deque s = m # ms" for s m ms env
    using client_write_done_eq [OF that] by (simp add: client_queue_ok_def)
qed

lemma client_queue_ok_new: "client_queue_ok (new_chat_client a b)"
  by (simp add: client_queue_ok_def new_chat_client_def)

section \<open>What the client answers\<close>

lemma length_client_configuration [simp]: "length client_configuration = 20"
  by (simp add: client_configuration_def str_def)

lemma length_client_json: "length client_json = 326"
  by (simp add: client_json_def str_def)

definition client_hello_ack :: "asio_env \<Rightarrow> u64 \<Rightarrow> ST_HANDSHAKE_HELLO_ACK" where
  "client_hello_ack env pid =
     init_handshake_hello_ack
       \<lparr>hha_participant_id := pid, hha_client_timestamp := timestamp_now env,
        hha_configuration_buffersize := 20,
        hha_configuration_buffer := client_configuration @ zeros 20460\<rparr>"

lemma wf_client_hello_ack [simp]: "wf_handshake_hello_ack (client_hello_ack env pid)"
  by (simp add: wf_handshake_hello_ack_def client_hello_ack_def)

definition client_hello_ack_frame :: "asio_env \<Rightarrow> u64 \<Rightarrow> byte list" where
  "client_hello_ack_frame env pid =
     frame (byte_order env) (head_code HANDSHAKE_HELLO_ACK)
       (enc_handshake_hello_ack (byte_order env) (client_hello_ack env pid))"

lemma client_hello_ack_printed:
  "printed (show_handshake_hello_ack e (enc_handshake_hello_ack e (client_hello_ack env pid))) = Inr ()"
proof -
  have "drop 20 (enc_handshake_hello_ack e (client_hello_ack env pid)) = client_configuration @ zeros 20460"
    by (simp add: enc_handshake_hello_ack_def client_hello_ack_def init_handshake_hello_ack_def)
  then show ?thesis by (simp add: printed_shows zeros_def)
qed

lemma client_on_hello_eq:
  "client_on_hello env payload c =
     (if 0 \<in> set (drop 28 payload)
      then let sid = hh_service_id (dec_handshake_hello (byte_order env) payload) in
        Done (write_byte (client_hello_ack_frame env sid) (c\<lparr>cl_participant_id := sid, cl_service_id := sid\<rparr>))
      else Undefined OutOfBounds)"
proof -
  have "client_hello_ack_struct env pid = Inr (client_hello_ack env pid)" for pid
    by (simp add: client_hello_ack_struct_def client_hello_ack_def write_at_0)
  then show ?thesis
    using handshake_hello_ack_codec.send_struct [OF wf_client_hello_ack, of "byte_order env"]
    by (simp add: client_on_hello_def client_hello_ack_frame_def Let_def client_hello_ack_printed
        printed_shows(1) del: head_code.simps)
qed

definition client_credentials :: "asio_env \<Rightarrow> ST_HANDSHAKE_CREDENTIALS_ACK" where
  "client_credentials env =
     (init_handshake_credentials_ack (stale_memory env))
       \<lparr>hca_participant_id := 0,
        hca_login_buffersize := 5, hca_login_buffer := str ''login'' @ zeros 1019,
        hca_password_buffersize := 8, hca_password_buffer := str ''password'' @ zeros 1016\<rparr>"

lemma wf_client_credentials [simp]: "wf_handshake_credentials_ack (client_credentials env)"
  by (simp add: wf_handshake_credentials_ack_def client_credentials_def str_def init_handshake_credentials_ack_def)

text \<open>
  The answer is cut to the size of the request. What is cut off are zeros, and the frame is
  zero filled, so nothing is lost but the length in the header is too small.
\<close>

definition client_credentials_frame :: "asio_env \<Rightarrow> byte list" where
  "client_credentials_frame env =
     enc_header (byte_order env) (mk_xr_message_header (head_code HANDSHAKE_CREDENTIALS_ACK) 20484) @
     enc_handshake_credentials_ack (byte_order env) (client_credentials env) @ zeros 42986"

lemma client_on_credentials_eq:
  "client_on_credentials env payload c =
     (if 0 \<in> set (drop 4 payload) then Done (write_byte (client_credentials_frame env) c)
      else Undefined OutOfBounds)"
proof -
  let ?enc = "enc_handshake_credentials_ack (byte_order env) (client_credentials env)"
  have struct: "client_credentials_struct env = Inr (client_credentials env)"
    by (simp add: client_credentials_struct_def client_credentials_def write_at_0 str_def
        init_handshake_credentials_ack_def)
  have len: "length ?enc = 22542"
    by (rule handshake_credentials_ack_codec.enc_length) simp
  obtain xs where xs: "?enc = xs @ zeros 20480" "length xs = 2062"
    using len by (simp add: enc_handshake_credentials_ack_def client_credentials_def
        init_handshake_credentials_ack_def)
  then have shown: "printed (show_handshake_credentials_ack (byte_order env) ?enc) = Inr ()"
    by (simp add: printed_credentials_ack zeros_def)
  from xs have "take 20484 ?enc @ zeros 45044 = ?enc @ zeros 42986"
    by (simp add: zeros_append)
  then show ?thesis
    using len by (simp add: client_on_credentials_def struct shown XRMessage_of_payload_eq
        frame_def client_credentials_frame_def printed_shows(3))
qed

text \<open>What the client prints of a frame it receives has a terminator.\<close>

definition printable :: "endian \<Rightarrow> byte list \<Rightarrow> bool" where
  "printable e bs \<longleftrightarrow>
     (let head = xr_head e bs; payload = drop 8 bs in
      (head = head_code HANDSHAKE_HELLO \<longrightarrow> 0 \<in> set (drop 28 payload)) \<and>
      (head = head_code HANDSHAKE_CREDENTIALS \<longrightarrow> 0 \<in> set (drop 4 payload)) \<and>
      (head = head_code PARTICIPANT_JOIN \<longrightarrow> 0 \<in> set (pj_message_buffer (dec_participant_join e payload))) \<and>
      (head = head_code PARTICIPANT_NEW \<longrightarrow> 0 \<in> set (pn_descriptor_buffer (dec_participant_new e payload))) \<and>
      (head = head_code PARTICIPANT_UPDATE_ACK \<longrightarrow>
         0 \<in> set (pua_buffer (dec_participant_update_ack e payload))))"

lemma client_dispatch_full:
  "length bs = 65536 \<Longrightarrow> client_dispatch env bs c =
     (if \<not> printable (byte_order env) bs then Undefined OutOfBounds
      else if xr_head (byte_order env) bs = head_code HANDSHAKE_HELLO then
        let sid = hh_service_id (dec_handshake_hello (byte_order env) (drop 8 bs)) in
        Done (write_byte (client_hello_ack_frame env sid) (c\<lparr>cl_participant_id := sid, cl_service_id := sid\<rparr>))
      else if xr_head (byte_order env) bs = head_code HANDSHAKE_CREDENTIALS then
        Done (write_byte (client_credentials_frame env) c)
      else if xr_head (byte_order env) bs = head_code PARTICIPANT_JOIN then
        Done (begin_participant_update (c\<lparr>cl_participant_id :=
          pj_participant_id (dec_participant_join (byte_order env) (drop 8 bs))\<rparr>))
      else Done c)"
  by (simp add: client_dispatch_def xr_get_header_def xr_payload_def dec_header_def xr_head_def
      client_on_hello_eq client_on_credentials_eq client_on_join_def printed_shows printable_def Let_def
      del: head_code.simps)

lemma client_frame_full:
  "length bs = 65536 \<Longrightarrow> client_frame env bs c =
     and_then (client_dispatch env bs c) (\<lambda>c1. Done (client_do_read_byte c1))"
  by (simp add: client_frame_def XRMessage_of_full_buffer)

section \<open>The client as an event system\<close>

text \<open>
  After a failed write the queue keeps its front and nothing is under way any more; otherwise
  the front is the one buffer under way.
\<close>

definition client_inv :: "chat_client \<Rightarrow> bool" where
  "client_inv c \<longleftrightarrow> cl_writing c = [] \<or> cl_deque c \<noteq> [] \<and> cl_writing c = [hd (cl_deque c)]"

definition client_settled :: "chat_client outcome \<Rightarrow> bool" where
  "client_settled r \<longleftrightarrow> (\<exists>c. r = Done c \<and> client_inv c)"

lemma client_settled_Done [simp]: "client_settled (Done c) = client_inv c"
  by (simp add: client_settled_def)

lemma client_inv_write_byte [simp]: "client_inv (write_byte m c) = client_inv c"
  by (simp add: client_inv_def write_byte_def)

lemma client_inv_frame:
  "cl_writing c' = cl_writing c \<Longrightarrow> cl_deque c' = cl_deque c \<Longrightarrow> client_inv c' = client_inv c"
  by (simp add: client_inv_def)

lemma client_frame_settled:
  assumes "client_inv c" and n: "length bs = 65536" and "printable (byte_order env) bs"
  shows "client_settled (client_frame env bs c)"
proof -
  have "client_settled (client_dispatch env bs c)"
    using assms(1,3) unfolding client_dispatch_full [OF n]
    by (simp add: Let_def begin_participant_update_def client_inv_def write_byte_def del: head_code.simps)
  then show ?thesis
    by (auto simp: client_frame_full [OF n] client_settled_def client_do_read_byte_def client_inv_def)
qed

lemma client_post_write_settled: "client_inv c \<Longrightarrow> client_settled (client_post_write m c)"
  by (cases "cl_deque c")
    (auto simp: client_post_write_def client_do_write_byte_def client_inv_def Let_def)

lemma client_write_done_settled:
  assumes "client_inv c" and "cl_writing c \<noteq> []"
  shows "client_settled (client_handle env Client_write_done c)"
proof -
  obtain m r where "cl_deque c = m # r" "cl_writing c = [m]"
    using assms by (cases "cl_deque c") (auto simp: client_inv_def)
  then show ?thesis
    by (cases r) (auto simp: client_write_done_def client_do_write_byte_def client_inv_def Let_def)
qed

text \<open>Two events can bring the client down: its timer, and a frame whose text has no terminator.\<close>

fun harmless :: "asio_env \<Rightarrow> client_event \<Rightarrow> bool" where
  "harmless env Client_timer = False"
| "harmless env (Client_frame bs) = printable (byte_order env) bs"
| "harmless env e = True"

lemma client_handle_settled:
  assumes inv: "client_inv c" and en: "client_enabled e c" and "harmless env e"
  shows "client_settled (client_handle env e c)"
proof (cases e)
  case Client_run_posted
  then obtain t ts where ts: "cl_posted c = t # ts" using en by (cases "cl_posted c") auto
  have "client_inv (c\<lparr>cl_posted := ts\<rparr>)" using inv by (simp add: client_inv_def)
  then show ?thesis
    using ts Client_run_posted client_post_write_settled [of "c\<lparr>cl_posted := ts\<rparr>"] inv
    by (cases t) (auto simp: client_inv_def)
next
  case (Client_frame bs)
  then show ?thesis
    using client_frame_settled [of "c\<lparr>cl_reading := False\<rparr>" bs env] en inv assms(3) by (simp add: client_inv_def)
next
  case Client_write_done
  then show ?thesis using client_write_done_settled [OF inv, of env] en by simp
next
  case Client_write_failed
  then show ?thesis using inv
    by (auto simp: client_write_failed_def client_close_def client_inv_def)
qed (use assms in \<open>auto simp: client_connected_def client_do_read_byte_def client_read_failed_def client_connect_failed_def client_close_def client_inv_def write_byte_def\<close>)

interpretation client: total_event_system
  "\<lambda>e c. client_enabled e c \<and> harmless env e" "client_handle env" client_inv for env
proof unfold_locales
  fix c e c'
  assume "client_inv c" "client_enabled e c \<and> harmless env e" "client_handle env e c = Done c'"
  then show "client_inv c'" using client_handle_settled [of c e env] by (auto simp: client_settled_def)
next
  fix c e
  assume "client_inv c" "client_enabled e c \<and> harmless env e"
  then show "\<exists>c'. client_handle env e c = Done c'"
    using client_handle_settled [of c e env] by (auto simp: client_settled_def)
qed

lemma client_inv_new: "client_inv (new_chat_client a b)"
  by (simp add: client_inv_def new_chat_client_def)

text \<open>The timer reads past the structure it sends.\<close>

lemma client_timer_overreads: "client_timer env c = Undefined OutOfBounds"
proof (cases "participant_update_struct env (cl_participant_id c)")
  case (Inl u)
  then show ?thesis
    by (simp add: participant_update_struct_def write_at_0 length_client_json init_participant_update_ack_def)
next
  case (Inr puack)
  then have "wf_participant_update_ack puack"
    by (auto simp: participant_update_struct_def outcome_simps wf_participant_update_ack_def
        init_participant_update_ack_def dest: write_at_length)
  then show ?thesis
    using Inr by (simp add: client_timer_def XRMessage_of_payload_eq
        participant_update_ack_codec.enc_length sizeof_ST_PARTICIPANT_UPDATE_def)
qed

section \<open>Properties of the client\<close>

text \<open>The environment on which the witnesses of the properties run.\<close>

definition sample_env :: asio_env where
  "sample_env = \<lparr>byte_order = Little, set_option_fails = Not, stale_memory = (\<lambda>_. 0xAA), timestamp_now = 1000\<rparr>"

lemma sample_env_fields [simp]:
  "byte_order sample_env = Little" "set_option_fails sample_env = Not" "timestamp_now sample_env = 1000"
  by (simp_all add: sample_env_def)

text \<open>C19: the client writes what it was given, in order and one at a time: along any interleaving of
  writes that are handed to it and writes that complete, the completed buffers followed by those still
  queued are exactly the accepted ones, and the only buffer under way is the front of the queue.\<close>

theorem client_writes_in_order:
  assumes "writer_run client_post_write (client_handle env Client_write_done) cl_writing ops
    (new_chat_client a b) = Some (ws, c)"
  shows "ws @ cl_deque c = accepted ops \<and> cl_writing c = take 1 (cl_deque c)"
  using client_writer.fifo [OF client_queue_ok_new assms] by (simp add: new_chat_client_def client_queue_ok_def)

theorem client_writes_in_order_witness:
  "\<exists>c. writer_run client_post_write (client_handle sample_env Client_write_done) cl_writing
      [Accept [1], Accept [2], Complete, Accept [3]] (new_chat_client 0 0) = Some ([[1]], c) \<and>
    [[1]] @ cl_deque c = [[1], [2], [3]]"
proof -
  obtain c where c: "writer_run client_post_write (client_handle sample_env Client_write_done) cl_writing
      [Accept [1], Accept [2], Complete, Accept [3]] (new_chat_client 0 0) = Some ([[1]], c)"
    by (simp add: new_chat_client_def client_post_write_def client_do_write_byte_def client_write_done_def Let_def)
  then show ?thesis using client_writes_in_order [OF c] by simp
qed

text \<open>Nothing stays behind: from any reachable queue, as many completions as there are buffers write
  all of them and leave the queue empty and no write under way.\<close>

theorem client_drains:
  assumes "client_queue_ok c"
  shows "\<exists>c'. writer_run client_post_write (client_handle env Client_write_done) cl_writing
      (replicate (length (cl_deque c)) Complete) c = Some (cl_deque c, c') \<and>
    cl_deque c' = [] \<and> cl_writing c' = []"
  using client_writer.drains [OF assms, of env] by (auto simp: client_queue_ok_def)

theorem client_drains_witness:
  "\<exists>c'. writer_run client_post_write (client_handle sample_env Client_write_done) cl_writing
      (replicate 2 Complete) ((new_chat_client 0 0)\<lparr>cl_deque := [[1], [2]], cl_writing := [[1]]\<rparr>) =
    Some ([[1], [2]], c')"
  using client_drains [of "(new_chat_client 0 0)\<lparr>cl_deque := [[1], [2]], cl_writing := [[1]]\<rparr>" sample_env]
  by (auto simp: client_queue_ok_def numeral_2_eq_2)



text \<open>C38: the first expiry of the timer that a \<open>PARTICIPANT_JOIN\<close> starts is undefined behaviour: the
  update is built with the size of another structure, which is larger, and the copy reads past its end.\<close>

theorem joined_client_reads_out_of_bounds:
  assumes "length bs = 65536" and "xr_head (byte_order env) bs = head_code PARTICIPANT_JOIN" and "cl_reading c"
    and "0 \<in> set (pj_message_buffer (dec_participant_join (byte_order env) (drop 8 bs)))"
  shows "run client_enabled (client_handle env) [Client_frame bs, Client_timer] c = Some (Undefined OutOfBounds)"
proof -
  have en: "client_enabled (Client_frame bs) c" using assms by simp
  have step: "client_handle env (Client_frame bs) c = Done (client_do_read_byte (begin_participant_update
      (c\<lparr>cl_reading := False, cl_participant_id := pj_participant_id (dec_participant_join (byte_order env) (drop 8 bs))\<rparr>)))"
    (is "_ = Done ?c")
    using assms by (simp add: client_frame_full client_dispatch_full printable_def Let_def)
  have "client_enabled Client_timer ?c" by (simp add: client_do_read_byte_def begin_participant_update_def)
  moreover have "client_handle env Client_timer ?c = Undefined OutOfBounds" by (simp add: client_timer_overreads)
  ultimately show ?thesis
    unfolding run_step [of client_enabled _ _ "client_handle env", OF en step]
    by (rule run_undefined [of client_enabled _ _ "client_handle env"])
qed

theorem joined_client_reads_out_of_bounds_witness:
  "run client_enabled (client_handle \<lparr>byte_order = Little, set_option_fails = Not, stale_memory = (\<lambda>_. 0), timestamp_now = 0\<rparr>)
     [Client_frame (frame Little (head_code PARTICIPANT_JOIN) (enc_participant_join Little init_participant_join)), Client_timer]
     (client_connected (new_chat_client 0 0)) = Some (Undefined OutOfBounds)"
  by (rule joined_client_reads_out_of_bounds)
    (simp_all add: length_frame participant_join_codec.enc_length client_connected_def client_do_read_byte_def
      drop_frame participant_join_codec.dec_enc_append, simp add: init_participant_join_def)

end
