(* ===== verification/Handshake_Correct.thy ===== *)
theory Handshake_Correct
  imports Server_Progress Client_Correct
begin

text \<open>
  Server and client together: the greeting of the server, the answers of the client of
  \<open>nr_client.cpp\<close> and the frames that answer them, from the accepted connection to the member of
  the room.
\<close>

section \<open>The greeting\<close>

definition server_hello :: "asio_env \<Rightarrow> u64 \<Rightarrow> cpp_string \<Rightarrow> ST_HANDSHAKE_HELLO" where
  "server_hello env sid name =
     \<lparr>hh_service_id = sid, hh_participant_id = 0, hh_server_timestamp = timestamp_now env,
      hh_servername_buffersize = word_of_nat (length name),
      hh_servername_buffer = name @ zeros (1024 - length name)\<rparr>"

definition server_hello_frame :: "asio_env \<Rightarrow> u64 \<Rightarrow> cpp_string \<Rightarrow> byte list" where
  "server_hello_frame env sid name =
     frame (byte_order env) (head_code HANDSHAKE_HELLO)
       (enc_handshake_hello (byte_order env) (server_hello env sid name))"

definition credentials_request_frame :: "asio_env \<Rightarrow> byte list" where
  "credentials_request_frame env =
     frame (byte_order env) (head_code HANDSHAKE_CREDENTIALS)
       (enc_handshake_credentials (byte_order env) build_handshake_credentials)"

lemma server_hello_message:
  assumes "length name < 1024"
  shows "lift_mem (build_handshake_hello sid 0 (timestamp_now env) name)
    (\<lambda>hh. lift_mem (printed (show_handshake_hello (byte_order env) (enc_handshake_hello (byte_order env) hh)))
      (\<lambda>_. lift_mem (XRMessage_of_payload (byte_order env) (head_code HANDSHAKE_HELLO)
               (enc_handshake_hello (byte_order env) hh) 1052)
        (\<lambda>msg. lift_mem (print_buffer msg 60) (\<lambda>_. f msg)))) = f (server_hello_frame env sid name)"
proof -
  have built: "build_handshake_hello sid 0 (timestamp_now env) name = Inr (server_hello env sid name)"
    using assms by (simp add: build_handshake_hello_def server_hello_def write_at_0)
  moreover have "wf_handshake_hello (server_hello env sid name)"
    using assms by (simp add: wf_handshake_hello_def server_hello_def)
  ultimately show ?thesis
    using handshake_hello_codec.send_struct [of "server_hello env sid name" "byte_order env"]
      greeting_printed [OF assms built]
    by (simp add: built server_hello_frame_def print_buffer_total length_frame
        handshake_hello_codec.enc_length del: head_code.simps)
qed

text \<open>The session of a connection that has just been accepted.\<close>

definition greeted :: "asio_env \<Rightarrow> cpp_string \<Rightarrow> nr_server \<Rightarrow> handshake_session" where
  "greeted env ip w =
     (new_handshake_session True (srv_service_id w) (srv_service_name w))
       \<lparr>IP := ip, reading := [Handshake_read],
        posted := [server_hello_frame env (srv_service_id w) (srv_service_name w)]\<rparr>"

lemma on_accept_greets:
  assumes "length (srv_service_name w) < 1024"
  shows "\<exists>w'. on_accept env (Some ip) w = Done w' \<and> heap w' = (heap w)(next_ptr w := greeted env ip w) \<and>
    room w' = room w \<and> accepting w' \<and> next_ptr w' = Suc (next_ptr w) \<and>
    srv_service_id w' = srv_service_id w \<and> srv_service_name w' = srv_service_name w"
proof -
  let ?p = "next_ptr w"
  let ?w = "do_read_handshake ?p (upd_session ?p (\<lambda>s. s\<lparr>IP := ip\<rparr>)
     (w\<lparr>heap := (heap w)(?p := new_handshake_session False (srv_service_id w) (srv_service_name w)),
        next_ptr := Suc ?p\<rparr>))"
  have here: "heap ?w ?p = (new_handshake_session True (srv_service_id w) (srv_service_name w))
      \<lparr>IP := ip, reading := [Handshake_read]\<rparr>"
    by (simp add: do_read_handshake_def new_handshake_session_def)
  have fields: "m_service_id (heap ?w ?p) = srv_service_id w" "m_id (heap ?w ?p) = 0"
    "m_server_name (heap ?w ?p) = srv_service_name w"
    unfolding here by (simp_all add: new_handshake_session_def)
  have "on_accept env (Some ip) w =
      Done (do_accept (deliver_byte ?p (server_hello_frame env (srv_service_id w) (srv_service_name w)) ?w))"
    unfolding on_accept_def handshake_start_def option.case do_start_handshake_def Let_def fields
      server_hello_message [OF assms] by simp
  then show ?thesis
    by (simp add: do_accept_def here fun_eq_iff)
      (simp add: greeted_def do_read_handshake_def new_handshake_session_def deliver_byte_def upd_session_def)
qed

section \<open>The configuration of the client\<close>

lemma length_client_hello_ack_frame [simp]: "length (client_hello_ack_frame env i) = 65536"
  by (simp add: client_hello_ack_frame_def length_frame handshake_hello_ack_codec.enc_length)

lemma length_client_credentials_frame [simp]: "length (client_credentials_frame env) = 65536"
  by (simp add: client_credentials_frame_def handshake_credentials_ack_codec.enc_length)

lemma dec_client_hello_ack:
  "dec_handshake_hello_ack (byte_order env) (drop 8 (client_hello_ack_frame env i)) = client_hello_ack env i"
  by (simp add: client_hello_ack_frame_def drop_frame handshake_hello_ack_codec.dec_enc_append)

lemma configuration_in_frame:
  "take 20 (drop 20 (drop 8 (client_hello_ack_frame env i))) = client_configuration"
  by (simp add: client_hello_ack_frame_def frame_def enc_handshake_hello_ack_def client_hello_ack_def
      init_handshake_hello_ack_def)

lemma handshake_frame_hello_ack_of:
  assumes "length bs = 65536" and "xr_head (byte_order env) bs = head_code HANDSHAKE_HELLO_ACK"
    and terminated: "0 \<in> set (drop 28 bs)"
    and size: "unat (hha_configuration_buffersize (dec_handshake_hello_ack (byte_order env) (drop 8 bs))) = n"
    and configuration: "n \<le> 65508" "take n (drop 20 (drop 8 bs)) = cfg"
  shows "handshake_frame env p bs w =
    Done (do_read_handshake p (deliver_byte p (credentials_request_frame env)
      (upd_session p (\<lambda>s. s\<lparr>m_descriptor := m_descriptor s @ cfg\<rparr>) w)))"
  using assms handshake_credentials_codec.send_struct [of build_handshake_credentials "byte_order env"]
  by (simp add: handshake_frame_full check_handshake_hello_ack_def Let_def read_at_def
      credentials_request_frame_def print_buffer_total length_frame handshake_credentials_codec.enc_length
      del: head_code.simps drop_drop)

lemma handshake_frame_hello_ack:
  assumes e: "byte_order cenv = byte_order env"
  shows "handshake_frame env p (client_hello_ack_frame cenv i) w =
    Done (do_read_handshake p (deliver_byte p (credentials_request_frame env)
      (upd_session p (\<lambda>s. s\<lparr>m_descriptor := m_descriptor s @ client_configuration\<rparr>) w)))"
proof (rule handshake_frame_hello_ack_of [where n = 20])
  show "xr_head (byte_order env) (client_hello_ack_frame cenv i) = head_code HANDSHAKE_HELLO_ACK"
    by (simp add: client_hello_ack_frame_def e)
  show "unat (hha_configuration_buffersize (dec_handshake_hello_ack (byte_order env)
      (drop 8 (client_hello_ack_frame cenv i)))) = 20"
    using dec_client_hello_ack [of cenv i] by (simp add: e) (simp add: client_hello_ack_def)
  have "drop 28 (client_hello_ack_frame cenv i) = client_configuration @ zeros 65488"
    by (simp add: client_hello_ack_frame_def frame_def enc_handshake_hello_ack_def client_hello_ack_def
        init_handshake_hello_ack_def zeros_append)
  then show "0 \<in> set (drop 28 (client_hello_ack_frame cenv i))"
    by (simp add: zeros_def)
qed (rule length_client_hello_ack_frame, simp, rule configuration_in_frame)

section \<open>The credentials of the client\<close>

lemma strcmp_refl: "0 \<notin> set s \<Longrightarrow> strcmp (s @ 0 # r) (s @ [0]) = Inr 0"
  by (induction s) auto

lemma zeros_pos: "0 < n \<Longrightarrow> zeros n = 0 # zeros (n - 1)"
  by (cases n) (simp_all add: zeros_def)

lemma client_credentials_accepted: "credentials_rejected (client_credentials env) = Inr False"
proof -
  have "strcmp (str ''login'' @ zeros 1019) (cstr ''login'') = Inr 0"
    and "strcmp (str ''password'' @ zeros 1016) (cstr ''password'') = Inr 0"
    using strcmp_refl [of "str ''login''" "zeros 1018"] strcmp_refl [of "str ''password''" "zeros 1015"]
    by (simp_all add: zeros_pos [of 1019] zeros_pos [of 1016] cstr_def str_def)
  then show ?thesis by (simp add: credentials_rejected_def client_credentials_def)
qed

text \<open>What the server reads in the frame of the credentials.\<close>

lemma client_credentials_frame_read:
  assumes e: "byte_order cenv = byte_order env"
  shows "xr_head (byte_order env) (client_credentials_frame cenv) = head_code HANDSHAKE_CREDENTIALS_ACK"
    and "0 \<in> set (drop 2070 (client_credentials_frame cenv))"
    and "dec_handshake_credentials_ack (byte_order env) (drop 8 (client_credentials_frame cenv)) =
      client_credentials cenv"
proof -
  show "xr_head (byte_order env) (client_credentials_frame cenv) = head_code HANDSHAKE_CREDENTIALS_ACK"
    by (simp add: client_credentials_frame_def e xr_head_def enc_header_def mk_xr_message_header_def)
  have "drop 2070 (client_credentials_frame cenv) = zeros 63466"
    by (simp add: client_credentials_frame_def enc_handshake_credentials_ack_def client_credentials_def
        init_handshake_credentials_ack_def zeros_append)
  then show "0 \<in> set (drop 2070 (client_credentials_frame cenv))"
    by (simp add: zeros_def)
  show "dec_handshake_credentials_ack (byte_order env) (drop 8 (client_credentials_frame cenv)) =
      client_credentials cenv"
    by (simp add: client_credentials_frame_def e handshake_credentials_ack_codec.dec_enc_append)
qed

lemma handshake_frame_credentials:
  assumes e: "byte_order cenv = byte_order env"
  shows "handshake_frame env p (client_credentials_frame cenv) w =
    and_then (join env p (do_read_byte p w))
      (\<lambda>w3. Done (deliver_byte p (participant_join_frame env (m_id (heap w3 p))) w3))"
  using client_credentials_frame_read [OF e]
  by (simp add: handshake_frame_full check_handshake_credentials_ack_eq [OF client_credentials_accepted]
      del: head_code.simps)

section \<open>The answers of the client\<close>

lemma client_greeted:
  assumes "length name < 1024" and e: "byte_order cenv = byte_order env"
  shows "client_frame cenv (server_hello_frame env sid name) c =
    Done (client_do_read_byte (write_byte (client_hello_ack_frame cenv sid)
      (c\<lparr>cl_participant_id := sid, cl_service_id := sid\<rparr>)))"
proof -
  have wf: "wf_handshake_hello (server_hello env sid name)"
    using assms(1) by (simp add: wf_handshake_hello_def server_hello_def)
  have "drop 28 (drop 8 (server_hello_frame env sid name)) = name @ zeros (65500 - length name)"
    using assms(1) wf by (simp add: server_hello_frame_def drop_frame handshake_hello_codec.enc_length
        del: drop_drop) (simp add: enc_handshake_hello_def server_hello_def zeros_append)
  then have "printable (byte_order env) (server_hello_frame env sid name)"
    using assms(1) by (simp add: printable_def Let_def server_hello_frame_def zeros_def del: drop_drop)
  moreover from wf have "dec_handshake_hello (byte_order env) (drop 8 (server_hello_frame env sid name)) =
      server_hello env sid name"
    by (simp add: server_hello_frame_def drop_frame handshake_hello_codec.dec_enc_append)
  moreover have "xr_head (byte_order env) (server_hello_frame env sid name) = head_code HANDSHAKE_HELLO"
    by (simp add: server_hello_frame_def)
  moreover have "length (server_hello_frame env sid name) = 65536"
    using wf by (simp add: server_hello_frame_def length_frame handshake_hello_codec.enc_length)
  ultimately show ?thesis
    by (simp add: client_frame_full client_dispatch_full e server_hello_def del: head_code.simps)
qed

lemma client_asked:
  assumes e: "byte_order cenv = byte_order env"
  shows "client_frame cenv (credentials_request_frame env) c =
    Done (client_do_read_byte (write_byte (client_credentials_frame cenv) c))"
proof -
  have "length (credentials_request_frame env) = 65536"
    by (simp add: credentials_request_frame_def length_frame handshake_credentials_codec.enc_length)
  moreover have "xr_head (byte_order env) (credentials_request_frame env) = head_code HANDSHAKE_CREDENTIALS"
    by (simp add: credentials_request_frame_def)
  moreover have "0 \<in> set (drop 12 (credentials_request_frame env))"
    by (simp add: credentials_request_frame_def frame_def enc_handshake_credentials_def
        build_handshake_credentials_def zeros_def)
  ultimately show ?thesis
    by (simp add: client_frame_full client_dispatch_full e printable_def)
qed

lemma client_welcomed:
  assumes e: "byte_order cenv = byte_order env"
  shows "client_frame cenv (participant_join_frame env i) c =
    Done (client_do_read_byte (begin_participant_update (c\<lparr>cl_participant_id := i\<rparr>)))"
proof -
  let ?st = "init_participant_join
    \<lparr>pj_participant_id := i, pj_max_data_rate := 1, pj_allow_asynchronous_messages := 0xFFFF,
     pj_message_buffersize := 16, pj_message_buffer := welcome_message @ zeros 10224\<rparr>"
  have wf: "wf_participant_join ?st" by (simp add: wf_participant_join_def)
  then have "length (participant_join_frame env i) = 65536"
    by (simp add: participant_join_frame_def length_frame participant_join_codec.enc_length)
  moreover have "xr_head (byte_order env) (participant_join_frame env i) = head_code PARTICIPANT_JOIN"
    by (simp add: participant_join_frame_def)
  moreover have "dec_participant_join (byte_order env) (drop 8 (participant_join_frame env i)) = ?st"
    using wf by (simp add: participant_join_frame_def drop_frame participant_join_codec.dec_enc_append)
  ultimately show ?thesis
    by (simp add: client_frame_full client_dispatch_full e printable_def zeros_def)
qed

section \<open>From the connection to the member of the room\<close>

definition handshake_run :: "ptr \<Rightarrow> cpp_string \<Rightarrow> byte list \<Rightarrow> byte list \<Rightarrow> server_event list" where
  "handshake_run p ip a k =
     [Accept_ok (Some ip), Frame_received p Handshake_read a, Frame_received p Handshake_read k]"

text \<open>For every pair of frames that answers the two questions of the server.\<close>

lemma handshake_server_side_of:
  fixes w :: nr_server and env :: asio_env and ip :: cpp_string
  defines "i \<equiv> fst (mt_next (room_rng (room w)))" and "p \<equiv> next_ptr w"
  assumes safe: "safe w" and en: "accepting w" and ip: "length ip \<le> 512"
    and free: "length (participants (room w)) < unat (max_participants (room w))"
    and opt: "\<not> set_option_fails env True" and lens: "length a = 65536" "length k = 65536"
    and hello_ack: "\<And>v :: nr_server. handshake_frame env (next_ptr w) a v =
      Done (do_read_handshake (next_ptr w) (deliver_byte (next_ptr w) (credentials_request_frame env)
        (upd_session (next_ptr w) (\<lambda>s. s\<lparr>m_descriptor := m_descriptor s @ cfg\<rparr>) v)))"
    and credentials: "\<And>v :: nr_server. handshake_frame env (next_ptr w) k v =
      and_then (join env (next_ptr w) (do_read_byte (next_ptr w) v))
        (\<lambda>w3. Done (deliver_byte (next_ptr w) (participant_join_frame env (m_id (heap w3 (next_ptr w)))) w3))"
  shows "\<exists>w'. run server_enabled (server_handle env) (handshake_run p ip a k) w = Some (Done w') \<and>
    posted (heap w' p) = [server_hello_frame env (srv_service_id w) (srv_service_name w),
      credentials_request_frame env, participant_join_frame env i] \<and>
    m_id (heap w' p) = i \<and> m_descriptor (heap w' p) = cfg \<and>
    reading (heap w' p) = [Session_read] \<and> is_open (heap w' p) \<and>
    participants (room w') = oset_insert ((pkey w)(p := i)) p (participants (room w))"
proof -
  let ?s = "greeted env ip w"
  have name: "length (srv_service_name w) < 1024" using safe by (simp add: safe_def texts_ok_def)
  have out: "p \<notin> set (participants (room w))"
    using safe room_ok_less [OF server_inv_room_ok, of w p] by (auto simp: safe_def p_def)
  obtain w1 where w1: "on_accept env (Some ip) (w\<lparr>accepting := False\<rparr>) = Done w1"
      "heap w1 = (heap w)(p := ?s)" "room w1 = room w"
    using on_accept_greets [of "w\<lparr>accepting := False\<rparr>" env ip] name by (auto simp: p_def greeted_def)
  define w2 where "w2 = do_read_handshake p (deliver_byte p (credentials_request_frame env)
      (upd_session p (\<lambda>s. s\<lparr>m_descriptor := m_descriptor s @ cfg\<rparr>)
        (read_over p Handshake_read w1)))"
  have w2: "heap w2 = (heap w)(p := ?s\<lparr>m_descriptor := cfg,
      posted := posted ?s @ [credentials_request_frame env]\<rparr>)" "room w2 = room w"
    using w1(2,3) by (simp_all add: w2_def do_read_handshake_def read_over_def greeted_def
        new_handshake_session_def fun_eq_iff)
  define v where "v = do_read_byte p (read_over p Handshake_read w2)"
  have v: "heap v = (heap w)(p := ?s\<lparr>m_descriptor := cfg,
      posted := posted ?s @ [credentials_request_frame env], reading := [Session_read]\<rparr>)" "room v = room w"
    using w2 by (simp_all add: v_def do_read_byte_def read_over_def greeted_def fun_eq_iff)
  have "join env p v = Done (joined env p v)"
    by (rule join_admits) (use free opt ip in \<open>simp_all add: v greeted_def new_handshake_session_def\<close>)
  then have last: "handshake_frame env p k (read_over p Handshake_read w2) =
      Done (deliver_byte p (participant_join_frame env i) (joined env p v))"
    using credentials [of "read_over p Handshake_read w2"]
    unfolding p_def [symmetric] v_def [symmetric] by (simp add: joined_simps v i_def)
  have first: "handshake_frame env p a (read_over p Handshake_read w1) = Done w2"
    unfolding w2_def p_def by (rule hello_ack)
  have en1: "Handshake_read \<in> set (reading (heap w1 p))" and en2: "Handshake_read \<in> set (reading (heap w2 p))"
    by (simp_all add: w1 w2 greeted_def)
  have "run server_enabled (server_handle env) (handshake_run p ip a k) w =
      Some (Done (deliver_byte p (participant_join_frame env i) (joined env p v)))"
    using en en1 en2 lens w1(1) first last by (simp add: handshake_run_def)
  moreover have "m_descriptor (heap (joined env p v) p) = m_descriptor (heap v p)"
    using same_texts_joined [of v env p] by (simp add: same_texts_def)
  moreover have "participants (room (joined env p v)) =
      oset_insert ((pkey w)(p := i)) p (participants (room w))"
    unfolding participants_joined v(2) i_def [symmetric]
    by (rule oset_insert_cong) (use out in \<open>auto simp: pkey_def v\<close>)
  ultimately show ?thesis
    by (simp add: joined_simps v i_def greeted_def new_handshake_session_def)
qed

lemma handshake_server_side:
  fixes w :: nr_server and env cenv :: asio_env and ip :: cpp_string
  defines "i \<equiv> fst (mt_next (room_rng (room w)))" and "p \<equiv> next_ptr w"
    and "a \<equiv> client_hello_ack_frame cenv (srv_service_id w)" and "k \<equiv> client_credentials_frame cenv"
  assumes "safe w" and "accepting w" and "length ip \<le> 512"
    and "length (participants (room w)) < unat (max_participants (room w))"
    and "\<not> set_option_fails env True" and e: "byte_order cenv = byte_order env"
  shows "\<exists>w'. run server_enabled (server_handle env) (handshake_run p ip a k) w = Some (Done w') \<and>
    posted (heap w' p) = [server_hello_frame env (srv_service_id w) (srv_service_name w),
      credentials_request_frame env, participant_join_frame env i] \<and>
    m_id (heap w' p) = i \<and> m_descriptor (heap w' p) = client_configuration \<and>
    reading (heap w' p) = [Session_read] \<and> is_open (heap w' p) \<and>
    participants (room w') = oset_insert ((pkey w)(p := i)) p (participants (room w))"
  unfolding i_def p_def a_def k_def
  by (rule handshake_server_side_of)
    (simp_all only: assms handshake_frame_hello_ack [OF e] handshake_frame_credentials [OF e]
      length_client_hello_ack_frame length_client_credentials_frame not_False_eq_True)

end
