(* ===== verification/Samples.thy ===== *)
theory Samples
  imports Handshake_Correct
begin

text \<open>
  Concrete states on which the witnesses of the properties run: a server with two members in
  the room, at the addresses 0 and 1, and a third connection, at 2, in the middle of its
  handshake.
\<close>

definition sample_session :: "u64 \<Rightarrow> handshake_session" where
  "sample_session i =
     (new_handshake_session True 7 (str ''service''))
       \<lparr>m_id := i, IP := str ''10.0.0.1'',
        info_ptr := Some ((init_participant_info (\<lambda>_. 0))\<lparr>info_m_id := i\<rparr>),
        m_descriptor := str ''avatar'', reading := [Session_read]\<rparr>"

definition sample_newcomer :: handshake_session where
  "sample_newcomer =
     (new_handshake_session True 7 (str ''service''))\<lparr>IP := str ''10.0.0.2'', reading := [Handshake_read]\<rparr>"

definition sample_raw_room :: network_room where
  "sample_raw_room =
     \<lparr>participants = [], max_participants = 0, broadcast_participants_messages = False,
      m_broadcast_last_message = False, room_keep_alive = False, max_recent_msgs = 0,
      max_participant_buffer_size = 0, auto_update_participants = False, room_rng = [],
      slots_new_participant = [], slots_new_message = [], slots_broadcast_message = [],
      slots_participant_leave = [], rx_queue = []\<rparr>"

definition sample_server :: "u16 \<Rightarrow> nr_server" where
  "sample_server cap =
     (new_nr_server sample_raw_room)
       \<lparr>heap := (\<lambda>p. if p = 0 then sample_session 5 else if p = 1 then sample_session 9
                  else if p = 2 then sample_newcomer else new_handshake_session False 0 []),
        next_ptr := 3,
        room := (new_network_room sample_raw_room)
          \<lparr>participants := [0, 1], max_participants := cap,
           slots_new_participant := [1], slots_participant_leave := [3]\<rparr>\<rparr>"

lemma new_nr_server_fields [simp]:
  "accepting (new_nr_server raw)" "acceptor_open (new_nr_server raw)"
  "srv_service_name (new_nr_server raw) = []" "next_ptr (new_nr_server raw) = 0"
  "emitted (new_nr_server raw) = []"
  "srv_service_id (new_nr_server raw) = fst (mt_next mt_default)"
  "heap (new_nr_server raw) = (\<lambda>_. new_handshake_session False 0 [])"
  "room (new_nr_server raw) = (new_network_room raw)\<lparr>max_participants := 10\<rparr>"
  by (simp_all add: new_nr_server_def Let_def case_prod_beta do_accept_def set_max_participants_def
      upd_room_def DEFAULT_MAX_PARTICIPANTS_def)

lemma new_network_room_fields [simp]:
  "participants (new_network_room raw) = []" "room_rng (new_network_room raw) = mt_default"
  "room_keep_alive (new_network_room raw) = False"
  "slots_new_participant (new_network_room raw) = []" "slots_participant_leave (new_network_room raw) = []"
  by (simp_all add: new_network_room_def)

lemma sample_server_fields [simp]:
  "heap (sample_server cap) 0 = sample_session 5" "heap (sample_server cap) (Suc 0) = sample_session 9"
  "heap (sample_server cap) 2 = sample_newcomer"
  "next_ptr (sample_server cap) = 3" "participants (room (sample_server cap)) = [0, 1]"
  "max_participants (room (sample_server cap)) = cap" "accepting (sample_server cap)"
  "room_rng (room (sample_server cap)) = mt_default"
  "room_keep_alive (room (sample_server cap)) = False"
  "slots_new_participant (room (sample_server cap)) = [1]"
  "slots_participant_leave (room (sample_server cap)) = [3]"
  "srv_service_name (sample_server cap) = []" "emitted (sample_server cap) = []"
  "srv_service_id (sample_server cap) = fst (mt_next mt_default)"
  by (simp_all add: sample_server_def)

lemma sample_session_fields [simp]:
  "m_id (sample_session i) = i" "reading (sample_session i) = [Session_read]"
  "posted (sample_session i) = []" "writing (sample_session i) = []"
  "deque_write_buffer (sample_session i) = []" "is_open (sample_session i)"
  "deaf (sample_session i) = False" "m_descriptor (sample_session i) = str ''avatar''"
  "IP (sample_session i) = str ''10.0.0.1''" "m_name (sample_session i) = []"
  "info_ok (sample_session i)"
  by (simp_all add: sample_session_def new_handshake_session_def info_ok_def wf_participant_info_def
      init_participant_info_def)

lemma sample_newcomer_fields [simp]:
  "m_id sample_newcomer = 0" "reading sample_newcomer = [Handshake_read]"
  "posted sample_newcomer = []" "writing sample_newcomer = []"
  "deque_write_buffer sample_newcomer = []" "is_open sample_newcomer"
  "m_descriptor sample_newcomer = []" "IP sample_newcomer = str ''10.0.0.2''"
  by (simp_all add: sample_newcomer_def new_handshake_session_def)

lemma sample_heap:
  "heap (sample_server cap) p =
     (if p = 0 then sample_session 5 else if p = 1 then sample_session 9
      else if p = 2 then sample_newcomer else new_handshake_session False 0 [])"
  by (simp add: sample_server_def)

lemma sample_safe [simp]: "safe (sample_server cap)"
proof -
  have "oset_ok (pkey (sample_server cap)) [0, 1]"
    by (simp add: oset_ok_def pkey_def)
  then have "room_ok (sample_server cap)"
    by (simp add: room_ok_def)
  moreover have "session_ok [0, 1] (heap (sample_server cap) p) p 3" for p
    by (simp add: sample_heap session_ok_def new_handshake_session_def)
  moreover have "texts_ok (sample_server cap)"
    by (simp add: texts_ok_def sample_heap new_handshake_session_def)
  ultimately show ?thesis by (simp add: safe_def server_inv_def)
qed

lemma sample_room_ok [simp]: "room_ok (sample_server cap)"
  using sample_safe [of cap] by (simp add: safe_def server_inv_def)

lemma sample_inv [simp]: "server_inv (sample_server cap)"
  using sample_safe [of cap] by (simp add: safe_def)

lemma sample_find [simp]:
  "get_participant_ptr 5 (sample_server cap) = Some 0"
  "get_participant_ptr 9 (sample_server cap) = Some 1"
  by (simp_all add: get_participant_ptr_iff)

lemma sample_find_None [simp]:
  "i \<noteq> 5 \<Longrightarrow> i \<noteq> 9 \<Longrightarrow> get_participant_ptr i (sample_server cap) = None"
  by (simp add: get_participant_ptr_None)

definition sample_update_frame :: "byte list" where
  "sample_update_frame =
     frame (byte_order sample_env) (head_code PARTICIPANT_UPDATE_ACK)
       (enc_participant_update_ack (byte_order sample_env) (init_participant_update_ack (\<lambda>_. 0)))"

definition sample_leave_frame :: "byte list" where
  "sample_leave_frame =
     frame (byte_order sample_env) (head_code PARTICIPANT_LEAVE_ACK) (zeros 8)"

end
