(* ===== verification/Room_Properties.thy ===== *)
theory Room_Properties
  imports Samples
begin

text \<open>
  The properties of the room: who gets in, who is told what when participants come, speak and
  go, and where the room trusts what a client says.
\<close>

section \<open>Joining\<close>

text \<open>C17: a newcomer to a room that is not full joins: the next number of the engine becomes its
  identifier and finds it from then on, nobody else is lost or replaced, the count grows by one,
  the registered callbacks are raised once, and the public information holds the identifier and the
  address of the peer.\<close>

theorem join_admits_newcomer:
  assumes ok: "room_ok w" and new: "p \<notin> set (participants (room w))" and less: "p < next_ptr w"
    and free: "length (participants (room w)) < unat (max_participants (room w))"
    and opt: "\<not> set_option_fails env (is_open (heap w p))" and ip: "length (IP (heap w p)) \<le> 512"
    and i: "i = fst (mt_next (room_rng (room w)))" and unused: "get_participant_ptr i w = None"
  shows "\<exists>w' info. join env p w = Done w' \<and> room_ok w' \<and>
    (\<forall>j. get_participant_ptr j w' = (if j = i then Some p else get_participant_ptr j w)) \<and>
    participants_count w' = Suc (participants_count w) \<and>
    emitted w' = emitted w @ map (\<lambda>c. (c, Sig_new_participant i)) (slots_new_participant (room w)) \<and>
    info_ptr (heap w' p) = Some info \<and> info_m_id info = i \<and>
    ipv4_ip info = IP (heap w p) @ zeros (512 - length (IP (heap w p)))"
proof -
  have "join env p w = Done (joined env p w)" by (rule join_admits [OF free opt ip])
  moreover have "room_ok (joined env p w)" by (rule room_ok_joined [OF ok new less ip free])
  moreover have "\<exists>info. info_ptr (heap (joined env p w) p) = Some info \<and> info_m_id info = i \<and>
      ipv4_ip info = IP (heap w p) @ zeros (512 - length (IP (heap w p)))"
    by (simp add: joined_def Let_def i)
  ultimately show ?thesis
    using get_participant_ptr_joined [OF ok new, of _ env] participants_count_joined [OF ok new, of env]
      unused by (auto simp: i joined_simps)
qed

lemma first_id_unused: "get_participant_ptr (fst (mt_next mt_default)) (sample_server cap) = None"
  by (simp add: mt_default_first)

theorem join_admits_newcomer_witness:
  "\<exists>w'. join sample_env 2 (sample_server 10) = Done w' \<and> participants_count w' = 3"
  using join_admits_newcomer [of "sample_server 10" 2 sample_env "fst (mt_next mt_default)"]
  by (auto simp: first_id_unused participants_count_def)

text \<open>A full room refuses: the newcomer's socket is closed, and the room, the signals and every
  other session stay as they were.\<close>

theorem join_refuses_when_full:
  assumes "unat (max_participants (room w)) \<le> length (participants (room w))"
  shows "\<exists>w'. join env p w = Done w' \<and> \<not> is_open (heap w' p) \<and> room w' = room w \<and>
    emitted w' = emitted w \<and> (\<forall>q. q \<noteq> p \<longrightarrow> heap w' q = heap w q)"
  using join_full [OF assms] by simp

theorem join_refuses_when_full_witness:
  "\<exists>w'. join sample_env 2 (sample_server 2) = Done w' \<and> \<not> is_open (heap w' 2) \<and>
     participants (room w') = [0, 1]"
  using join_refuses_when_full [of "sample_server 2" sample_env 2] by auto

section \<open>Introducing, relaying, leaving\<close>

text \<open>Introducing a participant to the room succeeds when no descriptor exceeds the buffer of the
  message: everybody else gets exactly one \<open>PARTICIPANT_NEW\<close> that describes the newcomer, and the
  newcomer gets one for each of the others, in the order of the room.\<close>

theorem introduction:
  assumes ok: "room_ok w" and p: "get_participant_ptr i w = Some p"
    and small: "\<forall>q \<in> set (participants (room w)). length (m_descriptor (heap w q)) \<le> 20480"
  shows "\<exists>w' s l. init_new_participant env i w = Done w' \<and> room w' = room w \<and> emitted w' = emitted w \<and>
    describes w p s \<and> list_all2 (describes w) (filter (\<lambda>q. q \<noteq> p) (participants (room w))) l \<and>
    posted (heap w' p) = posted (heap w p) @ map (participant_new_frame env) l \<and>
    (\<forall>q. q \<noteq> p \<longrightarrow> posted (heap w' q) =
      posted (heap w q) @ (if q \<in> set (participants (room w)) then [participant_new_frame env s] else []))"
proof -
  obtain s l where "init_new_participant env i w =
      Done (post_all p (map (participant_new_frame env) l)
             (post_to (\<lambda>q. q \<in> set (participants (room w)) \<and> q \<noteq> p) (participant_new_frame env s) w))"
    "describes w p s" "list_all2 (describes w) (filter (\<lambda>q. q \<noteq> p) (participants (room w))) l"
    using init_new_participant_ok [OF assms] by blast
  then show ?thesis by (intro exI conjI) (assumption | simp)+
qed

theorem introduction_witness:
  "\<exists>w' s. init_new_participant sample_env 9 (sample_server 10) = Done w' \<and>
     posted (heap w' 0) = [participant_new_frame sample_env s] \<and> pn_participant_id s = 9 \<and>
     length (posted (heap w' 1)) = 1"
proof -
  obtain w' s l where "init_new_participant sample_env 9 (sample_server 10) = Done w'"
    "describes (sample_server 10) 1 s" "list_all2 (describes (sample_server 10)) [0] l"
    "posted (heap w' 1) = map (participant_new_frame sample_env) l"
    "posted (heap w' 0) = [participant_new_frame sample_env s]"
    using introduction [of "sample_server 10" 9 1 sample_env] by auto
  moreover have "length l = 1" using calculation(3) list_all2_lengthD by fastforce
  ultimately show ?thesis
    by (intro exI [of _ w'] exI [of _ s]) (auto simp: describes_def)
qed

text \<open>What the relay does, for any frame under that head.\<close>

lemma update_relay:
  assumes ok: "server_inv w" and p: "p \<in> set (participants (room w))"
    and read: "Session_read \<in> set (reading (heap w p))"
    and len: "length bs = 65536" and head: "xr_head (byte_order env) bs = head_code PARTICIPANT_UPDATE_ACK"
  shows "\<exists>w'. server_handle env (Frame_received p Session_read bs) w = Done w' \<and> room w' = room w \<and>
    (\<forall>q. posted (heap w' q) =
      posted (heap w q) @ (if q \<in> set (participants (room w)) \<and> q \<noteq> p then [bs] else [])) \<and>
    reading (heap w' p) = [Session_read]"
proof -
  let ?w = "read_over p Session_read w"
  have ids: "m_id (heap ?w q) = m_id (heap w q)" for q by (simp add: read_over_def)
  have inj: "q \<in> set (participants (room w)) \<Longrightarrow> m_id (heap w q) = m_id (heap w p) \<longleftrightarrow> q = p" for q
    using get_participant_ptr_self [OF server_inv_room_ok [OF ok]] p by (metis option.inject)
  have ok': "room_ok ?w"
    by (rule server_inv_room_ok [OF server_inv_read_over [OF ok]])
  have "server_handle env (Frame_received p Session_read bs) w = Done (do_read_byte p
      (post_to (\<lambda>q. q \<in> set (participants (room w)) \<and> m_id (heap w q) \<noteq> m_id (heap w p)) bs ?w))"
    using deliver_to_all_except_to_one_eq [OF ok']
    by (simp add: session_frame_full len session_dispatch_full head ids del: head_code.simps)
  moreover have "posted (heap ?w q) = posted (heap w q)" for q by (simp add: read_over_def)
  ultimately show ?thesis
    using inj p read_over_reading [OF ok read] by (auto simp: do_read_byte_def)
qed

text \<open>C11: a \<open>PARTICIPANT_UPDATE_ACK\<close> of a member is relayed byte by byte: everybody else in the room
  gets the very frame, the sender and the sessions outside the room get nothing, and whether a
  receiver is deaf makes no difference.\<close>

theorem update_relayed_to_the_others:
  assumes ok: "server_inv w" and p: "p \<in> set (participants (room w))"
    and read: "Session_read \<in> set (reading (heap w p))"
    and upd: "wf_participant_update_ack u"
    and bs: "bs = frame (byte_order env) (head_code PARTICIPANT_UPDATE_ACK)
      (enc_participant_update_ack (byte_order env) u)"
  shows "\<exists>w'. server_handle env (Frame_received p Session_read bs) w = Done w' \<and> room w' = room w \<and>
    (\<forall>q. posted (heap w' q) =
      posted (heap w q) @ (if q \<in> set (participants (room w)) \<and> q \<noteq> p then [bs] else [])) \<and>
    reading (heap w' p) = [Session_read] \<and>
    dec_participant_update_ack (byte_order env) (drop 8 bs) = u"
proof -
  have "length bs = 65536"
    using upd by (simp add: bs length_frame participant_update_ack_codec.enc_length)
  moreover have "xr_head (byte_order env) bs = head_code PARTICIPANT_UPDATE_ACK"
    by (simp add: bs)
  moreover have "dec_participant_update_ack (byte_order env) (drop 8 bs) = u"
    using upd by (simp add: bs drop_frame participant_update_ack_codec.dec_enc_append)
  ultimately show ?thesis using update_relay [OF ok p read, of bs env] by simp
qed

theorem update_relayed_to_the_others_witness:
  "\<exists>w'. server_handle sample_env (Frame_received 0 Session_read sample_update_frame) (sample_server 10) = Done w' \<and>
     posted (heap w' 1) = [sample_update_frame] \<and> posted (heap w' 0) = []"
proof -
  obtain w' where "server_handle sample_env (Frame_received 0 Session_read sample_update_frame)
      (sample_server 10) = Done w'"
    "\<forall>q. posted (heap w' q) = posted (heap (sample_server 10) q) @
      (if q \<in> set (participants (room (sample_server 10))) \<and> q \<noteq> 0 then [sample_update_frame] else [])"
    using update_relayed_to_the_others [of "sample_server 10" 0 "init_participant_update_ack (\<lambda>_. 0)"
        sample_update_frame sample_env] by (auto simp: sample_update_frame_def)
  then show ?thesis by (auto simp del: server_handle.simps)
qed

lemma connection_breaks:
  assumes ok: "server_inv w" and p: "p \<in> set (participants (room w))"
    and read: "Session_read \<in> set (reading (heap w p))"
  shows "\<exists>w'. server_handle env (Read_failed p Session_read) w = Done w' \<and> server_inv w' \<and>
    set (participants (room w')) = set (participants (room w)) - {p} \<and>
    get_participant_ptr (m_id (heap w p)) w' = None \<and>
    emitted w' = emitted w @
      map (\<lambda>c. (c, Sig_participant_leave (m_id (heap w p)))) (slots_participant_leave (room w)) \<and>
    (\<forall>q. posted (heap w' q) = posted (heap w q) @
      (if q \<in> set (participants (room w)) - {p} then [participant_leave_frame env (m_id (heap w p))] else [])) \<and>
    reading (heap w' p) = [] \<and> (\<forall>q. m_id (heap w' q) = m_id (heap w q)) \<and>
    slots_participant_leave (room w') = slots_participant_leave (room w)"
proof -
  let ?i = "m_id (heap w p)"
  let ?v = "read_over p Session_read w"
  let ?e = "emit (slots_participant_leave (room w)) (Sig_participant_leave ?i) ?v"
  let ?w = "left_room env p ?e"
  have ids: "m_id (heap ?v q) = m_id (heap w q)" "posted (heap ?v q) = posted (heap w q)" for q
    by (simp_all add: read_over_def)
  have inj: "q \<in> set (participants (room w)) \<Longrightarrow> m_id (heap w q) = ?i \<longleftrightarrow> q = p" for q
    using get_participant_ptr_self [OF server_inv_room_ok [OF ok]] p by (metis option.inject)
  have ok': "room_ok ?v" by (rule server_inv_room_ok [OF server_inv_read_over [OF ok]])
  have step: "server_handle env (Read_failed p Session_read) w = Done ?w"
    using leave_eq [OF ok', of env p] ids by (simp add: session_read_failed_def)
  have inv: "server_inv ?w"
    by (rule server_handle_inv [OF ok _ step]) (simp add: read)
  have set: "set (participants (room ?w)) = set (participants (room w)) - {p}"
    using set_left_room [of ?e env p] ok' inj ids by auto
  then have "get_participant_ptr ?i ?w = None"
    using get_participant_ptr_None [OF server_inv_room_ok [OF inv], of ?i] inj ids
    by (auto simp: left_room_def)
  then show ?thesis
    using step inv set inj ids read_over_reading [OF ok read]
    by (auto simp: left_room_def without_def upd_room_def)
qed

text \<open>C13: when the connection of a member breaks, the member is erased, the leave callbacks are raised
  once with its identifier, and exactly those who remain are sent a \<open>PARTICIPANT_LEAVE\<close> that names
  it; the room stays well-formed and no read is started again.\<close>

theorem broken_connection_leaves:
  assumes ok: "server_inv w" and p: "p \<in> set (participants (room w))"
    and read: "Session_read \<in> set (reading (heap w p))"
  shows "\<exists>w'. server_handle env (Read_failed p Session_read) w = Done w' \<and> server_inv w' \<and>
    set (participants (room w')) = set (participants (room w)) - {p} \<and>
    get_participant_ptr (m_id (heap w p)) w' = None \<and>
    emitted w' = emitted w @
      map (\<lambda>c. (c, Sig_participant_leave (m_id (heap w p)))) (slots_participant_leave (room w)) \<and>
    (\<forall>q. posted (heap w' q) = posted (heap w q) @
      (if q \<in> set (participants (room w)) - {p} then [participant_leave_frame env (m_id (heap w p))] else [])) \<and>
    reading (heap w' p) = []"
  using connection_breaks [OF assms, of env] by blast

theorem broken_connection_leaves_witness:
  "\<exists>w'. server_handle sample_env (Read_failed 0 Session_read) (sample_server 10) = Done w' \<and>
     set (participants (room w')) = {1} \<and> emitted w' = [(3, Sig_participant_leave 5)] \<and>
     posted (heap w' 1) = [participant_leave_frame sample_env 5]"
proof -
  obtain w' where w': "server_handle sample_env (Read_failed 0 Session_read) (sample_server 10) = Done w'"
    "set (participants (room w')) = set (participants (room (sample_server 10))) - {0}"
    "emitted w' = emitted (sample_server 10) @ map (\<lambda>c. (c, Sig_participant_leave (m_id (heap (sample_server 10) 0))))
       (slots_participant_leave (room (sample_server 10)))"
    "\<forall>q. posted (heap w' q) = posted (heap (sample_server 10) q) @
      (if q \<in> set (participants (room (sample_server 10))) - {0}
       then [participant_leave_frame sample_env (m_id (heap (sample_server 10) 0))] else [])"
    using broken_connection_leaves [of "sample_server 10" 0 sample_env] by auto
  then show ?thesis by (auto simp del: server_handle.simps)
qed

text \<open>C31: a \<open>PARTICIPANT_LEAVE_ACK\<close> also takes the member out and tells the others, but raises no leave
  callback and keeps the session reading; when the same session sends it a second time, nobody is
  found and the server dereferences a null pointer.\<close>

theorem leave_ack_twice:
  assumes ok: "server_inv w" and p: "p \<in> set (participants (room w))"
    and read: "Session_read \<in> set (reading (heap w p))"
    and len: "length bs = 65536" and head: "xr_head (byte_order env) bs = head_code PARTICIPANT_LEAVE_ACK"
  shows "\<exists>w'. server_handle env (Frame_received p Session_read bs) w = Done w' \<and>
    set (participants (room w')) = set (participants (room w)) - {p} \<and> emitted w' = emitted w \<and>
    (\<forall>q. posted (heap w' q) = posted (heap w q) @
      (if q \<in> set (participants (room w)) - {p} then [participant_leave_frame env (m_id (heap w p))] else [])) \<and>
    server_enabled (Frame_received p Session_read bs) w' \<and>
    server_handle env (Frame_received p Session_read bs) w' = Undefined NullDeref"
proof -
  let ?i = "m_id (heap w p)"
  let ?v = "read_over p Session_read w"
  let ?w = "do_read_byte p (left_room env p ?v)"
  have ids: "m_id (heap ?v q) = m_id (heap w q)" "posted (heap ?v q) = posted (heap w q)" for q
    by (simp_all add: read_over_def)
  have inj: "q \<in> set (participants (room w)) \<Longrightarrow> m_id (heap w q) = ?i \<longleftrightarrow> q = p" for q
    using get_participant_ptr_self [OF server_inv_room_ok [OF ok]] p by (metis option.inject)
  have ok': "room_ok ?v" by (rule server_inv_room_ok [OF server_inv_read_over [OF ok]])
  have step: "server_handle env (Frame_received p Session_read bs) w' =
      and_then (disconnect_participant env (m_id (heap w' p)) (read_over p Session_read w'))
        (\<lambda>w1. Done (do_read_byte p w1))" for w'
    using len by (simp add: session_frame_full session_dispatch_full head)
      (simp add: read_over_def)
  have "get_participant_ptr ?i ?v = Some p"
    using p ids by (simp add: get_participant_ptr_iff [OF ok'])
  then have first: "server_handle env (Frame_received p Session_read bs) w = Done ?w"
    unfolding step disconnect_participant_def by (simp add: disconnect_participant_ptr_Some [OF ok'])
  have read': "Session_read \<in> set (reading (heap ?w p))" by (simp add: do_read_byte_def)
  have inv: "server_inv ?w"
    by (rule server_handle_inv [OF ok _ first]) (simp add: read len)
  have set: "set (participants (room ?w)) = set (participants (room w)) - {p}"
    using set_left_room [OF ok', of env p] inj ids by (auto simp: do_read_byte_def)
  have "room_ok (read_over p Session_read ?w)"
    by (rule server_inv_room_ok [OF server_inv_read_over [OF inv]])
  then have "get_participant_ptr ?i (read_over p Session_read ?w) = None"
    using set inj by (auto simp: get_participant_ptr_None read_over_def do_read_byte_def left_room_def)
  moreover have "m_id (heap ?w p) = ?i" by (simp add: do_read_byte_def left_room_def ids)
  ultimately have "server_handle env (Frame_received p Session_read bs) ?w = Undefined NullDeref"
    unfolding step by (simp add: disconnect_participant_def disconnect_participant_ptr_def)
  then show ?thesis
    using first set inj ids read' len by (auto simp: do_read_byte_def left_room_def)
qed

theorem leave_ack_twice_witness:
  "\<exists>w'. server_handle sample_env (Frame_received 0 Session_read sample_leave_frame) (sample_server 10) = Done w' \<and>
     set (participants (room w')) = {1} \<and>
     server_handle sample_env (Frame_received 0 Session_read sample_leave_frame) w' = Undefined NullDeref"
proof -
  obtain w' where "server_handle sample_env (Frame_received 0 Session_read sample_leave_frame)
      (sample_server 10) = Done w'"
    "set (participants (room w')) = set (participants (room (sample_server 10))) - {0}"
    "server_handle sample_env (Frame_received 0 Session_read sample_leave_frame) w' = Undefined NullDeref"
    using leave_ack_twice [of "sample_server 10" 0 sample_leave_frame sample_env]
    by (auto simp: sample_leave_frame_def length_frame simp del: server_handle.simps)
  then show ?thesis by (auto simp del: server_handle.simps)
qed

section \<open>What a member says about itself\<close>

definition join_ack_frame :: "asio_env \<Rightarrow> ST_PARTICIPANT_JOIN_ACK \<Rightarrow> byte list" where
  "join_ack_frame env s =
     frame (byte_order env) (head_code PARTICIPANT_JOIN_ACK) (enc_participant_join_ack (byte_order env) s)"

lemma length_join_ack_frame: "wf_participant_join_ack s \<Longrightarrow> length (join_ack_frame env s) = 65536"
  by (simp add: join_ack_frame_def length_frame participant_join_ack_codec.enc_length)

lemma join_ack_received:
  assumes "wf_participant_join_ack s"
  shows "server_handle env (Frame_received p Session_read (join_ack_frame env s)) w =
    and_then
      (if unat (pja_json_buffersize s) \<le> 65516
       then init_new_participant env (pja_participant_id s)
         (upd_session p (\<lambda>t. t\<lparr>m_descriptor :=
            take (unat (pja_json_buffersize s)) (pja_json_buffer s @ zeros 45036)\<rparr>) (read_over p Session_read w))
       else Undefined OutOfBounds)
      (\<lambda>w1. Done (do_read_byte p w1))"
proof -
  let ?n = "unat (pja_json_buffersize s)" and ?payload = "drop 8 (join_ack_frame env s)"
  have len: "length (enc_participant_join_ack (byte_order env) s) = 20492"
    by (rule participant_join_ack_codec.enc_length [OF assms])
  have payload: "?payload = enc_participant_join_ack (byte_order env) s @ zeros 45036"
    by (simp add: join_ack_frame_def drop_frame len)
  have dec: "dec_participant_join_ack (byte_order env) ?payload = s"
    unfolding payload by (rule participant_join_ack_codec.dec_enc_append [OF assms])
  have buffer: "drop 12 ?payload = pja_json_buffer s @ zeros 45036"
    unfolding payload by (simp add: enc_participant_join_ack_def)
  have "length ?payload = 65528" by (simp add: length_join_ack_frame [OF assms])
  then have ack: "on_participant_join_ack env p ?payload v =
    (if ?n \<le> 65516
     then init_new_participant env (pja_participant_id s)
         (upd_session p (\<lambda>t. t\<lparr>m_descriptor := take ?n (pja_json_buffer s @ zeros 45036)\<rparr>) v)
     else Undefined OutOfBounds)" for v
    unfolding on_participant_join_ack_def dec read_at_def buffer
    by (simp add: upd_session_def Let_def)
  have head: "xr_head (byte_order env) (join_ack_frame env s) = head_code PARTICIPANT_JOIN_ACK"
    by (simp add: join_ack_frame_def)
  show ?thesis
    unfolding server_handle.simps read_loop.case session_frame_full [OF length_join_ack_frame [OF assms]]
      session_dispatch_full [OF length_join_ack_frame [OF assms]] head ack by simp
qed

lemma get_participant_ptr_descriptor [simp]:
  "get_participant_ptr i (upd_session p (\<lambda>t. t\<lparr>m_descriptor := d\<rparr>) w) = get_participant_ptr i w"
  unfolding get_participant_ptr_def upd_session_simps by (rule oset_find_cong) (simp add: pkey_def)

lemma get_participant_ptr_read_over [simp]:
  "get_participant_ptr i (read_over p l w) = get_participant_ptr i w"
  unfolding get_participant_ptr_def read_over_frame by (rule oset_find_cong) (simp add: pkey_def read_over_def)

text \<open>What follows a well-formed \<open>PARTICIPANT_JOIN_ACK\<close> of a member for itself.\<close>

lemma join_ack_introduction:
  assumes ok: "server_inv w" and p: "p \<in> set (participants (room w))"
    and s: "wf_participant_join_ack s" and own: "pja_participant_id s = m_id (heap w p)"
    and size: "unat (pja_json_buffersize s) \<le> 20480"
    and small: "\<forall>q \<in> set (participants (room w)). length (m_descriptor (heap w q)) \<le> 20480"
  shows "\<exists>w' d l. server_handle env (Frame_received p Session_read (join_ack_frame env s)) w = Done w' \<and>
    m_descriptor (heap w' p) = take (unat (pja_json_buffersize s)) (pja_json_buffer s) \<and>
    describes w' p d \<and>
    (\<forall>q \<in> set (participants (room w)). q \<noteq> p \<longrightarrow>
      posted (heap w' q) = posted (heap w q) @ [participant_new_frame env d]) \<and>
    posted (heap w' p) = posted (heap w p) @ map (participant_new_frame env) l \<and>
    list_all2 (describes w') (filter (\<lambda>q. q \<noteq> p) (participants (room w))) l"
proof -
  let ?n = "unat (pja_json_buffersize s)"
  let ?v = "upd_session p (\<lambda>t. t\<lparr>m_descriptor := take ?n (pja_json_buffer s)\<rparr>) (read_over p Session_read w)"
  have take: "take ?n (pja_json_buffer s @ zeros 45036) = take ?n (pja_json_buffer s)"
    using s size by (simp add: wf_participant_join_ack_def)
  have ok': "room_ok ?v"
    by (intro room_ok_descriptor server_inv_room_ok [OF server_inv_read_over [OF ok]])
  have "get_participant_ptr (pja_participant_id s) ?v = Some p"
    by (simp add: own get_participant_ptr_self [OF server_inv_room_ok [OF ok] p])
  moreover have "\<forall>q \<in> set (participants (room ?v)). length (m_descriptor (heap ?v q)) \<le> 20480"
    using small size by (auto simp: read_over_def)
  ultimately obtain d l where step: "init_new_participant env (pja_participant_id s) ?v =
      Done (post_all p (map (participant_new_frame env) l)
        (post_to (\<lambda>q. q \<in> set (participants (room ?v)) \<and> q \<noteq> p) (participant_new_frame env d) ?v))"
    "describes ?v p d" "list_all2 (describes ?v) (filter (\<lambda>q. q \<noteq> p) (participants (room ?v))) l"
    using init_new_participant_ok [OF ok', of _ p env] by blast
  let ?w = "do_read_byte p (post_all p (map (participant_new_frame env) l)
        (post_to (\<lambda>q. q \<in> set (participants (room ?v)) \<and> q \<noteq> p) (participant_new_frame env d) ?v))"
  have same: "describes ?w = describes ?v"
    by (auto simp: describes_def fun_eq_iff do_read_byte_def)
  have "server_handle env (Frame_received p Session_read (join_ack_frame env s)) w = Done ?w"
    unfolding join_ack_received [OF s] take using size step(1) by simp
  then show ?thesis
    using step(2,3) same p by (intro exI [of _ ?w] exI [of _ d] exI [of _ l])
      (auto simp: do_read_byte_def read_over_def)
qed

text \<open>C12: a \<open>PARTICIPANT_JOIN_ACK\<close> of a member that names itself stores the descriptor it carries and
  introduces the member: everybody else gets one \<open>PARTICIPANT_NEW\<close> with that descriptor, and the
  member learns of everybody else.\<close>

theorem join_ack_introduces:
  assumes ok: "server_inv w" and p: "p \<in> set (participants (room w))"
    and s: "wf_participant_join_ack s" and own: "pja_participant_id s = m_id (heap w p)"
    and size: "unat (pja_json_buffersize s) \<le> 20480"
    and small: "\<forall>q \<in> set (participants (room w)). length (m_descriptor (heap w q)) \<le> 20480"
  shows "\<exists>w' d l. server_handle env (Frame_received p Session_read (join_ack_frame env s)) w = Done w' \<and>
    m_descriptor (heap w' p) = take (unat (pja_json_buffersize s)) (pja_json_buffer s) \<and>
    describes w' p d \<and>
    (\<forall>q \<in> set (participants (room w)). q \<noteq> p \<longrightarrow>
      posted (heap w' q) = posted (heap w q) @ [participant_new_frame env d]) \<and>
    posted (heap w' p) = posted (heap w p) @ map (participant_new_frame env) l \<and>
    list_all2 (describes w') (filter (\<lambda>q. q \<noteq> p) (participants (room w))) l"
  by (rule join_ack_introduction [OF assms])

definition sample_join_ack :: "u64 \<Rightarrow> u32 \<Rightarrow> ST_PARTICIPANT_JOIN_ACK" where
  "sample_join_ack i n = \<lparr>pja_participant_id = i, pja_json_buffersize = n, pja_json_buffer = zeros 20480\<rparr>"

lemma wf_sample_join_ack [simp]: "wf_participant_join_ack (sample_join_ack i n)"
  by (simp add: wf_participant_join_ack_def sample_join_ack_def)

theorem join_ack_introduces_witness:
  "\<exists>w'. server_handle sample_env (Frame_received 0 Session_read (join_ack_frame sample_env (sample_join_ack 5 3)))
       (sample_server 10) = Done w' \<and> m_descriptor (heap w' 0) = zeros 3"
proof -
  obtain w' where "server_handle sample_env
      (Frame_received 0 Session_read (join_ack_frame sample_env (sample_join_ack 5 3))) (sample_server 10) = Done w'"
    "m_descriptor (heap w' 0) =
       take (unat (pja_json_buffersize (sample_join_ack 5 3))) (pja_json_buffer (sample_join_ack 5 3))"
    using join_ack_introduces [of "sample_server 10" 0 "sample_join_ack 5 3" sample_env]
      wf_sample_join_ack [of 5 3]
    by (auto simp: sample_join_ack_def simp del: server_handle.simps)
  then show ?thesis by (auto simp: sample_join_ack_def simp del: server_handle.simps)
qed

text \<open>The size in a \<open>PARTICIPANT_JOIN_ACK\<close> is trusted: with a size over the 20480 bytes of a
  descriptor buffer, a member that names itself makes the server read or write out of bounds,
  however small the room is.\<close>

theorem join_ack_oversized:
  assumes ok: "server_inv w" and p: "p \<in> set (participants (room w))"
    and s: "wf_participant_join_ack s" and own: "pja_participant_id s = m_id (heap w p)"
    and size: "20480 < unat (pja_json_buffersize s)"
  shows "server_handle env (Frame_received p Session_read (join_ack_frame env s)) w = Undefined OutOfBounds"
proof (cases "unat (pja_json_buffersize s) \<le> 65516")
  case True
  let ?d = "take (unat (pja_json_buffersize s)) (pja_json_buffer s @ zeros 45036)"
  let ?v = "upd_session p (\<lambda>t. t\<lparr>m_descriptor := ?d\<rparr>) (read_over p Session_read w)"
  have "get_participant_ptr (pja_participant_id s) ?v = Some p"
    by (simp add: own get_participant_ptr_self [OF server_inv_room_ok [OF ok] p])
  moreover have "length ?d = unat (pja_json_buffersize s)"
    using True s by (simp add: wf_participant_join_ack_def)
  then have "fill_participant_new i ?d (init_participant_new mem) = Inl OutOfBounds" for i mem
    using True size by (intro fill_participant_new_overflow) auto
  ultimately show ?thesis
    using True unfolding join_ack_received [OF s]
    by (simp add: init_new_participant_def new_paticipant_to_all_def)
qed (simp add: join_ack_received [OF s] del: server_handle.simps)

theorem join_ack_oversized_witness:
  "server_handle sample_env (Frame_received 0 Session_read (join_ack_frame sample_env (sample_join_ack 5 20481)))
     (sample_server 10) = Undefined OutOfBounds"
  by (rule join_ack_oversized) (simp_all add: sample_join_ack_def wf_participant_join_ack_def)

text \<open>The identifier in a \<open>PARTICIPANT_JOIN_ACK\<close> is trusted as well: one that nobody in the room
  has makes the server dereference a null pointer.\<close>

theorem join_ack_unknown_id:
  assumes s: "wf_participant_join_ack s" and size: "unat (pja_json_buffersize s) \<le> 65516"
    and unknown: "get_participant_ptr (pja_participant_id s) w = None"
  shows "server_handle env (Frame_received p Session_read (join_ack_frame env s)) w = Undefined NullDeref"
  unfolding join_ack_received [OF s] using size unknown by (simp add: init_new_participant_unknown)

theorem join_ack_unknown_id_witness:
  "server_handle sample_env (Frame_received 0 Session_read (join_ack_frame sample_env (sample_join_ack 6 3)))
     (sample_server 10) = Undefined NullDeref"
  by (rule join_ack_unknown_id) (simp_all add: sample_join_ack_def wf_participant_join_ack_def)

section \<open>What the room gives away\<close>

lemma participant_new_frame_nth:
  "wf_participant_new s \<Longrightarrow> k < 20480 \<Longrightarrow>
   participant_new_frame env s ! (20 + k) = pn_descriptor_buffer s ! k"
  by (simp add: participant_new_frame_def frame_def enc_participant_new_def nth_append wf_participant_new_def)

text \<open>A \<open>PARTICIPANT_NEW\<close> carries memory of the server to the clients: behind the descriptor and
  the 1024 bytes that the constructor clears, its buffer is whatever the storage held before.\<close>

theorem participant_new_leaks:
  assumes ok: "room_ok w" and p: "get_participant_ptr i w = Some p"
    and n: "n = length (m_descriptor (heap w p))" "n \<le> 20480"
    and q: "q \<in> set (participants (room w))" "q \<noteq> p"
  shows "\<exists>w' msg. new_paticipant_to_all env i w = Done w' \<and> posted (heap w' q) = posted (heap w q) @ [msg] \<and>
    length msg = 65536 \<and>
    (\<forall>k. max n 1024 \<le> k \<and> k < 20480 \<longrightarrow> msg ! (20 + k) = stale_memory env (12 + k))"
proof -
  let ?d = "m_descriptor (heap w p)" and ?new = "init_participant_new (stale_memory env)"
  let ?s = "?new\<lparr>pn_participant_id := i, pn_descriptor_buffersize := word_of_nat n,
    pn_descriptor_buffer := ?d @ drop n (pn_descriptor_buffer ?new)\<rparr>"
  let ?P = "\<lambda>r. r \<in> set (participants (room w)) \<and> m_id (heap w r) \<noteq> i"
  have fill: "fill_participant_new i ?d ?new = Inr ?s"
    using n by (simp add: fill_participant_new_def Let_def read_at_def write_at_0 unat_of_nat
        init_participant_new_def)
  have wf: "wf_participant_new ?s"
    using n by (simp add: wf_participant_new_def init_participant_new_def)
  have step: "new_paticipant_to_all env i w = Done (post_to ?P (participant_new_frame env ?s) w)"
    using p fill wf by (simp add: new_paticipant_to_all_def participant_new_message_eq
        deliver_to_all_except_to_one_eq [OF ok])
  have "?P q" using ok p q get_participant_ptr_self [OF ok q(1)] by auto
  moreover have "participant_new_frame env ?s ! (20 + k) = stale_memory env (12 + k)"
    if "max n 1024 \<le> k" "k < 20480" for k
  proof -
    have "participant_new_frame env ?s ! (20 + k) = pn_descriptor_buffer ?s ! k"
      using that by (intro participant_new_frame_nth [OF wf])
    also have "\<dots> = pn_descriptor_buffer ?new ! k"
      using that n wf_init_participant_new [of "stale_memory env"]
      by (simp add: nth_append wf_participant_new_def del: wf_init_participant_new)
    also have "\<dots> = stale_memory env (12 + k)"
      using that by (simp add: init_participant_new_def nth_append)
    finally show ?thesis .
  qed
  moreover have "length (participant_new_frame env ?s) = 65536"
    using wf by (simp add: participant_new_frame_def length_frame)
  ultimately show ?thesis using step by (intro exI conjI) (assumption | simp)+
qed

theorem participant_new_leaks_witness:
  "\<exists>w' msg. new_paticipant_to_all sample_env 9 (sample_server 10) = Done w' \<and> posted (heap w' 0) = [msg] \<and>
     msg ! 2020 = 0xAA"
proof -
  obtain w' msg where "new_paticipant_to_all sample_env 9 (sample_server 10) = Done w'"
    "posted (heap w' 0) = posted (heap (sample_server 10) 0) @ [msg]"
    "\<forall>k. max 6 1024 \<le> k \<and> k < 20480 \<longrightarrow> msg ! (20 + k) = stale_memory sample_env (12 + k)"
    using participant_new_leaks [of "sample_server 10" 9 1 6 0 sample_env] by auto
  moreover from this(3) have "msg ! (20 + 2000) = stale_memory sample_env (12 + 2000)"
    by (elim allE [of _ 2000]) simp
  ultimately show ?thesis by (intro exI [of _ w'] exI [of _ msg]) (simp add: sample_env_def)
qed

text \<open>The information query answers for every member with the identifier and address stored at the
  join, and copies the member's name over the caller's: a name over 1024 bytes overflows the
  caller's block, and for an unknown identifier the block is left as it was.\<close>

theorem participant_info_query:
  assumes ok: "room_ok w" and out: "wf_participant_info out"
  shows "get_participant_info i out w =
    (case get_participant_ptr i w of
       None \<Rightarrow> Inr out
     | Some p \<Rightarrow>
         let info = the (info_ptr (heap w p)); name = m_name (heap w p) in
         if length name \<le> 1024
         then Inr (out\<lparr>info_m_id := i, info_server_id := info_server_id info, ipv4_ip := ipv4_ip info,
                       info_name := name @ drop (length name) (info_name out)\<rparr>)
         else Inl OutOfBounds)"
proof (cases "get_participant_ptr i w")
  case (Some p)
  then have "p \<in> set (participants (room w))" "m_id (heap w p) = i"
    by (simp_all add: get_participant_ptr_iff [OF ok])
  then obtain info where "info_ptr (heap w p) = Some info" "info_m_id info = i" "length (ipv4_ip info) = 512"
    using ok by (auto simp: room_ok_def info_ok_def wf_participant_info_def split: option.splits)
  then show ?thesis
    using Some out by (simp add: get_participant_info_def write_at_def wf_participant_info_def Let_def)
qed (simp add: get_participant_info_def)

theorem participant_info_query_witness:
  "\<exists>info. get_participant_info 9 (init_participant_info (\<lambda>_. 0)) (sample_server 10) = Inr info \<and>
     info_m_id info = 9"
  using participant_info_query [of "sample_server 10" "init_participant_info (\<lambda>_. 0)" 9] by (simp add: Let_def)

end
