(* ===== verification/Server_Properties.thy ===== *)
theory Server_Properties
  imports Room_Properties
begin

text \<open>
  The properties of the whole server, over runs of its event system: any order of accepts,
  reads, writes, posted handlers and calls from other threads.
\<close>

section \<open>Invariants of every run\<close>

text \<open>C2: whatever happens after its construction, the participants of a server that has not crashed are
  strictly sorted by identifier, so that nobody is in the room twice; there are at most 65535 of
  them and the 16 bit count is exact; each has an information block with its own identifier; at most
  one read is outstanding per session, a session in the handshake is not in the room, and the write
  queues are empty between handlers.\<close>

theorem server_run_invariant:
  assumes "run server_enabled (server_handle env) es (new_nr_server raw) = Some (Done w)"
  shows "sorted_wrt (\<lambda>p q. m_id (heap w p) < m_id (heap w q)) (participants (room w)) \<and>
    unat (server_participants_count w) = length (participants (room w)) \<and>
    (\<forall>p \<in> set (participants (room w)).
       \<exists>info. info_ptr (heap w p) = Some info \<and> info_m_id info = m_id (heap w p)) \<and>
    (\<forall>p. length (reading (heap w p)) \<le> 1 \<and> deque_write_buffer (heap w p) = [] \<and>
       (Handshake_read \<in> set (reading (heap w p)) \<longrightarrow> p \<notin> set (participants (room w))))"
proof -
  have inv: "server_inv w"
    using server.run_inv [OF server_inv_new assms] .
  then have ok: "room_ok w" by (rule server_inv_room_ok)
  then have "sorted_wrt (\<lambda>p q. m_id (heap w p) < m_id (heap w q)) (participants (room w))"
    by (simp add: room_ok_def oset_ok_def pkey_def)
  moreover have "length (participants (room w)) < 65536" using ok by (simp add: room_ok_def)
  then have "unat (server_participants_count w) = length (participants (room w))"
    by (simp add: server_participants_count_def participants_count_def unat_of_nat)
  moreover have "\<exists>info. info_ptr (heap w p) = Some info \<and> info_m_id info = m_id (heap w p)"
    if "p \<in> set (participants (room w))" for p
    using ok that by (auto simp: room_ok_def info_ok_def split: option.splits)
  moreover have "length (reading (heap w p)) \<le> 1 \<and> deque_write_buffer (heap w p) = [] \<and>
      (Handshake_read \<in> set (reading (heap w p)) \<longrightarrow> p \<notin> set (participants (room w)))" for p
    using server_inv_session [OF inv, of p] by (simp add: session_ok_def)
  ultimately show ?thesis by simp
qed

definition sample_events :: "server_event list" where
  "sample_events =
     handshake_run 0 (str ''10.0.0.1'')
       (client_hello_ack_frame sample_env (fst (mt_next mt_default))) (client_credentials_frame sample_env)"

lemma sample_run:
  "\<exists>w. run server_enabled (server_handle sample_env) sample_events (new_nr_server raw) = Some (Done w) \<and>
     participants (room w) = [0] \<and> m_id (heap w 0) = fst (mt_next mt_default)"
  using handshake_server_side [of "new_nr_server raw" "str ''10.0.0.1''" sample_env sample_env] safe_new [of raw]
  by (auto simp: sample_events_def)

theorem server_run_invariant_witness:
  "\<exists>w. run server_enabled (server_handle sample_env) sample_events (new_nr_server sample_raw_room) = Some (Done w) \<and>
     unat (server_participants_count w) = 1"
proof -
  obtain w where w: "run server_enabled (server_handle sample_env) sample_events (new_nr_server sample_raw_room) =
      Some (Done w)" "participants (room w) = [0]"
    using sample_run by blast
  then show ?thesis using server_run_invariant [OF w(1)] by auto
qed



section \<open>The limit of the room\<close>

fun changes_limit :: "server_event \<Rightarrow> bool" where
  "changes_limit (Api (Call_set_max_participants n)) = True"
| "changes_limit (Api (Call_set_max_handshake_connections n)) = True"
| "changes_limit e = False"

definition within_limit :: "nr_server \<Rightarrow> nr_server \<Rightarrow> bool" where
  "within_limit w0 w \<longleftrightarrow>
     server_inv w \<and> max_participants (room w) = max_participants (room w0) \<and>
     length (participants (room w)) \<le> unat (max_participants (room w0))"

text \<open>Shrinking the set, or leaving the room alone, keeps the limit.\<close>

lemma within_limit_smaller:
  assumes lim: "within_limit w0 w" and inv: "server_inv w'"
    and max: "max_participants (room w') = max_participants (room w)"
    and sub: "set (participants (room w')) \<subseteq> set (participants (room w))"
  shows "within_limit w0 w'"
proof -
  have "distinct (participants (room w))" "distinct (participants (room w'))"
    using lim inv room_ok_distinct server_inv_room_ok by (auto simp: within_limit_def)
  then have "length (participants (room w')) \<le> length (participants (room w))"
    using card_mono [OF _ sub] by (simp add: distinct_card)
  then show ?thesis using lim inv max by (simp add: within_limit_def)
qed

lemma join_within_limit:
  assumes "join env p w = Done w'" and "length (participants (room w)) \<le> unat (max_participants (room w))"
  shows "max_participants (room w') = max_participants (room w) \<and>
    length (participants (room w')) \<le> unat (max_participants (room w))"
  using assms(1)
proof (cases rule: join_Done_cases)
  case admitted
  have "length (oset_insert key p ps) \<le> Suc (length ps)" for key :: "ptr \<Rightarrow> u64" and ps
    by (induction ps) auto
  from this [of "(pkey w)(p := fst (mt_next (room_rng (room w))))" "participants (room w)"] admitted(1)
  show ?thesis by (simp add: admitted(4) joined_simps participants_joined)
qed (use assms(2) in simp)

lemma handshake_frame_limit:
  assumes step: "handshake_frame env p bs w = Done w'"
    and lim: "length (participants (room w)) \<le> unat (max_participants (room w))"
  shows "max_participants (room w') = max_participants (room w) \<and>
    length (participants (room w')) \<le> unat (max_participants (room w))"
  using step
proof (cases rule: handshake_frame_cases)
  case (hello payload w1)
  then obtain d m where "w1 = deliver_byte p m (upd_session p (\<lambda>s. s\<lparr>m_descriptor := m_descriptor s @ d\<rparr>) w)"
    by (auto simp: check_handshake_hello_ack_def Let_def outcome_simps)
  with hello lim show ?thesis by (simp add: do_read_handshake_def)
next
  case (creds msg)
  then obtain r w3 m where w3: "join env p (do_read_byte p (if r then disconnect p w else w)) = Done w3"
      and w': "w' = deliver_byte p m w3"
    by (auto simp: check_handshake_credentials_ack_def Let_def outcome_simps)
  have "room (do_read_byte p (if r then disconnect p w else w)) = room w" by (simp add: do_read_byte_def)
  with join_within_limit [OF w3] lim w' show ?thesis by simp
next
  case other
  with lim show ?thesis by (simp add: do_read_handshake_def)
qed

lemma on_accept_room: "on_accept env remote w = Done w' \<Longrightarrow> room w' = room w"
  by (auto simp: on_accept_def handshake_start_def do_start_handshake_def Let_def outcome_simps
      do_read_handshake_def do_accept_def split: option.splits)

lemma disconnect_all_room [simp]: "room (disconnect_all_participants w) = room w"
proof -
  have "room (fold disconnect ps w) = room w" for ps
    by (induction ps arbitrary: w) simp_all
  then show ?thesis by (simp add: disconnect_all_participants_def)
qed

lemma server_call_limit:
  assumes "do_server_call env call w = Done w'" and "\<not> changes_limit (Api call)" and "room_ok w"
  shows "max_participants (room w') = max_participants (room w) \<and>
    set (participants (room w')) \<subseteq> set (participants (room w))"
proof (cases call)
  case (Call_disconnect_participant i)
  then show ?thesis
    using assms(1) disconnect_participant_keeps [OF assms(3), of env i w']
    by (simp add: server_disconnect_participant_def quiet_def)
next
  case (Call_set_participant_deaf i d)
  then show ?thesis using assms(1)
    by (auto simp: server_set_participant_deaf_def set_participant_deaf_def split: option.splits)
qed (use assms(1,2) in \<open>auto simp: room_settings server_settings server_stop_def Let_def split: if_splits\<close>)

lemma within_limit_handle:
  assumes lim: "within_limit w0 w" and en: "server_enabled e w" and no: "\<not> changes_limit e"
    and step: "server_handle env e w = Done w'"
  shows "within_limit w0 w'"
proof -
  have ok: "server_inv w" using lim by (simp add: within_limit_def)
  then have inv: "server_inv w'" by (rule server_handle_inv [OF _ en step])
  have q: "within_limit w0 w'" if "quiet v w'" "room v = room w" for v
    using that by (intro within_limit_smaller [OF lim inv]) (auto simp: quiet_def)
  have same: "within_limit w0 w'" if "room w' = room w"
    using that by (intro within_limit_smaller [OF lim inv]) auto
  show ?thesis
  proof (cases e)
    case (Accept_ok remote)
    then show ?thesis using step on_accept_room [of env remote "w\<lparr>accepting := False\<rparr>" w'] same by simp
  next
    case (Run_posted p)
    then obtain b rest where "posted (heap w p) = b # rest" using en by (cases "posted (heap w p)") auto
    then show ?thesis using run_posted_eq [OF ok] step Run_posted same by (auto split: if_splits)
  next
    case (Frame_received p l bs)
    let ?v = "read_over p l w"
    show ?thesis
    proof (cases l)
      case Handshake_read
      then show ?thesis
        using handshake_frame_limit [of env p bs ?v w'] step Frame_received lim inv
        by (simp add: within_limit_def)
    next
      case Session_read
      obtain m v where v: "session_dispatch env p m ?v = Done v" "w' = do_read_byte p v"
        using step Frame_received Session_read by (auto simp: session_frame_def outcome_simps)
      have "quiet ?v v"
        using session_dispatch_keeps [OF server_inv_room_ok [OF server_inv_read_over [OF ok]] v(1)] by simp
      then show ?thesis
        using v(2) by (intro within_limit_smaller [OF lim inv]) (auto simp: quiet_def do_read_byte_def)
    qed
  next
    case (Read_failed p l)
    let ?v = "read_over p l w"
    have "quiet ?v w'"
      using step Read_failed leave_keeps [OF server_inv_room_ok [OF server_inv_read_over [OF ok]]] quiet_disconnect
      by (cases l) (auto simp: handshake_read_failed_def session_read_failed_def)
    then show ?thesis by (rule q) simp
  next
    case (Write_done p i)
    then show ?thesis
      using step write_completed_eq [OF server_inv_write_over [OF ok]] same by (auto simp: write_over_def)
  next
    case (Write_failed p i)
    then have "quiet (write_over p i w) w'"
      using step leave_keeps [OF server_inv_room_ok [OF server_inv_write_over [OF ok]]]
      by (auto simp: write_failed_def)
    then show ?thesis by (rule q) (simp add: write_over_def)
  next
    case (Api call)
    then show ?thesis
      using server_call_limit [of env call w w'] step no server_inv_room_ok [OF ok]
      by (intro within_limit_smaller [OF lim inv]) auto
  qed (use step same in auto)
qed

interpretation limited: event_system
  "\<lambda>e w. server_enabled e w \<and> \<not> changes_limit e" "server_handle env" "within_limit w0" for env w0
  by unfold_locales (blast intro: within_limit_handle)

text \<open>C16: the room never exceeds its limit: as long as nobody changes the limit, a server that starts
  within it stays within it, in whatever order connections, answers and failures arrive.\<close>

theorem room_limit_respected:
  assumes "server_inv w" and "length (participants (room w)) \<le> unat (max_participants (room w))"
    and "run (\<lambda>e w. server_enabled e w \<and> \<not> changes_limit e) (server_handle env) es w = Some (Done w')"
  shows "max_participants (room w') = max_participants (room w) \<and>
    length (participants (room w')) \<le> unat (max_participants (room w))"
proof -
  have "within_limit w w'"
    by (rule limited.run_inv [OF _ assms(3)]) (use assms(1,2) in \<open>simp add: within_limit_def\<close>)
  then show ?thesis by (simp add: within_limit_def)
qed

theorem room_limit_respected_witness:
  "\<exists>w'. run (\<lambda>e w. server_enabled e w \<and> \<not> changes_limit e) (server_handle sample_env)
      [Accept_error, Api Call_stop] (sample_server 2) = Some (Done w') \<and>
    length (participants (room w')) \<le> 2"
  using room_limit_respected [of "sample_server 2" sample_env "[Accept_error, Api Call_stop]"] by auto

section \<open>Accepting\<close>

lemma accepting_more: "world.more w' = world.more w \<Longrightarrow> accepting w' = accepting w"
  for w w' :: nr_server
  by (cases w; cases w') simp

lemma join_more: "join env p w = Done w' \<Longrightarrow> world.more w' = world.more w"
  by (erule join_Done_cases) (simp_all add: joined_simps)

lemma handshake_frame_more:
  assumes "handshake_frame env p bs w = Done w'"
  shows "world.more w' = world.more w"
  using assms
proof (cases rule: handshake_frame_cases)
  case (creds msg)
  then obtain r w3 m where w3: "join env p (do_read_byte p (if r then disconnect p w else w)) = Done w3"
      and w': "w' = deliver_byte p m w3"
    by (auto simp: check_handshake_credentials_ack_def Let_def outcome_simps)
  from join_more [OF w3] w' show ?thesis by (simp add: do_read_byte_def)
qed (auto simp: check_handshake_hello_ack_def Let_def outcome_simps do_read_handshake_def)

lemma disconnect_all_more [simp]: "world.more (disconnect_all_participants w) = world.more w"
proof -
  have "world.more (fold disconnect ps w) = world.more w" for ps
    by (induction ps arbitrary: w) simp_all
  then show ?thesis by (simp add: disconnect_all_participants_def)
qed

lemma server_call_accepting:
  assumes "do_server_call env call w = Done w'" and "room_ok w"
  shows "accepting w' = accepting w"
proof (cases call)
  case (Call_disconnect_participant i)
  then show ?thesis
    using assms(1) disconnect_participant_keeps [OF assms(2), of env i w'] accepting_more [of w' w]
    by (simp add: server_disconnect_participant_def quiet_def)
next
  case (Call_set_participant_deaf i d)
  then show ?thesis using assms(1) accepting_more [of w' w]
    by (auto simp: server_set_participant_deaf_def set_participant_deaf_def split: option.splits)
qed (use assms(1) accepting_more [of "disconnect_all_participants w" w] in
      \<open>auto simp: room_settings server_settings server_stop_def Let_def upd_room_def split: if_splits\<close>)

lemma stops_accepting:
  assumes ok: "server_inv w" and no: "\<not> accepting w" and en: "server_enabled e w"
    and step: "server_handle env e w = Done w'"
  shows "\<not> accepting w'"
proof -
  have more: ?thesis if "world.more v = world.more w" "world.more w' = world.more v" for v :: nr_server
    using accepting_more [of w' w] that no by simp
  have q: ?thesis if "quiet v w'" "world.more v = world.more w" for v :: nr_server
    using more [of v] that by (simp add: quiet_def)
  have over: "world.more (read_over p l w) = world.more w" "world.more (write_over p i w) = world.more w" for p l i
    by (simp_all add: read_over_def write_over_def)
  show ?thesis
  proof (cases e)
    case (Run_posted p)
    then obtain b rest where "posted (heap w p) = b # rest" using en by (cases "posted (heap w p)") auto
    then show ?thesis using run_posted_eq [OF ok] step Run_posted more [of w] by (auto split: if_splits)
  next
    case (Frame_received p l bs)
    show ?thesis
    proof (cases l)
      case Handshake_read
      then show ?thesis
        using handshake_frame_more [of env p bs "read_over p l w" w'] step Frame_received
          more [OF over(1) [of p l]] by simp
    next
      case Session_read
      obtain m v where v: "session_dispatch env p m (read_over p l w) = Done v" "w' = do_read_byte p v"
        using step Frame_received Session_read by (auto simp: session_frame_def outcome_simps)
      have "quiet (read_over p l w) v"
        using session_dispatch_keeps [OF server_inv_room_ok [OF server_inv_read_over [OF ok]] v(1)] by simp
      then show ?thesis using v(2) more [OF over(1) [of p l]] by (simp add: quiet_def do_read_byte_def)
    qed
  next
    case (Read_failed p l)
    have "quiet (read_over p l w) w'"
      using step Read_failed leave_keeps [OF server_inv_room_ok [OF server_inv_read_over [OF ok]]] quiet_disconnect
      by (cases l) (auto simp: handshake_read_failed_def session_read_failed_def)
    then show ?thesis by (rule q) (rule over)
  next
    case (Write_done p i)
    then show ?thesis
      using step write_completed_eq [OF server_inv_write_over [OF ok]] more [OF over(2) [of p i]] by auto
  next
    case (Write_failed p i)
    then have "quiet (write_over p i w) w'"
      using step leave_keeps [OF server_inv_room_ok [OF server_inv_write_over [OF ok]]]
      by (auto simp: write_failed_def)
    then show ?thesis by (rule q) (rule over)
  next
    case (Api call)
    then show ?thesis using server_call_accepting [of env call w w'] step no server_inv_room_ok [OF ok] by simp
  qed (use en step no in auto)
qed

interpretation deaf_acceptor: event_system server_enabled "server_handle env" "\<lambda>w. server_inv w \<and> \<not> accepting w" for env
proof unfold_locales
  show "server_inv w' \<and> \<not> accepting w'"
    if "server_inv w \<and> \<not> accepting w" "server_enabled e w" "server_handle env e w = Done w'" for w e w'
    using that server_handle_inv [of w e env w'] stops_accepting [of w e env w'] by simp
qed

text \<open>One failed accept ends all accepting: the handler does not arm the next accept, and no later
  event, call or not, does; from then on no connection is ever taken.\<close>

theorem accept_error_is_final:
  assumes inv: "server_inv w"
    and run: "run server_enabled (server_handle env) (Accept_error # es) w = Some (Done w')"
  shows "\<not> accepting w' \<and> (\<forall>remote. Accept_ok remote \<notin> set es)"
proof -
  have v: "server_inv (w\<lparr>accepting := False\<rparr>) \<and> \<not> accepting (w\<lparr>accepting := False\<rparr>)"
    using inv by simp
  have run': "run server_enabled (server_handle env) es (w\<lparr>accepting := False\<rparr>) = Some (Done w')"
    using run by (auto split: if_splits)
  have "Accept_ok remote \<notin> set es" for remote
  proof
    assume "Accept_ok remote \<in> set es"
    then obtain xs ys where es: "es = xs @ Accept_ok remote # ys" by (auto dest: split_list)
    then obtain u where u: "run server_enabled (server_handle env) xs (w\<lparr>accepting := False\<rparr>) = Some (Done u)"
        "\<not> accepting u"
      using deaf_acceptor.run_prefix_inv [OF v] run' by blast
    then have "run server_enabled (server_handle env) es (w\<lparr>accepting := False\<rparr>) = None"
      unfolding es run_append_Done [OF u(1)] by simp
    with run' show False by simp
  qed
  then show ?thesis using deaf_acceptor.run_inv [OF v run'] by simp
qed

theorem accept_error_is_final_witness:
  "\<exists>w'. run server_enabled (server_handle sample_env) [Accept_error, Api Call_stop] (sample_server 10) = Some (Done w') \<and>
     \<not> accepting w'"
  using accept_error_is_final [of "sample_server 10" sample_env "[Api Call_stop]"] by auto

section \<open>Writing\<close>

text \<open>A peer in the handshake sends its configuration again and again without reading anything.\<close>

definition repeated_hello_ack :: "asio_env \<Rightarrow> u64 \<Rightarrow> ptr \<Rightarrow> nat \<Rightarrow> server_event list" where
  "repeated_hello_ack env i p n =
     concat (replicate n [Frame_received p Handshake_read (client_hello_ack_frame env i), Run_posted p])"

lemma repeated_hello_ack_step:
  assumes inv: "server_inv w" and read: "reading (heap w p) = [Handshake_read]" and idle: "posted (heap w p) = []"
  shows "\<exists>w'. run server_enabled (server_handle env)
      [Frame_received p Handshake_read (client_hello_ack_frame env i), Run_posted p] w = Some (Done w') \<and>
    server_inv w' \<and> reading (heap w' p) = [Handshake_read] \<and> posted (heap w' p) = [] \<and>
    writing (heap w' p) = writing (heap w p) @ [credentials_request_frame env]"
proof -
  let ?w1 = "do_read_handshake p (deliver_byte p (credentials_request_frame env)
      (upd_session p (\<lambda>s. s\<lparr>m_descriptor := m_descriptor s @ client_configuration\<rparr>)
        (read_over p Handshake_read w)))"
  have first: "server_handle env (Frame_received p Handshake_read (client_hello_ack_frame env i)) w = Done ?w1"
    using handshake_frame_hello_ack [OF refl, of env p i "read_over p Handshake_read w"] by simp
  have en: "server_enabled (Frame_received p Handshake_read (client_hello_ack_frame env i)) w"
    using read by simp
  have inv1: "server_inv ?w1" by (rule server_handle_inv [OF inv en first])
  have s1: "posted (heap ?w1 p) = [credentials_request_frame env]" "reading (heap ?w1 p) = [Handshake_read]"
      "writing (heap ?w1 p) = writing (heap w p)"
    using idle read by (simp_all add: do_read_handshake_def read_over_def)
  then have second: "server_handle env (Run_posted p) ?w1 = Done (upd_session p
      (\<lambda>s. s\<lparr>posted := [], deque_write_buffer := [], writing := writing s @ [credentials_request_frame env]\<rparr>) ?w1)"
    (is "_ = Done ?w2")
    using run_posted_eq [OF inv1 s1(1)] by (simp add: alive_def)
  have en2: "server_enabled (Run_posted p) ?w1" using s1 by simp
  have "server_inv ?w2" by (rule server_handle_inv [OF inv1 en2 second])
  moreover have "run server_enabled (server_handle env)
      [Frame_received p Handshake_read (client_hello_ack_frame env i), Run_posted p] w = Some (Done ?w2)"
    unfolding run_step [of server_enabled _ _ "server_handle env", OF en first]
      run_step [of server_enabled _ _ "server_handle env", OF en2 second] by simp
  ultimately show ?thesis using s1 by (intro exI [of _ ?w2]) simp
qed

text \<open>C25: the write queue does not serialise writes: a buffer leaves the queue when its write starts, so
  the next posted buffer finds the queue empty and is written at once. For every n a peer can
  bring a connection to n writes under way at the same time on one socket, which Boost.Asio
  forbids for \<open>async_write\<close>.\<close>

theorem writes_overlap:
  assumes "server_inv w" and "reading (heap w p) = [Handshake_read]" and "posted (heap w p) = []"
  shows "\<exists>w'. run server_enabled (server_handle env) (repeated_hello_ack env i p n) w = Some (Done w') \<and>
    writing (heap w' p) = writing (heap w p) @ replicate n (credentials_request_frame env) \<and>
    deque_write_buffer (heap w' p) = []"
  using assms
proof (induction n arbitrary: w)
  case 0
  then show ?case by (simp add: repeated_hello_ack_def server_inv_queue)
next
  case (Suc n)
  obtain v where v: "run server_enabled (server_handle env)
        [Frame_received p Handshake_read (client_hello_ack_frame env i), Run_posted p] w = Some (Done v)"
    "server_inv v" "reading (heap v p) = [Handshake_read]" "posted (heap v p) = []"
    "writing (heap v p) = writing (heap w p) @ [credentials_request_frame env]"
    using repeated_hello_ack_step [OF Suc.prems] by blast
  obtain w' where "run server_enabled (server_handle env) (repeated_hello_ack env i p n) v = Some (Done w')"
    "writing (heap w' p) = writing (heap v p) @ replicate n (credentials_request_frame env)"
    "deque_write_buffer (heap w' p) = []"
    using Suc.IH [OF v(2-4)] by blast
  moreover have "repeated_hello_ack env i p (Suc n) =
      [Frame_received p Handshake_read (client_hello_ack_frame env i), Run_posted p] @ repeated_hello_ack env i p n"
    by (simp add: repeated_hello_ack_def)
  ultimately show ?case
    using run_append_Done [OF v(1)] v(5) by simp
qed

theorem writes_overlap_witness:
  "\<exists>w'. run server_enabled (server_handle sample_env) (repeated_hello_ack sample_env 7 2 4) (sample_server 10) =
     Some (Done w') \<and> length (writing (heap w' 2)) = 4"
  using writes_overlap [of "sample_server 10" 2 sample_env 7 4] by auto

text \<open>C26: the handler that \<open>deliver_byte\<close> posts keeps no reference to its session: when a member's
  connection breaks after a message for it was posted and before that handler ran, the room drops the
  last reference and the handler runs on a destroyed session.\<close>

theorem posted_write_outlives_its_session:
  assumes inv: "server_inv w" and p: "p \<in> set (participants (room w))" and q: "q \<in> set (participants (room w))"
    and neq: "p \<noteq> q"
    and rp: "reading (heap w p) = [Session_read]" and rq: "reading (heap w q) = [Session_read]"
    and idle: "posted (heap w p) = []" "writing (heap w p) = []"
    and len: "length bs = 65536" and head: "xr_head (byte_order env) bs = head_code PARTICIPANT_UPDATE_ACK"
  shows "run server_enabled (server_handle env)
    [Frame_received q Session_read bs, Read_failed p Session_read, Run_posted p] w = Some (Undefined UseAfterFree)"
proof -
  let ?v = "read_over q Session_read w"
  have okv: "room_ok ?v" by (rule server_inv_room_ok [OF server_inv_read_over [OF inv]])
  let ?P = "\<lambda>r. r \<in> set (participants (room w)) \<and> m_id (heap w r) \<noteq> m_id (heap w q)"
  let ?w1 = "do_read_byte q (post_to ?P bs ?v)"
  have ids: "m_id (heap ?v r) = m_id (heap w r)" for r by (simp add: read_over_def)
  have "m_id (heap w p) \<noteq> m_id (heap w q)"
    using get_participant_ptr_self [OF server_inv_room_ok [OF inv]] p q neq by (metis option.inject)
  then have P: "?P p" using p by simp
  have first: "server_handle env (Frame_received q Session_read bs) w = Done ?w1"
    using deliver_to_all_except_to_one_eq [OF okv, of bs "m_id (heap w q)"]
    by (simp add: session_frame_full len session_dispatch_full head ids del: head_code.simps)
  have en1: "server_enabled (Frame_received q Session_read bs) w" using rq len by simp
  have inv1: "server_inv ?w1" by (rule server_handle_inv [OF inv en1 first])
  have s1: "reading (heap ?w1 p) = [Session_read]" "posted (heap ?w1 p) = [bs]" "writing (heap ?w1 p) = []"
    using rp idle neq P by (simp_all add: do_read_byte_def read_over_def)
  let ?e = "emit (slots_participant_leave (room w)) (Sig_participant_leave (m_id (heap w p))) (read_over p Session_read ?w1)"
  let ?w2 = "left_room env p ?e"
  have ok2: "room_ok (read_over p Session_read ?w1)"
    by (rule server_inv_room_ok [OF server_inv_read_over [OF inv1]])
  have "m_id (heap (read_over p Session_read ?w1) p) = m_id (heap w p)"
    using neq by (simp add: read_over_def do_read_byte_def)
  moreover have "slots_participant_leave (room ?w1) = slots_participant_leave (room w)"
    by (simp add: do_read_byte_def)
  ultimately have second: "server_handle env (Read_failed p Session_read) ?w1 = Done ?w2"
    using leave_eq [OF ok2, of env p] by (simp add: session_read_failed_def)
  have "p \<notin> set (participants (room ?w2))"
    using set_left_room [of ?e env p] ok2 by simp
  moreover have "reading (heap ?w2 p) = []" "writing (heap ?w2 p) = []" "posted (heap ?w2 p) = [bs]"
    using s1 by (simp_all add: left_room_def read_over_def)
  ultimately have third: "server_enabled (Run_posted p) ?w2" "server_handle env (Run_posted p) ?w2 = Undefined UseAfterFree"
    by (simp_all add: run_posted_def alive_def)
  have en2: "server_enabled (Read_failed p Session_read) ?w1" using s1 by simp
  show ?thesis
    unfolding run_step [of server_enabled _ _ "server_handle env", OF en1 first]
      run_step [of server_enabled _ _ "server_handle env", OF en2 second]
    by (rule run_undefined [of server_enabled _ _ "server_handle env", OF third])
qed

theorem posted_write_outlives_its_session_witness:
  "run server_enabled (server_handle sample_env)
     [Frame_received 1 Session_read sample_update_frame, Read_failed 0 Session_read, Run_posted 0]
     (sample_server 10) = Some (Undefined UseAfterFree)"
  by (rule posted_write_outlives_its_session)
    (simp_all add: sample_update_frame_def length_frame participant_update_ack_codec.enc_length)

section \<open>Stopping\<close>

text \<open>Stopping closes the acceptor and the socket of every member and touches nothing else: the
  members stay in the room until their reads fail, and connections in the handshake stay open.\<close>

theorem stop_closes_members_only:
  "\<exists>w'. server_handle env (Api Call_stop) w = Done w' \<and> \<not> acceptor_open w' \<and> room w' = room w \<and>
    (\<forall>p. heap w' p =
      (if p \<in> set (participants (room w)) then (heap w p)\<lparr>is_open := False\<rparr> else heap w p)) \<and>
    accepting w' = accepting w"
proof -
  have all: "heap (fold disconnect ps w) = (\<lambda>p. if p \<in> set ps then (heap w p)\<lparr>is_open := False\<rparr> else heap w p)" for ps
  proof (induction ps arbitrary: w)
    case (Cons q ps)
    show ?case by (auto simp: Cons fun_eq_iff)
  qed simp
  let ?v = "disconnect_all_participants w"
  have v: "room ?v = room w" "accepting ?v = accepting w"
    "\<And>p. heap ?v p = (if p \<in> set (participants (room w)) then (heap w p)\<lparr>is_open := False\<rparr> else heap w p)"
    using accepting_more [of ?v w] by (simp, simp) (simp add: disconnect_all_participants_def all)
  then show ?thesis by (simp add: server_stop_def Let_def)
qed

section \<open>Single events\<close>

text \<open>A new connection is greeted at once, with the identifier and the name of the service, and the
  server accepts the next one; but a service name of 1024 bytes, which leaves no room for a terminator
  when the greeting is printed, or more, which overflows the greeting itself, ends the server at the first
  connection that comes.\<close>

theorem connection_greeted:
  assumes "0 \<notin> set (srv_service_name w)"
  shows "if length (srv_service_name w) < 1024
   then \<exists>w'. on_accept env (Some ip) w = Done w' \<and> accepting w' \<and> room w' = room w \<and>
     posted (heap w' (next_ptr w)) = [server_hello_frame env (srv_service_id w) (srv_service_name w)] \<and>
     reading (heap w' (next_ptr w)) = [Handshake_read] \<and> IP (heap w' (next_ptr w)) = ip
   else on_accept env (Some ip) w = Undefined OutOfBounds"
proof (cases "length (srv_service_name w) < 1024")
  case True
  then show ?thesis
    using on_accept_greets [of w env ip] by (auto simp: greeted_def new_handshake_session_def)
next
  case False
  let ?p = "next_ptr w"
  let ?v = "do_read_handshake ?p (upd_session ?p (\<lambda>s. s\<lparr>IP := ip\<rparr>)
    (w\<lparr>heap := (heap w)(?p := new_handshake_session False (srv_service_id w) (srv_service_name w)),
       next_ptr := Suc ?p\<rparr>))"
  have name: "m_server_name (heap ?v ?p) = srv_service_name w"
    by (simp add: do_read_handshake_def) (simp add: new_handshake_session_def)
  have "on_accept env (Some ip) w = Undefined OutOfBounds"
    using False assms
    by (simp add: on_accept_def handshake_start_def do_start_handshake_def Let_def name greeting_fails)
  with False show ?thesis by simp
qed

theorem connection_greeted_witness:
  "on_accept sample_env (Some []) (set_service_name (replicate 1024 65) (sample_server 10)) = Undefined OutOfBounds"
  using connection_greeted [of "set_service_name (replicate 1024 65) (sample_server 10)" sample_env "[]"]
  by (simp add: set_service_name_def)

text \<open>The two read loops treat a message they do not know differently: in the handshake it is ignored
  and the loop goes on, while a session closes its socket; neither changes the room, sends anything or
  raises a signal, and both start the next read.\<close>

theorem unknown_messages:
  assumes "length bs = 65536" and "l \<in> set (reading (heap w p))" and "server_inv w"
    and "xr_head (byte_order env) bs \<notin> (case l of
      Handshake_read \<Rightarrow> {head_code HANDSHAKE_HELLO_ACK, head_code HANDSHAKE_CREDENTIALS_ACK}
    | Session_read \<Rightarrow> {head_code PARTICIPANT_JOIN_ACK, head_code PARTICIPANT_NEW_ACK,
        head_code PARTICIPANT_UPDATE_ACK, head_code PARTICIPANT_LEAVE_ACK})"
  shows "\<exists>w'. server_handle env (Frame_received p l bs) w = Done w' \<and> room w' = room w \<and> emitted w' = emitted w \<and>
    reading (heap w' p) = [l] \<and> (\<forall>q. posted (heap w' q) = posted (heap w q)) \<and>
    is_open (heap w' p) = (is_open (heap w p) \<and> l = Handshake_read) \<and> (\<forall>q. q \<noteq> p \<longrightarrow> heap w' q = heap w q)"
proof (cases l)
  case Handshake_read
  then have "server_handle env (Frame_received p l bs) w = Done (do_read_handshake p (read_over p l w))"
    using assms by (simp add: handshake_frame_full del: head_code.simps)
  then show ?thesis
    using Handshake_read read_over_reading [OF assms(3,2)] by (auto simp: do_read_handshake_def read_over_def)
next
  case Session_read
  then have "server_handle env (Frame_received p l bs) w = Done (do_read_byte p (disconnect p (read_over p l w)))"
    using assms by (simp add: session_frame_full session_dispatch_full del: head_code.simps)
  then show ?thesis
    using Session_read read_over_reading [OF assms(3,2)] by (auto simp: do_read_byte_def read_over_def)
qed

theorem unknown_messages_witness:
  "\<exists>w'. server_handle sample_env (Frame_received 0 Session_read (frame Little 11 [])) (sample_server 10) = Done w' \<and>
     \<not> is_open (heap w' 0)"
proof -
  obtain w' where "server_handle sample_env (Frame_received 0 Session_read (frame Little 11 [])) (sample_server 10) = Done w'"
    "is_open (heap w' 0) = (is_open (heap (sample_server 10) 0) \<and> Session_read = Handshake_read)"
    using unknown_messages [of "frame Little 11 []" Session_read "sample_server 10" 0 sample_env]
    by (auto simp: length_frame simp del: server_handle.simps)
  then show ?thesis by auto
qed

end
