(* ===== verification/Nr_Message.thy ===== *)
theory Nr_Message
  imports Participant
begin

text \<open>
  The older message class of \<open>message.hpp\<close>, with its textual length header, and the copying
  \<open>message_node\<close> of \<open>message_node.hpp\<close>.
\<close>

section \<open>Numbers in text\<close>

fun dec_digits :: "nat \<Rightarrow> byte list" where
  "dec_digits n =
     (if n < 10 then [word_of_nat (48 + n)]
      else dec_digits (n div 10) @ [word_of_nat (48 + n mod 10)])"

declare dec_digits.simps [simp del]

definition dec_int :: "int \<Rightarrow> byte list" where
  "dec_int i = (if i < 0 then 45 # dec_digits (nat (- i)) else dec_digits (nat i))"

text \<open>\<open>%4d\<close>: right aligned in four columns, longer numbers in full.\<close>

definition sprintf_4d :: "int \<Rightarrow> byte list" where
  "sprintf_4d i = replicate (4 - length (dec_int i)) 32 @ dec_int i"

definition is_digit :: "byte \<Rightarrow> bool" where
  "is_digit b \<longleftrightarrow> 48 \<le> b \<and> b \<le> 57"

definition is_space :: "byte \<Rightarrow> bool" where
  "is_space b \<longleftrightarrow> b = 32 \<or> 9 \<le> b \<and> b \<le> 13"

definition digits_val :: "byte list \<Rightarrow> nat" where
  "digits_val bs = foldl (\<lambda>v b. 10 * v + (unat b - 48)) 0 bs"

text \<open>\<open>atoi\<close> of a string without its terminating zero.\<close>

definition atoi :: "byte list \<Rightarrow> int" where
  "atoi s =
     (case dropWhile is_space s of
        [] \<Rightarrow> 0
      | b # bs \<Rightarrow>
          if b = 45 then - int (digits_val (takeWhile is_digit bs))
          else if b = 43 then int (digits_val (takeWhile is_digit bs))
          else int (digits_val (takeWhile is_digit (b # bs))))"

section \<open>The message class\<close>

definition header_length :: nat where "header_length = 2"
definition max_body_length :: nat where "max_body_length = 64 * 1024 - 2"

record nr_message =
  nm_data :: "byte list"
  nm_body_length :: u64
  nm_participant_id :: u64

definition new_nr_message :: "u64 \<Rightarrow> nr_message" where
  "new_nr_message stale_id =
     \<lparr>nm_data = zeros (header_length + max_body_length), nm_body_length = 64 * 1024,
      nm_participant_id = stale_id\<rparr>"

definition nm_length :: "nr_message \<Rightarrow> u64" where
  "nm_length m = word_of_nat header_length + nm_body_length m"

definition nm_body :: "nr_message \<Rightarrow> byte list" where
  "nm_body m = drop header_length (nm_data m)"

definition set_body_length :: "u64 \<Rightarrow> nr_message \<Rightarrow> nr_message" where
  "set_body_length new_length m =
     (let m1 = m\<lparr>nm_body_length := new_length\<rparr>
      in if max_body_length < unat (nm_body_length m1)
         then m1\<lparr>nm_body_length := word_of_nat max_body_length\<rparr> else m1)"

text \<open>
  \<open>decode_header\<close>: \<open>strncat\<close> takes up to two characters, \<open>atoi\<close> reads them as an \<open>int\<close>, which
  is converted to \<open>size_t\<close>.
\<close>

definition decode_header :: "nr_message \<Rightarrow> bool \<times> nr_message" where
  "decode_header m =
     (let header = takeWhile (\<lambda>b. b \<noteq> 0) (take header_length (nm_data m));
          m1 = m\<lparr>nm_body_length := word_of_int (atoi header)\<rparr>
      in if max_body_length < unat (nm_body_length m1)
         then (False, m1\<lparr>nm_body_length := 0\<rparr>) else (True, m1))"

text \<open>\<open>encode_header\<close>: \<open>sprintf\<close> into an array of \<open>header_length + 1\<close> characters, then two are copied.\<close>

definition encode_header :: "nr_message \<Rightarrow> ub + nr_message" where
  "encode_header m =
     mem_bind (write_at 0 (sprintf_4d (sint (ucast (nm_body_length m) :: 32 word)) @ [0])
                 (zeros (header_length + 1)))
       (\<lambda>header. mem_bind (write_at 0 (take header_length header) (nm_data m))
          (\<lambda>d. Inr (m\<lparr>nm_data := d\<rparr>)))"

definition set_participnant :: "u64 \<Rightarrow> nr_message \<Rightarrow> nr_message" where
  "set_participnant participant m = m\<lparr>nm_participant_id := participant\<rparr>"

definition get_participant :: "nr_message \<Rightarrow> u64" where
  "get_participant m = nm_participant_id m"

section \<open>message_node\<close>

record message_node =
  mn_participant_id :: u64
  mn_buffersize :: u64
  mn_buffer :: "byte list option"

definition new_message_node :: message_node where
  "new_message_node = \<lparr>mn_participant_id = 0, mn_buffersize = 0, mn_buffer = None\<rparr>"

definition message_node_of :: "u64 \<Rightarrow> byte list \<Rightarrow> u64 \<Rightarrow> ub + message_node" where
  "message_node_of part_id buffer buffersize =
     mem_bind (read_at 0 (unat buffersize) buffer)
       (\<lambda>bs. mem_bind (write_at 0 bs (zeros (unat buffersize)))
          (\<lambda>copy. Inr \<lparr>mn_participant_id = part_id, mn_buffersize = buffersize, mn_buffer = Some copy\<rparr>))"

section \<open>What they do\<close>

lemma length_dec_digits: "0 < length (dec_digits n)"
  by (subst dec_digits.simps) simp

lemma length_sprintf_4d: "4 \<le> length (sprintf_4d i)"
  by (simp add: sprintf_4d_def)

text \<open>
  The class invariant: the stored length is within the array. Every operation establishes or
  keeps it; the constructor does not.
\<close>

definition nm_ok :: "nr_message \<Rightarrow> bool" where
  "nm_ok m \<longleftrightarrow> length (nm_data m) = header_length + max_body_length \<and>
     unat (nm_body_length m) \<le> max_body_length"

lemma set_body_length_bound: "unat (nm_body_length (set_body_length n m)) \<le> max_body_length"
  by (simp add: set_body_length_def Let_def unat_of_nat max_body_length_def)

lemma set_body_length_ok:
  "length (nm_data m) = header_length + max_body_length \<Longrightarrow> nm_ok (set_body_length n m)"
  using set_body_length_bound [of n m] by (simp add: nm_ok_def set_body_length_def Let_def)

lemma decode_header_ok: "nm_ok m \<Longrightarrow> nm_ok (snd (decode_header m))"
  by (simp add: decode_header_def nm_ok_def Let_def)

lemma encode_header_overflows: "encode_header m = Inl OutOfBounds"
  using length_sprintf_4d [of "sint (ucast (nm_body_length m) :: 32 word)"]
  by (simp add: encode_header_def write_at_def header_length_def)

lemma new_nr_message_not_ok: "\<not> nm_ok (new_nr_message i)"
  by (simp add: nm_ok_def new_nr_message_def max_body_length_def)

text \<open>Decimal text is read back.\<close>

lemma digits_val_snoc: "digits_val (bs @ [b]) = 10 * digits_val bs + (unat b - 48)"
  by (simp add: digits_val_def)

lemma unat_digit: "n < 10 \<Longrightarrow> unat (word_of_nat (48 + n) :: byte) = 48 + n"
  by (simp only: unat_of_nat) simp

lemma digits_val_dec_digits: "digits_val (dec_digits n) = n"
proof (induction n rule: dec_digits.induct)
  case (1 n)
  show ?case
  proof (cases "n < 10")
    case True
    then show ?thesis using unat_digit [of n]
      by (simp add: dec_digits.simps [of n] digits_val_def del: of_nat_add)
  next
    case False
    then show ?thesis using 1 unat_digit [of "n mod 10"]
      by (simp add: dec_digits.simps [of n] digits_val_snoc del: of_nat_add)
  qed
qed

lemma all_digits: "\<forall>b \<in> set (dec_digits n). is_digit b"
proof (induction n rule: dec_digits.induct)
  case (1 n)
  have "is_digit (word_of_nat (48 + k))" if "k < 10" for k
    using that unat_digit [OF that] by (simp add: is_digit_def word_le_nat_alt del: of_nat_add)
  with 1 show ?case by (subst dec_digits.simps) (auto simp del: of_nat_add)
qed

lemma atoi_dec_digits: "atoi (dec_digits n) = int n"
proof -
  obtain b bs where eq: "dec_digits n = b # bs" using length_dec_digits [of n] by (cases "dec_digits n") auto
  have b: "is_digit b" using all_digits [of n] eq by auto
  then have "\<not> is_space b" "b \<noteq> 45" "b \<noteq> 43"
    by (auto simp: is_digit_def is_space_def word_le_nat_alt)
  moreover have "takeWhile is_digit (b # bs) = b # bs"
    using all_digits [of n] eq by (simp add: takeWhile_eq_all_conv)
  ultimately show ?thesis
    using digits_val_dec_digits [of n] by (simp add: atoi_def eq)
qed

end
