(* ===== verification/Wire_Correct.thy ===== *)
theory Wire_Correct
  imports XRMessage Nr_Message
begin

text \<open>
  The properties of the bytes on the wire: messages, their headers, the stream they form, byte
  order, and the older message class.
\<close>

section \<open>Messages\<close>

text \<open>C32: a message built from a head and a payload is read back: it has 65536 bytes, the head, the
  payload size and the payload are the ones it was built from, and what follows is zero. The
  constructor succeeds exactly when the payload lies inside its source and fits behind the header.\<close>

theorem message_read_back:
  "(if unat n \<le> length buffer \<and> unat n \<le> 65528 then
     (\<exists>m p. XRMessage_of_payload e head buffer n = Inr m \<and> length m = 65536 \<and>
       xr_head e m = head \<and> xr_payload_size e m = n \<and> xr_payload m = Some p \<and>
       take (unat n) p = take (unat n) buffer \<and> set (drop (unat n) p) \<subseteq> {0})
    else XRMessage_of_payload e head buffer n = Inl OutOfBounds)"
proof (cases "unat n \<le> length buffer \<and> unat n \<le> 65528")
  case True
  let ?m = "frame e head (take (unat n) buffer)"
  have "XRMessage_of_payload e head buffer n = Inr ?m" using True by (simp add: XRMessage_of_payload_eq)
  moreover have "xr_payload_size e ?m = n"
    using True by (simp add: xr_payload_size_def frame_def header_codec.dec_enc_append mk_xr_message_header_def
        min_absorb2)
  moreover have "length ?m = 65536" using True by (simp add: length_frame)
  ultimately show ?thesis
    using True set_zeros by (auto simp: min_absorb2)
next
  case False
  then show ?thesis by (simp only: if_False XRMessage_of_payload_eq)
qed

text \<open>The constructor from a vector makes no message: it builds one in a temporary object and drops
  it, so for every payload that fits, the result has no header, no payload and head 0.\<close>

theorem message_of_vector_is_empty:
  assumes "length msg \<le> 65528"
  shows "\<exists>m. XRMessage_of_vector e head msg = Inr m \<and> xr_head e m = 0 \<and> xr_get_header e m = None \<and>
    xr_payload m = None \<and> xr_payload_size e m = 0"
  using assms by (simp add: XRMessage_of_vector_def XRMessage_of_payload_eq unat_of_nat xr_head_def
      xr_get_header_def xr_payload_def xr_payload_size_def)

theorem message_of_vector_is_empty_witness:
  "\<exists>m. XRMessage_of_vector Little 11 [1, 2, 3] = Inr m \<and> xr_head Little m = 0"
  using message_of_vector_is_empty [of "[1, 2, 3]" Little 11] by auto

section \<open>The stream\<close>

text \<open>
  A read loop asks for exactly one frame at a time: it cuts the stream every 65536 bytes and
  keeps waiting on a shorter rest.
\<close>

function frames_of_stream :: "byte list \<Rightarrow> byte list list" where
  "frames_of_stream bs =
     (if length bs < 65536 then [] else take 65536 bs # frames_of_stream (drop 65536 bs))"
  by pat_completeness auto
termination by (relation "measure length") auto

declare frames_of_stream.simps [simp del]

text \<open>What a peer puts on the stream: the bytes of its messages, one after the other.\<close>

definition stream_of :: "endian \<Rightarrow> (u16 \<times> byte list) list \<Rightarrow> byte list" where
  "stream_of e msgs = concat (map (\<lambda>(head, payload). frame e head payload) msgs)"



section \<open>Byte order\<close>

text \<open>Swapping the byte order is an involution at each width, and it is what turns an integer in
  the memory of one host into the integer a host of the other order reads there.\<close>

theorem swap_endian_laws:
  "swap_endian16 e (swap_endian16 e a) = a \<and> swap_endian32 e (swap_endian32 e b) = b \<and>
   swap_endian64 e (swap_endian64 e c) = c \<and>
   get16 Big 0 (mem16 Little a) = swap_endian16 e a \<and> get32 Big 0 (mem32 Little b) = swap_endian32 e b \<and>
   get64 Big 0 (mem64 Little c) = swap_endian64 e c"
proof (intro conjI)
  show "swap_endian16 e (swap_endian16 e a) = a"
    by (simp add: swap_endian16_def [of e "swap_endian16 e a"] unat_swap16 swap_endian_twice)
  show "swap_endian32 e (swap_endian32 e b) = b"
    by (simp add: swap_endian32_def [of e "swap_endian32 e b"] unat_swap32 swap_endian_twice)
  show "swap_endian64 e (swap_endian64 e c) = c"
    by (simp add: swap_endian64_def [of e "swap_endian64 e c"] unat_swap64 swap_endian_twice)
  show "get16 Big 0 (mem16 Little a) = swap_endian16 e a"
    by (simp add: get16_def mem16_def swap_endian16_def cross_endian_read [of Little Big]
        swap_endian_host [of Big] swap_endian_host [of e])
  show "get32 Big 0 (mem32 Little b) = swap_endian32 e b"
    by (simp add: get32_def mem32_def swap_endian32_def cross_endian_read [of Little Big]
        swap_endian_host [of Big] swap_endian_host [of e])
  show "get64 Big 0 (mem64 Little c) = swap_endian64 e c"
    by (simp add: get64_def mem64_def swap_endian64_def cross_endian_read [of Little Big]
        swap_endian_host [of Big] swap_endian_host [of e])
qed

text \<open>The function that should swap the header erases it: since both fields go through the 64 bit
  swap, what is cut back to 16 and 32 bits is zero for every header.\<close>

theorem swap_header_erases:
  "swap_xr_message_header e h = h\<lparr>xh_head := 0, xh_buffersize := 0\<rparr>"
proof -
  have low: "(ucast (swap_endian64 e (ucast w)) :: 'b::len word) = 0"
    if "LENGTH('b) \<le> 32" "unat (ucast w :: u64) < 256 ^ 4" for w :: "'a::len word"
  proof -
    have "(2::nat) ^ LENGTH('b) dvd 256 ^ 4"
      using that(1) le_imp_power_dvd [of "LENGTH('b)" 32 "2::nat"] by simp
    then have "2 ^ LENGTH('b) dvd unat (swap_endian64 e (ucast w))"
      using swap64_low_half [OF that(2)] dvd_trans by blast
    then show ?thesis by (simp add: word_unat_eq_iff unsigned_ucast_eq take_bit_eq_mod)
  qed
  have "unat (ucast (xh_head h) :: u64) < 256 ^ 4"
    using unat_bound [of "xh_head h"] by (simp add: unsigned_ucast_eq take_bit_eq_mod)
  moreover have "unat (ucast (xh_buffersize h) :: u64) < 256 ^ 4"
    using unat_bound [of "xh_buffersize h"] by (simp add: unsigned_ucast_eq take_bit_eq_mod)
  ultimately show ?thesis by (simp add: swap_xr_message_header_def low)
qed

text \<open>Headers are not portable: a host of the other byte order reads head and size swapped, while
  the mark for the byte order reads the same on both, so it cannot tell them apart.\<close>

theorem header_on_other_host:
  assumes "e \<noteq> e'"
  shows "dec_header e' (enc_header e (mk_xr_message_header head sz)) =
    \<lparr>xh_head = swap_endian16 e' head, xh_buffersize = swap_endian32 e' sz, xh_payload_is_big_endian = 0xFFFF\<rparr>"
proof -
  have two: "le_bytes 2 x = [word_of_nat (x mod 256), word_of_nat (x div 256 mod 256)]" for x
    by (simp add: numeral_2_eq_2)
  have flag: "swap_endian16 e' 0xFFFF = 0xFFFF"
    by (cases e') (simp_all add: swap_endian16_def swap_endian_def to_mem_def of_mem_def two)
  have "get16 e' 0 (mem16 e a @ r) = swap_endian16 e' a" "get32 e' 0 (mem32 e b @ r) = swap_endian32 e' b" for a b r
    using assms by (simp_all add: get16_def mem16_def get32_def mem32_def swap_endian16_def swap_endian32_def
        cross_endian_read)
  from this(1) [of head] this(2) [of sz] this(1) [of "0xFFFF" "[]"] show ?thesis
    by (simp add: dec_header_def enc_header_def mk_xr_message_header_def layout_simps flag)
qed

theorem header_on_other_host_witness:
  "xh_head (dec_header Big (enc_header Little (mk_xr_message_header 10 20492))) = swap_endian16 Big 10"
  using header_on_other_host [of Little Big 10 20492] by simp

text \<open>Setting the delimiter flag, on or off, overwrites the last byte of a message and nothing else.\<close>

lemma use_delimiter_overwrites:
  assumes "8 < length (xr_data m)"
  shows "xr_data (set_use_delimiter del m) = butlast (xr_data m) @ [m_delimiter m]"
    and "xr_head e (xr_data (set_use_delimiter del m)) = xr_head e (xr_data m)"
proof -
  obtain xs y where xs: "xr_data m = xs @ [y]" using assms by (cases "xr_data m" rule: rev_cases) auto
  then show "xr_data (set_use_delimiter del m) = butlast (xr_data m) @ [m_delimiter m]"
    using assms by (simp add: set_use_delimiter_def XR_HEADER_def Let_def list_update_append)
  show "xr_head e (xr_data (set_use_delimiter del m)) = xr_head e (xr_data m)"
    using assms by (simp add: set_use_delimiter_def XR_HEADER_def Let_def xr_head_def get16_def mem16_def)
qed

section \<open>The older message class\<close>

text \<open>The text header cannot be written: \<open>encode_header\<close> overflows its three characters for every
  message, and the two characters it would keep read back as 0 for every length below 100.\<close>

theorem text_header_is_lost:
  "encode_header m = Inl OutOfBounds \<and>
   (\<forall>n < 100. atoi (take header_length (sprintf_4d (int n))) = 0)"
proof -
  have "atoi (take header_length (sprintf_4d (int n))) = 0" if "n < 100" for n
  proof -
    have "length (dec_digits n) \<le> 2"
      using that by (subst dec_digits.simps) (auto simp: dec_digits.simps [of "n div 10"])
    then have "2 \<le> 4 - length (dec_int (int n))" by (simp add: dec_int_def)
    then have "take header_length (sprintf_4d (int n)) = [32, 32]"
      by (simp add: sprintf_4d_def header_length_def eval_nat_numeral(2,3) min_def)
    then show ?thesis by (simp add: atoi_def is_space_def)
  qed
  then show ?thesis by (simp add: encode_header_overflows)
qed

theorem text_header_is_lost_witness:
  "atoi (take header_length (sprintf_4d (int 42))) = 0"
  using text_header_is_lost [of "new_nr_message 0"] by (auto dest: spec [of _ 42])

text \<open>The body length stays within the array after every operation that sets it: setting clips it and
  decoding rejects longer ones with length 0; only the constructor starts beyond the bound.\<close>

theorem body_length_bounded:
  "unat (nm_body_length (set_body_length n m)) \<le> max_body_length \<and>
   unat (nm_body_length (snd (decode_header m))) \<le> max_body_length \<and>
   (fst (decode_header m) \<or> nm_body_length (snd (decode_header m)) = 0) \<and>
   max_body_length < unat (nm_body_length (new_nr_message i))"
  using set_body_length_bound [of n m]
  by (auto simp: decode_header_def Let_def new_nr_message_def max_body_length_def split: if_splits)

end
