(* ===== verification/Lobby_Service.thy ===== *)
theory Lobby_Service
  imports Nr_Server Nr_Message
begin

text \<open>
  \<open>XRNetworkLobbyService.hpp\<close>: the service that runs a server in a thread of its own. The thread
  is modelled by its phase; what the thread does up to \<open>io_context_.run()\<close> is one step, then
  each server event is one, and an exception that leaves a handler ends the thread.
\<close>

section \<open>State\<close>

datatype PROTOCOL = TCP | UDP
datatype PROTOCOL_VERSION = V4 | V6

text \<open>
  The thread object: none yet, its function not begun, inside \<open>run\<close>, returned but not joined,
  joined. All but the first and the last are joinable.
\<close>

datatype thread_phase = No_thread | Starting | Running | Finished | Joined

fun joinable :: "thread_phase \<Rightarrow> bool" where
  "joinable No_thread = False"
| "joinable Joined = False"
| "joinable _ = True"

record xrnls =
  b_thread_running :: bool
  service_thread :: thread_phase
  svc_server :: "nr_server option"
  svc_destroyed :: "nr_server list"
  svc_protocol :: PROTOCOL
  svc_protocol_version :: PROTOCOL_VERSION
  svc_socket_no_delay :: bool
  svc_keep_alive :: bool
  svc_auto_broadcast :: bool
  svc_message_buffer_size :: u32
  svc_max_participants :: u16
  svc_service_name :: cpp_string
  svc_id :: u64
  svc_port :: u16
  on_running_slots :: "nat list"
  on_stopping_slots :: "nat list"
  svc_handshake_max_connections :: u16

text \<open>
  \<open>svc_destroyed\<close> are the servers that later starts have replaced. The objects are gone, but not the
  handlers they left in the \<open>io_context\<close>, which the service keeps for its whole life.
\<close>

text \<open>\<open>rand64b\<close>: an engine seeded from two draws of the random device.\<close>

definition rand64b :: "u32 \<Rightarrow> u32 \<Rightarrow> u64" where
  "rand64b d1 d2 = fst (mt_next (mt_seed (or (push_bit 32 (ucast d1)) (ucast d2))))"

text \<open>
  The constructors. \<open>raw\<close> gives the members they leave alone; \<open>device\<close> is the sequence of draws
  of the random device.
\<close>

definition new_xrnls :: "(nat \<Rightarrow> u32) \<Rightarrow> 'a xrnls_scheme \<Rightarrow> 'a xrnls_scheme" where
  "new_xrnls device raw =
     raw\<lparr>b_thread_running := False, service_thread := No_thread, svc_server := None, svc_destroyed := [],
         svc_protocol := TCP, svc_protocol_version := V4,
         svc_port := 1080, svc_max_participants := 5, svc_socket_no_delay := True,
         svc_keep_alive := True, svc_message_buffer_size := 100, svc_auto_broadcast := False,
         svc_id := rand64b (device 0) (device 1),
         svc_service_name :=
           str ''service_'' @ dec_digits (unat (ucast (rand64b (device 2) (device 3)) :: u16)),
         on_running_slots := [], on_stopping_slots := []\<rparr>"

definition new_xrnls_named ::
  "(nat \<Rightarrow> u32) \<Rightarrow> cpp_string \<Rightarrow> int \<Rightarrow> u16 \<Rightarrow> u32 \<Rightarrow> 'a xrnls_scheme \<Rightarrow> 'a xrnls_scheme" where
  "new_xrnls_named device name port max_p buffer_size raw =
     raw\<lparr>b_thread_running := False, service_thread := No_thread, svc_server := None, svc_destroyed := [],
         svc_protocol := TCP, svc_protocol_version := V4,
         svc_service_name := name, svc_port := word_of_int port,
         svc_max_participants := max_p,
         svc_message_buffer_size := buffer_size, svc_keep_alive := False,
         svc_id := rand64b (device 0) (device 1),
         on_running_slots := [], on_stopping_slots := []\<rparr>"

section \<open>Callbacks\<close>

text \<open>Raising a signal of the service: \<open>cb\<close> says what each connected callback does.\<close>

definition raise ::
  "(nat \<Rightarrow> 'a xrnls_scheme \<Rightarrow> 'a xrnls_scheme outcome) \<Rightarrow> nat list \<Rightarrow> 'a xrnls_scheme \<Rightarrow> 'a xrnls_scheme outcome" where
  "raise cb slots s = for_each cb slots s"

definition register_callback_on_running :: "nat \<Rightarrow> 'a xrnls_scheme \<Rightarrow> 'a xrnls_scheme" where
  "register_callback_on_running c s = s\<lparr>on_running_slots := on_running_slots s @ [c]\<rparr>"

definition register_callback_on_stopping :: "nat \<Rightarrow> 'a xrnls_scheme \<Rightarrow> 'a xrnls_scheme" where
  "register_callback_on_stopping c s = s\<lparr>on_stopping_slots := on_stopping_slots s @ [c]\<rparr>"

section \<open>Starting and stopping\<close>

text \<open>\<open>start\<close>: assigning a new thread over a joinable one ends the process.\<close>

definition svc_start :: "'a xrnls_scheme \<Rightarrow> 'a xrnls_scheme outcome" where
  "svc_start s =
     (if b_thread_running s then Done s
      else if joinable (service_thread s) then Undefined Terminate
      else Done (s\<lparr>service_thread := Starting\<rparr>))"

text \<open>A call through the pointer to the server.\<close>

definition on_server :: "(nr_server \<Rightarrow> nr_server outcome) \<Rightarrow> 'a xrnls_scheme \<Rightarrow> 'a xrnls_scheme outcome" where
  "on_server f s =
     (case svc_server s of
        None \<Rightarrow> Undefined NullDeref
      | Some w \<Rightarrow>
          (case f w of
             Done w' \<Rightarrow> Done (s\<lparr>svc_server := Some w'\<rparr>)
           | Throws e w' \<Rightarrow> Throws e (s\<lparr>svc_server := Some w'\<rparr>)
           | Undefined u \<Rightarrow> Undefined u))"

text \<open>The end of the thread function, behind the catch around \<open>run\<close>.\<close>

definition thread_function_end :: "'a xrnls_scheme \<Rightarrow> 'a xrnls_scheme" where
  "thread_function_end s = s\<lparr>b_thread_running := False, service_thread := Finished\<rparr>"

text \<open>
  What assigning a new server leaves of the old one: its room is destroyed with its set of
  participants, its acceptor is closed, and the sessions live on in the handlers that hold them.
\<close>

definition destroy_nr_server :: "nr_server \<Rightarrow> nr_server" where
  "destroy_nr_server w =
     (upd_room (\<lambda>r. r\<lparr>participants := []\<rparr>) (destroy_network_room w))\<lparr>acceptor_open := False\<rparr>"

text \<open>
  \<open>thread_function\<close> up to \<open>run\<close>. Binding the acceptor may fail; \<open>raw\<close> is for the room of the new
  server. The busy wait ends at once since the constructor of the server has set the flag.
\<close>

definition thread_function_begin ::
  "asio_env \<Rightarrow> (nat \<Rightarrow> 'a xrnls_scheme \<Rightarrow> 'a xrnls_scheme outcome) \<Rightarrow> network_room \<Rightarrow> bool \<Rightarrow>
   'a xrnls_scheme \<Rightarrow> 'a xrnls_scheme outcome" where
  "thread_function_begin env cb raw bind_ok s =
     (if \<not> bind_ok then Done (thread_function_end s)
      else
        let s1 = s\<lparr>svc_destroyed := map destroy_nr_server (option_list (svc_server s)) @ svc_destroyed s,
                   svc_server := Some (new_nr_server raw), b_thread_running := True, service_thread := Running\<rparr>
        in and_then (raise cb (on_running_slots s1) s1)
          (\<lambda>s2. and_then (on_server (do_server_call env (Call_set_keep_alive (svc_keep_alive s2))) s2)
          (\<lambda>s3. and_then (on_server (do_server_call env (Call_set_max_participants (svc_max_participants s3))) s3)
          (\<lambda>s4. and_then (on_server (do_server_call env (Call_set_broadcasting_all_messages (svc_auto_broadcast s4))) s4)
          (\<lambda>s5. on_server (do_server_call env (Call_set_service_name (svc_service_name s5))) s5)))))"

text \<open>
  \<open>run\<close> returns by itself once nothing is outstanding: no accept, and no handler, read or write
  of a session.
\<close>

definition out_of_work :: "nr_server \<Rightarrow> bool" where
  "out_of_work w \<longleftrightarrow>
     \<not> accepting w \<and>
     list_all (\<lambda>p. posted (heap w p) = [] \<and> reading (heap w p) = [] \<and> writing (heap w p) = [])
       [0..<next_ptr w]"

text \<open>A handler inside \<open>run\<close>: an exception that leaves it leaves \<open>run\<close>.\<close>

definition thread_function_run :: "asio_env \<Rightarrow> server_event \<Rightarrow> 'a xrnls_scheme \<Rightarrow> 'a xrnls_scheme outcome" where
  "thread_function_run env e s =
     (case on_server (server_handle env e) s of
        Done s' \<Rightarrow> Done s'
      | Throws x s' \<Rightarrow> Done (thread_function_end s')
      | Undefined u \<Rightarrow> Undefined u)"

text \<open>
  The handlers of a destroyed server that look at its room, or at the server itself: the member
  reads that fail or bring a message for the room, the credentials of a handshake, the writes
  that fail, and an accept that succeeds.
\<close>

fun needs_server :: "endian \<Rightarrow> server_event \<Rightarrow> bool" where
  "needs_server e (Accept_ok remote) = True"
| "needs_server e (Read_failed p l) = (l = Session_read)"
| "needs_server e (Frame_received p l bs) =
     (xr_head e bs \<in>
        (case l of
           Handshake_read \<Rightarrow> {head_code HANDSHAKE_CREDENTIALS_ACK}
         | Session_read \<Rightarrow> {head_code PARTICIPANT_JOIN_ACK, head_code PARTICIPANT_UPDATE_ACK,
             head_code PARTICIPANT_LEAVE_ACK}))"
| "needs_server e (Write_failed p i) = True"
| "needs_server e ev = False"

fun is_call :: "server_event \<Rightarrow> bool" where
  "is_call (Api call) = True"
| "is_call ev = False"

definition thread_function_old ::
  "asio_env \<Rightarrow> nat \<Rightarrow> server_event \<Rightarrow> 'a xrnls_scheme \<Rightarrow> 'a xrnls_scheme outcome" where
  "thread_function_old env k ev s =
     (if needs_server (byte_order env) ev then Undefined UseAfterFree
      else case server_handle env ev (svc_destroyed s ! k) of
             Done w \<Rightarrow> Done (s\<lparr>svc_destroyed := (svc_destroyed s)[k := w]\<rparr>)
           | Throws x w \<Rightarrow> Done (thread_function_end (s\<lparr>svc_destroyed := (svc_destroyed s)[k := w]\<rparr>))
           | Undefined u \<Rightarrow> Undefined u)"

text \<open>\<open>stop\<close>: after the context has stopped, \<open>run\<close> returns and the thread is joined.\<close>

definition svc_stop ::
  "asio_env \<Rightarrow> (nat \<Rightarrow> 'a xrnls_scheme \<Rightarrow> 'a xrnls_scheme outcome) \<Rightarrow> 'a xrnls_scheme \<Rightarrow> 'a xrnls_scheme outcome" where
  "svc_stop env cb s =
     (if b_thread_running s
      then and_then (raise cb (on_stopping_slots s) s)
        (\<lambda>s1. and_then (on_server (do_server_call env Call_stop) s1)
          (\<lambda>s2. Done (s2\<lparr>b_thread_running := False, service_thread := Joined\<rparr>)))
      else Done s)"

text \<open>The destructor; a thread object that is still joinable ends the process.\<close>

definition destroy_xrnls ::
  "asio_env \<Rightarrow> (nat \<Rightarrow> 'a xrnls_scheme \<Rightarrow> 'a xrnls_scheme outcome) \<Rightarrow> 'a xrnls_scheme \<Rightarrow> 'a xrnls_scheme outcome" where
  "destroy_xrnls env cb s =
     and_then (if b_thread_running s then svc_stop env cb s else Done s)
       (\<lambda>s1. if joinable (service_thread s1) then Undefined Terminate else Done s1)"

section \<open>Settings\<close>

definition svc_set_port :: "int \<Rightarrow> 'a xrnls_scheme \<Rightarrow> 'a xrnls_scheme" where
  "svc_set_port port s = (if \<not> b_thread_running s then s\<lparr>svc_port := word_of_int port\<rparr> else s)"

definition svc_get_port :: "'a xrnls_scheme \<Rightarrow> int" where
  "svc_get_port s = uint (svc_port s)"

definition set_protocol_tcp :: "'a xrnls_scheme \<Rightarrow> 'a xrnls_scheme" where
  "set_protocol_tcp s = s\<lparr>svc_protocol := TCP\<rparr>"
definition set_protocol_udp :: "'a xrnls_scheme \<Rightarrow> 'a xrnls_scheme" where
  "set_protocol_udp s = s\<lparr>svc_protocol := UDP\<rparr>"
definition get_protocol :: "'a xrnls_scheme \<Rightarrow> int" where
  "get_protocol s = (if svc_protocol s = TCP then 0 else 1)"

definition set_protocol_version :: "int \<Rightarrow> 'a xrnls_scheme \<Rightarrow> 'a xrnls_scheme" where
  "set_protocol_version prot s = s\<lparr>svc_protocol_version := (if prot = 4 then V4 else V6)\<rparr>"
definition set_protocol_v4 :: "'a xrnls_scheme \<Rightarrow> 'a xrnls_scheme" where
  "set_protocol_v4 s = s\<lparr>svc_protocol_version := V4\<rparr>"
definition set_protocol_v6 :: "'a xrnls_scheme \<Rightarrow> 'a xrnls_scheme" where
  "set_protocol_v6 s = s\<lparr>svc_protocol_version := V6\<rparr>"
definition get_protocol_version :: "'a xrnls_scheme \<Rightarrow> int" where
  "get_protocol_version s = (if svc_protocol_version s = V4 then 4 else 6)"

definition is_running :: "'a xrnls_scheme \<Rightarrow> bool" where
  "is_running s = b_thread_running s"
definition svc_get_max_participants :: "'a xrnls_scheme \<Rightarrow> u16" where
  "svc_get_max_participants s = svc_max_participants s"
definition get_socket_no_delay :: "'a xrnls_scheme \<Rightarrow> bool" where
  "get_socket_no_delay s = svc_socket_no_delay s"
definition svc_get_keep_alive :: "'a xrnls_scheme \<Rightarrow> bool" where
  "svc_get_keep_alive s = svc_keep_alive s"
definition get_broadcasting_all_messages :: "'a xrnls_scheme \<Rightarrow> bool" where
  "get_broadcasting_all_messages s = svc_auto_broadcast s"
definition svc_get_id :: "'a xrnls_scheme \<Rightarrow> u64" where
  "svc_get_id s = svc_id s"
definition svc_get_service_name :: "'a xrnls_scheme \<Rightarrow> cpp_string" where
  "svc_get_service_name s = svc_service_name s"

text \<open>Calls that return a code and reach the server only while the thread runs.\<close>

definition if_running ::
  "asio_env \<Rightarrow> server_call \<Rightarrow> 'a xrnls_scheme \<Rightarrow> 'a xrnls_scheme outcome" where
  "if_running env call s = (if b_thread_running s then on_server (do_server_call env call) s else Done s)"

definition running_code :: "'a xrnls_scheme \<Rightarrow> int" where
  "running_code s = (if b_thread_running s then NR_OK else NR_FAIL)"

definition svc_set_max_participants ::
  "asio_env \<Rightarrow> u16 \<Rightarrow> 'a xrnls_scheme \<Rightarrow> int \<times> 'a xrnls_scheme outcome" where
  "svc_set_max_participants env n s =
     (let s1 = s\<lparr>svc_max_participants := n\<rparr>
      in (running_code s1, if_running env (Call_set_max_participants (svc_max_participants s1)) s1))"

definition svc_set_max_handshake_connections ::
  "asio_env \<Rightarrow> u16 \<Rightarrow> 'a xrnls_scheme \<Rightarrow> int \<times> 'a xrnls_scheme outcome" where
  "svc_set_max_handshake_connections env n s =
     (let s1 = s\<lparr>svc_handshake_max_connections := n\<rparr>
      in (running_code s1, if_running env (Call_set_max_handshake_connections n) s1))"

definition svc_set_socket_no_delay :: "bool \<Rightarrow> 'a xrnls_scheme \<Rightarrow> 'a xrnls_scheme" where
  "svc_set_socket_no_delay b s = s\<lparr>svc_socket_no_delay := b\<rparr>"

definition svc_set_keep_alive :: "bool \<Rightarrow> 'a xrnls_scheme \<Rightarrow> int \<times> 'a xrnls_scheme" where
  "svc_set_keep_alive b s = (NR_OK, s\<lparr>svc_keep_alive := b\<rparr>)"

text \<open>This setting is only stored: a server that runs does not hear of it.\<close>

definition set_broadcasting_all_messages :: "bool \<Rightarrow> 'a xrnls_scheme \<Rightarrow> int \<times> 'a xrnls_scheme" where
  "set_broadcasting_all_messages b s = (NR_OK, s\<lparr>svc_auto_broadcast := b\<rparr>)"

definition svc_set_service_name :: "cpp_string \<Rightarrow> 'a xrnls_scheme \<Rightarrow> 'a xrnls_scheme" where
  "svc_set_service_name name s = s\<lparr>svc_service_name := name\<rparr>"

definition svc_register_callback_new_participant :: "asio_env \<Rightarrow> nat \<Rightarrow> 'a xrnls_scheme \<Rightarrow> 'a xrnls_scheme outcome" where
  "svc_register_callback_new_participant env c = if_running env (Call_register_new_participant c)"
definition svc_register_callback_new_message :: "asio_env \<Rightarrow> nat \<Rightarrow> 'a xrnls_scheme \<Rightarrow> 'a xrnls_scheme outcome" where
  "svc_register_callback_new_message env c = if_running env (Call_register_new_message c)"
definition svc_register_callback_participant_leave :: "asio_env \<Rightarrow> nat \<Rightarrow> 'a xrnls_scheme \<Rightarrow> 'a xrnls_scheme outcome" where
  "svc_register_callback_participant_leave env c = if_running env (Call_register_participant_leave c)"
definition svc_disconnect_all_callbacks :: "asio_env \<Rightarrow> 'a xrnls_scheme \<Rightarrow> 'a xrnls_scheme outcome" where
  "svc_disconnect_all_callbacks env = if_running env Call_disconnect_all_callbacks"
definition svc_disconnect_all_participants :: "asio_env \<Rightarrow> 'a xrnls_scheme \<Rightarrow> 'a xrnls_scheme outcome" where
  "svc_disconnect_all_participants env = if_running env Call_disconnect_all_participants"

definition svc_participants_count :: "'a xrnls_scheme \<Rightarrow> ub + u16" where
  "svc_participants_count s =
     (if b_thread_running s
      then (case svc_server s of None \<Rightarrow> Inl NullDeref | Some w \<Rightarrow> Inr (server_participants_count w))
      else Inr 0)"

definition svc_get_participant_info :: "u64 \<Rightarrow> nr_participant_info \<Rightarrow> 'a xrnls_scheme \<Rightarrow> ub + nr_participant_info" where
  "svc_get_participant_info i out s =
     (if b_thread_running s
      then (case svc_server s of None \<Rightarrow> Inl NullDeref | Some w \<Rightarrow> server_get_participant_info i out w)
      else Inr out)"

definition server_has_started :: "'a xrnls_scheme \<Rightarrow> ub + bool" where
  "server_has_started s =
     (if b_thread_running s
      then (case svc_server s of None \<Rightarrow> Inl NullDeref | Some w \<Rightarrow> Inr (has_started w))
      else Inr False)"

definition svc_set_participant_deaf :: "asio_env \<Rightarrow> u64 \<Rightarrow> bool \<Rightarrow> 'a xrnls_scheme \<Rightarrow> int \<times> 'a xrnls_scheme outcome" where
  "svc_set_participant_deaf env i d s = (running_code s, if_running env (Call_set_participant_deaf i d) s)"

definition svc_get_participant_deaf :: "u64 \<Rightarrow> bool \<Rightarrow> 'a xrnls_scheme \<Rightarrow> ub + (int \<times> bool)" where
  "svc_get_participant_deaf i out s =
     (if \<not> b_thread_running s then Inr (NR_FAIL, out)
      else case svc_server s of
             None \<Rightarrow> Inl NullDeref
           | Some w \<Rightarrow> Inr (NR_OK, server_get_participant_deaf i w))"

definition svc_set_auto_update_participants :: "asio_env \<Rightarrow> bool \<Rightarrow> 'a xrnls_scheme \<Rightarrow> int \<times> 'a xrnls_scheme outcome" where
  "svc_set_auto_update_participants env au s =
     (running_code s, if_running env (Call_set_auto_update_participants au) s)"

definition svc_get_auto_update_participants :: "bool \<Rightarrow> 'a xrnls_scheme \<Rightarrow> ub + (int \<times> bool)" where
  "svc_get_auto_update_participants out s =
     (if \<not> b_thread_running s then Inr (NR_FAIL, out)
      else case svc_server s of
             None \<Rightarrow> Inl NullDeref
           | Some w \<Rightarrow> Inr (NR_OK, server_get_auto_update_participants w))"

end
