(* ===== verification/Console.thy ===== *)
theory Console
  imports Lobby_Service
begin

text \<open>
  The operator's console of \<open>nr_service_console.cpp\<close>: the callback that configures the service
  when its thread is up, and the menu. The keys, the thread and the network interleave as
  events.
\<close>

record console = xrnls +
  b_instantiated :: bool
  quit :: bool

text \<open>The callbacks by number; only \<open>OnServiceStarted\<close> changes state, the others print.\<close>

definition ON_SERVICE_STARTED :: nat where "ON_SERVICE_STARTED = 0"
definition ON_NEW_PARTICIPANT :: nat where "ON_NEW_PARTICIPANT = 1"
definition ON_NEW_MESSAGE :: nat where "ON_NEW_MESSAGE = 2"
definition ON_PARTICIPANT_LEAVE :: nat where "ON_PARTICIPANT_LEAVE = 3"

definition OnServiceStarted :: "asio_env \<Rightarrow> console \<Rightarrow> console outcome" where
  "OnServiceStarted env s =
     (if b_instantiated s then Done s
      else and_then (svc_register_callback_new_participant env ON_NEW_PARTICIPANT s)
        (\<lambda>s1. and_then (svc_register_callback_new_message env ON_NEW_MESSAGE s1)
        (\<lambda>s2. and_then (svc_register_callback_participant_leave env ON_PARTICIPANT_LEAVE s2)
        (\<lambda>s3. and_then (snd (svc_set_max_participants env 100 s3))
        (\<lambda>s4. and_then (snd (svc_set_max_handshake_connections env 100 s4))
        (\<lambda>s5. and_then (snd (svc_set_auto_update_participants env True s5))
        (\<lambda>s6. Done (s6\<lparr>b_instantiated := True\<rparr>))))))))"

text \<open>
  The callbacks that print. \<open>OnNewParticipant\<close> asks the service for the information of the
  newcomer and prints its address as a C string out of the block, the name behind it included.
\<close>

definition OnNewParticipant :: "u64 \<Rightarrow> (nat \<Rightarrow> byte) \<Rightarrow> console \<Rightarrow> ub + insertion list" where
  "OnNewParticipant i stale_mem s =
     mem_bind (svc_get_participant_info i (init_participant_info stale_mem) s)
       (\<lambda>info. mem_bind (c_string (ipv4_ip info @ info_name info))
          (\<lambda>ip. Inr ([Ins_text (str ''----- New Participant event ID: ''), Ins_num (unat i),
                     Ins_text (str '', IP: ''), Ins_text ip, Man_endl])))"

definition OnNewMessage :: "u64 \<Rightarrow> byte list \<Rightarrow> u32 \<Rightarrow> insertion list" where
  "OnNewMessage i buffer buffer_size = []"

definition OnParticipantLeave :: "u64 \<Rightarrow> insertion list" where
  "OnParticipantLeave i =
     [Ins_text (str ''----- participant ''), Ins_text (digits 10 (unat i)),
      Ins_text (str '' leaving room.''), Man_endl]"

definition console_callbacks :: "asio_env \<Rightarrow> nat \<Rightarrow> console \<Rightarrow> console outcome" where
  "console_callbacks env c s = (if c = ON_SERVICE_STARTED then OnServiceStarted env s else Done s)"

text \<open>\<open>main\<close> up to its loop.\<close>

definition console_main :: "(nat \<Rightarrow> u32) \<Rightarrow> console \<Rightarrow> console" where
  "console_main device raw =
     svc_set_service_name (str ''JP Service'')
       (svc_set_socket_no_delay True
         (svc_set_port 1080
           ((new_xrnls device raw)\<lparr>b_instantiated := False, quit := False\<rparr>)))"

text \<open>One turn of the loop: the switch, and the test for the backquote.\<close>

definition console_switch :: "asio_env \<Rightarrow> char \<Rightarrow> console \<Rightarrow> console outcome" where
  "console_switch env c s =
     (if c = CHR ''b'' \<or> c = CHR ''B'' then
        Done (snd (set_broadcasting_all_messages (\<not> get_broadcasting_all_messages s) s))
      else if c = CHR ''n'' \<or> c = CHR ''N'' then
        and_then (svc_start s)
          (\<lambda>s1. Done (if \<not> b_instantiated s1 then register_callback_on_running ON_SERVICE_STARTED s1 else s1))
      else if c = CHR ''s'' \<or> c = CHR ''S'' then svc_stop env (console_callbacks env) s
      else if c = CHR ''d'' \<or> c = CHR ''D'' then svc_disconnect_all_participants env s
      else Done s)"

definition console_key :: "asio_env \<Rightarrow> char \<Rightarrow> console \<Rightarrow> console outcome" where
  "console_key env c s =
     and_then (console_switch env c s) (\<lambda>s1. Done (s1\<lparr>quit := (c = CHR 0x60)\<rparr>))"

text \<open>\<open>cleaning\<close>, meant for \<open>atexit\<close>.\<close>

definition cleaning :: "asio_env \<Rightarrow> console \<Rightarrow> console outcome" where
  "cleaning env s = svc_stop env (console_callbacks env) s"

section \<open>Events\<close>

text \<open>\<open>Old_net\<close> runs a handler that a destroyed server has left in the \<open>io_context\<close>.\<close>

datatype console_event =
    Key char
  | Thread_begins bool
  | Net server_event
  | Old_net nat server_event
  | Run_returns

fun console_enabled :: "console_event \<Rightarrow> console \<Rightarrow> bool" where
  "console_enabled (Key c) s = (\<not> quit s)"
| "console_enabled (Thread_begins ok) s = (service_thread s = Starting)"
| "console_enabled (Net e) s =
     (service_thread s = Running \<and>
      (case svc_server s of None \<Rightarrow> False | Some w \<Rightarrow> server_enabled e w))"
| "console_enabled (Old_net k e) s =
     (service_thread s = Running \<and> k < length (svc_destroyed s) \<and>
      \<not> is_call e \<and> server_enabled e (svc_destroyed s ! k))"
| "console_enabled Run_returns s =
     (service_thread s = Running \<and>
      (case svc_server s of None \<Rightarrow> False | Some w \<Rightarrow> out_of_work w) \<and>
      list_all out_of_work (svc_destroyed s))"

fun console_handle :: "asio_env \<Rightarrow> network_room \<Rightarrow> console_event \<Rightarrow> console \<Rightarrow> console outcome" where
  "console_handle env raw (Key c) s = console_key env c s"
| "console_handle env raw (Thread_begins ok) s =
     thread_function_begin env (console_callbacks env) raw ok s"
| "console_handle env raw (Net e) s = thread_function_run env e s"
| "console_handle env raw (Old_net k e) s = thread_function_old env k e s"
| "console_handle env raw Run_returns s = Done (thread_function_end s)"

end
