(* ===== verification/Lobby_Correct.thy ===== *)
theory Lobby_Correct
  imports Console Room_Properties
begin

text \<open>
  The service and its console: the thread, the flag that says it runs and the server it owns stay
  consistent along every interleaving of keys, thread and network, and where a start ends the
  process.
\<close>

section \<open>The invariant\<close>

definition lobby_inv :: "console \<Rightarrow> bool" where
  "lobby_inv s \<longleftrightarrow>
     (b_thread_running s \<longleftrightarrow> service_thread s = Running) \<and>
     (b_thread_running s \<longrightarrow> (\<exists>w. svc_server s = Some w \<and> server_inv w)) \<and>
     on_stopping_slots s = [] \<and> set (on_running_slots s) \<subseteq> {ON_SERVICE_STARTED}"

definition running :: "console \<Rightarrow> nr_server \<Rightarrow> bool" where
  "running s w \<longleftrightarrow> lobby_inv s \<and> b_thread_running s \<and> svc_server s = Some w"

lemma lobby_inv_running:
  "lobby_inv s \<Longrightarrow> b_thread_running s \<Longrightarrow> \<exists>w. running s w \<and> server_inv w"
  by (auto simp: lobby_inv_def running_def)

lemma running_server_inv: "running s w \<Longrightarrow> server_inv w"
  by (auto simp: lobby_inv_def running_def)

lemma running_server: "running s w \<Longrightarrow> server_inv w' \<Longrightarrow> running (s\<lparr>svc_server := Some w'\<rparr>) w'"
  by (auto simp: lobby_inv_def running_def)

section \<open>Calls that reach the server\<close>

lemma on_server_Done:
  "running s w \<Longrightarrow> f w = Done w' \<Longrightarrow> on_server f s = Done (s\<lparr>svc_server := Some w'\<rparr>)"
  by (simp add: on_server_def running_def)

text \<open>Calls that cannot fail, and the server they leave.\<close>

fun plain_call :: "server_call \<Rightarrow> bool" where
  "plain_call (Call_disconnect_participant i) = False"
| "plain_call call = True"

lemma plain_call_Done: "plain_call call \<Longrightarrow> \<exists>w'. do_server_call env call w = Done w'"
  by (cases call) auto

lemma plain_call_on_server:
  assumes "running s w" and "plain_call call"
  shows "\<exists>w'. do_server_call env call w = Done w' \<and>
    on_server (do_server_call env call) s = Done (s\<lparr>svc_server := Some w'\<rparr>) \<and>
    running (s\<lparr>svc_server := Some w'\<rparr>) w'"
proof -
  obtain w' where w': "do_server_call env call w = Done w'" using plain_call_Done [OF assms(2)] by blast
  then show ?thesis
    using on_server_Done [OF assms(1), of "do_server_call env call"] running_server [OF assms(1)]
      do_server_call_keeps [OF running_server_inv [OF assms(1)] w'] by blast
qed

lemma if_running_on_server: "running s w \<Longrightarrow> if_running env call s = on_server (do_server_call env call) s"
  by (simp add: if_running_def running_def)

section \<open>The callback of the console\<close>

lemma running_settings:
  "running s w \<Longrightarrow> running (s\<lparr>svc_max_participants := n\<rparr>) w"
  "running s w \<Longrightarrow> running (s\<lparr>svc_handshake_max_connections := n\<rparr>) w"
  "running s w \<Longrightarrow> running (s\<lparr>b_instantiated := b\<rparr>) w"
  by (auto simp: running_def lobby_inv_def)

text \<open>The server after the first start: limit, callbacks, updates.\<close>

definition configured :: "nr_server \<Rightarrow> nr_server" where
  "configured w =
     set_auto_update_participants True (set_max_participants 100 (set_max_participants 100
       (register_callback_participant_leave ON_PARTICIPANT_LEAVE
         (register_callback_new_message ON_NEW_MESSAGE
           (register_callback_new_participant ON_NEW_PARTICIPANT w)))))"

lemma server_inv_configured: "server_inv w \<Longrightarrow> server_inv (configured w)"
  unfolding configured_def
  by (rule server_inv_frame, assumption)
    (simp_all add: room_settings)

lemma OnServiceStarted_eq:
  assumes "running s w" and "\<not> b_instantiated s"
  shows "OnServiceStarted env s = Done (s\<lparr>svc_server := Some (configured w), svc_max_participants := 100,
    svc_handshake_max_connections := 100, b_instantiated := True\<rparr>)"
  using assms
  by (simp add: OnServiceStarted_def running_def svc_register_callback_new_participant_def
      svc_register_callback_new_message_def svc_register_callback_participant_leave_def
      svc_set_max_participants_def svc_set_max_handshake_connections_def svc_set_auto_update_participants_def
      if_running_def on_server_def Let_def configured_def server_set_max_participants_def
      set_max_handshake_connections_def)

text \<open>The console registers one callback, perhaps several times; only its first run does something.\<close>

definition after_callbacks :: "console \<Rightarrow> nr_server \<Rightarrow> console" where
  "after_callbacks s w =
     (if on_running_slots s = [] \<or> b_instantiated s then s
      else s\<lparr>svc_server := Some (configured w), svc_max_participants := 100,
             svc_handshake_max_connections := 100, b_instantiated := True\<rparr>)"

lemma raise_instantiated: "b_instantiated s \<Longrightarrow> raise (console_callbacks env) slots s = Done s"
  unfolding raise_def
  by (induction slots) (simp_all add: console_callbacks_def OnServiceStarted_def)

lemma raise_on_running:
  assumes run: "running s w"
  shows "raise (console_callbacks env) (on_running_slots s) s = Done (after_callbacks s w)"
proof (cases "b_instantiated s \<or> on_running_slots s = []")
  case True
  then show ?thesis
    using raise_instantiated [of s env "on_running_slots s"] by (auto simp: after_callbacks_def raise_def)
next
  case False
  then obtain slots where slots: "on_running_slots s = ON_SERVICE_STARTED # slots"
    using run by (cases "on_running_slots s") (auto simp: running_def lobby_inv_def)
  let ?s = "s\<lparr>svc_server := Some (configured w), svc_max_participants := 100,
    svc_handshake_max_connections := 100, b_instantiated := True\<rparr>"
  have "raise (console_callbacks env) (on_running_slots s) s = raise (console_callbacks env) slots ?s"
    using OnServiceStarted_eq [OF run] False by (simp add: raise_def slots console_callbacks_def)
  also have "\<dots> = Done ?s" by (rule raise_instantiated) simp
  finally show ?thesis using False by (simp add: after_callbacks_def)
qed

lemma running_after_callbacks:
  "running s w \<Longrightarrow> \<exists>v. running (after_callbacks s w) v \<and> (v = w \<or> v = configured w)"
  using server_inv_configured [OF running_server_inv [of s w]]
  by (auto simp: after_callbacks_def running_def lobby_inv_def)

section \<open>The thread\<close>

text \<open>The settings of the service that the thread hands to its server.\<close>

definition launched :: "console \<Rightarrow> nr_server \<Rightarrow> nr_server" where
  "launched s w =
     set_service_name (svc_service_name s)
       (server_set_broadcasting_all_messages (svc_auto_broadcast s)
         (server_set_max_participants (svc_max_participants s)
           (server_set_keep_alive (svc_keep_alive s) w)))"

lemma server_inv_launched: "server_inv w \<Longrightarrow> server_inv (launched s w)"
  unfolding launched_def
  by (rule server_inv_frame, assumption) (simp_all add: room_settings server_settings)

lemma thread_begins_eq:
  fixes s :: console and raw :: network_room
  assumes inv: "lobby_inv s" and starting: "service_thread s = Starting"
  defines "s1 \<equiv> s\<lparr>svc_destroyed := map destroy_nr_server (option_list (svc_server s)) @ svc_destroyed s,
    svc_server := Some (new_nr_server raw), b_thread_running := True, service_thread := Running\<rparr>"
  defines "s2 \<equiv> after_callbacks s1 (new_nr_server raw)"
  shows "thread_function_begin env (console_callbacks env) raw True s =
      Done (s2\<lparr>svc_server := Some (launched s2 (the (svc_server s2)))\<rparr>)" and "running s1 (new_nr_server raw)"
proof -
  show run: "running s1 (new_nr_server raw)"
    using inv server_inv_new by (auto simp: running_def lobby_inv_def s1_def)
  obtain v where v: "running s2 v" using running_after_callbacks [OF run] unfolding s2_def by blast
  then have "svc_server s2 = Some v" by (simp add: running_def)
  then show "thread_function_begin env (console_callbacks env) raw True s =
      Done (s2\<lparr>svc_server := Some (launched s2 (the (svc_server s2)))\<rparr>)"
    using raise_on_running [OF run, of env]
    by (simp add: thread_function_begin_def Let_def on_server_def launched_def flip: s1_def s2_def)
qed

lemma thread_begins_keeps:
  fixes s :: console
  assumes inv: "lobby_inv s" and starting: "service_thread s = Starting"
  shows "\<exists>s'. thread_function_begin env (console_callbacks env) raw ok s = Done s' \<and> lobby_inv s'"
proof (cases ok)
  case True
  let ?s1 = "s\<lparr>svc_destroyed := map destroy_nr_server (option_list (svc_server s)) @ svc_destroyed s,
    svc_server := Some (new_nr_server raw), b_thread_running := True, service_thread := Running\<rparr>"
  obtain v where v: "running (after_callbacks ?s1 (new_nr_server raw)) v"
    using running_after_callbacks [OF thread_begins_eq(2) [OF assms, of raw]] by blast
  have "svc_server (after_callbacks ?s1 (new_nr_server raw)) = Some v" using v by (simp add: running_def)
  then show ?thesis
    using thread_begins_eq(1) [OF assms, of env raw]
      running_server [OF v server_inv_launched [OF running_server_inv [OF v]]] True
    by (simp add: running_def)
next
  case False
  then show ?thesis
    using assms by (simp add: thread_function_begin_def thread_function_end_def lobby_inv_def)
qed

lemma thread_end_keeps: "lobby_inv s \<Longrightarrow> lobby_inv (thread_function_end s)"
  by (simp add: thread_function_end_def lobby_inv_def)

lemma network_keeps:
  fixes s :: console
  assumes inv: "lobby_inv s" and en: "console_enabled (Net e) s" and step: "thread_function_run env e s = Done s'"
  shows "lobby_inv s'"
proof -
  obtain w where w: "running s w" "server_enabled e w"
    using inv en by (auto simp: running_def lobby_inv_def split: option.splits)
  show ?thesis
  proof (cases "server_handle env e w")
    case (Done w')
    then have "s' = s\<lparr>svc_server := Some w'\<rparr>"
      using step on_server_Done [OF w(1), of "server_handle env e"] by (simp add: thread_function_run_def)
    then show ?thesis
      using running_server [OF w(1) server_handle_inv [OF running_server_inv [OF w(1)] w(2) Done]]
      by (simp add: running_def)
  next
    case (Throws x w')
    then have "s' = thread_function_end (s\<lparr>svc_server := Some w'\<rparr>)"
      using step w(1) by (simp add: thread_function_run_def on_server_def running_def)
    then show ?thesis using inv by (simp add: thread_function_end_def lobby_inv_def)
  next
    case (Undefined u)
    then show ?thesis using step w(1) by (simp add: thread_function_run_def on_server_def running_def)
  qed
qed

lemma old_network_keeps:
  fixes s :: console
  assumes "lobby_inv s" and "thread_function_old env k ev s = Done s'"
  shows "lobby_inv s'"
proof -
  have same: "lobby_inv (s\<lparr>svc_destroyed := ws\<rparr>)" for ws using assms(1) by (simp add: lobby_inv_def)
  from assms(2) obtain ws where "s' = s\<lparr>svc_destroyed := ws\<rparr> \<or> s' = thread_function_end (s\<lparr>svc_destroyed := ws\<rparr>)"
    by (auto simp: thread_function_old_def split: if_splits outcome.splits)
  then show ?thesis using same [of ws] thread_end_keeps by blast
qed

section \<open>The keys\<close>

definition is_key :: "char \<Rightarrow> char \<Rightarrow> char \<Rightarrow> bool" where
  "is_key small capital c \<longleftrightarrow> c = small \<or> c = capital"

lemma svc_stop_keeps:
  fixes s :: console
  assumes "lobby_inv s"
  shows "\<exists>s'. svc_stop env (console_callbacks env) s = Done s' \<and> lobby_inv s'"
proof (cases "b_thread_running s")
  case True
  then obtain w where w: "running s w" using lobby_inv_running [OF assms] by blast
  obtain w' where "do_server_call env Call_stop w = Done w'"
      "on_server (do_server_call env Call_stop) s = Done (s\<lparr>svc_server := Some w'\<rparr>)"
    using plain_call_on_server [OF w, of Call_stop env] by auto
  moreover have "raise (console_callbacks env) (on_stopping_slots s) s = Done s"
    using assms by (simp add: lobby_inv_def raise_def)
  ultimately show ?thesis
    using True assms by (simp add: svc_stop_def lobby_inv_def)
qed (simp add: svc_stop_def assms)

lemma console_key_outcome:
  assumes inv: "lobby_inv s"
  shows "if is_key CHR ''n'' CHR ''N'' c \<and> \<not> b_thread_running s \<and> joinable (service_thread s)
    then console_key env c s = Undefined Terminate
    else \<exists>s'. console_key env c s = Done s' \<and> lobby_inv s' \<and> quit s' = (c = CHR 0x60)"
proof -
  have fin: "\<exists>s'. console_key env c s = Done s' \<and> lobby_inv s' \<and> quit s' = (c = CHR 0x60)"
    if "console_switch env c s = Done v" "lobby_inv v" for v
    using that by (simp add: console_key_def lobby_inv_def)
  consider (b) "is_key CHR ''b'' CHR ''B'' c" | (n) "is_key CHR ''n'' CHR ''N'' c"
    | (s) "is_key CHR ''s'' CHR ''S'' c" | (d) "is_key CHR ''d'' CHR ''D'' c"
    | (other) "\<not> is_key CHR ''b'' CHR ''B'' c" "\<not> is_key CHR ''n'' CHR ''N'' c"
        "\<not> is_key CHR ''s'' CHR ''S'' c" "\<not> is_key CHR ''d'' CHR ''D'' c" by blast
  then show ?thesis
  proof cases
    case b
    then show ?thesis using inv
      by (auto simp: is_key_def console_key_def console_switch_def set_broadcasting_all_messages_def lobby_inv_def)
  next
    case n
    then show ?thesis using inv
      by (auto simp: is_key_def console_key_def console_switch_def svc_start_def lobby_inv_def
          register_callback_on_running_def)
  next
    case s
    then have sw: "console_switch env c s = svc_stop env (console_callbacks env) s" and "\<not> is_key CHR ''n'' CHR ''N'' c"
      by (auto simp: is_key_def console_switch_def)
    then show ?thesis using svc_stop_keeps [OF inv, of env] fin by auto
  next
    case d
    then have sw: "console_switch env c s = svc_disconnect_all_participants env s" and no: "\<not> is_key CHR ''n'' CHR ''N'' c"
      by (auto simp: is_key_def console_switch_def)
    have "\<exists>v. svc_disconnect_all_participants env s = Done v \<and> lobby_inv v"
    proof (cases "b_thread_running s")
      case True
      then obtain w where w: "running s w" using lobby_inv_running [OF inv] by blast
      obtain w' where
        "on_server (do_server_call env Call_disconnect_all_participants) s = Done (s\<lparr>svc_server := Some w'\<rparr>)"
        "running (s\<lparr>svc_server := Some w'\<rparr>) w'"
        using plain_call_on_server [OF w, of Call_disconnect_all_participants env] by auto
      then show ?thesis
        by (simp add: svc_disconnect_all_participants_def if_running_on_server [OF w] running_def)
    qed (simp add: svc_disconnect_all_participants_def if_running_def inv)
    then show ?thesis using sw no fin by auto
  next
    case other
    then have "console_switch env c s = Done s" by (simp add: is_key_def console_switch_def)
    then show ?thesis using other fin inv by auto
  qed
qed

interpretation console: event_system console_enabled "console_handle env raw" lobby_inv for env raw
proof unfold_locales
  fix s e s'
  assume inv: "lobby_inv s" and en: "console_enabled e s" and step: "console_handle env raw e s = Done s'"
  show "lobby_inv s'"
  proof (cases e)
    case (Key c)
    then show ?thesis using console_key_outcome [OF inv, of c env] step by (auto split: if_splits)
  next
    case (Thread_begins ok)
    then show ?thesis using thread_begins_keeps [OF inv, of env raw ok] en step by auto
  next
    case (Net ev)
    then show ?thesis using network_keeps [OF inv _ , of ev env s'] en step by simp
  next
    case (Old_net k ev)
    then show ?thesis using old_network_keeps [OF inv, of env k ev s'] step by simp
  next
    case Run_returns
    then show ?thesis using thread_end_keeps [OF inv] step by simp
  qed
qed

section \<open>Properties of the service and its console\<close>

lemma console_main_fields [simp]:
  "b_thread_running (console_main device raw) = False" "service_thread (console_main device raw) = No_thread"
  "svc_server (console_main device raw) = None" "on_running_slots (console_main device raw) = []"
  "on_stopping_slots (console_main device raw) = []" "b_instantiated (console_main device raw) = False"
  "quit (console_main device raw) = False" "svc_port (console_main device raw) = 1080"
  "svc_max_participants (console_main device raw) = 5" "svc_keep_alive (console_main device raw) = True"
  "svc_auto_broadcast (console_main device raw) = False"
  "svc_service_name (console_main device raw) = str ''JP Service''"
  by (simp_all add: console_main_def new_xrnls_def svc_set_service_name_def svc_set_socket_no_delay_def svc_set_port_def)

lemma lobby_inv_main: "lobby_inv (console_main device raw)"
  by (simp add: lobby_inv_def)

text \<open>The memory in which the console of the witnesses is constructed.\<close>

definition sample_memory :: console where
  "sample_memory =
   \<lparr>b_thread_running = False, service_thread = No_thread, svc_server = None, svc_destroyed = [], svc_protocol = TCP,
    svc_protocol_version = V4, svc_socket_no_delay = True, svc_keep_alive = True, svc_auto_broadcast = False,
    svc_message_buffer_size = 0, svc_max_participants = 0, svc_service_name = [], svc_id = 0, svc_port = 0,
    on_running_slots = [], on_stopping_slots = [], svc_handshake_max_connections = 0,
    b_instantiated = False, quit = False\<rparr>"

text \<open>C28: in every state the console program reaches, the flag says that the service runs exactly while
  its thread is inside the event loop, and then there is a server to call, whose room is in order.\<close>

theorem console_runs_consistent:
  assumes "run console_enabled (console_handle env raw) es (console_main device raw0) = Some (Done s)"
  shows "(b_thread_running s \<longleftrightarrow> service_thread s = Running) \<and>
    (b_thread_running s \<longrightarrow> (\<exists>w. svc_server s = Some w \<and> server_inv w))"
  using console.run_inv [OF lobby_inv_main assms] by (simp add: lobby_inv_def)

text \<open>The two events of a start.\<close>

definition start_events :: "console_event list" where
  "start_events = [Key CHR ''n'', Thread_begins True]"

lemma console_starts:
  "\<exists>s w. run console_enabled (console_handle env raw) start_events (console_main device raw0) = Some (Done s) \<and>
    running s w \<and> b_instantiated s \<and> quit s = False \<and>
    w = launched s (configured (new_nr_server raw)) \<and>
    svc_max_participants s = 100 \<and> svc_keep_alive s \<and> \<not> svc_auto_broadcast s \<and>
    svc_service_name s = str ''JP Service'' \<and> on_running_slots s = [ON_SERVICE_STARTED]"
proof -
  let ?m = "console_main device raw0"
  let ?s0 = "?m\<lparr>service_thread := Starting, on_running_slots := [ON_SERVICE_STARTED], quit := False\<rparr>"
  have key: "console_handle env raw (Key CHR ''n'') ?m = Done ?s0"
    by (simp add: console_key_def console_switch_def svc_start_def register_callback_on_running_def)
  have inv: "lobby_inv ?s0" by (simp add: lobby_inv_def)
  let ?s1 = "?s0\<lparr>svc_destroyed := map destroy_nr_server (option_list (svc_server ?s0)) @ svc_destroyed ?s0,
    svc_server := Some (new_nr_server raw), b_thread_running := True, service_thread := Running\<rparr>"
  let ?s2 = "after_callbacks ?s1 (new_nr_server raw)"
  let ?w = "launched ?s2 (configured (new_nr_server raw))"
  have s2: "svc_server ?s2 = Some (configured (new_nr_server raw))"
    by (simp add: after_callbacks_def)
  have begin_ok: "console_handle env raw (Thread_begins True) ?s0 = Done (?s2\<lparr>svc_server := Some ?w\<rparr>)"
    using thread_begins_eq(1) [OF inv, of env raw] s2 by simp
  have run2: "running ?s2 (configured (new_nr_server raw))"
    using running_after_callbacks [OF thread_begins_eq(2) [OF inv, of raw]] s2 by (auto simp: running_def)
  have run3: "running (?s2\<lparr>svc_server := Some ?w\<rparr>) ?w"
    by (rule running_server [OF run2 server_inv_launched [OF running_server_inv [OF run2]]])
  have "run console_enabled (console_handle env raw) start_events ?m = Some (Done (?s2\<lparr>svc_server := Some ?w\<rparr>))"
    unfolding start_events_def using key begin_ok by simp
  moreover have "launched (?s2\<lparr>svc_server := Some ?w\<rparr>) v = launched ?s2 v" for v
    by (simp add: launched_def)
  ultimately show ?thesis
    using run3 by (intro exI [of _ "?s2\<lparr>svc_server := Some ?w\<rparr>"] exI [of _ ?w]) (simp add: after_callbacks_def)
qed

lemma launched_fields:
  "room (launched s w) = (room w)\<lparr>room_keep_alive := svc_keep_alive s, max_participants := svc_max_participants s,
     broadcast_participants_messages := svc_auto_broadcast s\<rparr>"
  "srv_service_name (launched s w) = svc_service_name s"
  by (simp_all add: launched_def server_settings room_settings)

lemma configured_fields:
  "room (configured w) = (room w)\<lparr>max_participants := 100, auto_update_participants := True,
     slots_new_participant := slots_new_participant (room w) @ [ON_NEW_PARTICIPANT],
     slots_new_message := slots_new_message (room w) @ [ON_NEW_MESSAGE],
     slots_participant_leave := slots_participant_leave (room w) @ [ON_PARTICIPANT_LEAVE]\<rparr>"
  by (simp add: configured_def room_settings)

theorem console_runs_consistent_witness:
  "\<exists>s w. run console_enabled (console_handle sample_env sample_raw_room) start_events (console_main (\<lambda>_. 0) sample_memory) = Some (Done s) \<and>
     service_thread s = Running \<and> svc_server s = Some w \<and> server_inv w"
proof -
  obtain s where s: "run console_enabled (console_handle sample_env sample_raw_room) start_events (console_main (\<lambda>_. 0) sample_memory) = Some (Done s)"
    "b_thread_running s"
    using console_starts [of sample_env sample_raw_room "\<lambda>_. 0" sample_memory] by (auto simp: running_def)
  then show ?thesis using console_runs_consistent [OF s(1)] by auto
qed

text \<open>C29: no key of the operator fails, in any reachable state, but one: starting a service whose former
  thread has not been joined, because it is still being started or has ended by itself, replaces a
  joinable thread object and ends the process.\<close>

theorem console_keys_outcome:
  assumes "run console_enabled (console_handle env raw) es (console_main device raw0) = Some (Done s)"
  shows "if c \<in> {CHR ''n'', CHR ''N''} \<and> service_thread s \<in> {Starting, Finished}
    then console_key env c s = Undefined Terminate
    else \<exists>s'. console_key env c s = Done s' \<and> (quit s' \<longleftrightarrow> c = CHR 0x60)"
proof -
  have inv: "lobby_inv s" by (rule console.run_inv [OF lobby_inv_main assms])
  have "\<not> b_thread_running s \<and> joinable (service_thread s) \<longleftrightarrow> service_thread s \<in> {Starting, Finished}"
    using inv by (cases "service_thread s") (auto simp: lobby_inv_def)
  then show ?thesis
    using console_key_outcome [OF inv, of c env] by (auto simp: is_key_def split: if_splits)
qed

theorem console_keys_outcome_witness:
  "\<exists>s. run console_enabled (console_handle sample_env sample_raw_room) [Key CHR ''n''] (console_main (\<lambda>_. 0) sample_memory) = Some (Done s) \<and>
     console_key sample_env CHR ''n'' s = Undefined Terminate"
proof -
  obtain s where s: "run console_enabled (console_handle sample_env sample_raw_room) [Key CHR ''n''] (console_main (\<lambda>_. 0) sample_memory) = Some (Done s)"
    "service_thread s = Starting"
    by (simp add: console_key_def console_switch_def svc_start_def register_callback_on_running_def)
  then show ?thesis using console_keys_outcome [OF s(1), of "CHR ''n''"] by auto
qed

text \<open>Only the first start configures its server: after a stop and a second start the new server has
  none of the three callbacks, and whether members are updated is left to what its memory held.\<close>

theorem second_start_is_not_configured:
  "\<exists>s1 w1 s2 w2.
    run console_enabled (console_handle env raw) start_events (console_main device raw0) = Some (Done s1) \<and>
    svc_server s1 = Some w1 \<and> slots_new_participant (room w1) = [ON_NEW_PARTICIPANT] \<and>
    slots_participant_leave (room w1) = [ON_PARTICIPANT_LEAVE] \<and> auto_update_participants (room w1) \<and>
    run console_enabled (console_handle env raw) (Key CHR ''s'' # start_events) s1 = Some (Done s2) \<and>
    b_thread_running s2 \<and> svc_server s2 = Some w2 \<and> slots_new_participant (room w2) = [] \<and>
    slots_participant_leave (room w2) = [] \<and> auto_update_participants (room w2) = auto_update_participants raw \<and>
    max_participants (room w1) = 100 \<and> max_participants (room w2) = 100"
proof -
  obtain s1 w1 where first: "run console_enabled (console_handle env raw) start_events (console_main device raw0) = Some (Done s1)"
    "running s1 w1" "b_instantiated s1" "\<not> quit s1" "w1 = launched s1 (configured (new_nr_server raw))"
    "svc_max_participants s1 = 100" "on_running_slots s1 = [ON_SERVICE_STARTED]"
    using console_starts [of env raw device raw0] by blast
  have on: "b_thread_running s1" "svc_server s1 = Some w1" "on_stopping_slots s1 = []" "lobby_inv s1"
    using first(2) by (auto simp: running_def lobby_inv_def)
  let ?t = "s1\<lparr>svc_server := Some (server_stop w1), b_thread_running := False, service_thread := Joined, quit := False\<rparr>"
  have stop: "console_handle env raw (Key CHR ''s'') s1 = Done ?t"
    using on by (simp add: console_key_def console_switch_def svc_stop_def raise_def on_server_def)
  let ?u = "?t\<lparr>service_thread := Starting\<rparr>"
  have key: "console_handle env raw (Key CHR ''n'') ?t = Done ?u"
    using first(3) by (simp add: console_key_def console_switch_def svc_start_def)
  have inv: "lobby_inv ?u" using on(4) by (simp add: lobby_inv_def)
  let ?v = "?u\<lparr>svc_destroyed := map destroy_nr_server (option_list (svc_server ?u)) @ svc_destroyed ?u,
    svc_server := Some (new_nr_server raw), b_thread_running := True, service_thread := Running\<rparr>"
  have same: "after_callbacks ?v (new_nr_server raw) = ?v" using first(3) by (simp add: after_callbacks_def)
  let ?w2 = "launched ?v (new_nr_server raw)"
  have begins: "console_handle env raw (Thread_begins True) ?u = Done (?v\<lparr>svc_server := Some ?w2\<rparr>)"
    using thread_begins_eq(1) [OF inv, of env raw] same by simp
  have "run console_enabled (console_handle env raw) (Key CHR ''s'' # start_events) s1 =
      Some (Done (?v\<lparr>svc_server := Some ?w2\<rparr>))"
    unfolding start_events_def using first(4) stop key begins by simp
  moreover have "room (new_nr_server raw) = (new_network_room raw)\<lparr>max_participants := 10\<rparr>" by simp
  moreover have "auto_update_participants (new_network_room raw) = auto_update_participants raw"
    by (simp add: new_network_room_def)
  ultimately show ?thesis
    using first on
    by (intro exI [of _ s1] exI [of _ w1] exI [of _ "?v\<lparr>svc_server := Some ?w2\<rparr>"] exI [of _ ?w2])
      (simp add: launched_fields configured_fields)
qed

section \<open>A restart\<close>

text \<open>Stopping and destroying a server close sockets and empty the room; the pending reads stay.\<close>

lemma reading_disconnect_all [simp]: "reading (heap (disconnect_all_participants w) p) = reading (heap w p)"
proof -
  have "reading (heap (fold disconnect ps w) p) = reading (heap w p)" for ps
    by (induction ps arbitrary: w) simp_all
  then show ?thesis by (simp add: disconnect_all_participants_def)
qed

lemma reading_server_stop [simp]: "reading (heap (server_stop w) p) = reading (heap w p)"
  by (simp add: server_stop_def Let_def)

lemma reading_destroyed [simp]: "reading (heap (destroy_nr_server w) p) = reading (heap w p)"
  by (simp add: destroy_nr_server_def destroy_network_room_def disconnect_all_callbacks_def)

lemma stop_key:
  assumes "running s w"
  shows "console_handle env raw (Key CHR ''s'') s = Done (s\<lparr>svc_server := Some (server_stop w),
    b_thread_running := False, service_thread := Joined, quit := False\<rparr>)"
proof -
  have "b_thread_running s" "svc_server s = Some w" "on_stopping_slots s = []"
    using assms by (auto simp: running_def lobby_inv_def)
  then show ?thesis
    by (simp add: console_key_def console_switch_def svc_stop_def raise_def on_server_def)
qed

lemma destroyed_after_callbacks [simp]: "svc_destroyed (after_callbacks s w) = svc_destroyed s"
  by (simp add: after_callbacks_def)

lemma thread_begins_destroys:
  fixes s :: console
  assumes "lobby_inv s" and "service_thread s = Starting" and "svc_server s = Some w"
  shows "\<exists>s'. console_handle env raw (Thread_begins True) s = Done s' \<and> service_thread s' = Running \<and>
    svc_destroyed s' = destroy_nr_server w # svc_destroyed s"
  using thread_begins_eq(1) [OF assms(1,2), of env raw] assms(3)
  by (simp add: after_callbacks_def)


definition sample_console :: "nr_server \<Rightarrow> console" where
  "sample_console w =
     (console_main (\<lambda>_. 0) sample_memory)
       \<lparr>b_thread_running := True, service_thread := Running, svc_server := Some w\<rparr>"

lemma running_sample_console: "server_inv w \<Longrightarrow> running (sample_console w) w"
  by (simp add: running_def lobby_inv_def sample_console_def)


text \<open>Toggling the broadcast setting of a running service changes the flag of the service only: the
  server keeps the value it was started with.\<close>

theorem broadcast_key_not_forwarded:
  "\<exists>s w. run console_enabled (console_handle env raw) (start_events @ [Key CHR ''b'']) (console_main device raw0) =
      Some (Done s) \<and>
    b_thread_running s \<and> svc_server s = Some w \<and> svc_auto_broadcast s \<and>
    \<not> broadcast_participants_messages (room w)"
proof -
  obtain s1 w1 where first: "run console_enabled (console_handle env raw) start_events (console_main device raw0) = Some (Done s1)"
    "running s1 w1" "\<not> quit s1" "w1 = launched s1 (configured (new_nr_server raw))" "\<not> svc_auto_broadcast s1"
    using console_starts [of env raw device raw0] by blast
  have "console_handle env raw (Key CHR ''b'') s1 = Done (s1\<lparr>svc_auto_broadcast := True, quit := False\<rparr>)"
    using first(5) by (simp add: console_key_def console_switch_def set_broadcasting_all_messages_def
      get_broadcasting_all_messages_def)
  then show ?thesis
    unfolding run_append_Done [OF first(1)] using first
    by (simp add: running_def launched_fields)
qed

text \<open>The console does not end with its input: at the end of the file every read gives a character
  that is no command and not the backquote, so the loop turns forever without changing anything.\<close>

theorem console_spins_at_end_of_input:
  assumes "\<not> quit s"
  shows "run console_enabled (console_handle env raw) (replicate n (Key CHR 0xFF)) s = Some (Done s)"
proof (induction n)
  case (Suc n)
  have "console_key env CHR 0xFF s = Done s"
    using assms by (simp add: console_key_def console_switch_def)
  then show ?case using Suc assms by simp
qed simp

theorem console_spins_at_end_of_input_witness:
  "run console_enabled (console_handle sample_env sample_raw_room) (replicate 5 (Key CHR 0xFF)) (console_main (\<lambda>_. 0) sample_memory) =
     Some (Done (console_main (\<lambda>_. 0) sample_memory))"
  by (rule console_spins_at_end_of_input) simp

end
