(* ===== verification/Console_Progress.thy ===== *)
theory Console_Progress
  imports Lobby_Correct
begin

text \<open>
  The whole program of the service: as long as peers and operator behave well, no event of its console,
  its thread or its network fails, and no message ends the service.
\<close>

section \<open>Good states\<close>

lemma texts_ok_cong:
  assumes "texts_ok w" and "\<And>p. m_descriptor (heap w' p) = m_descriptor (heap w p)" and "\<And>p. IP (heap w' p) = IP (heap w p)"
    and "length (srv_service_name w') < 1024"
  shows "texts_ok w'"
  using assms by (simp add: texts_ok_def)

lemma safe_call:
  assumes "safe w" and "well_behaved env (Api call) w" and "do_server_call env call w = Done w'"
  shows "safe w'"
  using assms do_server_call_keeps [of w env call w'] do_server_call_succeeds [of w env call]
  by (auto simp: safe_def succeeds_def)

lemma safe_configured: "safe w \<Longrightarrow> safe (configured w)"
  using server_inv_configured [of w] texts_ok_cong [of w "configured w"]
  by (auto simp: safe_def configured_def room_settings texts_ok_def)

lemma safe_launched: "safe w \<Longrightarrow> length (svc_service_name s) < 1024 \<Longrightarrow> safe (launched s w)"
  using server_inv_launched [of w s] texts_ok_cong [of w "launched s w"]
  by (auto simp: safe_def launched_fields) (simp add: launched_def room_settings server_settings)

lemma safe_destroyed:
  assumes "safe w"
  shows "safe (destroy_nr_server w)"
proof -
  let ?v = "destroy_network_room w"
  have "server_inv (disconnect_all_callbacks w)"
    by (rule server_inv_frame) (use assms in \<open>simp_all add: safe_def room_settings\<close>)
  then have inv: "server_inv ?v"
    unfolding destroy_network_room_def by (rule server_inv_disconnect_all)
  have "texts_ok ?v"
    unfolding destroy_network_room_def
    by (rule texts_ok_disconnect_all) (use assms in \<open>auto simp: safe_def room_settings texts_ok_def\<close>)
  then have "texts_ok (destroy_nr_server w)" by (simp add: destroy_nr_server_def texts_ok_def)
  moreover have "server_inv (destroy_nr_server w)"
    using inv by (simp add: destroy_nr_server_def server_inv_def room_ok_def session_ok_def)
  ultimately show ?thesis by (simp add: safe_def)
qed

definition console_safe :: "console \<Rightarrow> bool" where
  "console_safe s \<longleftrightarrow> lobby_inv s \<and> length (svc_service_name s) < 1024 \<and>
     (\<forall>w. svc_server s = Some w \<longrightarrow> safe w) \<and> (\<forall>w \<in> set (svc_destroyed s). safe w)"

text \<open>
  Good events: peers send what \<open>well_behaved\<close> says, the operator does not start over a thread
  that was not joined, and the handlers that an earlier server has left behind do not look at it.
\<close>

fun console_good :: "asio_env \<Rightarrow> console_event \<Rightarrow> console \<Rightarrow> bool" where
  "console_good env (Key c) s =
     (\<not> (c \<in> {CHR ''n'', CHR ''N''} \<and> service_thread s \<in> {Starting, Finished}))"
| "console_good env (Net e) s = (case svc_server s of None \<Rightarrow> True | Some w \<Rightarrow> well_behaved env e w)"
| "console_good env (Old_net k e) s =
     (\<not> needs_server (byte_order env) e \<and> well_behaved env e (svc_destroyed s ! k))"
| "console_good env e s = True"

lemma console_switch_keys:
  "console_switch env c s =
    (if is_key CHR ''b'' CHR ''B'' c then Done (snd (set_broadcasting_all_messages (\<not> get_broadcasting_all_messages s) s))
     else if is_key CHR ''n'' CHR ''N'' c then and_then (svc_start s)
       (\<lambda>s1. Done (if \<not> b_instantiated s1 then register_callback_on_running ON_SERVICE_STARTED s1 else s1))
     else if is_key CHR ''s'' CHR ''S'' c then svc_stop env (console_callbacks env) s
     else if is_key CHR ''d'' CHR ''D'' c then svc_disconnect_all_participants env s
     else Done s)"
  by (simp only: console_switch_def is_key_def)

lemma console_switch_safe:
  assumes "console_safe s" and step: "console_switch env c s = Done s'"
  shows "svc_service_name s' = svc_service_name s \<and> svc_destroyed s' = svc_destroyed s \<and>
    (\<forall>w. svc_server s' = Some w \<longrightarrow> safe w)"
proof -
  have safe: "\<And>w. svc_server s = Some w \<Longrightarrow> safe w" and slots: "on_stopping_slots s = []"
    using assms(1) by (auto simp: console_safe_def lobby_inv_def)
  have call: "safe w'" if "svc_server s = Some w" "do_server_call env call w = Done w'" "well_behaved env (Api call) w" for w w' call
    using safe_call [OF safe [OF that(1)] that(3,2)] .
  note step = step [unfolded console_switch_keys]
  consider (b) "is_key CHR ''b'' CHR ''B'' c" | (n) "\<not> is_key CHR ''b'' CHR ''B'' c" "is_key CHR ''n'' CHR ''N'' c"
    | (s) "\<not> is_key CHR ''b'' CHR ''B'' c" "\<not> is_key CHR ''n'' CHR ''N'' c" "is_key CHR ''s'' CHR ''S'' c"
    | (d) "\<not> is_key CHR ''b'' CHR ''B'' c" "\<not> is_key CHR ''n'' CHR ''N'' c" "\<not> is_key CHR ''s'' CHR ''S'' c"
        "is_key CHR ''d'' CHR ''D'' c"
    | (other) "\<not> is_key CHR ''b'' CHR ''B'' c" "\<not> is_key CHR ''n'' CHR ''N'' c" "\<not> is_key CHR ''s'' CHR ''S'' c"
        "\<not> is_key CHR ''d'' CHR ''D'' c"
    by blast
  then show ?thesis
  proof cases
    case b
    then show ?thesis using step safe by (auto simp: set_broadcasting_all_messages_def)
  next
    case n
    then show ?thesis
      using step safe by (auto simp: svc_start_def register_callback_on_running_def split: if_splits)
  next
    case s
    then show ?thesis
      using step safe slots call [of _ Call_stop]
      by (auto simp: svc_stop_def raise_def on_server_def outcome_simps split: if_splits option.splits)
  next
    case d
    then show ?thesis
      using step safe call [of _ Call_disconnect_all_participants]
      by (auto simp: svc_disconnect_all_participants_def if_running_def on_server_def split: if_splits option.splits)
  next
    case other
    then show ?thesis using step safe by auto
  qed
qed

lemma key_good:
  assumes safe: "console_safe s" and good: "console_good env (Key c) s"
  shows "\<exists>s'. console_key env c s = Done s' \<and> console_safe s'"
proof -
  have inv: "lobby_inv s" using safe by (simp add: console_safe_def)
  have "\<not> (is_key CHR ''n'' CHR ''N'' c \<and> \<not> b_thread_running s \<and> joinable (service_thread s))"
    using good inv by (cases "service_thread s") (auto simp: is_key_def lobby_inv_def)
  then obtain s' where s': "console_key env c s = Done s'" "lobby_inv s'"
    using console_key_outcome [OF inv, of c env] by auto
  then obtain v where "console_switch env c s = Done v" "s' = v\<lparr>quit := (c = CHR 0x60)\<rparr>"
    by (auto simp only: console_key_def and_then_eq_Done outcome.inject)
  then show ?thesis
    using s' safe console_switch_safe [OF safe] by (auto simp: console_safe_def)
qed

lemma thread_begins_good:
  assumes safe: "console_safe s" and starting: "service_thread s = Starting"
  shows "\<exists>s'. thread_function_begin env (console_callbacks env) raw ok s = Done s' \<and> console_safe s'"
proof -
  have inv: "lobby_inv s" using safe by (simp add: console_safe_def)
  obtain s' where s': "thread_function_begin env (console_callbacks env) raw ok s = Done s'" "lobby_inv s'"
    using thread_begins_keeps [OF inv starting, of env raw ok] by blast
  have "length (svc_service_name s') < 1024 \<and> (\<forall>w. svc_server s' = Some w \<longrightarrow> safe w) \<and> (\<forall>w \<in> set (svc_destroyed s'). safe w)"
  proof (cases ok)
    case True
    let ?s1 = "s\<lparr>svc_destroyed := map destroy_nr_server (option_list (svc_server s)) @ svc_destroyed s,
      svc_server := Some (new_nr_server raw), b_thread_running := True, service_thread := Running\<rparr>"
    let ?s2 = "after_callbacks ?s1 (new_nr_server raw)"
    have "svc_server ?s2 = Some (new_nr_server raw) \<or> svc_server ?s2 = Some (configured (new_nr_server raw))"
      by (simp add: after_callbacks_def)
    then have "safe (the (svc_server ?s2))" using safe_new [of raw] safe_configured by auto
    moreover have "svc_service_name ?s2 = svc_service_name s" by (simp add: after_callbacks_def)
    moreover have "\<forall>w \<in> set (svc_destroyed ?s2). safe w"
      using safe safe_destroyed by (cases "svc_server s") (auto simp: console_safe_def)
    ultimately show ?thesis
      using thread_begins_eq(1) [OF inv starting, of env raw] s'(1) True safe safe_launched
      by (auto simp: console_safe_def)
  next
    case False
    then show ?thesis
      using s'(1) safe by (auto simp: thread_function_begin_def thread_function_end_def console_safe_def)
  qed
  then show ?thesis using s' by (auto simp: console_safe_def)
qed

lemma net_good:
  assumes safe: "console_safe s" and en: "console_enabled (Net e) s" and good: "console_good env (Net e) s"
  shows "\<exists>s'. thread_function_run env e s = Done s' \<and> console_safe s' \<and> service_thread s' = Running"
proof -
  obtain w where w: "svc_server s = Some w" "server_enabled e w" "well_behaved env e w" "safe w" "service_thread s = Running"
    using safe en good by (auto simp: console_safe_def split: option.splits)
  obtain w' where w': "server_handle env e w = Done w'" "safe w'"
    using served.handle_total [of w e env] served.handle_inv [of w e env] w by blast
  have step: "thread_function_run env e s = Done (s\<lparr>svc_server := Some w'\<rparr>)"
    using w w' by (simp add: thread_function_run_def on_server_def)
  then show ?thesis
    using network_keeps [OF _ en step] w(5) w'(2) safe by (auto simp: console_safe_def)
qed

lemma old_net_good:
  assumes safe: "console_safe s" and en: "console_enabled (Old_net k e) s" and good: "console_good env (Old_net k e) s"
  shows "\<exists>s'. thread_function_old env k e s = Done s' \<and> console_safe s'"
proof -
  let ?w = "svc_destroyed s ! k"
  have "safe ?w" using safe en by (simp add: console_safe_def)
  then obtain w' where w': "server_handle env e ?w = Done w'" "safe w'"
    using served.handle_total [of ?w e env] served.handle_inv [of ?w e env] en good by auto
  then have step: "thread_function_old env k e s = Done (s\<lparr>svc_destroyed := (svc_destroyed s)[k := w']\<rparr>)"
    using good by (simp add: thread_function_old_def)
  have "\<forall>w \<in> set ((svc_destroyed s)[k := w']). safe w"
    using safe w'(2) set_update_subset_insert [of "svc_destroyed s" k w'] by (auto simp: console_safe_def)
  then show ?thesis
    using step old_network_keeps [OF _ step] safe by (auto simp: console_safe_def)
qed

lemma console_event_good:
  assumes safe: "console_safe s" and en: "console_enabled e s" and good: "console_good env e s"
  shows "\<exists>s'. console_handle env raw e s = Done s' \<and> console_safe s' \<and> (\<forall>ev. e = Net ev \<longrightarrow> service_thread s' = Running)"
proof (cases e)
  case Run_returns
  then show ?thesis using safe thread_end_keeps [of s] by (auto simp: console_safe_def thread_function_end_def)
qed (use assms key_good thread_begins_good net_good old_net_good in auto)

interpretation good_console: total_event_system
  "\<lambda>e s. console_enabled e s \<and> console_good env e s" "console_handle env raw" console_safe for env raw
proof unfold_locales
  fix s e s'
  assume "console_safe s" "console_enabled e s \<and> console_good env e s" "console_handle env raw e s = Done s'"
  then show "console_safe s'" using console_event_good [of s e env raw] by auto
next
  fix s e
  assume "console_safe s" "console_enabled e s \<and> console_good env e s"
  then show "\<exists>s'. console_handle env raw e s = Done s'" using console_event_good [of s e env raw] by blast
qed

lemma console_safe_main: "console_safe (console_main device raw)"
  using lobby_inv_main [of device raw]
  by (simp add: console_safe_def str_def) (simp add: console_main_def new_xrnls_def svc_set_service_name_def svc_set_socket_no_delay_def svc_set_port_def)

section \<open>The service does not fail\<close>



end
