(* ===== verification/Server_Wire.thy ===== *)
theory Server_Wire
  imports Server_Progress
begin

text \<open>
  What the server puts on the wire, as a type: every buffer it posts, queues or writes is one whole
  frame, made of a well-formed structure under its own head, or the relayed frame of a member. The
  type is kept by every handler, whatever the peers send.
\<close>

section \<open>Frames of the server\<close>

inductive own_frame :: "endian \<Rightarrow> byte list \<Rightarrow> bool" for e where
  Hello: "wf_handshake_hello x \<Longrightarrow>
    own_frame e (frame e (head_code HANDSHAKE_HELLO) (enc_handshake_hello e x))"
| Credentials: "wf_handshake_credentials x \<Longrightarrow>
    own_frame e (frame e (head_code HANDSHAKE_CREDENTIALS) (enc_handshake_credentials e x))"
| Join: "wf_participant_join x \<Longrightarrow>
    own_frame e (frame e (head_code PARTICIPANT_JOIN) (enc_participant_join e x))"
| New: "wf_participant_new x \<Longrightarrow>
    own_frame e (frame e (head_code PARTICIPANT_NEW) (enc_participant_new e x))"
| Leave: "own_frame e (frame e (head_code PARTICIPANT_LEAVE) (enc_participant_leave e x))"

inductive server_frame :: "endian \<Rightarrow> byte list \<Rightarrow> bool" for e where
  Own: "own_frame e bs \<Longrightarrow> server_frame e bs"
| Relayed: "length bs = 65536 \<Longrightarrow> xr_head e bs = head_code PARTICIPANT_UPDATE_ACK \<Longrightarrow> server_frame e bs"

lemma own_frame_length: "own_frame e b \<Longrightarrow> length b = 65536"
  by (induction rule: own_frame.induct)
    (simp_all add: length_frame handshake_hello_codec.enc_length handshake_credentials_codec.enc_length
      participant_join_codec.enc_length participant_new_codec.enc_length participant_leave_codec.enc_length)

lemma server_frame_length: "server_frame e b \<Longrightarrow> length b = 65536"
  by (induction rule: server_frame.induct) (simp_all add: own_frame_length)

lemma own_frame_head:
  "own_frame e b \<Longrightarrow> xr_head e b \<in> {head_code HANDSHAKE_HELLO, head_code HANDSHAKE_CREDENTIALS,
     head_code PARTICIPANT_JOIN, head_code PARTICIPANT_NEW, head_code PARTICIPANT_LEAVE}"
  by (induction rule: own_frame.induct) (simp_all del: head_code.simps)

text \<open>A relayed update is never taken for a message of the server's own.\<close>

lemma own_frame_no_update: "own_frame e b \<Longrightarrow> xr_head e b \<noteq> head_code PARTICIPANT_UPDATE_ACK"
  using own_frame_head [of e b] by (auto simp del: head_code.simps)

section \<open>Changes that add only frames\<close>

definition buffers_of :: "'a nr_session_scheme \<Rightarrow> byte list set" where
  "buffers_of s = set (posted s) \<union> set (deque_write_buffer s) \<union> set (writing s)"

text \<open>
  What a session may get from a handler: frames of the server's own behind what is posted already,
  and nothing new in its queue or under way.
\<close>

definition grows :: "endian \<Rightarrow> 'a nr_session_scheme \<Rightarrow> 'b nr_session_scheme \<Rightarrow> bool" where
  "grows e s s' \<longleftrightarrow>
     (\<exists>new. posted s' = posted s @ new \<and> (\<forall>b \<in> set new. own_frame e b)) \<and>
     set (deque_write_buffer s') \<subseteq> set (deque_write_buffer s) \<and>
     set (writing s') \<subseteq> set (writing s) \<and> length (writing s') \<le> length (writing s)"

definition adds_frames :: "endian \<Rightarrow> 'a world_scheme \<Rightarrow> 'b world_scheme \<Rightarrow> bool" where
  "adds_frames e w w' \<longleftrightarrow> (\<forall>p. grows e (heap w p) (heap w' p))"

lemma grows_same:
  "posted s' = posted s \<Longrightarrow> set (deque_write_buffer s') \<subseteq> set (deque_write_buffer s) \<Longrightarrow>
   set (writing s') \<subseteq> set (writing s) \<Longrightarrow> length (writing s') \<le> length (writing s) \<Longrightarrow> grows e s s'"
  by (simp add: grows_def)

lemma grows_refl [simp]: "grows e s s"
  by (simp add: grows_same)

lemma grows_frame [simp]:
  "posted s' = posted s \<Longrightarrow> deque_write_buffer s' = deque_write_buffer s \<Longrightarrow> writing s' = writing s \<Longrightarrow> grows e s s'"
  by (simp add: grows_same)

lemma grows_trans:
  assumes "grows e r s" and "grows e s t"
  shows "grows e r t"
proof -
  obtain xs ys where "posted s = posted r @ xs" "posted t = posted s @ ys" "\<forall>b \<in> set xs. own_frame e b" "\<forall>b \<in> set ys. own_frame e b"
    using assms unfolding grows_def by blast
  moreover have "set (deque_write_buffer t) \<subseteq> set (deque_write_buffer r)" "set (writing t) \<subseteq> set (writing r)"
    using assms unfolding grows_def by blast+
  moreover have "length (writing t) \<le> length (writing r)"
    using assms unfolding grows_def by simp
  ultimately show ?thesis unfolding grows_def by (intro conjI exI [of _ "xs @ ys"]) auto
qed

lemma grows_posted: "own_frame e b \<Longrightarrow> posted s' = posted s @ [b] \<Longrightarrow>
   deque_write_buffer s' = deque_write_buffer s \<Longrightarrow> writing s' = writing s \<Longrightarrow> grows e s s'"
  by (simp add: grows_def)

lemma adds_refl [simp]: "adds_frames e w w"
  by (simp add: adds_frames_def)

lemma adds_trans [trans]: "adds_frames e u v \<Longrightarrow> adds_frames e v w \<Longrightarrow> adds_frames e u w"
  unfolding adds_frames_def using grows_trans by blast

lemma adds_heap: "(\<And>p. grows e (heap w p) (heap w' p)) \<Longrightarrow> adds_frames e w w'"
  unfolding adds_frames_def by blast

named_theorems adds_intros \<open>steps that add only frames\<close>

lemma adds_upd_session [adds_intros]: "grows e (heap w p) (f (heap w p)) \<Longrightarrow> adds_frames e w (upd_session p f w)"
  by (rule adds_heap) auto

lemma adds_upd_room [adds_intros]: "adds_frames e w (upd_room f w)"
  by (rule adds_heap) simp

lemma adds_emit [adds_intros]: "adds_frames e w (emit cs sig w)"
  by (rule adds_heap) simp

lemma adds_disconnect [adds_intros]: "adds_frames e w (disconnect p w)"
  by (rule adds_heap) (auto intro: grows_same)

lemma adds_reads [adds_intros]:
  "adds_frames e w (do_read_byte p w)" "adds_frames e w (do_read_handshake p w)"
  by (auto intro!: adds_heap grows_same simp: do_read_byte_def do_read_handshake_def split: if_splits)

lemma adds_deliver_byte [adds_intros]: "own_frame e b \<Longrightarrow> adds_frames e w (deliver_byte p b w)"
  by (rule adds_heap) (auto intro: grows_posted)

lemma adds_fold:
  "(\<And>x v. adds_frames e v (f x v)) \<Longrightarrow> adds_frames e w (fold f xs w)"
proof (induction xs arbitrary: w)
  case (Cons x xs)
  have "adds_frames e w (f x w)" by (rule Cons.prems)
  also have "adds_frames e (f x w) (fold f xs (f x w))" by (rule Cons.IH, rule Cons.prems)
  finally show ?case by simp
qed simp

lemma adds_deliver_to_all [adds_intros]:
  "own_frame e b \<Longrightarrow> adds_frames e w (deliver_to_all b w)"
  unfolding deliver_to_all_def by (rule adds_fold) (rule adds_deliver_byte)

lemma adds_deliver_except [adds_intros]:
  "own_frame e b \<Longrightarrow> adds_frames e w (deliver_to_all_except_to_one b i w)"
  unfolding deliver_to_all_except_to_one_def by (rule adds_fold) (simp add: adds_deliver_byte)

lemma adds_disconnect_all [adds_intros]: "adds_frames e w (disconnect_all_participants w)"
  unfolding disconnect_all_participants_def by (rule adds_fold) (rule adds_disconnect)

section \<open>The messages\<close>

lemma own_frame_leave: "participant_leave_message env i = Inr b \<Longrightarrow> own_frame (byte_order env) b"
  by (auto simp: participant_leave_message_eq participant_leave_frame_def simp del: head_code.simps
      intro: own_frame.Leave)

lemma fill_participant_new_wf:
  "fill_participant_new i d s = Inr s' \<Longrightarrow> wf_participant_new s \<Longrightarrow> wf_participant_new s'"
  by (auto simp: fill_participant_new_def Let_def outcome_simps wf_participant_new_def dest: write_at_length)

lemma own_frame_new:
  "participant_new_message env s = Inr b \<Longrightarrow> wf_participant_new s \<Longrightarrow> own_frame (byte_order env) b"
  by (auto simp: participant_new_message_eq participant_new_frame_def simp del: head_code.simps
      intro: own_frame.New)

lemma own_frame_hello:
  assumes "build_handshake_hello sid pid ts name = Inr hh"
    and "XRMessage_of_payload e (head_code HANDSHAKE_HELLO) (enc_handshake_hello e hh) 1052 = Inr b"
  shows "own_frame e b"
  using assms(2) handshake_hello_codec.send_struct [OF build_handshake_hello_wf [OF assms(1)], of e]
    own_frame.Hello [OF build_handshake_hello_wf [OF assms(1)], of e]
  by (simp del: head_code.simps)

lemma own_frame_credentials:
  "XRMessage_of_payload e (head_code HANDSHAKE_CREDENTIALS)
     (enc_handshake_credentials e build_handshake_credentials) 20484 = Inr b \<Longrightarrow> own_frame e b"
  using handshake_credentials_codec.send_struct [of build_handshake_credentials e]
    own_frame.Credentials [OF wf_build_handshake_credentials, of e]
  by (simp del: head_code.simps)

lemma own_frame_join:
  assumes "participant_join_struct i = Inr s"
    and "XRMessage_of_payload e (head_code PARTICIPANT_JOIN) (enc_participant_join e s) 10256 = Inr b"
  shows "own_frame e b"
proof -
  have "wf_participant_join s"
    using assms(1) by (auto simp: participant_join_struct_def outcome_simps wf_participant_join_def
        init_participant_join_def dest: write_at_length)
  then show ?thesis
    using assms(2) participant_join_codec.send_struct [of s e] own_frame.Join [of s e]
    by (simp del: head_code.simps)
qed

section \<open>The handlers\<close>

text \<open>A chain of steps adds only frames when each does.\<close>

lemma adds_then: "adds_frames e v w \<Longrightarrow> adds_frames e u v \<Longrightarrow> adds_frames e u w"
  by (rule adds_trans)

lemma adds_join:
  assumes "join env p w = Done w'"
  shows "adds_frames e w w'"
  using assms
proof (cases rule: join_Done_cases)
  case admitted
  show ?thesis unfolding admitted(4)
    by (rule adds_heap) (simp add: joined_simps)
qed (auto intro: adds_intros)

lemma adds_new_paticipant_to_all:
  "new_paticipant_to_all env i w = Done w' \<Longrightarrow> adds_frames (byte_order env) w w'"
proof -
  assume "new_paticipant_to_all env i w = Done w'"
  then obtain d s msg where "fill_participant_new i d (init_participant_new (stale_memory env)) = Inr s"
    "participant_new_message env s = Inr msg" "w' = deliver_to_all_except_to_one msg i w"
    by (auto simp: new_paticipant_to_all_def outcome_simps split: option.splits)
  then show ?thesis
    using fill_participant_new_wf [OF _ wf_init_participant_new]
    by (auto intro!: adds_deliver_except own_frame_new)
qed

lemma collect_players_wf:
  "collect_players w i newp ps = Inr l \<Longrightarrow> wf_participant_new newp \<Longrightarrow> \<forall>s \<in> set l. wf_participant_new s"
proof (induction ps arbitrary: newp l)
  case (Cons p ps)
  then show ?case
    using fill_participant_new_wf [of "m_id (heap w p)" "m_descriptor (heap w p)" newp]
    by (fastforce simp: outcome_simps split: if_splits)
qed simp

lemma adds_send_list_of_players:
  assumes "send_list_of_players env p w = Done w'"
  shows "adds_frames (byte_order env) w w'"
proof -
  obtain l where l: "collect_players w (m_id (heap w p)) (init_participant_new (stale_memory env))
      (participants (room w)) = Inr l"
    and loop: "for_each (\<lambda>newp v. lift_mem (participant_new_message env newp)
      (\<lambda>msg. Done (deliver_byte p msg v))) l w = Done w'"
    using assms by (auto simp: send_list_of_players_def outcome_simps)
  have wf: "\<forall>s \<in> set l. wf_participant_new s" by (rule collect_players_wf [OF l]) simp
  from loop show ?thesis
  proof (rule for_each_inv [where P = "adds_frames (byte_order env) w"])
    show "adds_frames (byte_order env) w w" by simp
  next
    fix s v v'
    assume s: "s \<in> set l" and v: "adds_frames (byte_order env) w v"
      and step: "lift_mem (participant_new_message env s) (\<lambda>msg. Done (deliver_byte p msg v)) = Done v'"
    then obtain msg where msg: "participant_new_message env s = Inr msg" "v' = deliver_byte p msg v"
      by (auto simp: outcome_simps)
    then have "adds_frames (byte_order env) v v'"
      using s wf by (auto intro!: adds_deliver_byte own_frame_new)
    then show "adds_frames (byte_order env) w v'" by (rule adds_trans [OF v])
  qed
qed

lemma adds_init_new_participant:
  "init_new_participant env i w = Done w' \<Longrightarrow> adds_frames (byte_order env) w w'"
  by (auto simp: init_new_participant_def Let_def outcome_simps split: option.splits
      intro: adds_trans dest!: adds_new_paticipant_to_all adds_send_list_of_players)

lemma adds_disconnect_participant:
  "disconnect_participant env i w = Done w' \<Longrightarrow> adds_frames (byte_order env) w w'"
  by (auto simp: disconnect_participant_def disconnect_participant_ptr_def Let_def outcome_simps
      split: option.splits intro!: adds_then [OF adds_deliver_to_all] adds_intros own_frame_leave)

lemma adds_leave: "leave env p w = Done w' \<Longrightarrow> adds_frames (byte_order env) w w'"
  by (auto simp: leave_def Let_def participant_leave_message_eq
      intro!: adds_then [OF adds_deliver_to_all] adds_then [OF adds_upd_room] adds_intros
        own_frame_leave)

lemma adds_on_participant_join_ack:
  "on_participant_join_ack env p payload w = Done w' \<Longrightarrow> adds_frames (byte_order env) w w'"
  by (auto simp: on_participant_join_ack_def Let_def outcome_simps dest!: adds_init_new_participant
      elim!: adds_then intro!: adds_then [OF adds_upd_session] adds_intros)

lemma adds_session_frame:
  assumes "length bs = 65536" and "xr_head (byte_order env) bs \<noteq> head_code PARTICIPANT_UPDATE_ACK"
    and "session_frame env p bs w = Done w'"
  shows "adds_frames (byte_order env) w w'"
proof -
  obtain v where v: "session_dispatch env p bs w = Done v" "w' = do_read_byte p v"
    using assms(3) by (auto simp: session_frame_full [OF assms(1)] outcome_simps)
  have "adds_frames (byte_order env) w v"
    using v(1) assms(2)
    by (auto simp: session_dispatch_full [OF assms(1)] simp del: head_code.simps split: if_splits
        intro!: adds_intros dest: adds_on_participant_join_ack adds_disconnect_participant)
  then show ?thesis using v(2) by (auto intro: adds_trans adds_intros)
qed

lemma adds_check_handshake_hello_ack:
  "check_handshake_hello_ack env p payload w = Done w' \<Longrightarrow> adds_frames (byte_order env) w w'"
  by (auto simp: check_handshake_hello_ack_def Let_def outcome_simps
      intro!: adds_then [OF adds_deliver_byte] adds_intros own_frame_credentials)

lemma adds_check_handshake_credentials_ack:
  assumes "check_handshake_credentials_ack env p msg w = Done w'"
  shows "adds_frames (byte_order env) w w'"
proof -
  obtain r w3 s b where w3: "join env p (do_read_byte p (if r then disconnect p w else w)) = Done w3"
    and b: "participant_join_struct (m_id (heap w3 p)) = Inr s"
      "XRMessage_of_payload (byte_order env) (head_code PARTICIPANT_JOIN)
        (enc_participant_join (byte_order env) s) 10256 = Inr b" "w' = deliver_byte p b w3"
    using assms by (auto simp: check_handshake_credentials_ack_def Let_def outcome_simps simp del: head_code.simps)
  have "adds_frames (byte_order env) w (if r then disconnect p w else w)" by (auto intro: adds_intros)
  also have "adds_frames (byte_order env) \<dots> (do_read_byte p (if r then disconnect p w else w))"
    by (rule adds_reads)
  also have "adds_frames (byte_order env) \<dots> w3" by (rule adds_join [OF w3])
  also have "adds_frames (byte_order env) w3 w'"
    unfolding b(3) by (rule adds_deliver_byte [OF own_frame_join [OF b(1,2)]])
  finally show ?thesis .
qed

lemma adds_handshake_frame:
  assumes "handshake_frame env p bs w = Done w'"
  shows "adds_frames (byte_order env) w w'"
  using assms
  by (cases rule: handshake_frame_cases)
    (auto intro: adds_intros adds_trans adds_check_handshake_hello_ack adds_check_handshake_credentials_ack)

lemma adds_on_accept:
  assumes "on_accept env remote w = Done w'" and fresh: "posted (heap w (next_ptr w)) = []"
  shows "adds_frames (byte_order env) w w'"
proof -
  let ?p = "next_ptr w"
  let ?w0 = "w\<lparr>heap := (heap w)(?p := new_handshake_session False (srv_service_id w) (srv_service_name w)),
               next_ptr := Suc ?p\<rparr>"
  obtain ip v where v: "do_start_handshake env ?p (upd_session ?p (\<lambda>s. s\<lparr>IP := ip\<rparr>) ?w0) = Done v"
    and w': "w' = do_accept v"
    using assms by (auto simp: on_accept_def handshake_start_def Let_def outcome_simps split: option.splits)
  have new: "adds_frames (byte_order env) w (upd_session ?p (\<lambda>s. s\<lparr>IP := ip\<rparr>) ?w0)"
    by (rule adds_heap) (simp add: new_handshake_session_def grows_same fresh)
  obtain hh msg where "build_handshake_hello (srv_service_id w) 0 (timestamp_now env) (srv_service_name w) = Inr hh"
    "XRMessage_of_payload (byte_order env) (head_code HANDSHAKE_HELLO)
      (enc_handshake_hello (byte_order env) hh) 1052 = Inr msg"
    "v = deliver_byte ?p msg (do_read_handshake ?p (upd_session ?p (\<lambda>s. s\<lparr>IP := ip\<rparr>) ?w0))"
    using v by (auto simp: do_start_handshake_def Let_def outcome_simps do_read_handshake_def
        new_handshake_session_def simp del: head_code.simps)
  then have "adds_frames (byte_order env) w v"
    using own_frame_hello by (auto intro!: adds_then [OF adds_deliver_byte] adds_then [OF adds_reads(2)] new)
  then show ?thesis unfolding w' by (auto simp: adds_frames_def do_accept_def)
qed

lemma adds_over [adds_intros]:
  "adds_frames e w (read_over p l w)" "adds_frames e w (write_over p i w)"
  by (auto intro!: adds_heap grows_same simp: read_over_def write_over_def
      split: if_splits dest: in_set_takeD in_set_dropD)

lemma adds_acceptor_open [simp]:
  fixes v :: nr_server
  shows "adds_frames e w (v\<lparr>acceptor_open := b\<rparr>) = adds_frames e w v"
  by (simp add: adds_frames_def)

lemma adds_server_call:
  assumes "do_server_call env call w = Done w'"
  shows "adds_frames (byte_order env) w w'"
proof (cases call)
  case (Call_disconnect_participant i)
  then show ?thesis using assms adds_disconnect_participant by (simp add: server_disconnect_participant_def)
next
  case Call_stop
  then show ?thesis
    using assms adds_disconnect_all [of "byte_order env" w] by (auto simp: server_stop_def Let_def)
next
  case Call_disconnect_all_participants
  then show ?thesis using assms by (auto intro: adds_disconnect_all)
next
  case (Call_set_participant_deaf i d)
  then show ?thesis
    using assms by (auto simp: server_set_participant_deaf_def set_participant_deaf_def
        split: option.splits intro!: adds_intros)
qed (use assms in \<open>auto simp: room_settings server_settings adds_frames_def intro!: adds_intros\<close>)

text \<open>The two kinds of events that do more: a posted handler runs, and an update of a member is passed on.\<close>

fun passes_on :: "endian \<Rightarrow> server_event \<Rightarrow> bool" where
  "passes_on e (Frame_received p l bs) \<longleftrightarrow> l = Session_read \<and> xr_head e bs = head_code PARTICIPANT_UPDATE_ACK"
| "passes_on e ev \<longleftrightarrow> False"

fun runs_posted :: "server_event \<Rightarrow> bool" where
  "runs_posted (Run_posted p) \<longleftrightarrow> True"
| "runs_posted ev \<longleftrightarrow> False"

lemma adds_server_handle:
  assumes inv: "server_inv w" and en: "server_enabled ev w" and step: "server_handle env ev w = Done w'"
    and plain: "\<not> passes_on (byte_order env) ev" "\<not> runs_posted ev"
  shows "adds_frames (byte_order env) w w'"
proof (cases ev)
  case (Accept_ok remote)
  have "posted (heap w (next_ptr w)) = []" using server_inv_posted [OF inv, of "next_ptr w"] by auto
  then show ?thesis
    using Accept_ok step adds_on_accept [of env remote "w\<lparr>accepting := False\<rparr>" w'] by (simp add: adds_frames_def)
next
  case (Frame_received p l bs)
  then show ?thesis
    using en step plain adds_trans [OF adds_over(1)] adds_handshake_frame adds_session_frame
    by (cases l) fastforce+
next
  case (Read_failed p l)
  then show ?thesis
    using step adds_trans [OF adds_over(1)] adds_leave adds_disconnect
    by (cases l) (fastforce simp: handshake_read_failed_def session_read_failed_def)+
next
  case (Write_done p i)
  then show ?thesis
    using step write_completed_eq [OF server_inv_write_over [OF inv]] adds_over(2) by auto
next
  case (Write_failed p i)
  then show ?thesis using step adds_trans [OF adds_over(2)] adds_leave by (fastforce simp: write_failed_def)
next
  case (Run_posted p)
  then show ?thesis using plain by simp
next
  case (Api call)
  then show ?thesis using step by (simp add: adds_server_call)
qed (use step in \<open>auto simp: adds_frames_def\<close>)

text \<open>Passing an update on posts the very frame to every other member, and nothing else.\<close>

lemma update_passed_on:
  assumes inv: "server_inv w" and en: "server_enabled (Frame_received p Session_read bs) w"
    and head: "xr_head (byte_order env) bs = head_code PARTICIPANT_UPDATE_ACK"
  shows "\<exists>w'. server_handle env (Frame_received p Session_read bs) w = Done w' \<and> room w' = room w \<and>
    (\<forall>q. posted (heap w' q) = posted (heap w q) @
        (if q \<in> set (participants (room w)) \<and> m_id (heap w q) \<noteq> m_id (heap w p) then [bs] else []) \<and>
      deque_write_buffer (heap w' q) = deque_write_buffer (heap w q) \<and> writing (heap w' q) = writing (heap w q))"
proof -
  have "session_dispatch env p bs (read_over p Session_read w) =
      Done (deliver_to_all_except_to_one bs (m_id (heap (read_over p Session_read w) p)) (read_over p Session_read w))"
    using en head by (simp add: session_dispatch_full)
  then show ?thesis
    using en server_inv_room_ok [OF server_inv_read_over [OF inv, of p Session_read]]
    by (simp add: session_frame_full deliver_to_all_except_to_one_eq do_read_byte_def)
      (simp add: read_over_def)
qed

section \<open>The type of the wire\<close>

definition wire_typed :: "endian \<Rightarrow> 'a world_scheme \<Rightarrow> bool" where
  "wire_typed e w \<longleftrightarrow> (\<forall>p. \<forall>b \<in> buffers_of (heap w p). server_frame e b)"

lemma wire_typed_mono:
  "wire_typed e w \<Longrightarrow> (\<And>q b. b \<in> buffers_of (heap w' q) \<Longrightarrow> b \<in> buffers_of (heap w q) \<or> server_frame e b) \<Longrightarrow>
   wire_typed e w'"
  unfolding wire_typed_def by blast

lemma grows_buffers: "grows e s s' \<Longrightarrow> b \<in> buffers_of s' \<Longrightarrow> b \<in> buffers_of s \<or> server_frame e b"
  unfolding grows_def buffers_of_def by (auto intro: server_frame.Own)

lemma wire_typed_adds: "wire_typed e w \<Longrightarrow> adds_frames e w w' \<Longrightarrow> wire_typed e w'"
  using wire_typed_mono grows_buffers unfolding adds_frames_def by blast

lemma wire_typed_server_handle:
  assumes inv: "server_inv w" and wire: "wire_typed (byte_order env) w"
    and en: "server_enabled ev w" and step: "server_handle env ev w = Done w'"
  shows "wire_typed (byte_order env) w'"
proof -
  consider (post) p where "ev = Run_posted p"
    | (pass) p bs where "ev = Frame_received p Session_read bs" "xr_head (byte_order env) bs = head_code PARTICIPANT_UPDATE_ACK"
    | (plain) "\<not> passes_on (byte_order env) ev" "\<not> runs_posted ev"
    by (cases ev) (auto simp del: head_code.simps)
  then show ?thesis
  proof cases
    case post
    then obtain b rest where b: "posted (heap w p) = b # rest" using en by (cases "posted (heap w p)") auto
    then have "w' = upd_session p (\<lambda>s. s\<lparr>posted := rest, deque_write_buffer := [], writing := writing s @ [b]\<rparr>) w"
      using step run_posted_eq [OF inv b] post by (simp split: if_splits)
    then show ?thesis
      using b by (intro wire_typed_mono [OF wire]) (auto simp: buffers_of_def split: if_splits)
  next
    case pass
    then have bs: "server_frame (byte_order env) bs" using en by (intro server_frame.Relayed) simp_all
    show ?thesis
    proof (rule wire_typed_mono [OF wire])
      fix q b
      assume "b \<in> buffers_of (heap w' q)"
      then show "b \<in> buffers_of (heap w q) \<or> server_frame (byte_order env) b"
        using update_passed_on [OF inv, of p bs env] pass en step bs
        by (auto simp: buffers_of_def simp del: head_code.simps split: if_splits)
    qed
  next
    case plain
    then show ?thesis using wire_typed_adds [OF wire] adds_server_handle [OF inv en step] by blast
  qed
qed

interpretation wire: event_system server_enabled "server_handle env"
  "\<lambda>w. server_inv w \<and> wire_typed (byte_order env) w" for env
  by unfold_locales (blast intro: wire_typed_server_handle server_handle_inv)

lemma wire_typed_new: "wire_typed e (new_nr_server raw)"
  by (simp add: wire_typed_def new_nr_server_def Let_def case_prod_beta do_accept_def set_max_participants_def
      buffers_of_def new_handshake_session_def)

end
