(* ===== verification/Server_Drain.thy ===== *)
theory Server_Drain
  imports Server_Correct
begin

text \<open>
  The writing side of the server on its own: without new input, running the posted handlers and
  completing the writes uses up what is outstanding, in whatever order that happens.
\<close>

fun is_output :: "server_event \<Rightarrow> bool" where
  "is_output (Run_posted p) = True"
| "is_output (Write_done p i) = True"
| "is_output ev = False"

text \<open>A posted buffer takes two more steps, one that is being written takes one.\<close>

definition outstanding :: "'a world_scheme \<Rightarrow> nat" where
  "outstanding w = (\<Sum>p < next_ptr w. 2 * length (posted (heap w p)) + length (writing (heap w p)))"

text \<open>
  What keeps a session alive until its posted handlers have run: the room, or its read. A write
  under way is not enough, since it may complete first.
\<close>

definition anchored :: "'a world_scheme \<Rightarrow> bool" where
  "anchored w \<longleftrightarrow>
     (\<forall>p. posted (heap w p) \<noteq> [] \<longrightarrow> p \<in> set (participants (room w)) \<or> reading (heap w p) \<noteq> [])"

lemma anchoredD:
  "anchored w \<Longrightarrow> posted (heap w p) \<noteq> [] \<Longrightarrow> p \<in> set (participants (room w)) \<or> reading (heap w p) \<noteq> []"
  unfolding anchored_def by blast

definition drain_inv :: "nr_server \<Rightarrow> bool" where
  "drain_inv w \<longleftrightarrow> server_inv w \<and> anchored w"

text \<open>Both steps change one session; the sum changes by what its term does.\<close>

lemma outstanding_one:
  assumes "p < next_ptr w" and "Suc (2 * length (posted s) + length (writing s)) =
      2 * length (posted (heap w p)) + length (writing (heap w p))"
  shows "Suc (outstanding (upd_session p (\<lambda>_. s) w)) = outstanding w"
proof -
  have "(\<Sum>q \<in> {..<next_ptr w} - {p}. 2 * length (posted (heap (upd_session p (\<lambda>_. s) w) q)) +
      length (writing (heap (upd_session p (\<lambda>_. s) w) q))) =
    (\<Sum>q \<in> {..<next_ptr w} - {p}. 2 * length (posted (heap w q)) + length (writing (heap w q)))"
    by (rule sum.cong) auto
  then show ?thesis
    using assms by (simp add: outstanding_def sum.remove [of "{..<next_ptr w}" p])
qed

lemma outstanding_0_iff:
  assumes "server_inv w"
  shows "outstanding w = 0 \<longleftrightarrow> (\<forall>p. posted (heap w p) = [] \<and> writing (heap w p) = [])"
  using server_inv_posted [OF assms] server_inv_writing [OF assms] by (auto simp: outstanding_def)

lemma output_enabled_iff:
  "server_inv w \<Longrightarrow> (\<exists>e. is_output e \<and> server_enabled e w) \<longleftrightarrow> outstanding w \<noteq> 0"
proof
  assume inv: "server_inv w" and "outstanding w \<noteq> 0"
  then obtain p where "posted (heap w p) \<noteq> [] \<or> writing (heap w p) \<noteq> []"
    using outstanding_0_iff [OF inv] by auto
  then have "server_enabled (Run_posted p) w \<or> server_enabled (Write_done p 0) w" by auto
  then show "\<exists>e. is_output e \<and> server_enabled e w" by (meson is_output.simps(1,2))
next
  assume "server_inv w" and "\<exists>e. is_output e \<and> server_enabled e w"
  then obtain e where "is_output e" "server_enabled e w" by blast
  then have "\<exists>p. posted (heap w p) \<noteq> [] \<or> writing (heap w p) \<noteq> []"
    by (cases e) (auto intro: exI [of _ "case e of Write_done p i \<Rightarrow> p | _ \<Rightarrow> 0"])
  then show "outstanding w \<noteq> 0" using outstanding_0_iff [OF \<open>server_inv w\<close>] by blast
qed

text \<open>One step of output: it succeeds, uses up one unit, and leaves everything but two lists alone.\<close>

lemma output_step:
  assumes inv: "drain_inv w" and out: "is_output e" and en: "server_enabled e w"
  shows "\<exists>p s. server_handle env e w = Done (upd_session p (\<lambda>_. s) w) \<and>
    Suc (outstanding (upd_session p (\<lambda>_. s) w)) = outstanding w \<and>
    length (posted s) \<le> length (posted (heap w p)) \<and> reading s = reading (heap w p)"
proof -
  have ok: "server_inv w" using inv by (simp add: drain_inv_def)
  show ?thesis
  proof (cases e)
    case (Run_posted p)
    then obtain b rest where b: "posted (heap w p) = b # rest" using en by (cases "posted (heap w p)") auto
    then have "alive p w" using anchoredD [of w p] inv by (auto simp: drain_inv_def alive_def)
    let ?s = "(heap w p)\<lparr>posted := rest, deque_write_buffer := [], writing := writing (heap w p) @ [b]\<rparr>"
    have "server_handle env e w = Done (upd_session p (\<lambda>_. ?s) w)"
      using run_posted_eq [OF ok b] \<open>alive p w\<close> Run_posted by (simp add: upd_session_def)
    moreover have "p < next_ptr w" using server_inv_posted [OF ok] b by simp
    then have "Suc (outstanding (upd_session p (\<lambda>_. ?s) w)) = outstanding w"
      by (rule outstanding_one) (simp add: b)
    ultimately show ?thesis using b by (intro exI conjI) (assumption | simp)+
  next
    case (Write_done p i)
    then have i: "i < length (writing (heap w p))" using en by simp
    let ?s = "(heap w p)\<lparr>writing := take i (writing (heap w p)) @ drop (Suc i) (writing (heap w p))\<rparr>"
    have "server_handle env e w = Done (upd_session p (\<lambda>_. ?s) w)"
      using write_completed_eq [OF server_inv_write_over [OF ok]] Write_done
      by (simp add: write_over_def upd_session_def)
    moreover have "p < next_ptr w" by (rule server_inv_writing [OF ok]) (use i in auto)
    then have "Suc (outstanding (upd_session p (\<lambda>_. ?s) w)) = outstanding w"
      by (rule outstanding_one) (use i in simp)
    ultimately show ?thesis by (intro exI conjI) (assumption | simp)+
  qed (use out in auto)
qed

lemma output_keeps:
  assumes inv: "drain_inv w" and out: "is_output e" and en: "server_enabled e w"
    and step: "server_handle env e w = Done w'"
  shows "drain_inv w'" and "outstanding w' < outstanding w" and "room w' = room w"
    and "reading (heap w' q) = reading (heap w q)"
proof -
  obtain p s where s: "w' = upd_session p (\<lambda>_. s) w" "Suc (outstanding w') = outstanding w"
    "length (posted s) \<le> length (posted (heap w p))" "reading s = reading (heap w p)"
    using output_step [OF inv out en, of env] step by auto
  have "server_inv w'" using server_handle_inv [OF _ en step] inv by (simp add: drain_inv_def)
  moreover have "anchored w'"
    unfolding anchored_def
  proof (intro allI impI)
    fix q
    assume "posted (heap w' q) \<noteq> []"
    then have "posted (heap w q) \<noteq> []" using s(1,3) by (cases "q = p") auto
    then show "q \<in> set (participants (room w')) \<or> reading (heap w' q) \<noteq> []"
      using anchoredD [of w q] inv s(1,4) by (cases "q = p") (auto simp: drain_inv_def)
  qed
  ultimately show "drain_inv w'" by (simp add: drain_inv_def)
  show "outstanding w' < outstanding w" using s(2) by simp
  show "room w' = room w" "reading (heap w' q) = reading (heap w q)" using s by simp_all
qed

interpretation drain: terminating_event_system
  "\<lambda>e w. is_output e \<and> server_enabled e w" "server_handle env" drain_inv outstanding for env
proof unfold_locales
  fix w e
  assume "drain_inv w" "is_output e \<and> server_enabled e w"
  then show "\<exists>w'. server_handle env e w = Done w'" using output_step by blast
qed (use output_keeps in blast)+

text \<open>What a run of output leaves alone.\<close>

lemma output_run_frame:
  "drain_inv w \<Longrightarrow> run (\<lambda>e w. is_output e \<and> server_enabled e w) (server_handle env) es w = Some (Done w') \<Longrightarrow>
   room w' = room w \<and> (\<forall>q. reading (heap w' q) = reading (heap w q))"
proof (induction es arbitrary: w)
  case (Cons e es)
  then obtain v where v: "is_output e" "server_enabled e w" "server_handle env e w = Done v"
    "run (\<lambda>e w. is_output e \<and> server_enabled e w) (server_handle env) es v = Some (Done w')"
    by (auto split: if_splits outcome.splits)
  show ?case
    using Cons.IH [OF output_keeps(1) [OF Cons.prems(1) v(1,2,3)] v(4)] output_keeps(3,4) [OF Cons.prems(1) v(1,2,3)]
    by simp
qed simp

end
