(* ===== verification/Lobby_Spec.thy ===== *)
theory Lobby_Spec
  imports Server_Progress
begin

text \<open>
  What the server promises, without sessions, sockets and messages: a lobby knows who is in, with
  which descriptor, how many may be in, and whom to call when somebody comes or goes. Every handler
  of the server does one operation of the lobby.
\<close>

section \<open>The lobby\<close>

record lobby =
  members :: "u64 \<rightharpoonup> byte list"
  capacity :: nat
  on_came :: "nat list"
  on_gone :: "nat list"
  heard :: "(nat \<times> signal) list"

datatype lobby_op =
    Enter u64 "byte list"
  | Describe u64 "byte list"
  | Go u64
  | Vanish u64
  | Resize nat
  | Call_when_came nat
  | Call_when_gone nat
  | Call_nobody
  | Nothing

text \<open>
  A lobby that is full lets nobody in. An identifier that is taken stays with its owner, and the
  newcomer is announced all the same. \<open>Go\<close> is announced and \<open>Vanish\<close> is not, whether or not the
  identifier is in.
\<close>

fun lobby_do :: "lobby_op \<Rightarrow> lobby \<Rightarrow> lobby" where
  "lobby_do (Enter i d) l =
     (if card (dom (members l)) < capacity l
      then l\<lparr>members := (if i \<in> dom (members l) then members l else (members l)(i \<mapsto> d)),
             heard := heard l @ map (\<lambda>c. (c, Sig_new_participant i)) (on_came l)\<rparr>
      else l)"
| "lobby_do (Describe i d) l = (if i \<in> dom (members l) then l\<lparr>members := (members l)(i \<mapsto> d)\<rparr> else l)"
| "lobby_do (Go i) l =
     l\<lparr>members := (members l)(i := None),
       heard := heard l @ map (\<lambda>c. (c, Sig_participant_leave i)) (on_gone l)\<rparr>"
| "lobby_do (Vanish i) l = l\<lparr>members := (members l)(i := None)\<rparr>"
| "lobby_do (Resize n) l = l\<lparr>capacity := n\<rparr>"
| "lobby_do (Call_when_came c) l = l\<lparr>on_came := on_came l @ [c]\<rparr>"
| "lobby_do (Call_when_gone c) l = l\<lparr>on_gone := on_gone l @ [c]\<rparr>"
| "lobby_do Call_nobody l = l\<lparr>on_came := [], on_gone := []\<rparr>"
| "lobby_do Nothing l = l"

definition new_lobby :: lobby where
  "new_lobby = \<lparr>members = Map.empty, capacity = 10, on_came = [], on_gone = [], heard = []\<rparr>"

section \<open>The server as a lobby\<close>

definition lobby_of :: "'a world_scheme \<Rightarrow> lobby" where
  "lobby_of w =
     \<lparr>members = (\<lambda>i. map_option (\<lambda>p. m_descriptor (heap w p)) (get_participant_ptr i w)),
      capacity = unat (max_participants (room w)),
      on_came = slots_new_participant (room w), on_gone = slots_participant_leave (room w),
      heard = emitted w\<rparr>"

text \<open>What the server does with an event, in terms of the lobby.\<close>

definition join_ack_descriptor :: "endian \<Rightarrow> byte list \<Rightarrow> byte list" where
  "join_ack_descriptor e payload =
     take (unat (pja_json_buffersize (dec_participant_join_ack e payload))) (drop 12 payload)"

fun call_op :: "server_call \<Rightarrow> lobby_op" where
  "call_op (Call_set_max_participants n) = Resize (unat n)"
| "call_op (Call_set_max_handshake_connections n) = Resize (unat n)"
| "call_op (Call_register_new_participant c) = Call_when_came c"
| "call_op (Call_register_participant_leave c) = Call_when_gone c"
| "call_op (Call_disconnect_participant i) = Vanish i"
| "call_op Call_disconnect_all_callbacks = Call_nobody"
| "call_op call = Nothing"

fun event_op :: "asio_env \<Rightarrow> server_event \<Rightarrow> nr_server \<Rightarrow> lobby_op" where
  "event_op env (Frame_received p Handshake_read bs) w =
     (if xr_head (byte_order env) bs = head_code HANDSHAKE_CREDENTIALS_ACK
      then Enter (fst (mt_next (room_rng (room w)))) (m_descriptor (heap w p)) else Nothing)"
| "event_op env (Frame_received p Session_read bs) w =
     (if xr_head (byte_order env) bs = head_code PARTICIPANT_JOIN_ACK
      then (if p \<in> set (participants (room w))
            then Describe (m_id (heap w p)) (join_ack_descriptor (byte_order env) (drop 8 bs)) else Nothing)
      else if xr_head (byte_order env) bs = head_code PARTICIPANT_LEAVE_ACK then Vanish (m_id (heap w p))
      else Nothing)"
| "event_op env (Read_failed p Session_read) w = Go (m_id (heap w p))"
| "event_op env (Write_failed p i) w = Go (m_id (heap w p))"
| "event_op env (Api call) w = call_op call"
| "event_op env ev w = Nothing"

text \<open>The operations of a whole run.\<close>

fun run_ops :: "asio_env \<Rightarrow> server_event list \<Rightarrow> nr_server \<Rightarrow> lobby_op list" where
  "run_ops env [] w = []"
| "run_ops env (ev # evs) w =
     (case server_handle env ev w of
        Done w' \<Rightarrow> event_op env ev w # run_ops env evs w'
      | r \<Rightarrow> [event_op env ev w])"

section \<open>What does not concern the lobby\<close>

definition lobby_frame :: "'a world_scheme \<Rightarrow> 'b world_scheme \<Rightarrow> bool" where
  "lobby_frame w w' \<longleftrightarrow>
     participants (room w') = participants (room w) \<and>
     max_participants (room w') = max_participants (room w) \<and>
     slots_new_participant (room w') = slots_new_participant (room w) \<and>
     slots_participant_leave (room w') = slots_participant_leave (room w) \<and>
     emitted w' = emitted w \<and>
     (\<forall>p \<in> set (participants (room w)).
        m_id (heap w' p) = m_id (heap w p) \<and> m_descriptor (heap w' p) = m_descriptor (heap w p))"

lemma lobby_frame_refl [simp]: "lobby_frame w w"
  by (simp add: lobby_frame_def)

lemma lobby_frame_trans [trans]: "lobby_frame u v \<Longrightarrow> lobby_frame v w \<Longrightarrow> lobby_frame u w"
  by (simp add: lobby_frame_def)

lemma oset_find_in: "oset_find key k xs = Some p \<Longrightarrow> p \<in> set xs"
  by (induction xs) (auto split: if_splits)

lemma lobby_of_frame:
  assumes "lobby_frame w w'"
  shows "lobby_of w' = lobby_of w"
proof -
  have find: "get_participant_ptr i w' = get_participant_ptr i w" for i
    unfolding get_participant_ptr_def using assms
    by (simp add: lobby_frame_def) (rule oset_find_cong, simp add: pkey_def)
  have "p \<in> set (participants (room w))" if "get_participant_ptr i w = Some p" for i p
    using that unfolding get_participant_ptr_def by (rule oset_find_in)
  then show ?thesis
    using assms by (auto simp: lobby_of_def find lobby_frame_def fun_eq_iff split: option.splits intro!: map_option_cong)
qed

lemma members_dom: "dom (members (lobby_of w)) = {i. get_participant_ptr i w \<noteq> None}"
  by (auto simp: lobby_of_def)

lemma card_members:
  assumes "room_ok w"
  shows "card (dom (members (lobby_of w))) = length (participants (room w))"
proof -
  have "dom (members (lobby_of w)) = pkey w ` set (participants (room w))"
    using get_participant_ptr_iff [OF assms] by (force simp: members_dom pkey_def)
  moreover have "inj_on (pkey w) (set (participants (room w)))"
    by (rule oset.keys_inj [OF room_ok_sorted [OF assms], simplified])
  ultimately show ?thesis by (simp add: card_image distinct_card [OF room_ok_distinct [OF assms]])
qed

lemma lobby_frame_post_to: "lobby_frame w (post_to P b w)"
  by (simp add: lobby_frame_def)

lemma lobby_frame_session:
  "m_id (f (heap w p)) = m_id (heap w p) \<Longrightarrow> m_descriptor (f (heap w p)) = m_descriptor (heap w p) \<Longrightarrow>
   lobby_frame w (upd_session p f w)"
  by (simp add: lobby_frame_def)

lemma lobby_frame_steps:
  "lobby_frame w (deliver_byte p b w)" "lobby_frame w (disconnect p w)"
  "lobby_frame w (do_read_byte p w)" "lobby_frame w (do_read_handshake p w)"
  by (simp_all add: lobby_frame_def do_read_byte_def do_read_handshake_def)

lemma lobby_frame_over: "lobby_frame w (read_over p l w)" "lobby_frame w (write_over p i w)"
  by (simp_all add: lobby_frame_def read_over_def write_over_def)

lemma lobby_frame_init_new_participant:
  assumes ok: "room_ok w" and step: "init_new_participant env i w = Done w'"
  shows "lobby_frame w w'"
proof -
  obtain p v where v: "new_paticipant_to_all env i w = Done v" "send_list_of_players env p v = Done w'"
    using step by (auto simp: init_new_participant_def Let_def outcome_simps split: option.splits)
  have first: "lobby_frame w v"
    using v(1) deliver_to_all_except_to_one_eq [OF ok]
    by (auto simp: new_paticipant_to_all_def outcome_simps lobby_frame_post_to split: option.splits)
  obtain l where "for_each (\<lambda>newp v. lift_mem (participant_new_message env newp)
      (\<lambda>msg. Done (deliver_byte p msg v))) l v = Done w'"
    using v(2) by (auto simp: send_list_of_players_def outcome_simps)
  then have "lobby_frame v w'"
  proof (rule for_each_inv)
    show "lobby_frame v v" by simp
  next
    fix s u u'
    assume "lobby_frame v u" "lift_mem (participant_new_message env s) (\<lambda>msg. Done (deliver_byte p msg u)) = Done u'"
    then show "lobby_frame v u'"
      using lobby_frame_trans [OF _ lobby_frame_steps(1)] by (auto simp: outcome_simps)
  qed
  with first show ?thesis by (rule lobby_frame_trans)
qed

section \<open>What does\<close>

lemma lobby_of_describe:
  assumes ok: "room_ok w"
  shows "lobby_of (upd_session p (\<lambda>s. s\<lparr>m_descriptor := d\<rparr>) w) =
    lobby_do (if p \<in> set (participants (room w)) then Describe (m_id (heap w p)) d else Nothing) (lobby_of w)"
proof -
  let ?w = "upd_session p (\<lambda>s. s\<lparr>m_descriptor := d\<rparr>) w"
  have find: "get_participant_ptr i ?w = get_participant_ptr i w" for i
    unfolding get_participant_ptr_def by (simp add: pkey_def fun_upd_def) (rule oset_find_cong, simp add: pkey_def)
  show ?thesis
  proof (cases "p \<in> set (participants (room w))")
    case True
    then have self: "get_participant_ptr (m_id (heap w p)) w = Some p" by (simp add: get_participant_ptr_self [OF ok])
    have "members (lobby_of ?w) i = ((members (lobby_of w))(m_id (heap w p) \<mapsto> d)) i" for i
    proof (cases "get_participant_ptr i w")
      case (Some q)
      then have id: "m_id (heap w q) = i" by (simp add: get_participant_ptr_iff [OF ok])
      have "q = p \<longleftrightarrow> i = m_id (heap w p)"
      proof
        assume "i = m_id (heap w p)"
        then have "Some q = Some p" unfolding self [symmetric] Some [symmetric] by (rule arg_cong)
        then show "q = p" by simp
      qed (use id in blast)
      moreover have "members (lobby_of ?w) i = Some (m_descriptor (heap ?w q))"
        "members (lobby_of w) i = Some (m_descriptor (heap w q))"
        using Some find [of i] by (simp_all add: lobby_of_def del: upd_session_simps)
      ultimately show ?thesis by (cases "q = p") simp_all
    next
      case None
      then show ?thesis using self by (auto simp: lobby_of_def find)
    qed
    then have m: "members (lobby_of ?w) = (members (lobby_of w))(m_id (heap w p) \<mapsto> d)" by (rule ext)
    have "m_id (heap w p) \<in> dom (members (lobby_of w))" by (simp add: members_dom self)
    then have "lobby_do (Describe (m_id (heap w p)) d) (lobby_of w) =
        (lobby_of w)\<lparr>members := (members (lobby_of w))(m_id (heap w p) \<mapsto> d)\<rparr>" by simp
    also have "\<dots> = lobby_of ?w" unfolding m [symmetric] by (simp add: lobby_of_def)
    finally show ?thesis using True by simp
  next
    case False
    then have "lobby_frame w ?w" by (auto simp: lobby_frame_def)
    then show ?thesis using False by (simp add: lobby_of_frame)
  qed
qed

lemma lobby_of_joined:
  assumes ok: "room_ok w" and new: "p \<notin> set (participants (room w))"
    and free: "length (participants (room w)) < unat (max_participants (room w))"
  shows "lobby_of (joined env p w) =
    lobby_do (Enter (fst (mt_next (room_rng (room w)))) (m_descriptor (heap w p))) (lobby_of w)"
proof -
  let ?i = "fst (mt_next (room_rng (room w)))" and ?w = "joined env p w"
  have find: "get_participant_ptr j ?w = (if j = ?i \<and> get_participant_ptr j w = None
      then Some p else get_participant_ptr j w)" for j
    by (rule get_participant_ptr_joined [OF ok new])
  have descr: "m_descriptor (heap ?w q) = m_descriptor (heap w q)" for q
    by (simp add: joined_def Let_def emit_def)
  have slots: "slots_new_participant (room ?w) = slots_new_participant (room w)"
    "slots_participant_leave (room ?w) = slots_participant_leave (room w)"
    by (simp_all add: joined_def Let_def emit_def)
  have "members (lobby_of ?w) =
      (if ?i \<in> dom (members (lobby_of w)) then members (lobby_of w)
       else (members (lobby_of w))(?i \<mapsto> m_descriptor (heap w p)))"
    by (auto simp: lobby_of_def find descr fun_eq_iff)
  moreover have "card (dom (members (lobby_of w))) < capacity (lobby_of w)"
    using free by (simp add: card_members [OF ok]) (simp add: lobby_of_def)
  ultimately show ?thesis
    by (simp add: lobby_of_def joined_simps slots)
qed

lemma lobby_of_left_room:
  assumes ok: "room_ok w"
  shows "lobby_of (left_room env p w) = lobby_do (Vanish (m_id (heap w p))) (lobby_of w)"
proof -
  have "get_participant_ptr j (without p w) = (if j = m_id (heap w p) then None else get_participant_ptr j w)" for j
    using oset.lookup_era [OF room_ok_sorted [OF ok], of j "m_id (heap w p)"]
    by (simp add: get_participant_ptr_def)
  then have "lobby_of (without p w) = lobby_do (Vanish (m_id (heap w p))) (lobby_of w)"
    by (auto simp: lobby_of_def fun_eq_iff without_def)
  then show ?thesis
    unfolding left_room_def by (simp add: lobby_of_frame [OF lobby_frame_post_to])
qed

lemma lobby_of_leave:
  assumes "room_ok w" and "leave env p w = Done w'"
  shows "lobby_of w' = lobby_do (Go (m_id (heap w p))) (lobby_of w)"
proof -
  let ?w = "emit (slots_participant_leave (room w)) (Sig_participant_leave (m_id (heap w p))) w"
  have "lobby_of w' = lobby_do (Vanish (m_id (heap w p))) (lobby_of ?w)"
    using assms leave_eq [OF assms(1), of env p] lobby_of_left_room [of ?w env p] by simp
  then show ?thesis by (simp add: lobby_of_def get_participant_ptr_def)
qed

lemma lobby_of_disconnect_participant:
  assumes ok: "room_ok w" and "disconnect_participant env i w = Done w'"
  shows "lobby_of w' = lobby_do (Vanish i) (lobby_of w)"
proof (cases "get_participant_ptr i w")
  case None
  then show ?thesis
    using assms(2) by (simp add: disconnect_participant_def disconnect_participant_ptr_def)
next
  case (Some p)
  then have "m_id (heap w p) = i" by (simp add: get_participant_ptr_iff [OF ok])
  moreover have "w' = left_room env p w"
    using assms(2) unfolding disconnect_participant_def Some disconnect_participant_ptr_Some [OF ok] by simp
  ultimately show ?thesis using lobby_of_left_room [OF ok, of env p] by simp
qed

lemma lobby_of_join:
  assumes "join env p w = Done w'" and ok: "room_ok w" and new: "p \<notin> set (participants (room w))"
  shows "lobby_of w' = lobby_do (Enter (fst (mt_next (room_rng (room w)))) (m_descriptor (heap w p))) (lobby_of w)"
  using assms(1)
proof (cases rule: join_Done_cases)
  case full
  then have "\<not> card (dom (members (lobby_of w))) < capacity (lobby_of w)"
    by (simp add: card_members [OF ok]) (simp add: lobby_of_def)
  then show ?thesis using lobby_of_frame [OF lobby_frame_steps(2)] full by simp
next
  case admitted
  then show ?thesis using lobby_of_joined [OF ok new] by simp
qed

section \<open>Every event does its operation\<close>

lemma lobby_of_read_over [simp]: "lobby_of (read_over p l w) = lobby_of w"
  by (rule lobby_of_frame [OF lobby_frame_over(1)])

lemma lobby_of_write_over [simp]: "lobby_of (write_over p i w) = lobby_of w"
  by (rule lobby_of_frame [OF lobby_frame_over(2)])

lemma lobby_of_steps [simp]:
  "lobby_of (deliver_byte p b w) = lobby_of w" "lobby_of (disconnect p w) = lobby_of w"
  "lobby_of (do_read_byte p w) = lobby_of w" "lobby_of (do_read_handshake p w) = lobby_of w"
  by (rule lobby_of_frame, rule lobby_frame_steps)+

lemma over_same [simp]:
  "m_id (heap (read_over p l w) q) = m_id (heap w q)"
  "m_descriptor (heap (read_over p l w) q) = m_descriptor (heap w q)"
  "m_id (heap (write_over p i w) q) = m_id (heap w q)" "room (write_over p i w) = room w"
  by (simp_all add: read_over_def write_over_def)

lemma lobby_of_handshake_frame:
  assumes inv: "server_inv w" and new: "p \<notin> set (participants (room w))" and len: "length bs = 65536"
    and step: "handshake_frame env p bs w = Done w'"
  shows "lobby_of w' = lobby_do
    (if xr_head (byte_order env) bs = head_code HANDSHAKE_CREDENTIALS_ACK
     then Enter (fst (mt_next (room_rng (room w)))) (m_descriptor (heap w p)) else Nothing) (lobby_of w)"
proof (cases "xr_head (byte_order env) bs = head_code HANDSHAKE_CREDENTIALS_ACK")
  case True
  then have "check_handshake_credentials_ack env p
      (dec_handshake_credentials_ack (byte_order env) (drop 8 bs)) w = Done w'"
    using step len by (simp add: handshake_frame_full split: if_splits)
  then obtain r w3 m where w3: "join env p (do_read_byte p (if r then disconnect p w else w)) = Done w3"
      and w': "w' = deliver_byte p m w3"
    by (auto simp: check_handshake_credentials_ack_def Let_def outcome_simps)
  let ?v = "do_read_byte p (if r then disconnect p w else w)"
  have "lobby_of ?v = lobby_of w" by simp
  moreover have v: "room ?v = room w" "m_descriptor (heap ?v p) = m_descriptor (heap w p)"
    by (simp_all add: do_read_byte_def)
  moreover have "room_ok ?v"
    using room_ok_disconnect [OF server_inv_room_ok [OF inv]] server_inv_room_ok [OF inv]
    by (auto simp: do_read_byte_def intro: room_ok_frame)
  ultimately show ?thesis using lobby_of_join [OF w3] new w' True by simp
next
  case False
  have "lobby_frame w w'"
    using step
  proof (cases rule: handshake_frame_cases)
    case (hello payload w1)
    then show ?thesis
      using new by (auto simp: check_handshake_hello_ack_def Let_def outcome_simps lobby_frame_def do_read_handshake_def)
  next
    case (creds msg)
    have "\<not> xr_head (byte_order env) bs = head_code HANDSHAKE_CREDENTIALS_ACK" by (rule False)
    then show ?thesis
      using step len
      by (auto simp: handshake_frame_full check_handshake_hello_ack_def Let_def outcome_simps lobby_frame_def
          do_read_handshake_def new split: if_splits)
  next
    case other
    then show ?thesis by (simp add: lobby_frame_steps)
  qed
  then show ?thesis using False by (simp add: lobby_of_frame)
qed

lemma lobby_of_join_ack:
  assumes ok: "room_ok w" and step: "on_participant_join_ack env p payload w = Done w'"
  shows "lobby_of w' = lobby_do
    (if p \<in> set (participants (room w))
     then Describe (m_id (heap w p)) (join_ack_descriptor (byte_order env) payload) else Nothing) (lobby_of w)"
proof -
  let ?d = "join_ack_descriptor (byte_order env) payload"
  let ?w = "upd_session p (\<lambda>s. s\<lparr>m_descriptor := ?d\<rparr>) w"
  obtain i where i: "init_new_participant env i ?w = Done w'"
    using step by (auto simp: on_participant_join_ack_def Let_def outcome_simps read_at_def
        join_ack_descriptor_def upd_session_def split: if_splits)
  have "room_ok ?w" by (rule room_ok_descriptor [OF ok])
  then have "lobby_of w' = lobby_of ?w"
    using lobby_frame_init_new_participant i lobby_of_frame by blast
  then show ?thesis using lobby_of_describe [OF ok, of p ?d] by simp
qed

lemma lobby_of_session_frame:
  assumes ok: "room_ok w" and len: "length bs = 65536" and step: "session_frame env p bs w = Done w'"
  shows "lobby_of w' = lobby_do (event_op env (Frame_received p Session_read bs) w) (lobby_of w)"
proof -
  obtain v where v: "session_dispatch env p bs w = Done v" "w' = do_read_byte p v"
    using step len by (auto simp: session_frame_full outcome_simps)
  have "lobby_of v = lobby_do (event_op env (Frame_received p Session_read bs) w) (lobby_of w)"
  proof (cases "xr_head (byte_order env) bs = head_code PARTICIPANT_JOIN_ACK")
    case True
    then show ?thesis using v(1) lobby_of_join_ack [OF ok, of env p "drop 8 bs" v] len
      by (simp add: session_dispatch_full)
  next
    case False
    note ack = False
    show ?thesis
    proof (cases "xr_head (byte_order env) bs = head_code PARTICIPANT_LEAVE_ACK")
      case True
      then show ?thesis
        using v(1) lobby_of_disconnect_participant [OF ok, of env "m_id (heap w p)" v] len
        by (simp add: session_dispatch_full)
    next
      case False
      then have "lobby_frame w v"
        using v(1) len ack deliver_to_all_except_to_one_eq [OF ok, of bs]
        by (auto simp: session_dispatch_full lobby_frame_post_to lobby_frame_steps simp del: head_code.simps
            split: if_splits)
      then show ?thesis using False ack by (simp add: lobby_of_frame del: head_code.simps)
    qed
  qed
  then show ?thesis using v(2) by simp
qed

lemma lobby_frame_more:
  fixes w :: nr_server
  assumes "participants (room w') = participants (room w)" "heap w' = heap w" "emitted w' = emitted w"
    "max_participants (room w') = max_participants (room w)"
    "slots_new_participant (room w') = slots_new_participant (room w)"
    "slots_participant_leave (room w') = slots_participant_leave (room w)"
  shows "lobby_of w' = lobby_of w"
  using assms by (intro lobby_of_frame) (simp add: lobby_frame_def)

lemma lobby_of_disconnect_all [simp]: "lobby_of (disconnect_all_participants w) = lobby_of w"
proof -
  have "lobby_of (fold disconnect ps w) = lobby_of w" for ps
    by (induction ps arbitrary: w) simp_all
  then show ?thesis by (simp add: disconnect_all_participants_def)
qed

text \<open>A setting of the room that the lobby sees.\<close>

lemma pkey_upd_room [simp]: "pkey (upd_room f w) = pkey w"
  by (rule pkey_heap) simp

lemma lobby_of_settings [simp]:
  "lobby_of (set_max_participants n w) = (lobby_of w)\<lparr>capacity := unat n\<rparr>"
  "lobby_of (register_callback_new_participant c w) = (lobby_of w)\<lparr>on_came := on_came (lobby_of w) @ [c]\<rparr>"
  "lobby_of (register_callback_participant_leave c w) = (lobby_of w)\<lparr>on_gone := on_gone (lobby_of w) @ [c]\<rparr>"
  "lobby_of (disconnect_all_callbacks w) = (lobby_of w)\<lparr>on_came := [], on_gone := []\<rparr>"
  by (simp_all add: lobby_of_def room_settings get_participant_ptr_def)

lemma lobby_of_server_call:
  assumes ok: "room_ok w" and step: "do_server_call env call w = Done w'"
  shows "lobby_of w' = lobby_do (call_op call) (lobby_of w)"
proof (cases call)
  case (Call_disconnect_participant i)
  then show ?thesis
    using step lobby_of_disconnect_participant [OF ok] by (simp add: server_disconnect_participant_def)
next
  case Call_disconnect_all_participants
  then show ?thesis using step by auto
next
  case Call_stop
  then show ?thesis
    using step lobby_frame_more [of "disconnect_all_participants w\<lparr>acceptor_open := False\<rparr>" "disconnect_all_participants w"]
    by (auto simp: server_stop_def Let_def)
next
  case (Call_set_participant_deaf i d)
  have "lobby_of (upd_session p (\<lambda>s. s\<lparr>deaf := d\<rparr>) w) = lobby_of w" for p
    by (rule lobby_of_frame [OF lobby_frame_session]) simp_all
  then show ?thesis using step Call_set_participant_deaf
    by (auto simp: server_set_participant_deaf_def set_participant_deaf_def split: option.splits)
next
  case (Call_register_new_message c)
  then show ?thesis using step
    by (auto intro!: lobby_frame_more simp: register_callback_new_message_def)
next
  case (Call_set_auto_update_participants b)
  then show ?thesis using step by (auto intro!: lobby_frame_more simp: set_auto_update_participants_def)
qed (use step in \<open>auto simp: server_settings intro!: lobby_frame_more simp: set_room_keep_alive_def set_broadcast_messages_def\<close>)

lemma lobby_of_on_accept:
  assumes ok: "room_ok w" and step: "on_accept env remote w = Done w'"
  shows "lobby_of w' = lobby_of w"
proof -
  have "next_ptr w \<notin> set (participants (room w))" using room_ok_less [OF ok] by blast
  then have "lobby_frame w w'"
    using step by (auto simp: on_accept_def handshake_start_def do_start_handshake_def Let_def outcome_simps
        do_read_handshake_def do_accept_def lobby_frame_def split: option.splits)
  then show ?thesis by (rule lobby_of_frame)
qed

theorem server_simulates_lobby:
  assumes inv: "server_inv w" and en: "server_enabled ev w" and step: "server_handle env ev w = Done w'"
  shows "lobby_of w' = lobby_do (event_op env ev w) (lobby_of w)"
proof (cases ev)
  case (Accept_ok remote)
  have "lobby_of (w\<lparr>accepting := False\<rparr>) = lobby_of w" by (rule lobby_frame_more) simp_all
  then show ?thesis
    using step Accept_ok lobby_of_on_accept [of "w\<lparr>accepting := False\<rparr>" env remote w'] inv server_inv_room_ok
    by (metis event_op.simps lobby_do.simps(9) server_handle.simps(1) server_inv_accepting)
next
  case Accept_error
  then show ?thesis using step by (auto intro!: lobby_frame_more)
next
  case (Run_posted p)
  then obtain b rest where "posted (heap w p) = b # rest" using en by (cases "posted (heap w p)") auto
  then show ?thesis
    using run_posted_eq [OF inv] step Run_posted by (auto split: if_splits intro!: lobby_of_frame lobby_frame_session)
next
  case (Frame_received p l bs)
  let ?v = "read_over p l w"
  have v: "server_inv ?v" by (rule server_inv_read_over [OF inv])
  have len: "length bs = 65536" and l: "l \<in> set (reading (heap w p))" using en Frame_received by simp_all
  show ?thesis
  proof (cases l)
    case Handshake_read
    then show ?thesis
      using lobby_of_handshake_frame [OF v _ len, of p env w'] server_inv_reading(3) [OF inv l] step Frame_received
      by simp
  next
    case Session_read
    then show ?thesis
      using lobby_of_session_frame [OF server_inv_room_ok [OF v] len, of env p w'] step Frame_received by simp
  qed
next
  case (Read_failed p l)
  then show ?thesis
    using step lobby_of_leave [OF server_inv_room_ok [OF server_inv_read_over [OF inv]]]
    by (cases l) (auto simp: handshake_read_failed_def session_read_failed_def)
next
  case (Write_done p i)
  then show ?thesis using step write_completed_eq [OF server_inv_write_over [OF inv]] by auto
next
  case (Write_failed p i)
  then show ?thesis
    using step lobby_of_leave [OF server_inv_room_ok [OF server_inv_write_over [OF inv]]] by (auto simp: write_failed_def)
next
  case (Api call)
  then show ?thesis using step lobby_of_server_call [OF server_inv_room_ok [OF inv]] by simp
qed

lemma server_run_simulates_lobby:
  "server_inv w \<Longrightarrow> run server_enabled (server_handle env) evs w = Some (Done w') \<Longrightarrow>
   lobby_of w' = fold lobby_do (run_ops env evs w) (lobby_of w)"
proof (induction evs arbitrary: w)
  case (Cons ev evs)
  then obtain v where v: "server_enabled ev w" "server_handle env ev w = Done v"
    "run server_enabled (server_handle env) evs v = Some (Done w')"
    by (auto split: if_splits outcome.splits)
  show ?case
    using Cons.IH [OF server_handle_inv [OF Cons.prems(1) v(1,2)] v(3)]
      server_simulates_lobby [OF Cons.prems(1) v(1,2)] v(2) by simp
qed simp

lemma lobby_of_new: "lobby_of (new_nr_server raw) = new_lobby"
  by (simp add: lobby_of_def new_lobby_def get_participant_ptr_def new_nr_server_def Let_def case_prod_beta
      do_accept_def set_max_participants_def new_network_room_def DEFAULT_MAX_PARTICIPANTS_def)

end
