(* ===== verification/Server_Contracts.thy ===== *)
theory Server_Contracts
  imports Server_Properties Server_Wire Server_Drain Lobby_Spec
begin

text \<open>
  The contracts of the server as a whole: the lobby it implements, the type of what it writes, the
  end of its output; and what a hostile peer can do to the server and, through it, to the others.
\<close>

section \<open>The lobby\<close>

text \<open>C1: the server implements the lobby of \<open>Lobby_Spec\<close>: after any run from its construction, who is in
  with which descriptor, the capacity, the callbacks and the calls they got are what the operations of
  the lobby, one for each event, make of an empty lobby; and the next event does its operation too.\<close>

theorem server_refines_lobby:
  assumes "run server_enabled (server_handle env) evs (new_nr_server raw) = Some (Done w)"
  shows "lobby_of w = fold lobby_do (run_ops env evs (new_nr_server raw)) new_lobby \<and>
    (\<forall>ev w'. server_enabled ev w \<and> server_handle env ev w = Done w' \<longrightarrow>
       lobby_of w' = lobby_do (event_op env ev w) (lobby_of w))"
  using server_run_simulates_lobby [OF server_inv_new assms] server.run_inv [OF server_inv_new assms]
    server_simulates_lobby [of w] by (simp add: lobby_of_new)

theorem server_refines_lobby_witness:
  "\<exists>w. run server_enabled (server_handle sample_env) sample_events (new_nr_server sample_raw_room) = Some (Done w) \<and>
     participants (room w) = [0] \<and>
     lobby_of w = fold lobby_do (run_ops sample_env sample_events (new_nr_server sample_raw_room)) new_lobby"
proof -
  obtain w where w: "run server_enabled (server_handle sample_env) sample_events (new_nr_server sample_raw_room) =
      Some (Done w)" "participants (room w) = [0]"
    using sample_run by blast
  then show ?thesis using server_refines_lobby [OF w(1)] by blast
qed

section \<open>The wire\<close>

text \<open>C14: everything the server has handed over for sending, along every run and whatever the peers send,
  is one whole frame of 65536 bytes: a well-formed greeting, request for credentials, welcome,
  introduction or notice of leaving under its own head, or a member's update passed on.\<close>

theorem server_wire_is_typed:
  assumes "run server_enabled (server_handle env) evs (new_nr_server raw) = Some (Done w)"
    and "b \<in> set (posted (heap w p) @ deque_write_buffer (heap w p) @ writing (heap w p))"
  shows "server_frame (byte_order env) b \<and> length b = 65536"
proof -
  have "wire_typed (byte_order env) w"
    using wire.run_inv [OF conjI [OF server_inv_new wire_typed_new] assms(1)] ..
  then show ?thesis using assms(2) server_frame_length by (auto simp: wire_typed_def buffers_of_def)
qed

theorem server_wire_is_typed_witness:
  "\<exists>w b. run server_enabled (server_handle sample_env) [Accept_ok (Some [])] (new_nr_server sample_raw_room) =
      Some (Done w) \<and> posted (heap w 0) = [b] \<and> server_frame Little b"
proof -
  obtain v where v: "on_accept sample_env (Some []) (new_nr_server sample_raw_room\<lparr>accepting := False\<rparr>) = Done v"
    "heap v = (heap (new_nr_server sample_raw_room))(0 :=
      greeted sample_env [] (new_nr_server sample_raw_room\<lparr>accepting := False\<rparr>))"
    using on_accept_greets [of "new_nr_server sample_raw_room\<lparr>accepting := False\<rparr>" sample_env "[]"] by auto
  then have run: "run server_enabled (server_handle sample_env) [Accept_ok (Some [])] (new_nr_server sample_raw_room) =
      Some (Done v)" by simp
  have "posted (heap v 0) = [server_hello_frame sample_env (srv_service_id (new_nr_server sample_raw_room)) []]"
    using v(2) by (simp add: greeted_def)
  then show ?thesis using server_wire_is_typed [OF run, of _ 0] run by auto
qed

section \<open>The end of output\<close>

text \<open>C15: without new input the server comes to rest: when the room or a pending read holds every
  session that has something posted, posted handlers and completed writes never fail, in any order, each
  uses up part of what is outstanding, so there are at most that many of them; and some order of them
  sends everything, with the room and the reads unchanged.\<close>

theorem output_ends:
  assumes "server_inv w" and "anchored w"
  shows "(\<forall>evs r. run (\<lambda>e w. is_output e \<and> server_enabled e w) (server_handle env) evs w = Some r \<longrightarrow>
      (\<exists>w'. r = Done w' \<and> length evs + outstanding w' \<le> outstanding w)) \<and>
    (\<exists>evs w'. run (\<lambda>e w. is_output e \<and> server_enabled e w) (server_handle env) evs w = Some (Done w') \<and>
      (\<forall>p. posted (heap w' p) = [] \<and> writing (heap w' p) = [] \<and> reading (heap w' p) = reading (heap w p)) \<and>
      room w' = room w)"
proof -
  have inv: "drain_inv w" using assms by (simp add: drain_inv_def)
  obtain evs w' where w': "run (\<lambda>e w. is_output e \<and> server_enabled e w) (server_handle env) evs w = Some (Done w')"
    "drain_inv w'" "\<forall>e. \<not> (is_output e \<and> server_enabled e w')"
    using drain.run_to_the_end [OF inv] by blast
  then have "\<forall>p. posted (heap w' p) = [] \<and> writing (heap w' p) = []"
    using output_enabled_iff [of w'] outstanding_0_iff [of w'] by (auto simp: drain_inv_def)
  moreover have "\<exists>w'. r = Done w' \<and> length evs + outstanding w' \<le> outstanding w"
    if "run (\<lambda>e w. is_output e \<and> server_enabled e w) (server_handle env) evs w = Some r" for evs r
    using drain.run_total [OF inv, of env evs] that drain.run_bounded [OF inv, of env evs] by auto
  ultimately show ?thesis using w'(1) output_run_frame [OF inv w'(1)] by blast
qed

theorem output_ends_witness:
  "\<exists>evs w'. run (\<lambda>e w. is_output e \<and> server_enabled e w) (server_handle sample_env) evs
      (deliver_byte 0 [1] (sample_server 10)) = Some (Done w') \<and> posted (heap w' 0) = [] \<and> writing (heap w' 0) = []"
proof -
  have "server_inv (deliver_byte 0 [1] (sample_server 10))" by (rule server_inv_deliver_byte) simp_all
  moreover have "anchored (deliver_byte 0 [1] (sample_server 10))"
    by (simp add: anchored_def sample_heap new_handshake_session_def)
  ultimately show ?thesis using output_ends [of "deliver_byte 0 [1] (sample_server 10)" sample_env] by blast
qed

end
