(* ===== verification/Network.thy ===== *)
theory Network
  imports Handshake_Correct
begin

text \<open>
  The server of \<open>nr_server.hpp\<close> and running copies of the client of \<open>nr_client.cpp\<close>, connected to
  each other. What connects them is not code of the repository but TCP, as both ends rely on it: what
  one end hands to a write comes out at the other end once, whole and in order. The handlers are those of
  \<open>server_handle\<close> and \<open>client_handle\<close>; nothing is added to them but the moving of bytes.
\<close>

section \<open>State and events\<close>

text \<open>
  The connection accepted at address \<open>p\<close> has the client \<open>peers p\<close> at its other end.
  \<open>to_client p\<close> and \<open>to_server p\<close> are the frames on the way.
\<close>

record network =
  srv :: nr_server
  peers :: "ptr \<Rightarrow> chat_client"
  to_client :: "ptr \<Rightarrow> byte list list"
  to_server :: "ptr \<Rightarrow> byte list list"

text \<open>
  \<open>Connect ip a b\<close>: a client whose identifiers held \<open>a\<close> and \<open>b\<close> before it was constructed connects
  from the address \<open>ip\<close>. Every other event is one of the server or one of a client.
\<close>

datatype net_event =
    Connect cpp_string u64 u64
  | At_server server_event
  | At_client ptr client_event

text \<open>
  The network is closed: a frame arrives only when the other end has sent it, nothing fails, the
  console of the clients is silent and nobody calls the server. No more clients connect than the room
  has places. The timer of the client stands still, since its first expiry is undefined behaviour.
\<close>

fun net_enabled :: "net_event \<Rightarrow> network \<Rightarrow> bool" where
  "net_enabled (Connect ip a b) N =
     (server_enabled (Accept_ok (Some ip)) (srv N) \<and> length ip \<le> 512 \<and>
      next_ptr (srv N) < unat (max_participants (room (srv N))))"
| "net_enabled (At_server e) N =
     (server_enabled e (srv N) \<and>
      (case e of
         Run_posted p \<Rightarrow> True
       | Write_done p i \<Rightarrow> True
       | Frame_received p l bs \<Rightarrow> to_server N p \<noteq> [] \<and> bs = hd (to_server N p)
       | _ \<Rightarrow> False))"
| "net_enabled (At_client p e) N =
     (p < next_ptr (srv N) \<and> client_enabled e (peers N p) \<and>
      (case e of
         Connected \<Rightarrow> True
       | Client_run_posted \<Rightarrow> True
       | Client_write_done \<Rightarrow> True
       | Client_frame bs \<Rightarrow> to_client N p \<noteq> [] \<and> bs = hd (to_client N p)
       | _ \<Rightarrow> False))"

text \<open>The connection an event of the server is about.\<close>

fun event_ptr :: "server_event \<Rightarrow> ptr" where
  "event_ptr (Run_posted p) = p"
| "event_ptr (Frame_received p l bs) = p"
| "event_ptr (Read_failed p l) = p"
| "event_ptr (Write_done p i) = p"
| "event_ptr (Write_failed p i) = p"
| "event_ptr e = 0"

text \<open>
  A handler sends what it adds to the writes that are under way when it begins. The write that an
  event completes is over by then. The bytes are on the way from the moment their write starts;
  its completion may be handled before or after they have arrived.
\<close>

definition server_writes_before :: "server_event \<Rightarrow> nr_server \<Rightarrow> byte list list" where
  "server_writes_before e w =
     (case e of
        Write_done p i \<Rightarrow> writing (heap (write_over p i w) p)
      | _ \<Rightarrow> writing (heap w (event_ptr e)))"

definition server_sends :: "server_event \<Rightarrow> nr_server \<Rightarrow> nr_server \<Rightarrow> byte list list" where
  "server_sends e w w' =
     drop (length (server_writes_before e w)) (writing (heap w' (event_ptr e)))"

definition server_takes :: "server_event \<Rightarrow> byte list list \<Rightarrow> byte list list" where
  "server_takes e frames = (case e of Frame_received p l bs \<Rightarrow> tl frames | _ \<Rightarrow> frames)"

definition client_sends :: "client_event \<Rightarrow> chat_client \<Rightarrow> chat_client \<Rightarrow> byte list list" where
  "client_sends e c c' =
     drop (length (if e = Client_write_done then tl (cl_writing c) else cl_writing c)) (cl_writing c')"

definition client_takes :: "client_event \<Rightarrow> byte list list \<Rightarrow> byte list list" where
  "client_takes e frames = (case e of Client_frame bs \<Rightarrow> tl frames | _ \<Rightarrow> frames)"

text \<open>\<open>env\<close> is the environment of the server, \<open>cenv p\<close> that of the client behind \<open>p\<close>.\<close>

fun net_handle :: "asio_env \<Rightarrow> (ptr \<Rightarrow> asio_env) \<Rightarrow> net_event \<Rightarrow> network \<Rightarrow> network outcome" where
  "net_handle env cenv (Connect ip a b) N =
     map_outcome (\<lambda>w. N\<lparr>srv := w,
         peers := (peers N)(next_ptr (srv N) := new_chat_client a b),
         to_client := (to_client N)(next_ptr (srv N) := []),
         to_server := (to_server N)(next_ptr (srv N) := [])\<rparr>)
       (server_handle env (Accept_ok (Some ip)) (srv N))"
| "net_handle env cenv (At_server e) N =
     (let p = event_ptr e
      in map_outcome (\<lambda>w. N\<lparr>srv := w,
           to_client := (to_client N)(p := to_client N p @ server_sends e (srv N) w),
           to_server := (to_server N)(p := server_takes e (to_server N p))\<rparr>)
         (server_handle env e (srv N)))"
| "net_handle env cenv (At_client p e) N =
     map_outcome (\<lambda>c. N\<lparr>peers := (peers N)(p := c),
         to_server := (to_server N)(p := to_server N p @ client_sends e (peers N p) c),
         to_client := (to_client N)(p := client_takes e (to_client N p))\<rparr>)
       (client_handle (cenv p) e (peers N p))"

text \<open>
  The network begins with a server as the service sets it up, for at most \<open>n\<close> participants and
  under the name \<open>name\<close>, and with nobody connected.
\<close>

definition new_network :: "network_room \<Rightarrow> u16 \<Rightarrow> cpp_string \<Rightarrow> network" where
  "new_network raw n name =
     \<lparr>srv = set_service_name name (server_set_max_participants n (new_nr_server raw)),
      peers = (\<lambda>_. new_chat_client 0 0), to_client = (\<lambda>_. []), to_server = (\<lambda>_. [])\<rparr>"

end
