(* ===== verification/Server_Order.thy ===== *)
theory Server_Order
  imports Server_Wire Network Samples
begin

text \<open>
  The order in which a member gets what the others send: the posted buffers of a session are a queue
  between the handlers that deliver to it and the writes on its socket.
\<close>

section \<open>What goes in and what comes out\<close>

text \<open>The frames that an event starts to write on the socket of the session at \<open>q\<close>.\<close>

definition sent_to :: "ptr \<Rightarrow> server_event \<Rightarrow> nr_server \<Rightarrow> nr_server \<Rightarrow> byte list list" where
  "sent_to q ev w w' = (if event_ptr ev = q then server_sends ev w w' else [])"

text \<open>The update that an event brings for \<open>q\<close>: one that another member sends while \<open>q\<close> is in the room.\<close>

definition update_for :: "endian \<Rightarrow> ptr \<Rightarrow> server_event \<Rightarrow> nr_server \<Rightarrow> nr_server \<Rightarrow> byte list list" where
  "update_for e q ev w w' =
     (case ev of
        Frame_received p Session_read bs \<Rightarrow>
          if xr_head e bs = head_code PARTICIPANT_UPDATE_ACK \<and>
             q \<in> set (participants (room w)) \<and> m_id (heap w q) \<noteq> m_id (heap w p)
          then [bs] else []
      | _ \<Rightarrow> [])"

abbreviation is_update :: "endian \<Rightarrow> byte list \<Rightarrow> bool" where
  "is_update e bs \<equiv> xr_head e bs = head_code PARTICIPANT_UPDATE_ACK"

section \<open>One event\<close>

lemma no_update_in_own: "\<forall>b \<in> set new. own_frame e b \<Longrightarrow> filter (is_update e) new = []"
  using own_frame_no_update by (auto simp: filter_empty_conv)

lemma plain_event_sends_nothing:
  assumes inv: "server_inv w" and step: "server_handle env ev w = Done w'" and adds: "adds_frames e w w'"
  shows "sent_to q ev w w' = []"
proof (cases ev)
  case (Write_done p i)
  then show ?thesis
    using step write_completed_eq [OF server_inv_write_over [OF inv]]
    by (auto simp: sent_to_def server_sends_def server_writes_before_def)
qed (use adds in \<open>simp_all add: sent_to_def server_sends_def server_writes_before_def adds_frames_def grows_def\<close>)

lemma posted_is_a_queue:
  assumes inv: "server_inv w" and en: "server_enabled ev w" and step: "server_handle env ev w = Done w'"
  shows "\<exists>new. sent_to q ev w w' @ posted (heap w' q) = posted (heap w q) @ new \<and>
    filter (is_update (byte_order env)) new = update_for (byte_order env) q ev w w'"
proof -
  consider (post) p where "ev = Run_posted p"
    | (pass) p bs where "ev = Frame_received p Session_read bs" "is_update (byte_order env) bs"
    | (plain) "\<not> passes_on (byte_order env) ev" "\<not> runs_posted ev"
    by (cases ev) (auto simp del: head_code.simps)
  then show ?thesis
  proof cases
    case post
    then obtain b rest where b: "posted (heap w p) = b # rest" using en by (cases "posted (heap w p)") auto
    then have "w' = upd_session p (\<lambda>s. s\<lparr>posted := rest, deque_write_buffer := [], writing := writing s @ [b]\<rparr>) w"
      using step run_posted_eq [OF inv b] post by (simp split: if_splits)
    then show ?thesis
      using post b by (cases "q = p")
        (simp_all add: sent_to_def server_sends_def server_writes_before_def update_for_def)
  next
    case pass
    then show ?thesis
      using update_passed_on [OF inv, of p bs env] en step
      by (auto simp: sent_to_def server_sends_def server_writes_before_def update_for_def
          simp del: head_code.simps)
  next
    case plain
    have adds: "adds_frames (byte_order env) w w'" by (rule adds_server_handle [OF inv en step plain])
    then obtain new where "posted (heap w' q) = posted (heap w q) @ new" "\<forall>b \<in> set new. own_frame (byte_order env) b"
      unfolding adds_frames_def grows_def by blast
    moreover have "update_for (byte_order env) q ev w w' = []"
      using plain by (cases ev) (auto simp: update_for_def simp del: head_code.simps split: read_loop.split)
    ultimately show ?thesis
      using plain_event_sends_nothing [OF inv step adds] no_update_in_own by auto
  qed
qed

section \<open>Updates arrive once and in order\<close>

text \<open>C8: every member gets every update of the others, once and in the order in which the server got
  them: along any run, whatever else happens, what is handed to the socket of a session, followed by what
  is still posted to it, is what was posted at the start followed by the new messages, and the updates
  among these are exactly those that other members sent while it was in the room.\<close>

theorem updates_arrive_in_order:
  assumes "server_inv w" and "run server_enabled (server_handle env) evs w = Some (Done w')"
  shows "\<exists>new. history (sent_to q) (server_handle env) evs w @ posted (heap w' q) = posted (heap w q) @ new \<and>
    filter (is_update (byte_order env)) new = history (update_for (byte_order env) q) (server_handle env) evs w"
  by (rule server.run_queue [OF posted_is_a_queue assms])

lemma sample_update:
  "length sample_update_frame = 65536" "xr_head Little sample_update_frame = head_code PARTICIPANT_UPDATE_ACK"
  by (simp_all add: sample_update_frame_def length_frame participant_update_ack_codec.enc_length)

theorem updates_arrive_in_order_witness:
  "\<exists>w. run server_enabled (server_handle sample_env)
      [Frame_received 0 Session_read sample_update_frame, Run_posted 1] (sample_server 10) = Some (Done w) \<and>
    filter (is_update Little) (history (sent_to 1) (server_handle sample_env)
      [Frame_received 0 Session_read sample_update_frame, Run_posted 1] (sample_server 10) @ posted (heap w 1)) =
      [sample_update_frame]"
proof -
  let ?f = "Frame_received 0 Session_read sample_update_frame" and ?w = "sample_server 10"
  have en: "server_enabled ?f ?w" by (simp add: sample_update)
  obtain v where v: "server_handle sample_env ?f ?w = Done v" "posted (heap v 1) = [sample_update_frame]"
      "room v = room ?w"
    using update_passed_on [OF sample_inv en, of sample_env] sample_update by auto
  have "safe v"
    using served.handle_inv [of ?w ?f sample_env v] en v(1) by (simp add: good_session_frame_def sample_update Let_def)
  then have inv: "server_inv v" by (simp add: safe_def)
  have "alive 1 v"
    using v(3) by (simp add: alive_def)
  then obtain w where w: "run_posted 1 v = Done w"
    using run_posted_eq [OF inv v(2)] by auto
  have run: "run server_enabled (server_handle sample_env) [?f, Run_posted 1] ?w = Some (Done w)"
    using en v w by (simp del: server_handle.simps(4))
  obtain new where "history (sent_to 1) (server_handle sample_env) [?f, Run_posted 1] ?w @ posted (heap w 1) = new"
    "filter (is_update Little) new = history (update_for Little 1) (server_handle sample_env) [?f, Run_posted 1] ?w"
    using updates_arrive_in_order [OF sample_inv run, of 1] by auto
  then show ?thesis
    using run v w by (auto simp: update_for_def sample_update)
qed

end
