(* ===== verification/Server_Presence.thy ===== *)
theory Server_Presence
  imports Room_Properties Server_Properties
begin

text \<open>
  Nobody stays in the room unattended: the server listens to every member at all times, so it notices when
  the connection of a member breaks.
\<close>

section \<open>Every member is read from\<close>

definition attended_but :: "ptr set \<Rightarrow> 'a world_scheme \<Rightarrow> bool" where
  "attended_but X w \<longleftrightarrow> (\<forall>q \<in> set (participants (room w)) - X. reading (heap w q) = [Session_read])"

abbreviation attended :: "'a world_scheme \<Rightarrow> bool" where
  "attended \<equiv> attended_but {}"

lemma attended_quiet: "attended_but X w \<Longrightarrow> quiet w w' \<Longrightarrow> attended_but X w'"
  by (auto simp: attended_but_def quiet_def)

lemma attended_same:
  assumes "attended_but X w" and "participants (room w') = participants (room w)"
    and "\<And>q. q \<in> set (participants (room w)) - X \<Longrightarrow> reading (heap w' q) = reading (heap w q)"
  shows "attended_but X w'"
  using assms by (auto simp: attended_but_def)

lemma attended_read_over: "attended w \<Longrightarrow> attended_but {p} (read_over p l w)"
  by (auto simp: attended_but_def read_over_def)

lemma attended_do_read_byte:
  "attended_but {p} w \<Longrightarrow> reading (heap w p) = [] \<Longrightarrow> attended (do_read_byte p w)"
  by (auto simp: attended_but_def do_read_byte_def)

text \<open>A connection that is not in the room does not count.\<close>

lemma attended_outside:
  "p \<notin> set (participants (room w)) \<Longrightarrow> attended_but {p} w = attended w"
  by (auto simp: attended_but_def)

lemma attended_join:
  assumes "attended w" and "reading (heap w p) = [Session_read]" and "join env p w = Done w'"
  shows "attended w'"
  using assms(3)
proof (cases rule: join_Done_cases)
  case full
  then show ?thesis using attended_quiet [OF assms(1) quiet_disconnect] by simp
next
  case admitted
  have "set (participants (room w')) \<subseteq> insert p (set (participants (room w)))"
    unfolding admitted(4) participants_joined by (rule set_oset_insert_subset)
  then show ?thesis
    using assms(1,2) by (auto simp: attended_but_def admitted(4) joined_simps)
qed

lemma attended_handshake_frame:
  assumes att: "attended w" and out: "p \<notin> set (participants (room w))" and idle: "reading (heap w p) = []"
    and step: "handshake_frame env p bs w = Done w'"
  shows "attended w'"
  using step
proof (cases rule: handshake_frame_cases)
  case (hello payload w1)
  then obtain d m where "w1 = deliver_byte p m (upd_session p (\<lambda>s. s\<lparr>m_descriptor := m_descriptor s @ d\<rparr>) w)"
    by (auto simp: check_handshake_hello_ack_def Let_def outcome_simps)
  then show ?thesis
    using hello(2) out by (intro attended_same [OF att]) (auto simp: do_read_handshake_def)
next
  case (creds msg)
  then obtain r w3 m where w3: "join env p (do_read_byte p (if r then disconnect p w else w)) = Done w3"
      and w': "w' = deliver_byte p m w3"
    by (auto simp: check_handshake_credentials_ack_def Let_def outcome_simps)
  have "attended (if r then disconnect p w else w)"
    using att attended_quiet [OF att quiet_disconnect] by simp
  then have "attended (do_read_byte p (if r then disconnect p w else w))"
    using out idle by (intro attended_do_read_byte) (auto simp: attended_outside)
  then have "attended w3" using idle w3 by (rule_tac attended_join) (auto simp: do_read_byte_def)
  then show ?thesis by (rule attended_same) (simp_all add: w')
next
  case other
  then show ?thesis using out by (intro attended_same [OF att]) (auto simp: do_read_handshake_def)
qed

lemma attended_leave:
  assumes ok: "room_ok w" and att: "attended_but {p} w" and step: "leave env p w = Done w'"
  shows "attended w'"
proof -
  have "attended_but {p} w'" using attended_quiet [OF att] leave_keeps [OF ok step] by blast
  moreover have "p \<notin> set (participants (room w'))"
    using step set_left_room [of "emit (slots_participant_leave (room w)) (Sig_participant_leave (m_id (heap w p))) w" env p] ok
    by (auto simp: leave_eq [OF ok])
  ultimately show ?thesis by (simp add: attended_outside)
qed

lemma attended_disconnect_all: "attended w \<Longrightarrow> attended (disconnect_all_participants w)"
proof -
  have "attended (fold disconnect ps w)" if "attended w" for ps
    using that by (induction ps arbitrary: w) (auto intro: attended_quiet [OF _ quiet_disconnect])
  then show "attended w \<Longrightarrow> ?thesis" by (simp add: disconnect_all_participants_def)
qed

lemma attended_call:
  assumes ok: "room_ok w" and att: "attended w" and step: "do_server_call env call w = Done w'"
  shows "attended w'"
proof (cases call)
  case (Call_disconnect_participant i)
  then show ?thesis
    using step disconnect_participant_keeps [OF ok, of env i w'] attended_quiet [OF att]
    by (simp add: server_disconnect_participant_def)
next
  case Call_disconnect_all_participants
  then show ?thesis using step attended_disconnect_all [OF att] by auto
next
  case Call_stop
  then show ?thesis
    using step attended_disconnect_all [OF att] attended_same [of "{}" "disconnect_all_participants w" w']
    by (auto simp: server_stop_def Let_def split: if_splits)
next
  case (Call_set_participant_deaf i d)
  then show ?thesis
    using step attended_same [OF att, of w']
    by (auto simp: server_set_participant_deaf_def set_participant_deaf_def split: option.splits)
qed (use step in \<open>auto simp: room_settings server_settings intro: attended_same [OF att]\<close>)

lemma attended_handle:
  assumes inv: "server_inv w \<and> attended w" and en: "server_enabled e w" and step: "server_handle env e w = Done w'"
  shows "server_inv w' \<and> attended w'"
proof
  have ok: "server_inv w" and att: "attended w" using inv by simp_all
  show "server_inv w'" by (rule server_handle_inv [OF ok en step])
  show "attended w'"
  proof (cases e)
    case (Accept_ok remote)
    have acc: "on_accept env remote (w\<lparr>accepting := False\<rparr>) = Done w'" using step Accept_ok by simp
    have "heap w' q = heap w q" if "q \<noteq> next_ptr w" for q
      using acc that by (auto simp: on_accept_def handshake_start_def do_start_handshake_def Let_def outcome_simps
          do_read_handshake_def do_accept_def split: option.splits)
    moreover have "next_ptr w \<notin> set (participants (room w))"
      using room_ok_less [OF server_inv_room_ok [OF ok]] by blast
    ultimately show ?thesis
      using on_accept_room [OF acc] by (intro attended_same [OF att]) (auto, metis)
  next
    case (Run_posted p)
    then obtain b rest where "posted (heap w p) = b # rest" using en by (cases "posted (heap w p)") auto
    then show ?thesis
      using run_posted_eq [OF ok] step Run_posted by (intro attended_same [OF att]) (auto split: if_splits)
  next
    case (Frame_received p l bs)
    let ?v = "read_over p l w"
    have l: "l \<in> set (reading (heap w p))" using en Frame_received by simp
    note over = attended_read_over [OF att, of p l] and idle = read_over_reading [OF ok l]
    show ?thesis
    proof (cases l)
      case Handshake_read
      then have out: "p \<notin> set (participants (room w))" using server_inv_reading(3) [OF ok l] by simp
      then have "attended ?v" using over by (simp add: attended_outside)
      then show ?thesis
        using attended_handshake_frame [OF _ _ idle] out step Frame_received Handshake_read by simp
    next
      case Session_read
      obtain m v where v: "session_dispatch env p m ?v = Done v" "w' = do_read_byte p v"
        using step Frame_received Session_read by (auto simp: session_frame_def outcome_simps)
      have "quiet ?v v"
        using session_dispatch_keeps [OF server_inv_room_ok [OF server_inv_read_over [OF ok]] v(1)] by simp
      then show ?thesis
        unfolding v(2) using attended_quiet [OF over] idle by (intro attended_do_read_byte) (auto simp: quiet_def)
    qed
  next
    case (Read_failed p l)
    let ?v = "read_over p l w"
    have l: "l \<in> set (reading (heap w p))" using en Read_failed by simp
    note over = attended_read_over [OF att, of p l]
    show ?thesis
    proof (cases l)
      case Handshake_read
      then have "attended ?v" using over server_inv_reading(3) [OF ok l] by (simp add: attended_outside)
      then show ?thesis
        using attended_quiet [OF _ quiet_disconnect] step Read_failed Handshake_read
        by (auto simp: handshake_read_failed_def)
    next
      case Session_read
      then show ?thesis
        using attended_leave [OF server_inv_room_ok [OF server_inv_read_over [OF ok]] over] step Read_failed
        by (simp add: session_read_failed_def)
    qed
  next
    case (Write_done p i)
    then show ?thesis
      using step write_completed_eq [OF server_inv_write_over [OF ok]]
      by (intro attended_same [OF att]) (auto simp: write_over_def)
  next
    case (Write_failed p i)
    have "attended_but {p} (write_over p i w)"
      using att by (auto simp: attended_but_def write_over_def)
    then show ?thesis
      using attended_leave [OF server_inv_room_ok [OF server_inv_write_over [OF ok]]] step Write_failed
      by (simp add: write_failed_def)
  next
    case (Api call)
    then show ?thesis using attended_call [OF server_inv_room_ok [OF ok] att] step by simp
  qed (use step att in \<open>auto intro: attended_same\<close>)
qed

interpretation attending: event_system server_enabled "server_handle env" "\<lambda>w. server_inv w \<and> attended w" for env
  by unfold_locales (rule attended_handle)

section \<open>Emptying the room\<close>

definition all_break :: "ptr list \<Rightarrow> server_event list" where
  "all_break ps = map (\<lambda>p. Read_failed p Session_read) ps"

definition leave_calls :: "nr_server \<Rightarrow> ptr \<Rightarrow> (nat \<times> signal) list" where
  "leave_calls w p = map (\<lambda>c. (c, Sig_participant_leave (m_id (heap w p)))) (slots_participant_leave (room w))"

lemma connections_break:
  assumes "server_inv w" and "attended w" and "distinct ps" and "set ps \<subseteq> set (participants (room w))"
  shows "\<exists>w'. run server_enabled (server_handle env) (all_break ps) w = Some (Done w') \<and>
    set (participants (room w')) = set (participants (room w)) - set ps \<and>
    emitted w' = emitted w @ concat (map (leave_calls w) ps)"
  using assms
proof (induction ps arbitrary: w)
  case Nil
  then show ?case by (simp add: all_break_def)
next
  case (Cons p ps)
  have p: "p \<in> set (participants (room w))" and read: "Session_read \<in> set (reading (heap w p))"
    using Cons.prems by (auto simp: attended_but_def)
  obtain v where v: "server_handle env (Read_failed p Session_read) w = Done v" "server_inv v"
      "set (participants (room v)) = set (participants (room w)) - {p}"
      "emitted v = emitted w @ leave_calls w p" "\<forall>q. m_id (heap v q) = m_id (heap w q)"
      "slots_participant_leave (room v) = slots_participant_leave (room w)"
    using connection_breaks [OF Cons.prems(1) p read, of env] unfolding leave_calls_def by blast
  have en: "server_enabled (Read_failed p Session_read) w" using read by simp
  have "attended v" using attended_handle [OF _ en v(1)] Cons.prems(1,2) by simp
  then obtain w' where w': "run server_enabled (server_handle env) (all_break ps) v = Some (Done w')"
      "set (participants (room w')) = set (participants (room v)) - set ps"
      "emitted w' = emitted v @ concat (map (leave_calls v) ps)"
    using Cons.IH [OF v(2)] Cons.prems(3,4) v(3) by auto
  have "leave_calls v = leave_calls w" using v(5,6) by (simp add: leave_calls_def fun_eq_iff)
  moreover have "run server_enabled (server_handle env) (all_break (p # ps)) w = Some (Done w')"
    using w'(1) run_step [of server_enabled _ _ "server_handle env", OF en v(1)] by (simp add: all_break_def)
  ultimately show ?case using w' v(3,4) by (intro exI [of _ w']) auto
qed

lemma attended_new: "attended (new_nr_server raw)"
  by (simp add: attended_but_def)

text \<open>C9: nobody is left behind: along every run the server has exactly one read pending for each member
  of the room, whatever peers send and whatever fails, so it notices when a connection breaks; when
  those of all members do, in any order, the room becomes empty, and the leave callbacks are raised once for
  each of them, in that order.\<close>

theorem nobody_is_left_behind:
  assumes "run server_enabled (server_handle env) es (new_nr_server raw) = Some (Done w)"
  shows "(\<forall>p \<in> set (participants (room w)). reading (heap w p) = [Session_read]) \<and>
    (\<forall>ps. distinct ps \<and> set ps = set (participants (room w)) \<longrightarrow>
      (\<exists>w'. run server_enabled (server_handle env) (all_break ps) w = Some (Done w') \<and>
        participants (room w') = [] \<and> emitted w' = emitted w @ concat (map (leave_calls w) ps)))"
proof -
  have inv: "server_inv w \<and> attended w"
    by (rule attending.run_inv [OF _ assms]) (simp add: server_inv_new attended_new)
  have "\<exists>w'. run server_enabled (server_handle env) (all_break ps) w = Some (Done w') \<and>
      participants (room w') = [] \<and> emitted w' = emitted w @ concat (map (leave_calls w) ps)"
    if "distinct ps" "set ps = set (participants (room w))" for ps
    using connections_break [of w ps env] inv that by auto
  then show ?thesis using inv by (auto simp: attended_but_def)
qed

text \<open>After the handshake of a first client.\<close>

theorem nobody_is_left_behind_witness:
  "\<exists>w w'. run server_enabled (server_handle sample_env) sample_events (new_nr_server sample_raw_room) = Some (Done w) \<and>
    participants (room w) = [0] \<and>
    run server_enabled (server_handle sample_env) [Read_failed 0 Session_read] w = Some (Done w') \<and>
    participants (room w') = []"
proof -
  obtain w where w: "run server_enabled (server_handle sample_env) sample_events (new_nr_server sample_raw_room) = Some (Done w)"
      "participants (room w) = [0]"
    using sample_run by blast
  from nobody_is_left_behind [OF w(1)] have "\<forall>ps. distinct ps \<and> set ps = set (participants (room w)) \<longrightarrow>
      (\<exists>w'. run server_enabled (server_handle sample_env) (all_break ps) w = Some (Done w') \<and> participants (room w') = [])"
    by blast
  from spec [OF this, of "[0]"] w(2) obtain w' where
    "run server_enabled (server_handle sample_env) (all_break [0]) w = Some (Done w')" "participants (room w') = []"
    by auto
  then show ?thesis using w unfolding all_break_def by (intro exI [of _ w] exI [of _ w']) simp
qed

end
