(* ===== verification/Hostile_Peers.thy ===== *)
theory Hostile_Peers
  imports Room_Properties
begin

text \<open>
  What a peer can do with texts that have no terminator, and what the others hear of a newcomer that
  the room refused.
\<close>

section \<open>Texts without a terminator\<close>

text \<open>C23: a connection that has not even joined can bring the server down with one message: the answers of
  the handshake are printed as C strings before they are looked at, so one without a zero byte behind
  the start of its text makes the server read past its buffer, in every state.\<close>

theorem unterminated_answer_stops_the_server:
  assumes "length bs = 65536" and "Handshake_read \<in> set (reading (heap w p))"
    and "xr_head (byte_order env) bs = head_code HANDSHAKE_HELLO_ACK \<and> 0 \<notin> set (drop 28 bs) \<or>
      xr_head (byte_order env) bs = head_code HANDSHAKE_CREDENTIALS_ACK \<and> 0 \<notin> set (drop 2070 bs)"
  shows "run server_enabled (server_handle env) [Frame_received p Handshake_read bs] w = Some (Undefined OutOfBounds)"
proof (rule run_undefined)
  show "server_enabled (Frame_received p Handshake_read bs) w" using assms(1,2) by simp
  show "server_handle env (Frame_received p Handshake_read bs) w = Undefined OutOfBounds"
    using assms(3) by (auto simp: handshake_frame_full [OF assms(1)])
qed

definition unterminated_frame :: "u16 \<Rightarrow> byte list" where
  "unterminated_frame head = enc_header Little (mk_xr_message_header head 65528) @ replicate 65528 65"

lemma unterminated_frame_simps [simp]:
  "length (unterminated_frame head) = 65536" "xr_head Little (unterminated_frame head) = head"
  "8 \<le> n \<Longrightarrow> 0 \<notin> set (drop n (unterminated_frame head))"
  by (simp_all add: unterminated_frame_def xr_head_def enc_header_def mk_xr_message_header_def)

theorem unterminated_answer_stops_the_server_witness:
  "run server_enabled (server_handle sample_env)
     [Frame_received 2 Handshake_read (unterminated_frame (head_code HANDSHAKE_HELLO_ACK))] (sample_server 10) =
   Some (Undefined OutOfBounds)"
  by (rule unterminated_answer_stops_the_server) (simp_all del: head_code.simps)

text \<open>What a member sends is passed on to clients that cannot print it.\<close>

definition stops_the_others :: "asio_env \<Rightarrow> asio_env \<Rightarrow> ptr \<Rightarrow> byte list \<Rightarrow> nr_server \<Rightarrow> bool" where
  "stops_the_others env cenv p bs w \<longleftrightarrow>
     (\<exists>w'. server_handle env (Frame_received p Session_read bs) w = Done w' \<and>
        (\<forall>q \<in> set (participants (room w)). q \<noteq> p \<longrightarrow>
           (\<exists>b. posted (heap w' q) = posted (heap w q) @ [b] \<and>
              (\<forall>c. client_frame cenv b c = Undefined OutOfBounds))))"

text \<open>C22: a member can bring down every other client of the room: an update, or a descriptor, that fills its
  array without a zero byte is passed on by the server, which comes to no harm, and each client that
  receives it reads past the end of the structure it prints.\<close>

theorem unterminated_text_stops_the_others:
  assumes ok: "server_inv w" and p: "p \<in> set (participants (room w))"
    and read: "Session_read \<in> set (reading (heap w p))" and e: "byte_order cenv = byte_order env"
    and u: "wf_participant_update_ack u" "0 \<notin> set (pua_buffer u)"
    and s: "wf_participant_join_ack s" "pja_participant_id s = m_id (heap w p)"
      "pja_json_buffersize s = 20480" "0 \<notin> set (pja_json_buffer s)"
    and small: "\<forall>q \<in> set (participants (room w)). length (m_descriptor (heap w q)) \<le> 20480"
  shows "stops_the_others env cenv p (frame (byte_order env) (head_code PARTICIPANT_UPDATE_ACK)
        (enc_participant_update_ack (byte_order env) u)) w \<and>
    stops_the_others env cenv p (join_ack_frame env s) w"
proof
  let ?bs = "frame (byte_order env) (head_code PARTICIPANT_UPDATE_ACK) (enc_participant_update_ack (byte_order env) u)"
  have bs: "length ?bs = 65536" "xr_head (byte_order env) ?bs = head_code PARTICIPANT_UPDATE_ACK"
    using u(1) by (simp_all add: length_frame participant_update_ack_codec.enc_length)
  have dec: "dec_participant_update_ack (byte_order env) (drop 8 ?bs) = u"
    using u(1) by (simp add: drop_frame participant_update_ack_codec.dec_enc_append)
  have "client_frame cenv ?bs c = Undefined OutOfBounds" for c
    using u(2) bs dec by (simp add: client_frame_full client_dispatch_full printable_def e Let_def)
  then show "stops_the_others env cenv p ?bs w"
    using update_relay [OF ok p read bs] by (auto simp: stops_the_others_def)
next
  obtain w' d where w': "server_handle env (Frame_received p Session_read (join_ack_frame env s)) w = Done w'"
    "m_descriptor (heap w' p) = take 20480 (pja_json_buffer s)" "describes w' p d"
    "\<forall>q \<in> set (participants (room w)). q \<noteq> p \<longrightarrow> posted (heap w' q) = posted (heap w q) @ [participant_new_frame env d]"
    using join_ack_introduction [OF ok p s(1,2) _ small, of env] s(3) by auto
  have len: "length (pja_json_buffer s) = 20480" using s(1) by (simp add: wf_participant_join_ack_def)
  have d: "wf_participant_new d" using w'(3) by (rule describes_wf)
  then have "pn_descriptor_buffer d = pja_json_buffer s"
    using w'(2,3) len by (simp add: describes_def wf_participant_new_def)
  then have "0 \<notin> set (pn_descriptor_buffer d)" using s(4) by simp
  moreover have "length (participant_new_frame env d) = 65536"
    "xr_head (byte_order env) (participant_new_frame env d) = head_code PARTICIPANT_NEW"
    "dec_participant_new (byte_order env) (drop 8 (participant_new_frame env d)) = d"
    using d by (simp_all add: participant_new_frame_def length_frame drop_frame participant_new_codec.dec_enc_append)
  ultimately have "client_frame cenv (participant_new_frame env d) c = Undefined OutOfBounds" for c
    by (simp add: client_frame_full client_dispatch_full printable_def e Let_def)
  then show "stops_the_others env cenv p (join_ack_frame env s) w"
    using w'(1,4) by (auto simp: stops_the_others_def)
qed

definition sample_update :: ST_PARTICIPANT_UPDATE_ACK where
  "sample_update = (init_participant_update_ack (\<lambda>_. 0))\<lparr>pua_buffer := replicate 20480 65\<rparr>"

theorem unterminated_text_stops_the_others_witness:
  "stops_the_others sample_env sample_env 0
     (join_ack_frame sample_env \<lparr>pja_participant_id = 5, pja_json_buffersize = 20480, pja_json_buffer = replicate 20480 65\<rparr>)
     (sample_server 10)"
  by (rule conjunct2 [OF unterminated_text_stops_the_others [where u = sample_update]])
    (simp_all add: sample_update_def wf_participant_update_ack_def wf_participant_join_ack_def
      init_participant_update_ack_def)

section \<open>A newcomer that is refused\<close>

text \<open>C30: a newcomer that a full room refuses is welcomed all the same, as participant 0, and when its closed
  connection fails, the callbacks are told that participant 0 left and every member gets a
  \<open>PARTICIPANT_LEAVE\<close> for it, although nobody came or went.\<close>

theorem refused_newcomer_is_said_to_leave:
  assumes inv: "server_inv w" and read: "Handshake_read \<in> set (reading (heap w p))"
    and full: "unat (max_participants (room w)) \<le> length (participants (room w))"
    and bs: "length bs = 65536" "xr_head (byte_order env) bs = head_code HANDSHAKE_CREDENTIALS_ACK"
      "0 \<in> set (drop 2070 bs)"
      "credentials_rejected (dec_handshake_credentials_ack (byte_order env) (drop 8 bs)) = Inr False"
    and id: "m_id (heap w p) = 0" and none: "get_participant_ptr 0 w = None"
  shows "\<exists>w'. run server_enabled (server_handle env)
      [Frame_received p Handshake_read bs, Read_failed p Session_read] w = Some (Done w') \<and>
    participants (room w') = participants (room w) \<and>
    emitted w' = emitted w @ map (\<lambda>c. (c, Sig_participant_leave 0)) (slots_participant_leave (room w)) \<and>
    posted (heap w' p) = posted (heap w p) @ [participant_join_frame env 0] \<and>
    (\<forall>q \<in> set (participants (room w)). posted (heap w' q) = posted (heap w q) @ [participant_leave_frame env 0])"
proof -
  let ?v = "deliver_byte p (participant_join_frame env 0)
    (disconnect p (do_read_byte p (read_over p Handshake_read w)))"
  have new: "p \<notin> set (participants (room w))" by (rule server_inv_reading(3) [OF inv read refl])
  have "join env p (do_read_byte p (read_over p Handshake_read w)) =
      Done (disconnect p (do_read_byte p (read_over p Handshake_read w)))"
    by (rule join_full) (use full in \<open>simp add: do_read_byte_def\<close>)
  then have first: "server_handle env (Frame_received p Handshake_read bs) w = Done ?v"
    using bs check_handshake_credentials_ack_eq [OF bs(4), of env p "read_over p Handshake_read w"] id
    by (simp add: handshake_frame_full do_read_byte_def read_over_def)
  have en: "server_enabled (Frame_received p Handshake_read bs) w" using read bs(1) by simp
  have inv_v: "server_inv ?v" by (rule server_handle_inv [OF inv en first])
  have reading: "reading (heap ?v p) = [Session_read]"
    using read_over_reading [OF inv read] by (simp add: do_read_byte_def)
  let ?u = "read_over p Session_read ?v"
  let ?e = "emit (slots_participant_leave (room ?u)) (Sig_participant_leave 0) ?u"
  have ok: "room_ok ?u" by (rule server_inv_room_ok [OF server_inv_read_over [OF inv_v]])
  have same: "m_id (heap ?u q) = m_id (heap w q)" "room ?u = room w" "emitted ?u = emitted w" for q
    by (simp_all add: read_over_def do_read_byte_def)
  have posted: "posted (heap ?u q) = posted (heap w q) @ (if q = p then [participant_join_frame env 0] else [])" for q
    by (simp add: read_over_def do_read_byte_def)
  have second: "server_handle env (Read_failed p Session_read) ?v = Done (left_room env p ?e)"
    using leave_eq [OF ok, of env p] same(1) [of p] id by (simp add: session_read_failed_def)
  have ids: "m_id (heap w q) \<noteq> 0" if "q \<in> set (participants (room w))" for q
    using that none get_participant_ptr_None [OF server_inv_room_ok [OF inv]] by auto
  have "oset_find (pkey ?e) 0 (participants (room w)) = None"
    using none unfolding get_participant_ptr_def
    by (metis oset_find_cong pkey_def pkey_emit same(1))
  then have gone: "oset_erase (pkey ?e) 0 (participants (room w)) = participants (room w)"
    using room_ok_sorted [of ?e] ok same(2) by (intro oset_erase_absent) simp_all
  have "participants (room (left_room env p ?e)) = participants (room w)"
    using gone same(1) [of p] same(2) id by (simp add: left_room_def)
  moreover have "emitted (left_room env p ?e) = emitted w @
      map (\<lambda>c. (c, Sig_participant_leave 0)) (slots_participant_leave (room w))"
    by (simp add: left_room_def same do_read_byte_def)
  moreover have "posted (heap (left_room env p ?e) q) =
      posted (heap ?u q) @ (if q \<in> set (participants (room w)) then [participant_leave_frame env 0] else [])" for q
    using ids same id by (auto simp: left_room_def)
  moreover have "run server_enabled (server_handle env)
      [Frame_received p Handshake_read bs, Read_failed p Session_read] w = Some (Done (left_room env p ?e))"
    unfolding run_step [of server_enabled _ _ "server_handle env", OF en first]
    using second reading by simp
  ultimately show ?thesis using new posted by (intro exI [of _ "left_room env p ?e"]) auto
qed

theorem refused_newcomer_is_said_to_leave_witness:
  "\<exists>w'. run server_enabled (server_handle sample_env)
      [Frame_received 2 Handshake_read (client_credentials_frame sample_env), Read_failed 2 Session_read] (sample_server 2) =
      Some (Done w') \<and>
    participants (room w') = [0, 1] \<and> emitted w' = [(3, Sig_participant_leave 0)]"
  using refused_newcomer_is_said_to_leave [of "sample_server 2" 2 "client_credentials_frame sample_env" sample_env]
    client_credentials_frame_read [of sample_env sample_env] client_credentials_accepted [of sample_env]
  by (auto simp del: run.simps head_code.simps)

end
