(* ===== verification/Chat_Main.thy ===== *)
theory Chat_Main
  imports Chat_Client
begin

text \<open>
  \<open>main\<close> of \<open>nr_client.cpp\<close>: the loop that reads lines from the standard input. Every line is put
  into a vector that is cleared again; nothing reaches the client until the input ends and
  \<open>close\<close> is called.
\<close>

section \<open>Reading lines\<close>

text \<open>\<open>std::cin\<close>: the characters to come, and whether a read has met the end of the file or failed.\<close>

record istream =
  is_rest :: "byte list"
  is_eof :: bool
  is_fail :: bool

definition cin_of :: "byte list \<Rightarrow> istream" where
  "cin_of input = \<lparr>is_rest = input, is_eof = False, is_fail = False\<rparr>"

text \<open>
  \<open>getline(line, n)\<close>: it takes characters until the end of the file, a newline, which is taken and
  dropped, or \<open>n - 1\<close> characters, which is a failure, as is taking nothing at all.
\<close>

fun take_line :: "nat \<Rightarrow> byte list \<Rightarrow> byte list \<Rightarrow> byte list \<times> istream" where
  "take_line n line [] = (line, \<lparr>is_rest = [], is_eof = True, is_fail = (line = [])\<rparr>)"
| "take_line n line (c # cs) =
     (if c = 10 then (line, \<lparr>is_rest = cs, is_eof = False, is_fail = False\<rparr>)
      else if n \<le> Suc (length line) then (line, \<lparr>is_rest = c # cs, is_eof = False, is_fail = True\<rparr>)
      else take_line n (line @ [c]) cs)"

definition getline :: "nat \<Rightarrow> istream \<Rightarrow> byte list \<times> istream" where
  "getline n cin =
     (if is_eof cin \<or> is_fail cin then ([], cin\<lparr>is_fail := True\<rparr>) else take_line n [] (is_rest cin))"

section \<open>The loop\<close>

definition LINE_LIMIT :: nat where "LINE_LIMIT = 1024"

lemma take_line_shorter:
  "length (is_rest (snd (take_line n line cs))) \<le> length cs \<and>
   (cs \<noteq> [] \<longrightarrow> \<not> is_fail (snd (take_line n line cs)) \<longrightarrow>
      length (is_rest (snd (take_line n line cs))) < length cs)"
  by (induction n line cs rule: take_line.induct) (auto split: if_splits)

text \<open>What a turn leaves behind: less to read, or the end of the file.\<close>

lemma getline_progress:
  assumes "getline n cin = (line, cin')" and "\<not> is_fail cin'"
  shows "length (is_rest cin') + (if is_eof cin' then 0 else 1) < length (is_rest cin) + (if is_eof cin then 0 else 1)"
proof (cases "is_rest cin")
  case Nil
  then show ?thesis using assms by (auto simp: getline_def split: if_splits)
next
  case (Cons c cs)
  then show ?thesis
    using assms take_line_shorter [of n "[]" "is_rest cin"] by (auto simp: getline_def split: if_splits)
qed

text \<open>
  The body: the line up to its first zero byte goes to the front of the vector, and the vector
  is cleared. The result is the lines that were read, the client and the stream.
\<close>

definition line_body :: "byte list \<Rightarrow> byte list \<Rightarrow> byte list" where
  "line_body line ptr =
     (let ptr1 = takeWhile (\<lambda>c. c \<noteq> 0) line @ ptr in take 0 ptr1)"

function main_loop :: "istream \<Rightarrow> byte list \<Rightarrow> chat_client \<Rightarrow> byte list list \<times> istream \<times> byte list \<times> chat_client" where
  "main_loop cin ptr c =
     (case getline LINE_LIMIT cin of
        (line, cin') \<Rightarrow>
          if is_fail cin' then ([], cin', ptr, c)
          else case main_loop cin' (line_body line ptr) c of
                 (lines, r) \<Rightarrow> (line # lines, r))"
  by pat_completeness auto

termination
  by (relation "measure (\<lambda>(cin, ptr, c). length (is_rest cin) + (if is_eof cin then 0 else 1))")
    (simp, simp only: in_measure split_conv, rule getline_progress [OF sym])

declare main_loop.simps [simp del]

text \<open>\<open>main\<close> after the connection is set up: the loop, then \<open>close\<close>.\<close>

definition chat_main :: "byte list \<Rightarrow> chat_client \<Rightarrow> chat_client" where
  "chat_main input c =
     (case main_loop (cin_of input) [] c of (lines, cin', ptr, c') \<Rightarrow> client_close c')"

section \<open>The whole program\<close>

text \<open>
  \<open>main\<close> from its beginning. The addresses of the server may not resolve: that throws, and the
  exception is caught and printed. Otherwise a thread runs the handlers of the client, those of \<open>es\<close> until
  \<open>close\<close> is called and those of \<open>fs\<close> after it, and \<open>join\<close> waits until it has no more work: nothing
  posted, nothing under way, no timer. None is a program that is still waiting. An exception that
  left a handler would end the process.
\<close>

definition client_out_of_work :: "chat_client \<Rightarrow> bool" where
  "client_out_of_work c \<longleftrightarrow> cl_posted c = [] \<and> cl_writing c = [] \<and> \<not> cl_reading c \<and> cl_timers c = 0"

fun join_thread :: "chat_client outcome option \<Rightarrow> (chat_client option \<times> int) outcome option" where
  "join_thread None = None"
| "join_thread (Some (Done c)) = (if client_out_of_work c then Some (Done (Some c, 0)) else None)"
| "join_thread (Some (Throws e c)) = Some (Undefined Terminate)"
| "join_thread (Some (Undefined u)) = Some (Undefined u)"

definition client_main ::
  "asio_env \<Rightarrow> exn option \<Rightarrow> u64 \<Rightarrow> u64 \<Rightarrow> client_event list \<Rightarrow> byte list \<Rightarrow> client_event list \<Rightarrow>
   (chat_client option \<times> int) outcome option" where
  "client_main env unresolved a b es input fs =
     (case unresolved of
        Some e \<Rightarrow> Some (Done (None, 0))
      | None \<Rightarrow>
          (case run client_enabled (client_handle env) es (new_chat_client a b) of
             Some (Done c) \<Rightarrow> join_thread (run client_enabled (client_handle env) fs (chat_main input c))
           | Some (Throws e c) \<Rightarrow> Some (Undefined Terminate)
           | Some (Undefined u) \<Rightarrow> Some (Undefined u)
           | None \<Rightarrow> None))"

section \<open>What the loop reads\<close>

lemma take_line_eq:
  "length line < n \<Longrightarrow> take_line n line cs =
     (let l = takeWhile (\<lambda>c. c \<noteq> 10) cs; r = dropWhile (\<lambda>c. c \<noteq> 10) cs; k = n - 1 - length line in
      if n \<le> length line + length l
      then (line @ take k cs, \<lparr>is_rest = drop k cs, is_eof = False, is_fail = True\<rparr>)
      else if r = [] then (line @ l, \<lparr>is_rest = [], is_eof = True, is_fail = (line @ l = [])\<rparr>)
      else (line @ l, \<lparr>is_rest = tl r, is_eof = False, is_fail = False\<rparr>))"
  by (induction n line cs rule: take_line.induct) (auto simp: Let_def Suc_diff_Suc drop_Cons' take_Cons')

text \<open>The four ways a call of \<open>getline\<close> ends on a stream that has not failed.\<close>

lemma getline_cases [consumes 3, case_names line last_line at_end too_long]:
  assumes "getline n cin = (line, cin')" and "\<not> is_fail cin" and "0 < n"
    and "\<not> is_eof cin \<Longrightarrow> \<not> is_fail cin' \<Longrightarrow> \<not> is_eof cin' \<Longrightarrow> is_rest cin = line @ 10 # is_rest cin' \<Longrightarrow>
      10 \<notin> set line \<Longrightarrow> length line < n \<Longrightarrow> thesis"
    and "\<not> is_eof cin \<Longrightarrow> \<not> is_fail cin' \<Longrightarrow> is_eof cin' \<Longrightarrow> is_rest cin' = [] \<Longrightarrow> is_rest cin = line \<Longrightarrow>
      10 \<notin> set line \<Longrightarrow> length line < n \<Longrightarrow> thesis"
    and "is_fail cin' \<Longrightarrow> is_eof cin \<or> is_rest cin = [] \<Longrightarrow> is_rest cin' = is_rest cin \<Longrightarrow> thesis"
    and "\<not> is_eof cin \<Longrightarrow> is_fail cin' \<Longrightarrow> is_rest cin = take (n - 1) (is_rest cin) @ is_rest cin' \<Longrightarrow>
      n \<le> length (takeWhile (\<lambda>c. c \<noteq> 10) (is_rest cin)) \<Longrightarrow> is_rest cin' = drop (n - 1) (is_rest cin) \<Longrightarrow> thesis"
  shows thesis
proof (cases "is_eof cin")
  case True
  then show ?thesis using assms(1,6) by (auto simp: getline_def)
next
  case False
  let ?l = "takeWhile (\<lambda>c. c \<noteq> 10) (is_rest cin)" and ?r = "dropWhile (\<lambda>c. c \<noteq> 10) (is_rest cin)"
  have l: "10 \<notin> set ?l" using set_takeWhileD by fastforce
  have eq: "getline n cin = take_line n [] (is_rest cin)" using False assms(2) by (simp add: getline_def)
  show ?thesis
  proof (cases "n \<le> length ?l")
    case True
    then show ?thesis using assms(1,3) eq False
      by (intro assms(7)) (auto simp: take_line_eq Let_def)
  next
    case short: False
    show ?thesis
    proof (cases ?r)
      case Nil
      then have all: "?l = is_rest cin" by (metis append_Nil2 takeWhile_dropWhile_id)
      with l have "10 \<notin> set (is_rest cin)" by metis
      then show ?thesis
        using assms(1,3,5,6) eq False short Nil all
        by (cases "is_rest cin = []") (auto simp: take_line_eq Let_def)
    next
      case (Cons c cs)
      have "is_rest cin = ?l @ c # cs" by (simp flip: Cons)
      moreover have "c = 10" using hd_dropWhile [of "\<lambda>c. c \<noteq> 10" "is_rest cin"] Cons by simp
      ultimately show ?thesis
        using assms(1,3) eq False short l Cons by (intro assms(4)) (auto simp: take_line_eq Let_def)
    qed
  qed
qed

text \<open>How the lines make up the input, and where the loop stops.\<close>

definition lines_text :: "byte list list \<Rightarrow> byte list" where
  "lines_text lines = concat (map (\<lambda>l. l @ [10]) lines)"

definition loop_stops :: "byte list \<Rightarrow> byte list list \<Rightarrow> istream \<Rightarrow> bool" where
  "loop_stops input lines cin' \<longleftrightarrow>
     is_fail cin' \<and> (\<forall>l \<in> set lines. length l < LINE_LIMIT \<and> 10 \<notin> set l) \<and>
     (is_rest cin' = [] \<and> (input = lines_text lines \<or> input @ [10] = lines_text lines) \<or>
      (\<exists>l. input = lines_text lines @ l @ is_rest cin' \<and> length l = LINE_LIMIT - 1 \<and> 10 \<notin> set l \<and>
         is_rest cin' \<noteq> [] \<and> hd (is_rest cin') \<noteq> 10))"

lemma main_loop_stops:
  assumes "main_loop cin ptr c = (lines, cin', ptr', c')" and "\<not> is_fail cin"
    and "is_eof cin \<Longrightarrow> is_rest cin = []"
  shows "c' = c \<and> (ptr = [] \<longrightarrow> ptr' = []) \<and> (is_eof cin \<longrightarrow> lines = []) \<and> loop_stops (is_rest cin) lines cin'"
  using assms
proof (induction cin ptr c arbitrary: lines rule: main_loop.induct)
  case (1 cin ptr c)
  obtain line cin1 where get: "getline LINE_LIMIT cin = (line, cin1)" by (cases "getline LINE_LIMIT cin")
  have n: "0 < LINE_LIMIT" by (simp add: LINE_LIMIT_def)
  have body: "line_body line ptr = []" by (simp add: line_body_def)
  show ?case
  proof (cases "is_fail cin1")
    case True
    then have eq: "lines = []" "cin' = cin1" "ptr' = ptr" "c' = c"
      using "1.prems"(1) get by (simp_all add: main_loop.simps [of cin ptr c])
    from get "1.prems"(2) n show ?thesis
    proof (cases rule: getline_cases)
      case too_long
      let ?k = "LINE_LIMIT - 1" and ?l = "takeWhile (\<lambda>c. c \<noteq> 10) (is_rest cin)"
      have k: "?k < length ?l" using too_long n by simp
      then have "take ?k (is_rest cin) = take ?k ?l" "is_rest cin ! ?k = ?l ! ?k"
        by (metis append_take_drop_id less_imp_le_nat take_append takeWhile_eq_take min.absorb1 take_take)
          (rule takeWhile_nth [OF k, symmetric])
      moreover have "10 \<notin> set ?l" using set_takeWhileD by fastforce
      moreover have "?k < length (is_rest cin)" using k length_takeWhile_le by (rule less_le_trans)
      ultimately have "10 \<notin> set (take ?k (is_rest cin))" "drop ?k (is_rest cin) \<noteq> []"
        "hd (drop ?k (is_rest cin)) \<noteq> 10" "length (take ?k (is_rest cin)) = ?k"
        using k by (auto simp: hd_drop_conv_nth dest: in_set_takeD) (metis nth_mem)
      then show ?thesis using too_long eq True
        by (auto simp: loop_stops_def lines_text_def intro!: exI [of _ "take ?k (is_rest cin)"])
    qed (use eq True "1.prems"(3) in \<open>auto simp: loop_stops_def lines_text_def\<close>)
  next
    case False
    then obtain rest where rest: "main_loop cin1 [] c = (rest, cin', ptr', c')" "lines = line # rest"
      using "1.prems"(1) get body by (auto simp: main_loop.simps [of cin ptr c] split: prod.splits)
    note IH = "1.IH" [OF get [symmetric] False, unfolded body, OF rest(1) False]
    from get "1.prems"(2) n show ?thesis
    proof (cases rule: getline_cases)
      case line
      then show ?thesis using IH rest(2) by (auto simp: loop_stops_def lines_text_def)
    next
      case last_line
      then show ?thesis using IH rest(2) by (auto simp: loop_stops_def lines_text_def)
    qed (use False in auto)
  qed
qed

lemma chat_main_eq: "chat_main input c = client_close c"
  using main_loop_stops [of "cin_of input" "[]" c] by (auto simp: chat_main_def cin_of_def split: prod.splits)

text \<open>C40: the loop over the typed lines always comes to its end, and nothing typed ever reaches the server:
  whatever the input, the client is left as it was but for the call of \<open>close\<close>. The loop stops at the
  end of the input or in front of the rest of a line of more than 1023 characters; the lines before it
  were read completely and in order.\<close>

theorem typed_lines_are_never_sent:
  "chat_main input c = client_close c \<and>
   (\<exists>lines cin'. main_loop (cin_of input) [] c = (lines, cin', [], c) \<and> loop_stops input lines cin')"
proof -
  obtain lines cin' ptr' c' where loop: "main_loop (cin_of input) [] c = (lines, cin', ptr', c')"
    by (metis prod_cases4)
  have "c' = c \<and> ptr' = [] \<and> loop_stops input lines cin'"
    using main_loop_stops [OF loop] by (simp add: cin_of_def)
  then show ?thesis using loop by (simp add: chat_main_eq)
qed

end
