(* ===== verification/Client_End.thy ===== *)
theory Client_End
  imports Chat_Main Client_Correct
begin

text \<open>
  How the program of the test client ends: after \<open>close\<close> its thread runs out of work.
\<close>

section \<open>The events after close\<close>

text \<open>
  The reads and writes that are under way end, with an error or, for a write, normally, and what is
  posted runs. No frame arrives any more.
\<close>

fun closing_enabled :: "client_event \<Rightarrow> chat_client \<Rightarrow> bool" where
  "closing_enabled e c =
     (client_enabled e c \<and> e \<in> {Client_run_posted, Client_read_failed, Client_write_done, Client_write_failed})"

definition closing :: "chat_client \<Rightarrow> bool" where
  "closing c \<longleftrightarrow> client_inv c \<and> cl_timers c = 0 \<and> (cl_open c \<longrightarrow> Post_close \<in> set (cl_posted c))"

text \<open>The number of events that are left at most.\<close>

fun task_events :: "client_task \<Rightarrow> nat" where
  "task_events (Post_write msg) = 4"
| "task_events Post_close = 1"

definition closing_left :: "chat_client \<Rightarrow> nat" where
  "closing_left c =
     sum_list (map task_events (cl_posted c)) + 3 * length (tl (cl_deque c)) + 2 * length (cl_writing c) +
     (if cl_reading c then 2 else 0)"

lemma closing_step:
  assumes inv: "closing c" and en: "closing_enabled e c"
  shows "\<exists>c'. client_handle env e c = Done c' \<and> closing c' \<and> closing_left c' < closing_left c"
proof -
  have "client_settled (client_handle env e c)"
    using client_handle_settled [of c e env] inv en by (auto simp: closing_def)
  then obtain c' where c': "client_handle env e c = Done c'" "client_inv c'" by (auto simp: client_settled_def)
  from en consider "e = Client_run_posted" | "e = Client_read_failed" | "e = Client_write_done" | "e = Client_write_failed"
    by auto
  then have "cl_timers c' = 0 \<and> (cl_open c' \<longrightarrow> Post_close \<in> set (cl_posted c')) \<and> closing_left c' < closing_left c"
  proof cases
    case 1
    then show ?thesis
      using inv en c'(1)
      by (cases "cl_posted c"; cases "hd (cl_posted c)"; cases "cl_deque c")
        (auto simp: closing_def closing_left_def client_post_write_def client_do_write_byte_def Let_def)
  next
    case 2
    then show ?thesis
      using inv en c'(1) by (auto simp: closing_def closing_left_def client_read_failed_def client_close_def)
  next
    case 3
    then show ?thesis
      using inv en c'(1)
      by (cases "cl_deque c"; cases "tl (cl_deque c)")
        (auto simp: closing_def closing_left_def client_write_done_def client_do_write_byte_def client_inv_def Let_def)
  next
    case 4
    then show ?thesis
      using inv en c'(1) by (cases "cl_writing c")
        (auto simp: closing_def closing_left_def client_write_failed_def client_close_def)
  qed
  then show ?thesis using c' by (auto simp: closing_def)
qed

interpretation closing: terminating_event_system closing_enabled "client_handle env" closing closing_left for env
proof unfold_locales
  fix c e c'
  assume "closing c" "closing_enabled e c" "client_handle env e c = Done c'"
  then show "closing c'" "closing_left c' < closing_left c" using closing_step [of c e env] by auto
next
  fix c e
  assume "closing c" "closing_enabled e c"
  then show "\<exists>c'. client_handle env e c = Done c'" using closing_step [of c e env] by blast
qed

lemma closing_at_rest:
  assumes "closing c" and "\<And>e. \<not> closing_enabled e c"
  shows "client_out_of_work c \<and> \<not> cl_open c"
proof -
  have "cl_posted c = []" "\<not> cl_reading c" "cl_writing c = []"
    using assms(2) [of Client_run_posted] assms(2) [of Client_read_failed] assms(2) [of Client_write_done] by auto
  then show ?thesis using assms(1) by (simp add: closing_def client_out_of_work_def)
qed

lemma closing_client_close: "client_inv c \<Longrightarrow> cl_timers c = 0 \<Longrightarrow> closing (client_close c)"
  by (simp add: closing_def client_close_def client_inv_def)

lemma closing_left_close: "closing_left (client_close c) = Suc (closing_left c)"
  by (simp add: closing_left_def client_close_def)

lemma run_weaken:
  assumes "run en h es w = Some r" and "\<And>e w. en e w \<Longrightarrow> en' e w"
  shows "run en' h es w = Some r"
  using assms(1) by (induction es arbitrary: w) (auto split: if_splits outcome.splits dest: assms(2))

lemma client_main_after_close:
  assumes "run (\<lambda>e c. client_enabled e c \<and> harmless env e) (client_handle env) es (new_chat_client a b) = Some (Done c)"
    and "run closing_enabled (client_handle env) fs (client_close c) = Some (Done c')" and "client_out_of_work c'"
  shows "client_main env None a b es input fs = Some (Done (Some c', 0))"
  using run_weaken [OF assms(1), of client_enabled] run_weaken [OF assms(2), of client_enabled] assms(3)
  by (simp add: client_main_def chat_main_eq)

section \<open>The program ends\<close>



end
