(* ===== verification/Text_Correct.thy ===== *)
theory Text_Correct
  imports Text_Output
begin

text \<open>What the program prints can be read back: numbers in their base, and the dump of a buffer.\<close>

section \<open>Reading digits\<close>

definition digit_value :: "byte \<Rightarrow> nat" where
  "digit_value c = (if unat c < 58 then unat c - 48 else unat c - 87)"

definition read_number :: "nat \<Rightarrow> byte list \<Rightarrow> nat" where
  "read_number b cs = foldl (\<lambda>n c. b * n + digit_value c) 0 cs"

lemma digit_value_char [simp]: "d < 36 \<Longrightarrow> digit_value (digit_char d) = d"
  by (simp add: digit_value_def digit_char_def unat_of_nat del: of_nat_add)

lemma read_number_snoc: "read_number b (cs @ [c]) = b * read_number b cs + digit_value c"
  by (simp add: read_number_def)

lemma read_number_digits: "2 \<le> b \<Longrightarrow> b \<le> 36 \<Longrightarrow> read_number b (digits b n) = n"
proof (induction b n rule: digits.induct)
  case (1 b n)
  show ?case
  proof (cases "n < b")
    case True
    then show ?thesis using "1.prems" by (subst digits.simps) (simp add: read_number_def)
  next
    case False
    then have "read_number b (digits b (n div b)) = n div b" using 1 by simp
    moreover have "n mod b < 36" using "1.prems" by (intro less_le_trans [OF mod_less_divisor]) simp_all
    ultimately show ?thesis
      using False "1.prems" by (subst digits.simps) (simp add: read_number_snoc)
  qed
qed

section \<open>Reading a dump\<close>

fun read_dump :: "byte list \<Rightarrow> byte list" where
  "read_dump (a # b # c # cs) = word_of_nat (read_number 16 [a, b]) # read_dump cs"
| "read_dump cs = []"

lemma printf_02x_byte:
  "printf_02x (unat (b :: byte)) = [digit_char (unat b div 16), digit_char (unat b mod 16), 32]"
proof -
  have "unat b < 256" using unat_bound [of b] by simp
  then have "unat b div 16 < 16" by (simp add: less_mult_imp_div_less)
  then have "digits 16 (unat b div 16) = [digit_char (unat b div 16)]" by (simp add: digits.simps)
  then show ?thesis
    by (cases "unat b < 16") (simp_all add: printf_02x_def digits.simps [of 16 "unat b"] digit_char_def)
qed

lemma read_dump_printf: "read_dump (concat (map (\<lambda>b. printf_02x (unat b)) bs)) = bs"
proof (induction bs)
  case (Cons b bs)
  have "unat b < 256" using unat_bound [of b] by simp
  then have "unat b div 16 < 16" by (simp add: less_mult_imp_div_less)
  then have "read_number 16 [digit_char (unat b div 16), digit_char (unat b mod 16)] = unat b"
    by (simp add: read_number_def)
  then show ?case using Cons by (simp add: printf_02x_byte)
qed simp

text \<open>The dump that \<open>print_buffer\<close> writes reads back: for a size within the buffer it has three
  characters for each byte and gives exactly the bytes asked for; for a larger size the function reads
  past the buffer.\<close>

theorem dump_reads_back:
  "print_buffer buffer n =
     (if n \<le> length buffer then Inr (concat (map (\<lambda>b. printf_02x (unat b)) (take n buffer))) else Inl OutOfBounds) \<and>
   (n \<le> length buffer \<longrightarrow>
     (\<exists>text. print_buffer buffer n = Inr text \<and> length text = 3 * n \<and> read_dump text = take n buffer))"
proof -
  have "length (concat (map (\<lambda>b. printf_02x (unat b)) bs)) = 3 * length bs" for bs :: "byte list"
    by (induction bs) (simp_all add: printf_02x_byte)
  then show ?thesis by (simp add: print_buffer_def read_at_def read_dump_printf)
qed

theorem dump_reads_back_witness:
  "\<exists>text. print_buffer [0x0F, 0xA0, 1] 2 = Inr text \<and> length text = 6 \<and> read_dump text = [0x0F, 0xA0]"
  using dump_reads_back [of "[0x0F, 0xA0, 1]" 2] by auto

end
