(* ===== verification/Error_Messages.thy ===== *)
theory Error_Messages
  imports Prelude
begin

text \<open>
  \<open>error_messages.hpp\<close>: the text for an error code of Boost.Asio. The numbers behind the names
  belong to Boost and to the platform: \<open>code\<close> stands for them.
\<close>

section \<open>Names of errors\<close>

datatype asio_error =
      E_address_family_not_supported | E_address_in_use | E_already_connected
  | E_already_started | E_broken_pipe | E_connection_aborted | E_connection_refused
  | E_connection_reset | E_bad_descriptor | E_fault | E_host_unreachable | E_in_progress
  | E_interrupted | E_invalid_argument | E_message_size | E_name_too_long | E_network_down
  | E_network_reset | E_network_unreachable | E_no_descriptors | E_no_buffer_space
  | E_no_memory | E_no_permission | E_no_protocol_option | E_not_connected | E_not_socket
  | E_operation_aborted | E_operation_not_supported | E_shut_down | E_timed_out | E_would_block

text \<open>An error code carries its category beside its value.\<close>

record 'c error_code =
  ec_value :: int
  ec_category :: 'c

section \<open>The switch\<close>

text \<open>The labels with the texts they return, in the order of the switch.\<close>

definition system_error_texts :: "(asio_error \<times> string) list" where
  "system_error_texts =
     [(E_address_family_not_supported, ''asio::error::address_family_not_supported ''),
      (E_address_in_use, ''asio::error::address_in_use ''),
      (E_already_connected, ''asio::error::already_connected ''),
      (E_already_started, ''asio::error::already_started ''),
      (E_broken_pipe, ''asio::error::broken_pipe ''),
      (E_connection_aborted, ''asio::error::connection_aborted ''),
      (E_connection_refused, ''asio::error::connection_refused ''),
      (E_connection_reset, ''asio::error::connection_reset ''),
      (E_bad_descriptor, ''asio::error::bad_descriptor ''),
      (E_fault, ''asio::error::fault ''),
      (E_host_unreachable, ''asio::error::host_unreachable ''),
      (E_in_progress, ''asio::error::in_progress ''),
      (E_interrupted, ''asio::error::interrupted ''),
      (E_invalid_argument, ''asio::error::invalid_argument ''),
      (E_message_size, ''asio::error::message_size ''),
      (E_name_too_long, ''asio::error::name_too_long ''),
      (E_network_down, ''asio::error::network_down ''),
      (E_network_reset, ''asio::error::network_reset ''),
      (E_network_unreachable, ''asio::error::network_unreachable ''),
      (E_no_descriptors, ''asio::error::no_descriptors ''),
      (E_no_buffer_space, ''asio::error::no_buffer_space ''),
      (E_no_memory, ''asio::error::no_memory ''),
      (E_no_permission, ''asio::error::no_permission ''),
      (E_no_protocol_option, ''asio::error::no_protocol_option ''),
      (E_not_connected, ''asio::error::not_connected ''),
      (E_not_socket, ''asio::error::not_socket ''),
      (E_operation_aborted, ''asio::error::operation_aborted ''),
      (E_operation_not_supported, ''asio::error::operation_not_supported ''),
      (E_shut_down, ''asio::error::shut_down ''),
      (E_timed_out, ''asio::error::timed_out ''),
      (E_would_block, ''asio::error::would_block '')]"

text \<open>\<open>check_system_error_code\<close> switches over the value; a value without a label gives the empty text.\<close>

definition check_system_error_code :: "(asio_error \<Rightarrow> int) \<Rightarrow> 'c error_code \<Rightarrow> string" where
  "check_system_error_code code ec =
     (case find (\<lambda>l. code (fst l) = ec_value ec) system_error_texts of
        Some l \<Rightarrow> snd l
      | None \<Rightarrow> [])"

section \<open>What the texts tell\<close>

lemma system_error_texts_distinct:
  "distinct (map fst system_error_texts)" "distinct (map snd system_error_texts)"
  "[] \<notin> snd ` set system_error_texts"
  by (simp_all add: system_error_texts_def)

lemma system_error_texts_all: "e \<in> fst ` set system_error_texts"
  by (cases e) (simp_all add: system_error_texts_def)

lemma check_system_error_code_label:
  assumes "inj code" and "(e, t) \<in> set system_error_texts" and "ec_value ec = code e"
  shows "check_system_error_code code ec = t"
proof -
  have "find (\<lambda>l. code (fst l) = code e) system_error_texts = Some (e, t)"
  proof (rule ccontr)
    assume no: "find (\<lambda>l. code (fst l) = code e) system_error_texts \<noteq> Some (e, t)"
    then obtain l where "find (\<lambda>l. code (fst l) = code e) system_error_texts = Some l"
      using assms(2) by (cases "find (\<lambda>l. code (fst l) = code e) system_error_texts") (auto simp: find_None_iff)
    then have "l \<in> set system_error_texts" "fst l = e"
      using assms(1) by (auto simp: find_Some_iff inj_eq)
    then have "l = (e, t)"
      using assms(2) system_error_texts_distinct(1) by (metis eq_key_imp_eq_value prod.collapse)
    then show False using no \<open>find _ _ = Some l\<close> by simp
  qed
  then show ?thesis using assms(3) by (simp add: check_system_error_code_def)
qed

lemma check_system_error_code_none:
  "ec_value ec \<notin> range code \<Longrightarrow> check_system_error_code code ec = []"
proof -
  assume "ec_value ec \<notin> range code"
  then have "find (\<lambda>l. code (fst l) = ec_value ec) system_error_texts = None"
    unfolding find_None_iff by (metis rangeI)
  then show ?thesis by (simp add: check_system_error_code_def)
qed

text \<open>As long as the labels of the switch are different numbers, which the language demands, the text
  tells the value of the code: each named error has its own text, everything else has the empty one, and
  the category of the code has no influence.\<close>

theorem error_text_tells_the_value:
  assumes "inj code"
  shows "(\<forall>e t. (e, t) \<in> set system_error_texts \<and> ec_value ec = code e \<longrightarrow> check_system_error_code code ec = t) \<and>
    (check_system_error_code code ec = check_system_error_code code ec' \<longleftrightarrow>
       ec_value ec = ec_value ec' \<or> ec_value ec \<notin> range code \<and> ec_value ec' \<notin> range code)"
proof (intro conjI allI impI)
  fix e t
  assume "(e, t) \<in> set system_error_texts \<and> ec_value ec = code e"
  then show "check_system_error_code code ec = t" using check_system_error_code_label [OF assms] by blast
next
  have label: "\<exists>e t. ec_value x = code e \<and> (e, t) \<in> set system_error_texts \<and> check_system_error_code code x = t"
    if v: "ec_value x \<in> range code" for x
  proof -
    obtain e where e: "ec_value x = code e" using v by blast
    moreover obtain t where t: "(e, t) \<in> set system_error_texts" using system_error_texts_all [of e] by force
    ultimately show ?thesis using check_system_error_code_label [OF assms t e] by blast
  qed
  have same: "e = e'" if "(e, t) \<in> set system_error_texts" "(e', t) \<in> set system_error_texts" for e e' t
    using that system_error_texts_distinct(2) by (metis distinct_map inj_onD fst_conv snd_conv)
  have texts: "(e, []) \<notin> set system_error_texts" for e
    using system_error_texts_distinct(3) by force
  show "check_system_error_code code ec = check_system_error_code code ec' \<longleftrightarrow>
      ec_value ec = ec_value ec' \<or> ec_value ec \<notin> range code \<and> ec_value ec' \<notin> range code"
  proof (cases "ec_value ec \<in> range code"; cases "ec_value ec' \<in> range code")
    assume "ec_value ec \<in> range code" "ec_value ec' \<in> range code"
    from label [OF this(1)] label [OF this(2)] obtain e t e' t' where l:
      "ec_value ec = code e" "(e, t) \<in> set system_error_texts" "check_system_error_code code ec = t"
      "ec_value ec' = code e'" "(e', t') \<in> set system_error_texts" "check_system_error_code code ec' = t'"
      by blast
    have "t = t' \<longleftrightarrow> e = e'"
      using l(2,5) same system_error_texts_distinct(1) by (metis eq_key_imp_eq_value)
    then show ?thesis using l by (simp add: inj_eq [OF assms])
  next
    assume "ec_value ec \<in> range code" "ec_value ec' \<notin> range code"
    then show ?thesis using label [of ec] check_system_error_code_none [of ec' code] texts by force
  next
    assume "ec_value ec \<notin> range code" "ec_value ec' \<in> range code"
    then show ?thesis using label [of ec'] check_system_error_code_none [of ec code] texts by force
  next
    assume "ec_value ec \<notin> range code" "ec_value ec' \<notin> range code"
    then show ?thesis by (simp add: check_system_error_code_none)
  qed
qed

text \<open>The numbers these errors have on Linux.\<close>

primrec sample_errno :: "asio_error \<Rightarrow> int" where
  "sample_errno E_address_family_not_supported = 97"
| "sample_errno E_address_in_use = 98"
| "sample_errno E_already_connected = 106"
| "sample_errno E_already_started = 114"
| "sample_errno E_broken_pipe = 32"
| "sample_errno E_connection_aborted = 103"
| "sample_errno E_connection_refused = 111"
| "sample_errno E_connection_reset = 104"
| "sample_errno E_bad_descriptor = 9"
| "sample_errno E_fault = 14"
| "sample_errno E_host_unreachable = 113"
| "sample_errno E_in_progress = 115"
| "sample_errno E_interrupted = 4"
| "sample_errno E_invalid_argument = 22"
| "sample_errno E_message_size = 90"
| "sample_errno E_name_too_long = 36"
| "sample_errno E_network_down = 100"
| "sample_errno E_network_reset = 102"
| "sample_errno E_network_unreachable = 101"
| "sample_errno E_no_descriptors = 24"
| "sample_errno E_no_buffer_space = 105"
| "sample_errno E_no_memory = 12"
| "sample_errno E_no_permission = 1"
| "sample_errno E_no_protocol_option = 92"
| "sample_errno E_not_connected = 107"
| "sample_errno E_not_socket = 88"
| "sample_errno E_operation_aborted = 125"
| "sample_errno E_operation_not_supported = 95"
| "sample_errno E_shut_down = 108"
| "sample_errno E_timed_out = 110"
| "sample_errno E_would_block = 11"

lemma inj_sample_errno: "inj sample_errno"
proof -
  have "distinct (map sample_errno (map fst system_error_texts))" by (simp add: system_error_texts_def)
  moreover have "set (map fst system_error_texts) = UNIV" using system_error_texts_all by auto
  ultimately show ?thesis by (metis distinct_map)
qed

theorem error_text_tells_the_value_witness:
  "check_system_error_code sample_errno \<lparr>ec_value = 111, ec_category = True\<rparr> = ''asio::error::connection_refused '' \<and>
   check_system_error_code sample_errno \<lparr>ec_value = 1, ec_category = False\<rparr> = ''asio::error::no_permission ''"
proof (rule conjI)
  have label: "(E_connection_refused, ''asio::error::connection_refused '') \<in> set system_error_texts"
    "(E_no_permission, ''asio::error::no_permission '') \<in> set system_error_texts"
    by (simp_all add: system_error_texts_def)
  note found = conjunct1 [OF error_text_tells_the_value [OF inj_sample_errno], rule_format, OF conjI]
  show "check_system_error_code sample_errno \<lparr>ec_value = 111, ec_category = True\<rparr> = ''asio::error::connection_refused ''"
    by (rule found [OF label(1)]) simp
  show "check_system_error_code sample_errno \<lparr>ec_value = 1, ec_category = False\<rparr> = ''asio::error::no_permission ''"
    by (rule found [OF label(2)]) simp
qed

end
