(* ===== verification/Network_Open.thy ===== *)
theory Network_Open
  imports Network Server_Order
begin

text \<open>
  The open network: clients come and go, connections and writes fail, the owner of the server calls it,
  and the updates that the clients are given to send reach the members of the room. What a client is given,
  what is on the way to the server, what the server has posted and what is on the way to a client
  are queues, one behind the other.
\<close>

section \<open>The open network\<close>

text \<open>
  The handlers and what moves the bytes are those of the closed network. Everything the server and the
  clients can meet is allowed, but for two things. A frame arrives only when it is at the front of what the
  other end has sent. A posted write of the server begins when no other write on its socket is under
  way or when all that was written has arrived: otherwise the bytes of two writes may mix, and no frame
  arrives whole any more. What is given to
  \<open>write_byte\<close> of a client is a message as its constructors build it, of 65536 bytes.
\<close>

fun open_enabled :: "net_event \<Rightarrow> network \<Rightarrow> bool" where
  "open_enabled (Connect ip a b) N = server_enabled (Accept_ok (Some ip)) (srv N)"
| "open_enabled (At_server e) N =
     (server_enabled e (srv N) \<and>
      (case e of
         Accept_ok remote \<Rightarrow> False
       | Run_posted p \<Rightarrow> writing (heap (srv N) p) = [] \<or> to_client N p = []
       | Frame_received p l bs \<Rightarrow> to_server N p \<noteq> [] \<and> bs = hd (to_server N p)
       | _ \<Rightarrow> True))"
| "open_enabled (At_client p e) N =
     (p < next_ptr (srv N) \<and> client_enabled e (peers N p) \<and>
      (case e of
         Client_frame bs \<Rightarrow> to_client N p \<noteq> [] \<and> bs = hd (to_client N p)
       | Client_submit msg \<Rightarrow> length msg = 65536
       | _ \<Rightarrow> True))"

text \<open>The messages a client has accepted and not begun to write.\<close>

fun task_frames :: "client_task \<Rightarrow> byte list list" where
  "task_frames (Post_write msg) = [msg]"
| "task_frames Post_close = []"

definition client_pending :: "chat_client \<Rightarrow> byte list list" where
  "client_pending c = tl (cl_deque c) @ concat (map task_frames (cl_posted c))"

definition net_ok :: "network \<Rightarrow> bool" where
  "net_ok N \<longleftrightarrow> server_inv (srv N) \<and>
     (\<forall>p \<ge> next_ptr (srv N). to_client N p = [] \<and> to_server N p = [] \<and> client_pending (peers N p) = [])"

lemma client_pending_new [simp]: "client_pending (new_chat_client a b) = []"
  by (simp add: client_pending_def new_chat_client_def)

lemma hd_tl_append: "xs \<noteq> [] \<Longrightarrow> hd xs # tl xs @ ys = xs @ ys"
  by (cases xs) simp_all

lemma map_outcome_eq_Done: "map_outcome f r = Done x \<longleftrightarrow> (\<exists>y. r = Done y \<and> x = f y)"
  by (cases r) auto

text \<open>No address is used twice.\<close>

lemma join_next_ptr: "join env p w = Done w' \<Longrightarrow> next_ptr w' = next_ptr w"
  by (cases rule: join_Done_cases) (auto simp: joined_simps)

lemma handshake_frame_next_ptr:
  assumes "handshake_frame env p bs w = Done w'"
  shows "next_ptr w' = next_ptr w"
  using assms
proof (cases rule: handshake_frame_cases)
  case (creds msg)
  then obtain r w3 m where "join env p (do_read_byte p (if r then disconnect p w else w)) = Done w3" "w' = deliver_byte p m w3"
    by (auto simp: check_handshake_credentials_ack_def Let_def outcome_simps)
  then show ?thesis using join_next_ptr by (fastforce simp: do_read_byte_def)
qed (auto simp: check_handshake_hello_ack_def do_read_handshake_def Let_def outcome_simps)

lemma server_call_next_ptr:
  assumes "room_ok w" and "do_server_call env call w = Done w'"
  shows "next_ptr w' = next_ptr w"
proof -
  have "next_ptr (fold disconnect ps w) = next_ptr w" for ps
    by (induction ps arbitrary: w) simp_all
  then have all: "next_ptr (disconnect_all_participants w) = next_ptr w"
    by (simp add: disconnect_all_participants_def)
  show ?thesis
    using assms all disconnect_participant_keeps [OF assms(1)]
    by (cases call) (auto simp: server_disconnect_participant_def quiet_def server_stop_def Let_def
        server_set_participant_deaf_def set_participant_deaf_def room_settings server_settings split: option.splits)
qed

lemma server_handle_next_ptr:
  assumes inv: "server_inv w" and en: "server_enabled ev w" and step: "server_handle env ev w = Done w'"
  shows "next_ptr w \<le> next_ptr w'"
proof (cases ev)
  case (Accept_ok remote)
  then show ?thesis
    using step by (auto simp: on_accept_def handshake_start_def do_start_handshake_def Let_def outcome_simps
        do_read_handshake_def do_accept_def split: option.splits)
next
  case (Run_posted p)
  then obtain b rest where "posted (heap w p) = b # rest" using en by (cases "posted (heap w p)") auto
  then show ?thesis using step run_posted_eq [OF inv] Run_posted by (auto split: if_splits)
next
  case (Frame_received p l bs)
  show ?thesis
  proof (cases l)
    case Handshake_read
    then show ?thesis using step Frame_received handshake_frame_next_ptr by (fastforce simp: read_over_def)
  next
    case Session_read
    then obtain m v where "session_dispatch env p m (read_over p l w) = Done v" "w' = do_read_byte p v"
      using step Frame_received by (auto simp: session_frame_def outcome_simps)
    then show ?thesis
      using session_dispatch_keeps [OF server_inv_room_ok [OF server_inv_read_over [OF inv]]]
      by (fastforce simp: quiet_def do_read_byte_def read_over_def)
  qed
next
  case (Read_failed p l)
  then have "quiet (read_over p l w) w'"
    using step leave_keeps [OF server_inv_room_ok [OF server_inv_read_over [OF inv]]] quiet_disconnect
    by (cases l) (auto simp: handshake_read_failed_def session_read_failed_def)
  then show ?thesis by (simp add: quiet_def read_over_def)
next
  case (Write_done p i)
  then show ?thesis
    using step write_completed_eq [OF server_inv_write_over [OF inv]] by (auto simp: write_over_def)
next
  case (Write_failed p i)
  then have "quiet (write_over p i w) w'"
    using step leave_keeps [OF server_inv_room_ok [OF server_inv_write_over [OF inv]]] by (auto simp: write_failed_def)
  then show ?thesis by (simp add: quiet_def write_over_def)
next
  case (Api call)
  then show ?thesis using server_call_next_ptr [OF server_inv_room_ok [OF inv]] step by simp
qed (use step in auto)

section \<open>What goes in and what comes out\<close>

text \<open>The updates that are given to the client behind \<open>p\<close>.\<close>

fun submitted :: "endian \<Rightarrow> ptr \<Rightarrow> net_event \<Rightarrow> network \<Rightarrow> network \<Rightarrow> byte list list" where
  "submitted e p (At_client q (Client_submit msg)) N N' = (if q = p \<and> is_update e msg then [msg] else [])"
| "submitted e p ev N N' = []"

text \<open>The frames that the server reads from the connection at \<open>p\<close>.\<close>

fun heard :: "ptr \<Rightarrow> net_event \<Rightarrow> network \<Rightarrow> network \<Rightarrow> byte list list" where
  "heard p (At_server (Frame_received q l bs)) N N' = (if q = p then [bs] else [])"
| "heard p ev N N' = []"

text \<open>The updates that the server reads while \<open>q\<close> is in the room, from whom they are and what they are.\<close>

fun relayed :: "endian \<Rightarrow> ptr \<Rightarrow> net_event \<Rightarrow> network \<Rightarrow> network \<Rightarrow> (ptr \<times> byte list) list" where
  "relayed e q (At_server (Frame_received p l bs)) N N' =
     (if l = Session_read \<and> is_update e bs \<and>
         q \<in> set (participants (room (srv N))) \<and> m_id (heap (srv N) q) \<noteq> m_id (heap (srv N) p)
      then [(p, bs)] else [])"
| "relayed e q ev N N' = []"

text \<open>The frames that the client behind \<open>q\<close> reads.\<close>

fun taken :: "ptr \<Rightarrow> net_event \<Rightarrow> network \<Rightarrow> network \<Rightarrow> byte list list" where
  "taken q (At_client p (Client_frame bs)) N N' = (if p = q then [bs] else [])"
| "taken q ev N N' = []"

section \<open>One event\<close>

lemma client_answers_no_update:
  "xr_head (byte_order env) (client_hello_ack_frame env sid) \<noteq> head_code PARTICIPANT_UPDATE_ACK"
  "xr_head (byte_order env) (client_credentials_frame env) \<noteq> head_code PARTICIPANT_UPDATE_ACK"
  by (simp_all add: client_hello_ack_frame_def client_credentials_frame_read(1) [OF refl])

lemma client_handle_queue:
  assumes en: "client_enabled e c" and step: "client_handle env e c = Done c'"
  shows "\<exists>new. client_sends e c c' @ client_pending c' = client_pending c @ new \<and>
    filter (is_update (byte_order env)) new =
      (case e of Client_submit msg \<Rightarrow> filter (is_update (byte_order env)) [msg] | _ \<Rightarrow> [])"
proof (cases e)
  case Client_run_posted
  then show ?thesis
    using en step
    by (cases "cl_posted c"; cases "hd (cl_posted c)"; cases "cl_deque c")
      (auto simp: client_post_write_def client_do_write_byte_def client_sends_def client_pending_def Let_def)
next
  case (Client_frame bs)
  then show ?thesis
    using en step
    by (auto simp: client_frame_full client_dispatch_full outcome_simps Let_def client_sends_def
        client_pending_def client_do_read_byte_def write_byte_def begin_participant_update_def
        client_answers_no_update simp del: head_code.simps split: if_splits)
next
  case Client_write_done
  then show ?thesis
    using en step
    by (cases "cl_deque c"; cases "tl (cl_deque c)")
      (auto simp: client_write_done_def client_do_write_byte_def client_sends_def client_pending_def Let_def)
next
  case Client_timer
  then show ?thesis using step by (simp add: client_timer_overreads)
qed (use step in \<open>auto simp: client_connected_def client_do_read_byte_def client_connect_failed_def client_close_def
    client_read_failed_def client_write_failed_def write_byte_def client_sends_def client_pending_def\<close>)

text \<open>The queue from the handlers of the server to the reads of the client behind \<open>q\<close>.\<close>

lemma down_queue:
  assumes ok: "net_ok N" and en: "open_enabled ev N" and step: "net_handle env cenv ev N = Done N'"
  shows "\<exists>new. taken q ev N N' @ to_client N' q @ posted (heap (srv N') q) =
      (to_client N q @ posted (heap (srv N) q)) @ new \<and>
    filter (is_update (byte_order env)) new = map snd (relayed (byte_order env) q ev N N')"
proof (cases ev)
  case (Connect ip a b)
  let ?ev = "Accept_ok (Some ip)"
  have inv: "server_inv (srv N)" and acc: "server_enabled ?ev (srv N)" using ok en Connect by (simp_all add: net_ok_def)
  obtain w where w: "server_handle env ?ev (srv N) = Done w" and N': "srv N' = w"
      "to_client N' q = (if q = next_ptr (srv N) then [] else to_client N q)"
    using step Connect by (auto simp: map_outcome_eq_Done)
  have "sent_to q ?ev (srv N) w = []"
    by (rule plain_event_sends_nothing [OF inv w adds_server_handle [OF inv acc w]]) simp_all
  then show ?thesis
    using posted_is_a_queue [OF inv acc w, of q] ok Connect by (auto simp: N' update_for_def net_ok_def)
next
  case (At_server e)
  have inv: "server_inv (srv N)" and en': "server_enabled e (srv N)" using ok en At_server by (simp_all add: net_ok_def)
  obtain w where w: "server_handle env e (srv N) = Done w" and N': "srv N' = w"
      "to_client N' q = to_client N q @ sent_to q e (srv N) w"
    using step At_server by (auto simp: map_outcome_eq_Done Let_def sent_to_def)
  have "map snd (relayed (byte_order env) q ev N N') = update_for (byte_order env) q e (srv N) w"
    using At_server by (cases e) (auto simp: update_for_def split: read_loop.split)
  then show ?thesis
    using posted_is_a_queue [OF inv en' w, of q] At_server by (auto simp: N')
next
  case (At_client p e)
  then obtain c where "srv N' = srv N" "to_client N' = (to_client N)(p := client_takes e (to_client N p))"
    using step by (auto simp: map_outcome_eq_Done)
  then show ?thesis
    using At_client en by (cases e) (auto simp: client_takes_def hd_tl_append)
qed

text \<open>The queue from what the client behind \<open>p\<close> is given to the reads of the server.\<close>

lemma up_queue:
  assumes ok: "net_ok N" and e: "byte_order (cenv p) = byte_order env"
    and en: "open_enabled ev N" and step: "net_handle env cenv ev N = Done N'"
  shows "\<exists>new. heard p ev N N' @ to_server N' p @ client_pending (peers N' p) =
      (to_server N p @ client_pending (peers N p)) @ new \<and>
    filter (is_update (byte_order env)) new = submitted (byte_order env) p ev N N'"
proof (cases ev)
  case (Connect ip a b)
  then have "to_server N' p = (if p = next_ptr (srv N) then [] else to_server N p)"
      "client_pending (peers N' p) = (if p = next_ptr (srv N) then [] else client_pending (peers N p))"
    using step by (auto simp: map_outcome_eq_Done)
  then show ?thesis using ok Connect by (auto simp: net_ok_def)
next
  case (At_server ev')
  then have "peers N' = peers N" "to_server N' = (to_server N)(event_ptr ev' := server_takes ev' (to_server N (event_ptr ev')))"
    using step by (auto simp: map_outcome_eq_Done Let_def)
  then show ?thesis
    using At_server en by (cases ev') (auto simp: server_takes_def hd_tl_append)
next
  case (At_client q ev')
  then obtain c where c: "client_handle (cenv q) ev' (peers N q) = Done c" and N': "peers N' = (peers N)(q := c)"
      "to_server N' = (to_server N)(q := to_server N q @ client_sends ev' (peers N q) c)"
    using step by (auto simp: map_outcome_eq_Done)
  have "client_enabled ev' (peers N q)" using en At_client by simp
  note queue = client_handle_queue [OF this c]
  show ?thesis
  proof (cases "q = p")
    case True
    obtain new where new: "client_sends ev' (peers N p) c @ client_pending c = client_pending (peers N p) @ new"
        "filter (is_update (byte_order env)) new =
          (case ev' of Client_submit msg \<Rightarrow> filter (is_update (byte_order env)) [msg] | _ \<Rightarrow> [])"
      using queue unfolding True e by blast
    then show ?thesis
      using True At_client N' by (intro exI [of _ new]) (cases ev'; simp)
  next
    case False
    then show ?thesis using At_client N' by (cases ev') auto
  qed
qed

lemma net_ok_handle:
  assumes ok: "net_ok N" and en: "open_enabled ev N" and step: "net_handle env cenv ev N = Done N'"
  shows "net_ok N'"
proof (cases ev)
  case (Connect ip a b)
  let ?ev = "Accept_ok (Some ip)"
  have inv: "server_inv (srv N)" and acc: "server_enabled ?ev (srv N)" using ok en Connect by (simp_all add: net_ok_def)
  obtain w where w: "server_handle env ?ev (srv N) = Done w" and N': "srv N' = w"
      "to_client N' = (to_client N)(next_ptr (srv N) := [])" "to_server N' = (to_server N)(next_ptr (srv N) := [])"
      "peers N' = (peers N)(next_ptr (srv N) := new_chat_client a b)"
    using step Connect by (auto simp: map_outcome_eq_Done)
  show ?thesis
    using ok server_handle_inv [OF inv acc w] server_handle_next_ptr [OF inv acc w]
    by (auto simp: net_ok_def N')
next
  case (At_server e)
  have inv: "server_inv (srv N)" and en': "server_enabled e (srv N)" using ok en At_server by (simp_all add: net_ok_def)
  obtain w where w: "server_handle env e (srv N) = Done w" and N': "srv N' = w" "peers N' = peers N"
      "to_client N' = (to_client N)(event_ptr e := to_client N (event_ptr e) @ server_sends e (srv N) w)"
      "to_server N' = (to_server N)(event_ptr e := server_takes e (to_server N (event_ptr e)))"
    using step At_server by (auto simp: map_outcome_eq_Done Let_def)
  have inv': "server_inv w" and less: "next_ptr (srv N) \<le> next_ptr w"
    using server_handle_inv [OF inv en' w] server_handle_next_ptr [OF inv en' w] .
  have "server_sends e (srv N) w = []" if "next_ptr w \<le> event_ptr e"
    using server_inv_writing [OF inv', of "event_ptr e"] that by (cases "writing (heap w (event_ptr e))") (auto simp: server_sends_def)
  moreover have "server_takes e [] = []" by (cases e) (simp_all add: server_takes_def)
  ultimately show ?thesis
    using ok inv' less by (auto simp: net_ok_def N')
next
  case (At_client p e)
  then show ?thesis using ok en step by (auto simp: net_ok_def map_outcome_eq_Done)
qed

interpretation open_net: event_system open_enabled "net_handle env cenv" net_ok for env cenv
  by unfold_locales (rule net_ok_handle)

lemma net_ok_new: "net_ok (new_network raw n name)"
proof -
  have "server_inv (set_service_name name (server_set_max_participants n (new_nr_server raw)))"
    by (rule server_inv_frame [OF server_inv_new [of raw]]) (simp_all add: server_settings room_settings)
  then show ?thesis by (simp add: net_ok_def new_network_def)
qed

section \<open>The type of what is on the way\<close>

text \<open>What the server has sent and not yet been read is of its types of messages.\<close>

definition net_typed :: "endian \<Rightarrow> network \<Rightarrow> bool" where
  "net_typed e N \<longleftrightarrow> wire_typed e (srv N) \<and> (\<forall>q. \<forall>b \<in> set (to_client N q). server_frame e b)"

lemma net_typed_handle:
  assumes ok: "net_ok N" and typed: "net_typed (byte_order env) N" and en: "open_enabled ev N"
    and step: "net_handle env cenv ev N = Done N'"
  shows "net_typed (byte_order env) N'"
proof (cases ev)
  case (Connect ip a b)
  then show ?thesis
    using ok typed en step wire_typed_server_handle [of "srv N" env "Accept_ok (Some ip)"]
    by (auto simp: net_typed_def net_ok_def map_outcome_eq_Done split: if_splits)
next
  case (At_server e)
  obtain w where w: "server_handle env e (srv N) = Done w" and N': "srv N' = w"
      "to_client N' = (to_client N)(event_ptr e := to_client N (event_ptr e) @ server_sends e (srv N) w)"
    using step At_server by (auto simp: map_outcome_eq_Done Let_def)
  have wire: "wire_typed (byte_order env) w"
    using ok typed en At_server wire_typed_server_handle [OF _ _ _ w] by (simp add: net_typed_def net_ok_def)
  then have "\<forall>b \<in> set (server_sends e (srv N) w). server_frame (byte_order env) b"
    by (auto simp: server_sends_def wire_typed_def buffers_of_def dest: in_set_dropD)
  then show ?thesis using wire typed by (auto simp: net_typed_def N')
next
  case (At_client p e)
  then have "srv N' = srv N" "to_client N' = (to_client N)(p := client_takes e (to_client N p))"
    using step by (auto simp: map_outcome_eq_Done)
  moreover have "set (client_takes e bs) \<subseteq> set bs" for bs
    by (cases e; cases bs) (auto simp: client_takes_def)
  ultimately show ?thesis using typed by (auto simp: net_typed_def)
qed

interpretation typed_net: event_system open_enabled "net_handle env cenv" "\<lambda>N. net_ok N \<and> net_typed (byte_order env) N" for env cenv
  by unfold_locales (blast intro: net_ok_handle net_typed_handle)

lemma net_typed_new: "net_typed e (new_network raw n name)"
  using wire_typed_new [of e raw]
  by (simp add: net_typed_def new_network_def wire_typed_def server_settings room_settings)

end
