(* ===== verification/Network_Correct.thy ===== *)
theory Network_Correct
  imports Network Samples
begin

text \<open>
  The closed network of a server and clients: what the two ends of a connection say to each other is a
  conversation of five messages, in which one message at a time is on its way, and every event uses up
  a part of what is left of it.
\<close>

section \<open>The conversation\<close>

definition handshaking :: "handshake_session \<Rightarrow> bool" where
  "handshaking s \<longleftrightarrow> reading s = [Handshake_read] \<and> is_open s \<and> length (IP s) \<le> 512"

definition in_room :: "handshake_session \<Rightarrow> bool" where
  "in_room s \<longleftrightarrow> reading s = [Session_read] \<and> is_open s \<and> m_descriptor s = client_configuration"

definition idle :: "chat_client \<Rightarrow> bool" where
  "idle c \<longleftrightarrow> cl_posted c = [] \<and> cl_deque c = [] \<and> cl_writing c = []"

text \<open>The client has begun to write \<open>b\<close> and nothing since; the completion may have been handled or not.\<close>

definition wrote :: "byte list \<Rightarrow> chat_client \<Rightarrow> bool" where
  "wrote b c \<longleftrightarrow> cl_deque c = cl_writing c \<and> (cl_writing c = [] \<or> cl_writing c = [b])"

definition listening :: "u64 \<Rightarrow> chat_client \<Rightarrow> bool" where
  "listening sid c \<longleftrightarrow> cl_reading c \<and> cl_service_id c = sid"

text \<open>
  \<open>talk env cenv sid name s c tc ts\<close>: the session \<open>s\<close> and the client \<open>c\<close> are at one of the twelve
  places of the conversation, with \<open>tc\<close> and \<open>ts\<close> on the way to the client and to the server.
\<close>

inductive talk ::
  "asio_env \<Rightarrow> asio_env \<Rightarrow> u64 \<Rightarrow> cpp_string \<Rightarrow> handshake_session \<Rightarrow> chat_client \<Rightarrow>
   byte list list \<Rightarrow> byte list list \<Rightarrow> bool" for env cenv sid name where
  greeting: "posted s = [server_hello_frame env sid name] \<Longrightarrow> handshaking s \<Longrightarrow> m_descriptor s = [] \<Longrightarrow>
    idle c \<Longrightarrow> talk env cenv sid name s c [] []"
| greeted: "posted s = [] \<Longrightarrow> handshaking s \<Longrightarrow> m_descriptor s = [] \<Longrightarrow> idle c \<Longrightarrow>
    talk env cenv sid name s c [server_hello_frame env sid name] []"
| answering: "posted s = [] \<Longrightarrow> handshaking s \<Longrightarrow> m_descriptor s = [] \<Longrightarrow>
    cl_posted c = [Post_write (client_hello_ack_frame cenv sid)] \<Longrightarrow> cl_deque c = [] \<Longrightarrow> cl_writing c = [] \<Longrightarrow>
    listening sid c \<Longrightarrow> talk env cenv sid name s c [] []"
| answered: "posted s = [] \<Longrightarrow> handshaking s \<Longrightarrow> m_descriptor s = [] \<Longrightarrow>
    cl_posted c = [] \<Longrightarrow> wrote (client_hello_ack_frame cenv sid) c \<Longrightarrow> listening sid c \<Longrightarrow>
    talk env cenv sid name s c [] [client_hello_ack_frame cenv sid]"
| asking: "posted s = [credentials_request_frame env] \<Longrightarrow> handshaking s \<Longrightarrow> m_descriptor s = client_configuration \<Longrightarrow>
    cl_posted c = [] \<Longrightarrow> wrote (client_hello_ack_frame cenv sid) c \<Longrightarrow> listening sid c \<Longrightarrow>
    talk env cenv sid name s c [] []"
| asked: "posted s = [] \<Longrightarrow> handshaking s \<Longrightarrow> m_descriptor s = client_configuration \<Longrightarrow>
    cl_posted c = [] \<Longrightarrow> wrote (client_hello_ack_frame cenv sid) c \<Longrightarrow> listening sid c \<Longrightarrow>
    talk env cenv sid name s c [credentials_request_frame env] []"
| replying: "posted s = [] \<Longrightarrow> handshaking s \<Longrightarrow> m_descriptor s = client_configuration \<Longrightarrow>
    cl_posted c = [Post_write (client_credentials_frame cenv)] \<Longrightarrow> wrote (client_hello_ack_frame cenv sid) c \<Longrightarrow>
    listening sid c \<Longrightarrow> talk env cenv sid name s c [] []"
| waiting: "posted s = [] \<Longrightarrow> handshaking s \<Longrightarrow> m_descriptor s = client_configuration \<Longrightarrow>
    cl_posted c = [] \<Longrightarrow> cl_deque c = [client_hello_ack_frame cenv sid, client_credentials_frame cenv] \<Longrightarrow>
    cl_writing c = [client_hello_ack_frame cenv sid] \<Longrightarrow> listening sid c \<Longrightarrow> talk env cenv sid name s c [] []"
| replied: "posted s = [] \<Longrightarrow> handshaking s \<Longrightarrow> m_descriptor s = client_configuration \<Longrightarrow>
    cl_posted c = [] \<Longrightarrow> wrote (client_credentials_frame cenv) c \<Longrightarrow> listening sid c \<Longrightarrow>
    talk env cenv sid name s c [] [client_credentials_frame cenv]"
| welcoming: "posted s = [participant_join_frame env i] \<Longrightarrow> m_id s = i \<Longrightarrow> in_room s \<Longrightarrow>
    cl_posted c = [] \<Longrightarrow> wrote (client_credentials_frame cenv) c \<Longrightarrow> listening sid c \<Longrightarrow>
    talk env cenv sid name s c [] []"
| welcomed: "posted s = [] \<Longrightarrow> m_id s = i \<Longrightarrow> in_room s \<Longrightarrow>
    cl_posted c = [] \<Longrightarrow> wrote (client_credentials_frame cenv) c \<Longrightarrow> listening sid c \<Longrightarrow>
    talk env cenv sid name s c [participant_join_frame env i] []"
| over: "posted s = [] \<Longrightarrow> in_room s \<Longrightarrow>
    cl_posted c = [] \<Longrightarrow> wrote (client_credentials_frame cenv) c \<Longrightarrow> listening sid c \<Longrightarrow>
    cl_participant_id c = m_id s \<Longrightarrow> talk env cenv sid name s c [] []"

lemmas talk_defs = handshaking_def in_room_def idle_def wrote_def listening_def

text \<open>What of a session the conversation depends on.\<close>

lemma talk_session:
  assumes "talk env cenv sid name s c tc ts"
    and "posted s' = posted s" "reading s' = reading s" "is_open s' = is_open s" "IP s' = IP s"
      "m_descriptor s' = m_descriptor s" "m_id s' = m_id s"
  shows "talk env cenv sid name s' c tc ts"
  using assms(1)
  by (cases rule: talk.cases) (auto simp: assms(2-) handshaking_def in_room_def intro: talk.intros)

section \<open>What is left of a conversation\<close>

text \<open>
  The number of events a message still causes when it is posted: its own three, the start of its write,
  the completion of the write and its arrival, and those of the messages that answer it.
\<close>

definition to_come :: "endian \<Rightarrow> byte list \<Rightarrow> nat" where
  "to_come e bs =
     (if xr_head e bs = head_code HANDSHAKE_HELLO then 15
      else if xr_head e bs = head_code HANDSHAKE_HELLO_ACK then 12
      else if xr_head e bs = head_code HANDSHAKE_CREDENTIALS then 9
      else if xr_head e bs = head_code HANDSHAKE_CREDENTIALS_ACK then 6
      else 3)"

lemma to_come_simps:
  "to_come (byte_order env) (server_hello_frame env sid name) = 15"
  "to_come (byte_order env) (client_hello_ack_frame env sid) = 12"
  "to_come (byte_order env) (credentials_request_frame env) = 9"
  "to_come (byte_order env) (client_credentials_frame env) = 6"
  "to_come (byte_order env) (participant_join_frame env i) = 3"
  by (simp_all add: to_come_def server_hello_frame_def client_hello_ack_frame_def
      credentials_request_frame_def client_credentials_frame_read(1) [OF refl] participant_join_frame_def)

definition session_left :: "endian \<Rightarrow> handshake_session \<Rightarrow> nat" where
  "session_left e s = sum_list (map (to_come e) (posted s)) + length (writing s)"

fun task_left :: "endian \<Rightarrow> client_task \<Rightarrow> nat" where
  "task_left e (Post_write b) = to_come e b"
| "task_left e Post_close = 1"

definition client_left :: "endian \<Rightarrow> chat_client \<Rightarrow> nat" where
  "client_left e c =
     sum_list (map (task_left e) (cl_posted c)) + sum_list (map (\<lambda>b. to_come e b - 1) (tl (cl_deque c))) +
     length (cl_writing c) + (if cl_reading c then 0 else 1)"

definition channel_left :: "endian \<Rightarrow> byte list list \<Rightarrow> nat" where
  "channel_left e frames = sum_list (map (\<lambda>b. to_come e b - 2) frames)"

definition talk_left ::
  "endian \<Rightarrow> handshake_session \<Rightarrow> chat_client \<Rightarrow> byte list list \<Rightarrow> byte list list \<Rightarrow> nat" where
  "talk_left e s c tc ts = session_left e s + client_left e c + channel_left e tc + channel_left e ts"

lemmas left_defs = talk_left_def session_left_def client_left_def channel_left_def

section \<open>The events of one conversation\<close>

text \<open>The server starts to write what it has posted.\<close>

lemma talk_server_writes:
  assumes "talk env cenv sid name s c tc ts" and "posted s = b # rest"
  shows "talk env cenv sid name (s\<lparr>posted := rest, deque_write_buffer := [], writing := x\<rparr>) c (tc @ [b]) ts"
    and "talk_left (byte_order env) (s\<lparr>posted := rest, deque_write_buffer := [], writing := writing s @ [b]\<rparr>)
      c (tc @ [b]) ts < talk_left (byte_order env) s c tc ts"
  using assms(1)
  by (cases rule: talk.cases;
      use assms(2) in \<open>auto simp: handshaking_def in_room_def left_defs to_come_simps intro: talk.intros\<close>)+

text \<open>The client begins to read.\<close>

lemma talk_client_connected:
  assumes "talk env cenv sid name s c tc ts" and "\<not> cl_reading c"
  shows "talk env cenv sid name s (client_connected c) tc ts"
    and "talk_left e s (client_connected c) tc ts < talk_left e s c tc ts"
proof -
  show "talk env cenv sid name s (client_connected c) tc ts"
    using assms(1)
    by (cases rule: talk.cases)
      (use assms(2) in \<open>auto simp: client_connected_def client_do_read_byte_def idle_def listening_def intro: talk.intros\<close>)
  show "talk_left e s (client_connected c) tc ts < talk_left e s c tc ts"
    using assms(2) by (simp add: client_connected_def client_do_read_byte_def left_defs)
qed

text \<open>The client runs what it has posted.\<close>

lemma talk_client_writes:
  assumes "talk env cenv sid name s c tc ts" and e: "byte_order cenv = byte_order env" and "cl_posted c \<noteq> []"
  shows "\<exists>c'. client_handle cenv Client_run_posted c = Done c' \<and>
    talk env cenv sid name s c' tc (ts @ client_sends Client_run_posted c c') \<and>
    talk_left (byte_order env) s c' tc (ts @ client_sends Client_run_posted c c') <
      talk_left (byte_order env) s c tc ts"
  using assms(1)
proof (cases rule: talk.cases)
  case answering
  then show ?thesis
    by (intro exI [of _ "c\<lparr>cl_posted := [], cl_deque := [client_hello_ack_frame cenv sid],
        cl_writing := [client_hello_ack_frame cenv sid]\<rparr>"])
      (auto simp: client_post_write_def client_do_write_byte_def client_sends_def wrote_def listening_def
        left_defs to_come_simps(2) [of cenv, unfolded e] intro: talk.answered)
next
  case replying
  show ?thesis
  proof (cases "cl_writing c")
    case Nil
    with replying show ?thesis
      by (intro exI [of _ "c\<lparr>cl_posted := [], cl_deque := [client_credentials_frame cenv],
          cl_writing := [client_credentials_frame cenv]\<rparr>"])
        (auto simp: client_post_write_def client_do_write_byte_def client_sends_def wrote_def listening_def
          left_defs to_come_simps(4) [of cenv, unfolded e] intro: talk.replied)
  next
    case Cons
    with replying show ?thesis
      by (intro exI [of _ "c\<lparr>cl_posted := [],
          cl_deque := [client_hello_ack_frame cenv sid, client_credentials_frame cenv]\<rparr>"])
        (auto simp: client_post_write_def client_sends_def wrote_def listening_def
          left_defs to_come_simps(4) [of cenv, unfolded e] intro: talk.waiting)
  qed
qed (use assms in \<open>auto simp: idle_def\<close>)

text \<open>A write of the client completes.\<close>

lemma talk_client_write_done:
  assumes "talk env cenv sid name s c tc ts" and e: "byte_order cenv = byte_order env" and "cl_writing c \<noteq> []"
  shows "\<exists>c'. client_handle cenv Client_write_done c = Done c' \<and>
    talk env cenv sid name s c' tc (ts @ client_sends Client_write_done c c') \<and>
    talk_left (byte_order env) s c' tc (ts @ client_sends Client_write_done c c') <
      talk_left (byte_order env) s c tc ts"
proof -
  let ?q = "c\<lparr>cl_deque := [], cl_writing := []\<rparr>"
  have last: "client_handle cenv Client_write_done c = Done ?q"
    if "wrote b c" for b
    using that assms(3) by (auto simp: wrote_def client_write_done_def)
  have less: "talk_left (byte_order env) s ?q tc ts < talk_left (byte_order env) s c tc ts"
    using assms(3) by (simp add: left_defs)
  have none: "client_sends Client_write_done c ?q = []" by (simp add: client_sends_def)
  have q: "wrote b ?q" "listening i ?q = listening i c" for b i
    by (simp_all add: wrote_def listening_def)
  show ?thesis
    using assms(1)
  proof (cases rule: talk.cases)
    case waiting
    then show ?thesis
      by (intro exI [of _ "c\<lparr>cl_deque := [client_credentials_frame cenv],
          cl_writing := [client_credentials_frame cenv]\<rparr>"])
        (auto simp: client_write_done_def client_do_write_byte_def client_sends_def wrote_def listening_def
          left_defs to_come_simps(4) [of cenv, unfolded e] Let_def intro: talk.replied)
  qed (use assms(3) last less none q in
      \<open>auto simp: idle_def intro!: exI [of _ ?q] intro: talk.intros\<close>)
qed

text \<open>A frame arrives at the client.\<close>

lemma talk_client_hears:
  assumes "talk env cenv sid name s c tc ts" and e: "byte_order cenv = byte_order env"
    and name: "length name < 1024" and tc: "tc = b # rest"
  shows "\<exists>c'. client_handle cenv (Client_frame b) c = Done c' \<and> cl_writing c' = cl_writing c \<and>
    talk env cenv sid name s c' rest ts \<and>
    talk_left (byte_order env) s c' rest ts < talk_left (byte_order env) s c tc ts"
  using assms(1)
proof (cases rule: talk.cases)
  case greeted
  then show ?thesis
    using tc client_greeted [OF name e, of sid "c\<lparr>cl_reading := False\<rparr>"]
    by (auto simp: client_do_read_byte_def write_byte_def idle_def listening_def left_defs to_come_simps
        to_come_simps(2) [of cenv, unfolded e] intro: talk.answering)
next
  case asked
  then show ?thesis
    using tc client_asked [OF e, of "c\<lparr>cl_reading := False\<rparr>"]
    by (auto simp: client_do_read_byte_def write_byte_def wrote_def listening_def left_defs to_come_simps
        to_come_simps(4) [of cenv, unfolded e] intro!: talk.replying)
next
  case (welcomed i)
  then show ?thesis
    using tc client_welcomed [OF e, of i "c\<lparr>cl_reading := False\<rparr>"]
    by (auto simp: client_do_read_byte_def begin_participant_update_def wrote_def listening_def left_defs
        to_come_simps intro!: talk.over)
qed (use tc in auto)

text \<open>A frame arrives at the server, during the handshake.\<close>

lemma talk_server_hears:
  assumes "talk env cenv sid name s c tc ts" and "ts \<noteq> []"
  obtains (answer) "ts = [client_hello_ack_frame cenv sid]" "handshaking s" "posted s = []"
      "\<And>s'. posted s' = [credentials_request_frame env] \<Longrightarrow> handshaking s' \<Longrightarrow>
         m_descriptor s' = m_descriptor s @ client_configuration \<Longrightarrow> talk env cenv sid name s' c tc []"
    | (reply) "ts = [client_credentials_frame cenv]" "handshaking s" "posted s = []"
      "\<And>s' i. posted s' = [participant_join_frame env i] \<Longrightarrow> m_id s' = i \<Longrightarrow> reading s' = [Session_read] \<Longrightarrow>
         is_open s' \<Longrightarrow> m_descriptor s' = m_descriptor s \<Longrightarrow> talk env cenv sid name s' c tc []"
  using assms(1)
proof (cases rule: talk.cases)
  case answered
  then show thesis by (intro answer) (auto intro: talk.asking)
next
  case replied
  then show thesis by (intro reply) (auto simp: in_room_def intro: talk.welcoming)
qed (use assms(2) in auto)

text \<open>Every frame on the way has the size that a read asks for.\<close>

lemma length_server_frames:
  "length name < 1024 \<Longrightarrow> length (server_hello_frame env sid name) = 65536"
  "length (credentials_request_frame env) = 65536"
  "length (participant_join_frame env i) = 65536"
  by (simp_all add: server_hello_frame_def credentials_request_frame_def participant_join_frame_def
      length_frame handshake_hello_codec.enc_length handshake_credentials_codec.enc_length
      participant_join_codec.enc_length wf_handshake_hello_def server_hello_def wf_participant_join_def)

lemma talk_frames:
  assumes "talk env cenv sid name s c tc ts" and "length name < 1024"
  shows "b \<in> set (tc @ ts) \<Longrightarrow> length b = 65536"
  using assms(1) by (cases rule: talk.cases) (simp_all add: length_server_frames assms(2))

text \<open>A conversation in which nothing can happen any more is over.\<close>

lemma talk_over:
  assumes "talk env cenv sid name s c tc ts"
    and "posted s = []" "cl_posted c = []" "cl_writing c = []" "cl_reading c" "tc = []" "ts = []"
  shows "in_room s \<and> cl_participant_id c = m_id s \<and> cl_service_id c = sid"
  using assms(1) by (cases rule: talk.cases) (use assms(2-) in \<open>auto simp: listening_def\<close>)

section \<open>The invariant of the network\<close>

definition talks :: "asio_env \<Rightarrow> (ptr \<Rightarrow> asio_env) \<Rightarrow> network \<Rightarrow> ptr \<Rightarrow> bool" where
  "talks env cenv N p \<longleftrightarrow>
     talk env (cenv p) (srv_service_id (srv N)) (srv_service_name (srv N))
       (heap (srv N) p) (peers N p) (to_client N p) (to_server N p) \<and>
     (reading (heap (srv N) p) = [Session_read] \<longrightarrow> participant_exist (m_id (heap (srv N) p)) (srv N))"

definition left_at :: "endian \<Rightarrow> network \<Rightarrow> ptr \<Rightarrow> nat" where
  "left_at e N p = talk_left e (heap (srv N) p) (peers N p) (to_client N p) (to_server N p)"

text \<open>A connection that is still to come costs its accept, the start of the client's read and 15 events.\<close>

definition net_left :: "endian \<Rightarrow> network \<Rightarrow> nat" where
  "net_left e N =
     17 * (unat (max_participants (room (srv N))) - next_ptr (srv N)) + (\<Sum>p < next_ptr (srv N). left_at e N p)"

definition server_ready :: "asio_env \<Rightarrow> u16 \<Rightarrow> nr_server \<Rightarrow> bool" where
  "server_ready env n w \<longleftrightarrow>
     \<not> set_option_fails env True \<and> server_inv w \<and> accepting w \<and> length (srv_service_name w) < 1024 \<and>
     max_participants (room w) = n \<and> next_ptr w \<le> unat n"

definition net_inv :: "asio_env \<Rightarrow> (ptr \<Rightarrow> asio_env) \<Rightarrow> u16 \<Rightarrow> network \<Rightarrow> bool" where
  "net_inv env cenv n N \<longleftrightarrow>
     server_ready env n (srv N) \<and> (\<forall>p. byte_order (cenv p) = byte_order env) \<and>
     (\<forall>p < next_ptr (srv N). talks env cenv N p)"

text \<open>A state of the server with the same settings, that has forgotten nobody.\<close>

definition goes_on :: "nr_server \<Rightarrow> nr_server \<Rightarrow> bool" where
  "goes_on w w' \<longleftrightarrow>
     server_inv w' \<and> next_ptr w' = next_ptr w \<and> world.more w' = world.more w \<and>
     max_participants (room w') = max_participants (room w) \<and>
     (\<forall>i. participant_exist i w \<longrightarrow> participant_exist i w')"

lemma server_more:
  fixes w w' :: nr_server
  assumes "world.more w' = world.more w"
  shows "accepting w' = accepting w" "srv_service_id w' = srv_service_id w"
    "srv_service_name w' = srv_service_name w"
  using assms by (cases w; cases w'; simp)+

lemma server_ready_goes_on: "server_ready env n w \<Longrightarrow> goes_on w w' \<Longrightarrow> server_ready env n w'"
  using server_more [of w' w] by (simp add: server_ready_def goes_on_def)

text \<open>An event changes one conversation, and leaves less of it.\<close>

lemma net_step_at:
  assumes inv: "net_inv env cenv n N" and p: "p < next_ptr (srv N)" and on: "goes_on (srv N) (srv N')"
    and others: "\<And>q. q \<noteq> p \<Longrightarrow> heap (srv N') q = heap (srv N) q \<and> peers N' q = peers N q \<and>
      to_client N' q = to_client N q \<and> to_server N' q = to_server N q"
    and here: "talks env cenv N' p" and less: "left_at e N' p < left_at e N p"
  shows "net_inv env cenv n N' \<and> net_left e N' < net_left e N"
proof
  have "talks env cenv N' q" if "q < next_ptr (srv N)" for q
  proof (cases "q = p")
    case False
    then show ?thesis
      using inv that others [OF False] on server_more [of "srv N'" "srv N"]
      by (auto simp: net_inv_def talks_def goes_on_def)
  qed (use here in simp)
  then show "net_inv env cenv n N'"
    using inv on server_ready_goes_on by (auto simp: net_inv_def goes_on_def)
  have "left_at e N' q = left_at e N q" if "q \<noteq> p" for q
    using others [OF that] by (simp add: left_at_def)
  then have "(\<Sum>q \<in> {..<next_ptr (srv N)} - {p}. left_at e N' q) = (\<Sum>q \<in> {..<next_ptr (srv N)} - {p}. left_at e N q)"
    by (intro sum.cong) auto
  then have "(\<Sum>q < next_ptr (srv N). left_at e N' q) < (\<Sum>q < next_ptr (srv N). left_at e N q)"
    using p less by (simp add: sum.remove [of "{..<next_ptr (srv N)}" p])
  then show "net_left e N' < net_left e N"
    using on by (simp add: net_left_def goes_on_def)
qed

section \<open>The events of the server\<close>

lemma participant_exist_heap:
  assumes "room w' = room w" and "\<And>q. m_id (heap w' q) = m_id (heap w q)"
  shows "participant_exist i w' = participant_exist i w"
proof -
  have "pkey w' = pkey w" using assms(2) by (simp add: pkey_def fun_eq_iff)
  then show ?thesis by (simp add: participant_exist_def get_participant_ptr_def assms(1))
qed

lemma goes_on_heap:
  assumes "server_inv w'" "room w' = room w" "next_ptr w' = next_ptr w" "world.more w' = world.more w"
    and "\<And>q. m_id (heap w' q) = m_id (heap w q)"
  shows "goes_on w w'"
  using participant_exist_heap [OF assms(2,5)] assms(1-4) by (simp add: goes_on_def)

lemma net_invD:
  assumes "net_inv env cenv n N"
  shows "server_inv (srv N)" "length (srv_service_name (srv N)) < 1024" "accepting (srv N)"
    "\<not> set_option_fails env True" "byte_order (cenv p) = byte_order env"
    "max_participants (room (srv N)) = n" "next_ptr (srv N) \<le> unat n"
    "p < next_ptr (srv N) \<Longrightarrow> talks env cenv N p"
  using assms by (auto simp: net_inv_def server_ready_def)

lemma talksD:
  assumes "talks env cenv N p"
  shows "talk env (cenv p) (srv_service_id (srv N)) (srv_service_name (srv N))
      (heap (srv N) p) (peers N p) (to_client N p) (to_server N p)"
    and "reading (heap (srv N) p) = [Session_read] \<Longrightarrow> participant_exist (m_id (heap (srv N) p)) (srv N)"
  using assms by (simp_all add: talks_def)

lemma talks_reading: "talks env cenv N p \<Longrightarrow> reading (heap (srv N) p) \<noteq> []"
  unfolding talks_def by (auto elim!: talk.cases simp: handshaking_def in_room_def)

definition net_step :: "asio_env \<Rightarrow> (ptr \<Rightarrow> asio_env) \<Rightarrow> u16 \<Rightarrow> net_event \<Rightarrow> network \<Rightarrow> bool" where
  "net_step env cenv n ev N \<longleftrightarrow>
     (\<exists>N'. net_handle env cenv ev N = Done N' \<and> net_inv env cenv n N' \<and>
       net_left (byte_order env) N' < net_left (byte_order env) N)"

lemma server_event_step:
  assumes inv: "net_inv env cenv n N" and p: "event_ptr e = p" "p < next_ptr (srv N)"
    and step: "server_handle env e (srv N) = Done w'" and on: "goes_on (srv N) w'"
    and others: "\<And>q. q \<noteq> p \<Longrightarrow> heap w' q = heap (srv N) q"
    and here: "talk env (cenv p) (srv_service_id (srv N)) (srv_service_name (srv N)) (heap w' p) (peers N p)
      (to_client N p @ server_sends e (srv N) w') (server_takes e (to_server N p))"
    and known: "reading (heap w' p) = [Session_read] \<Longrightarrow> participant_exist (m_id (heap w' p)) w'"
    and less: "talk_left (byte_order env) (heap w' p) (peers N p)
      (to_client N p @ server_sends e (srv N) w') (server_takes e (to_server N p)) < left_at (byte_order env) N p"
  shows "net_step env cenv n (At_server e) N"
proof -
  let ?N = "N\<lparr>srv := w', to_client := (to_client N)(p := to_client N p @ server_sends e (srv N) w'),
    to_server := (to_server N)(p := server_takes e (to_server N p))\<rparr>"
  have "net_inv env cenv n ?N \<and> net_left (byte_order env) ?N < net_left (byte_order env) N"
  proof (rule net_step_at [OF inv p(2)])
    show "talks env cenv ?N p"
      using here known on server_more [of w' "srv N"] by (simp add: talks_def goes_on_def)
  qed (use on others less in \<open>simp_all add: left_at_def\<close>)
  then show ?thesis using step p(1) by (simp add: net_step_def)
qed

lemma run_posted_step:
  assumes inv: "net_inv env cenv n N" and en: "server_enabled (Run_posted p) (srv N)"
  shows "net_step env cenv n (At_server (Run_posted p)) N"
proof -
  obtain b rest where b: "posted (heap (srv N) p) = b # rest"
    using en by (cases "posted (heap (srv N) p)") auto
  have p: "p < next_ptr (srv N)" using server_inv_posted [OF net_invD(1) [OF inv]] b by simp
  note talks = net_invD(8) [OF inv p]
  let ?s = "heap (srv N) p"
  let ?s' = "?s\<lparr>posted := rest, deque_write_buffer := [], writing := writing ?s @ [b]\<rparr>"
  have step: "server_handle env (Run_posted p) (srv N) = Done (upd_session p (\<lambda>_. ?s') (srv N))" (is "_ = Done ?w")
    using run_posted_eq [OF net_invD(1) [OF inv] b] talks_reading [OF talks] by (simp add: alive_def upd_session_def)
  have sends: "server_sends (Run_posted p) (srv N) ?w = [b]" "server_takes (Run_posted p) x = x" for x
    by (simp_all add: server_sends_def server_writes_before_def server_takes_def)
  have on: "goes_on (srv N) ?w"
    by (rule goes_on_heap [OF server_handle_inv [OF net_invD(1) [OF inv] en step]]) auto
  show ?thesis
  proof (rule server_event_step [OF inv _ p step on])
    show "reading (heap ?w p) = [Session_read] \<Longrightarrow> participant_exist (m_id (heap ?w p)) ?w"
      using talks on by (simp add: talks_def goes_on_def)
  qed (use talk_server_writes [OF talksD(1) [OF talks] b] in \<open>simp_all add: sends left_at_def\<close>)
qed

lemma write_done_step:
  assumes inv: "net_inv env cenv n N" and en: "server_enabled (Write_done p i) (srv N)"
  shows "net_step env cenv n (At_server (Write_done p i)) N"
proof -
  have i: "i < length (writing (heap (srv N) p))" using en by simp
  then have p: "p < next_ptr (srv N)"
    using server_inv_writing [OF net_invD(1) [OF inv], of p] by (cases "writing (heap (srv N) p)") auto
  note talks = net_invD(8) [OF inv p]
  let ?w = "write_over p i (srv N)"
  have step: "server_handle env (Write_done p i) (srv N) = Done ?w"
    using write_completed_eq [OF server_inv_write_over [OF net_invD(1) [OF inv]]] by simp
  have sends: "server_sends (Write_done p i) (srv N) ?w = []" "server_takes (Write_done p i) x = x" for x
    by (simp_all add: server_sends_def server_writes_before_def server_takes_def)
  have on: "goes_on (srv N) ?w"
    by (rule goes_on_heap [OF server_handle_inv [OF net_invD(1) [OF inv] en step]]) (auto simp: write_over_def)
  show ?thesis
  proof (rule server_event_step [OF inv _ p step on])
    show "reading (heap ?w p) = [Session_read] \<Longrightarrow> participant_exist (m_id (heap ?w p)) ?w"
      using talks on by (simp add: talks_def goes_on_def write_over_def)
    show "talk env (cenv p) (srv_service_id (srv N)) (srv_service_name (srv N)) (heap ?w p) (peers N p)
      (to_client N p @ server_sends (Write_done p i) (srv N) ?w) (server_takes (Write_done p i) (to_server N p))"
      unfolding sends append_Nil2
      by (rule talk_session [OF talksD(1) [OF talks]]) (simp_all add: write_over_def)
    show "talk_left (byte_order env) (heap ?w p) (peers N p) (to_client N p @ server_sends (Write_done p i) (srv N) ?w)
      (server_takes (Write_done p i) (to_server N p)) < left_at (byte_order env) N p"
      unfolding sends append_Nil2 using i by (simp add: left_at_def left_defs write_over_def)
  qed (simp_all add: write_over_def)
qed

text \<open>A connection in its handshake is not in the room, so the room has a place for it.\<close>

lemma room_has_place:
  assumes inv: "net_inv env cenv n N" and p: "p < next_ptr (srv N)" and out: "p \<notin> set (participants (room (srv N)))"
  shows "length (participants (room (srv N))) < unat (max_participants (room (srv N)))"
proof -
  let ?ps = "participants (room (srv N))"
  have "room_ok (srv N)" using server_inv_room_ok net_invD(1) [OF inv] .
  then have "set ?ps \<subseteq> {..<next_ptr (srv N)} - {p}" and "distinct ?ps"
    using out room_ok_less room_ok_distinct by auto
  then have "length ?ps \<le> card ({..<next_ptr (srv N)} - {p})"
    using distinct_card card_mono by (metis finite_Diff finite_lessThan)
  then show ?thesis using p net_invD(6,7) [OF inv] by simp
qed

lemma goes_on_joined:
  assumes "server_inv w'" and ok: "room_ok v" "p \<notin> set (participants (room v))"
    and w': "w' = deliver_byte p b (joined env p v)"
    and v: "room v = room w" "next_ptr v = next_ptr w" "world.more v = world.more w" "\<And>q. m_id (heap v q) = m_id (heap w q)"
  shows "goes_on w w'" and "participant_exist (m_id (heap w' p)) w'"
proof -
  have here: "participant_exist i w' = participant_exist i (joined env p v)" for i
    unfolding w' by (rule participant_exist_heap) simp_all
  have "participant_exist i (joined env p v)" if "participant_exist i v" for i
    using that by (auto simp: participant_exist_def get_participant_ptr_joined [OF ok])
  then have "participant_exist i w'" if "participant_exist i w" for i
    using that participant_exist_heap [OF v(1,4)] here by blast
  then show "goes_on w w'"
    using assms(1) v by (simp add: goes_on_def w' joined_simps)
  have "participant_exist (fst (mt_next (room_rng (room v)))) (joined env p v)"
    by (cases "get_participant_ptr (fst (mt_next (room_rng (room v)))) v")
      (auto simp: participant_exist_def get_participant_ptr_joined [OF ok])
  then show "participant_exist (m_id (heap w' p)) w'"
    unfolding here by (simp add: w' joined_simps)
qed

lemma frame_step:
  assumes inv: "net_inv env cenv n N" and en: "net_enabled (At_server (Frame_received p l bs)) N"
  shows "net_step env cenv n (At_server (Frame_received p l bs)) N"
proof -
  let ?w = "srv N" and ?e = "Frame_received p l bs"
  have en': "server_enabled ?e ?w" and l: "l \<in> set (reading (heap ?w p))"
    and some: "to_server N p \<noteq> []" and bs: "bs = hd (to_server N p)"
    using en by auto
  note ok = net_invD(1) [OF inv] and e = net_invD(5) [OF inv, of p]
  have p: "p < next_ptr ?w" using server_inv_reading(2) [OF ok l] .
  note talks = net_invD(8) [OF inv p]
  have sends: "writing (heap w' p) = writing (heap ?w p) \<Longrightarrow> server_sends ?e ?w w' = []" for w'
    by (simp add: server_sends_def server_writes_before_def)
  have takes: "server_takes ?e (to_server N p) = tl (to_server N p)" by (simp add: server_takes_def)
  show ?thesis
    using talksD(1) [OF talks] some
  proof (cases rule: talk_server_hears)
    case answer
    then have hs: "l = Handshake_read" using l by (auto simp: handshaking_def)
    define w' where "w' = do_read_handshake p (deliver_byte p (credentials_request_frame env)
      (upd_session p (\<lambda>s. s\<lparr>m_descriptor := m_descriptor s @ client_configuration\<rparr>)
        (read_over p Handshake_read ?w)))"
    have step: "server_handle env ?e ?w = Done w'"
      using handshake_frame_hello_ack [OF e] answer(1) bs hs by (simp add: w'_def)
    have on: "goes_on ?w w'"
      by (rule goes_on_heap [OF server_handle_inv [OF ok en' step]])
        (auto simp: w'_def do_read_handshake_def read_over_def)
    have here: "heap w' p = (heap ?w p)\<lparr>reading := [Handshake_read], m_b_ready := True,
        m_descriptor := m_descriptor (heap ?w p) @ client_configuration, posted := [credentials_request_frame env]\<rparr>"
      using answer(2,3) by (simp add: w'_def do_read_handshake_def read_over_def handshaking_def)
    have chans: "to_client N p @ server_sends ?e ?w w' = to_client N p" "server_takes ?e (to_server N p) = []"
      using answer(1) sends here takes by simp_all
    show ?thesis
    proof (rule server_event_step [OF inv _ p step on], goal_cases)
      case (2 q)
      then show ?case by (simp add: w'_def do_read_handshake_def read_over_def)
    next
      case 3
      show ?case unfolding chans by (rule answer(4)) (use answer(2) here in \<open>simp_all add: handshaking_def\<close>)
    next
      case 5
      show ?case
        unfolding chans using answer(1,3)
        by (simp add: here left_at_def left_defs to_come_simps to_come_simps(2) [of "cenv p", unfolded e])
    qed (simp_all add: here)
  next
    case reply
    then have hs: "l = Handshake_read" using l by (auto simp: handshaking_def)
    define v where "v = do_read_byte p (read_over p Handshake_read ?w)"
    define w' where "w' = deliver_byte p (participant_join_frame env (m_id (heap (joined env p v) p))) (joined env p v)"
    have out: "p \<notin> set (participants (room ?w))" using server_inv_reading(3) [OF ok l] hs by simp
    have v: "room v = room ?w" "next_ptr v = next_ptr ?w" "world.more v = world.more ?w"
      "\<And>q. m_id (heap v q) = m_id (heap ?w q)"
      by (auto simp: v_def do_read_byte_def read_over_def)
    have s: "heap v p = (heap ?w p)\<lparr>reading := [Session_read]\<rparr>"
      using reply(2) by (simp add: v_def do_read_byte_def read_over_def handshaking_def)
    have "join env p v = Done (joined env p v)"
      by (rule join_admits) (use room_has_place [OF inv p out] net_invD(4) [OF inv] reply(2) in
        \<open>simp_all add: v s handshaking_def\<close>)
    then have step: "server_handle env ?e ?w = Done w'"
      using handshake_frame_credentials [OF e, of p "read_over p Handshake_read ?w"] reply(1) bs hs
      by (simp add: w'_def v_def)
    have "room_ok v"
      using server_inv_room_ok server_inv_do_read_byte [OF server_inv_read_over [OF ok] read_over_reading [OF ok l]]
        p hs by (simp add: v_def)
    note on = goes_on_joined [OF server_handle_inv [OF ok en' step] this _ w'_def v]
    have desc: "m_descriptor (heap (joined env p v) p) = m_descriptor (heap ?w p)"
      using same_texts_joined [of v env p] s by (simp add: same_texts_def)
    have here: "posted (heap w' p) = [participant_join_frame env (m_id (heap w' p))]"
      "reading (heap w' p) = [Session_read]" "is_open (heap w' p)" "m_descriptor (heap w' p) = m_descriptor (heap ?w p)"
      "writing (heap w' p) = writing (heap ?w p)"
      using reply(2,3) desc by (simp_all add: w'_def joined_simps s handshaking_def)
    have chans: "to_client N p @ server_sends ?e ?w w' = to_client N p" "server_takes ?e (to_server N p) = []"
      using reply(1) sends here takes by simp_all
    show ?thesis
    proof (rule server_event_step [OF inv _ p step on(1)], goal_cases)
      case (3 q)
      then show ?case by (simp add: w'_def joined_simps v_def do_read_byte_def read_over_def)
    next
      case 4
      show ?case unfolding chans by (rule reply(4) [OF here(1) refl here(2,3,4)])
    next
      case 5
      show ?case using on(2) out v(1) by simp
    next
      case 6
      show ?case
        unfolding chans using reply(1,3) here(1,5)
        by (simp add: left_at_def left_defs to_come_simps to_come_simps(4) [of "cenv p", unfolded e])
    qed (use out v(1) in simp_all)
  qed
qed

section \<open>The events of the clients\<close>

lemma client_event_step:
  assumes inv: "net_inv env cenv n N" and p: "p < next_ptr (srv N)"
    and step: "client_handle (cenv p) e (peers N p) = Done c'"
    and here: "talk env (cenv p) (srv_service_id (srv N)) (srv_service_name (srv N)) (heap (srv N) p) c'
      (client_takes e (to_client N p)) (to_server N p @ client_sends e (peers N p) c')"
    and less: "talk_left (byte_order env) (heap (srv N) p) c' (client_takes e (to_client N p))
      (to_server N p @ client_sends e (peers N p) c') < left_at (byte_order env) N p"
  shows "net_step env cenv n (At_client p e) N"
proof -
  let ?N = "N\<lparr>peers := (peers N)(p := c'),
    to_server := (to_server N)(p := to_server N p @ client_sends e (peers N p) c'),
    to_client := (to_client N)(p := client_takes e (to_client N p))\<rparr>"
  have "net_inv env cenv n ?N \<and> net_left (byte_order env) ?N < net_left (byte_order env) N"
  proof (rule net_step_at [OF inv p])
    show "goes_on (srv N) (srv ?N)" using net_invD(1) [OF inv] by (simp add: goes_on_def)
    show "talks env cenv ?N p" using here talksD(2) [OF net_invD(8) [OF inv p]] by (simp add: talks_def)
  qed (use less in \<open>simp_all add: left_at_def\<close>)
  then show ?thesis using step by (simp add: net_step_def)
qed

lemma at_client_step:
  assumes inv: "net_inv env cenv n N" and en: "net_enabled (At_client p e) N"
  shows "net_step env cenv n (At_client p e) N"
proof -
  have p: "p < next_ptr (srv N)" using en by simp
  note talk = talksD(1) [OF net_invD(8) [OF inv p]] and order = net_invD(5) [OF inv, of p]
  show ?thesis
  proof (cases e)
    case Connected
    let ?c = "client_connected (peers N p)"
    have same: "client_sends e (peers N p) ?c = []" "client_takes e x = x" for x
      by (simp_all add: client_sends_def client_takes_def client_connected_def client_do_read_byte_def Connected)
    have "\<not> cl_reading (peers N p)" using en Connected by simp
    note still = talk_client_connected [OF talk this]
    have "client_handle (cenv p) e (peers N p) = Done ?c" using Connected by simp
    then show ?thesis
      by (rule client_event_step [OF inv p]) (simp_all add: same left_at_def still)
  next
    case Client_run_posted
    obtain c' where c': "client_handle (cenv p) e (peers N p) = Done c'"
      "talk env (cenv p) (srv_service_id (srv N)) (srv_service_name (srv N)) (heap (srv N) p) c'
        (to_client N p) (to_server N p @ client_sends e (peers N p) c')"
      "talk_left (byte_order env) (heap (srv N) p) c' (to_client N p)
        (to_server N p @ client_sends e (peers N p) c') < left_at (byte_order env) N p"
      using talk_client_writes [OF talk order] en unfolding left_at_def Client_run_posted by auto
    then show ?thesis
      by (intro client_event_step [OF inv p c'(1)]) (simp_all add: client_takes_def Client_run_posted)
  next
    case Client_write_done
    obtain c' where c': "client_handle (cenv p) e (peers N p) = Done c'"
      "talk env (cenv p) (srv_service_id (srv N)) (srv_service_name (srv N)) (heap (srv N) p) c'
        (to_client N p) (to_server N p @ client_sends e (peers N p) c')"
      "talk_left (byte_order env) (heap (srv N) p) c' (to_client N p)
        (to_server N p @ client_sends e (peers N p) c') < left_at (byte_order env) N p"
      using talk_client_write_done [OF talk order] en unfolding left_at_def Client_write_done by auto
    then show ?thesis
      by (intro client_event_step [OF inv p c'(1)]) (simp_all add: client_takes_def Client_write_done)
  next
    case (Client_frame b)
    obtain rest where tc: "to_client N p = b # rest"
      using en Client_frame by (cases "to_client N p") auto
    obtain c' where c': "client_handle (cenv p) e (peers N p) = Done c'" "cl_writing c' = cl_writing (peers N p)"
      "talk env (cenv p) (srv_service_id (srv N)) (srv_service_name (srv N)) (heap (srv N) p) c' rest (to_server N p)"
      "talk_left (byte_order env) (heap (srv N) p) c' rest (to_server N p) < left_at (byte_order env) N p"
      using talk_client_hears [OF talk order net_invD(2) [OF inv] tc] unfolding left_at_def Client_frame by blast
    then have "client_sends e (peers N p) c' = []" "client_takes e (to_client N p) = rest"
      by (simp_all add: client_sends_def client_takes_def Client_frame tc)
    with c'(3,4) show ?thesis by (intro client_event_step [OF inv p c'(1)]) simp_all
  qed (use en in simp_all)
qed

section \<open>A new connection\<close>

lemma connect_step:
  assumes inv: "net_inv env cenv n N" and en: "net_enabled (Connect ip a b) N"
  shows "net_step env cenv n (Connect ip a b) N"
proof -
  let ?w = "srv N" and ?p = "next_ptr (srv N)"
  note ok = net_invD(1) [OF inv] and name = net_invD(2) [OF inv]
  have acc: "server_enabled (Accept_ok (Some ip)) ?w" and ip: "length ip \<le> 512"
    and room: "?p < unat (max_participants (room ?w))"
    using en by simp_all
  obtain w' where step: "server_handle env (Accept_ok (Some ip)) ?w = Done w'"
    and w': "heap w' = (heap ?w)(?p := greeted env ip ?w)" "room w' = room ?w" "accepting w'"
      "next_ptr w' = Suc ?p" "srv_service_id w' = srv_service_id ?w" "srv_service_name w' = srv_service_name ?w"
    using on_accept_greets [of "?w\<lparr>accepting := False\<rparr>" env ip] name by (auto simp: greeted_def)
  let ?N = "N\<lparr>srv := w', peers := (peers N)(?p := new_chat_client a b),
    to_client := (to_client N)(?p := []), to_server := (to_server N)(?p := [])\<rparr>"
  have out: "?p \<notin> set (participants (room ?w))" using room_ok_less [OF server_inv_room_ok [OF ok]] by blast
  have same: "participant_exist i w' = participant_exist i ?w" for i
    unfolding participant_exist_def get_participant_ptr_def w'(2)
    by (intro arg_cong2 [where f = "(\<noteq>)"] oset_find_cong) (use out in \<open>auto simp: pkey_def w'(1)\<close>)
  have fresh: "talk env (cenv ?p) (srv_service_id ?w) (srv_service_name ?w) (greeted env ip ?w) (new_chat_client a b) [] []"
    by (rule talk.greeting) (use ip in
      \<open>simp_all add: greeted_def new_handshake_session_def handshaking_def idle_def new_chat_client_def\<close>)
  have "talks env cenv ?N q" if "q < next_ptr w'" for q
    using net_invD(8) [OF inv, of q] that fresh
    by (cases "q = ?p") (auto simp: talks_def w' same greeted_def)
  moreover have "server_ready env n w'"
    using server_handle_inv [OF ok acc step] name net_invD(4,6) [OF inv] room w' by (simp add: server_ready_def)
  ultimately have inv': "net_inv env cenv n ?N" using net_invD(5) [OF inv] by (simp add: net_inv_def)
  have "left_at (byte_order env) ?N q = left_at (byte_order env) N q" if "q < ?p" for q
    using that by (simp add: left_at_def w')
  moreover have "left_at (byte_order env) ?N ?p = 16"
    by (simp add: left_at_def w' left_defs greeted_def new_handshake_session_def new_chat_client_def to_come_simps)
  ultimately have "net_left (byte_order env) ?N < net_left (byte_order env) N"
    using room by (simp add: net_left_def w' sum.lessThan_Suc)
  with inv' show ?thesis using step by (simp add: net_step_def)
qed

section \<open>Every run ends\<close>

lemma net_event_step:
  assumes inv: "net_inv env cenv n N" and en: "net_enabled ev N"
  shows "net_step env cenv n ev N"
proof (cases ev)
  case (Connect ip a b)
  then show ?thesis using connect_step [OF inv] en by simp
next
  case (At_client p e)
  then show ?thesis using at_client_step [OF inv] en by simp
next
  case (At_server e)
  then show ?thesis
    using run_posted_step [OF inv] write_done_step [OF inv] frame_step [OF inv] en by (cases e) auto
qed

interpretation net: terminating_event_system
  net_enabled "net_handle env cenv" "net_inv env cenv n" "net_left (byte_order env)" for env cenv n
proof unfold_locales
  fix N ev N'
  assume "net_inv env cenv n N" "net_enabled ev N" "net_handle env cenv ev N = Done N'"
  then show "net_inv env cenv n N'" "net_left (byte_order env) N' < net_left (byte_order env) N"
    using net_event_step [of env cenv n N ev] by (auto simp: net_step_def)
next
  fix N ev
  assume "net_inv env cenv n N" "net_enabled ev N"
  then show "\<exists>N'. net_handle env cenv ev N = Done N'"
    using net_event_step [of env cenv n N ev] by (auto simp: net_step_def)
qed

section \<open>Everybody gets in\<close>

text \<open>A network in which nothing can happen any more: all places are taken, and every conversation is over.\<close>

definition said_all :: "network \<Rightarrow> ptr \<Rightarrow> bool" where
  "said_all N p \<longleftrightarrow> cl_reading (peers N p) \<and> to_server N p = [] \<and> to_client N p = [] \<and>
     posted (heap (srv N) p) = [] \<and> cl_posted (peers N p) = [] \<and> cl_writing (peers N p) = []"

lemma net_at_rest_said_all:
  assumes inv: "net_inv env cenv n N" and rest: "\<And>ev. \<not> net_enabled ev N" and p: "p < next_ptr (srv N)"
  shows "said_all N p"
proof -
  note talks = net_invD(8) [OF inv p]
  note size = talk_frames [OF talksD(1) [OF talks] net_invD(2) [OF inv]]
  have hears: "cl_reading (peers N p)" using rest [of "At_client p Connected"] p by simp
  obtain l where "l \<in> set (reading (heap (srv N) p))" using talks_reading [OF talks] by (cases "reading (heap (srv N) p)") auto
  then have "to_server N p = []"
    using rest [of "At_server (Frame_received p l (hd (to_server N p)))"] size [of "hd (to_server N p)"]
    by (cases "to_server N p") auto
  moreover have "to_client N p = []"
    using rest [of "At_client p (Client_frame (hd (to_client N p)))"] size [of "hd (to_client N p)"] p hears
    by (cases "to_client N p") auto
  moreover have "posted (heap (srv N) p) = []" "cl_posted (peers N p) = []" "cl_writing (peers N p) = []"
    using rest [of "At_server (Run_posted p)"] rest [of "At_client p Client_run_posted"]
      rest [of "At_client p Client_write_done"] p by simp_all
  ultimately show ?thesis using hears by (simp add: said_all_def)
qed

lemma net_at_rest:
  assumes inv: "net_inv env cenv n N" and rest: "\<And>ev. \<not> net_enabled ev N"
  shows "next_ptr (srv N) = unat n"
    and "p < unat n \<Longrightarrow> in_room (heap (srv N) p) \<and> cl_participant_id (peers N p) = m_id (heap (srv N) p) \<and>
      cl_service_id (peers N p) = srv_service_id (srv N) \<and>
      participant_exist (m_id (heap (srv N) p)) (srv N)"
proof -
  show all: "next_ptr (srv N) = unat n"
    using rest [of "Connect [] 0 0"] net_invD(3,6,7) [OF inv] by simp
  show "in_room (heap (srv N) p) \<and> cl_participant_id (peers N p) = m_id (heap (srv N) p) \<and>
      cl_service_id (peers N p) = srv_service_id (srv N) \<and>
      participant_exist (m_id (heap (srv N) p)) (srv N)" if "p < unat n"
  proof -
    have p: "p < next_ptr (srv N)" using that all by simp
    note talks = net_invD(8) [OF inv p]
    show ?thesis
      using talk_over [OF talksD(1) [OF talks]] net_at_rest_said_all [OF inv rest p] talksD(2) [OF talks]
      by (simp add: in_room_def said_all_def)
  qed
qed

lemma net_inv_new:
  assumes "\<not> set_option_fails env True" and "\<And>p. byte_order (cenv p) = byte_order env" and "length name < 1024"
  shows "net_inv env cenv n (new_network raw n name)"
proof -
  let ?w = "set_service_name name (server_set_max_participants n (new_nr_server raw))"
  have "server_inv ?w"
    by (rule server_inv_frame [OF server_inv_new [of raw]]) (simp_all add: server_settings room_settings)
  moreover have "accepting ?w" "srv_service_name ?w = name" "max_participants (room ?w) = n" "next_ptr ?w = 0"
    by (simp_all add: server_settings room_settings upd_room_def)
  ultimately show ?thesis
    using assms by (simp add: net_inv_def server_ready_def new_network_def)
qed



end
