(* ===== verification/Network_Order.thy ===== *)
theory Network_Order
  imports Network_Open Network_Correct "HOL-Library.Sublist"
begin

text \<open>
  What the open network delivers: the order in which updates reach the members, and that they can always
  be made to reach them.
\<close>

section \<open>Histories\<close>

lemma history_hom:
  assumes "g [] = []" and "\<And>xs ys. g (xs @ ys) = g xs @ g ys"
  shows "history (\<lambda>e w w'. g (f e w w')) h es w = g (history f h es w)"
  using assms by (induction es arbitrary: w) (auto split: outcome.split)

lemma history_subseq:
  assumes "\<And>e w w'. subseq (f e w w') (g e w w')"
  shows "subseq (history f h es w) (history g h es w)"
  using assms by (induction es arbitrary: w) (auto split: outcome.split intro: list_emb_append_mono)

definition from_sender :: "ptr \<Rightarrow> (ptr \<times> 'a) list \<Rightarrow> 'a list" where
  "from_sender p xs = map snd (filter (\<lambda>x. fst x = p) xs)"

lemma from_sender_relayed:
  "subseq (from_sender p (relayed e q ev N N')) (filter (is_update e) (heard p ev N N'))"
  by (cases "(e, q, ev, N, N')" rule: relayed.cases) (auto simp: from_sender_def)

text \<open>The history of a run of the network.\<close>

abbreviation net_history ::
  "(net_event \<Rightarrow> network \<Rightarrow> network \<Rightarrow> 'a list) \<Rightarrow> asio_env \<Rightarrow> (ptr \<Rightarrow> asio_env) \<Rightarrow> net_event list \<Rightarrow> network \<Rightarrow> 'a list" where
  "net_history f env cenv es N \<equiv> history f (net_handle env cenv) es N"

lemma up_history:
  assumes "net_ok N0" and e: "byte_order (cenv p) = byte_order env"
    and "run open_enabled (net_handle env cenv) es N0 = Some (Done N)"
  shows "filter (is_update (byte_order env)) (net_history (heard p) env cenv es N0 @ to_server N p @ client_pending (peers N p)) =
    filter (is_update (byte_order env)) (to_server N0 p @ client_pending (peers N0 p)) @
      net_history (submitted (byte_order env) p) env cenv es N0"
proof -
  obtain new where "net_history (heard p) env cenv es N0 @ to_server N p @ client_pending (peers N p) =
      (to_server N0 p @ client_pending (peers N0 p)) @ new"
      "filter (is_update (byte_order env)) new = net_history (submitted (byte_order env) p) env cenv es N0"
    using open_net.run_queue [of env cenv "heard p" "\<lambda>N. to_server N p @ client_pending (peers N p)"
        "is_update (byte_order env)" "submitted (byte_order env) p", OF up_queue [where p = p and env = env and cenv = cenv, OF _ e]] assms
    by blast
  then show ?thesis by (metis filter_append)
qed

lemma down_history:
  assumes "net_ok N0" and "run open_enabled (net_handle env cenv) es N0 = Some (Done N)"
  shows "filter (is_update (byte_order env)) (net_history (taken q) env cenv es N0 @ to_client N q @ posted (heap (srv N) q)) =
    filter (is_update (byte_order env)) (to_client N0 q @ posted (heap (srv N0) q)) @
      map snd (net_history (relayed (byte_order env) q) env cenv es N0)"
proof -
  have snd: "net_history (\<lambda>ev N N'. map snd (relayed (byte_order env) q ev N N')) env cenv es N0 =
      map snd (net_history (relayed (byte_order env) q) env cenv es N0)"
    by (rule history_hom) simp_all
  obtain new where "net_history (taken q) env cenv es N0 @ to_client N q @ posted (heap (srv N) q) =
      (to_client N0 q @ posted (heap (srv N0) q)) @ new"
      "filter (is_update (byte_order env)) new = map snd (net_history (relayed (byte_order env) q) env cenv es N0)"
    using open_net.run_queue [of env cenv "taken q" "\<lambda>N. to_client N q @ posted (heap (srv N) q)", OF down_queue [where env = env and cenv = cenv] assms]
    unfolding snd by blast
  then show ?thesis by (metis filter_append)
qed

lemma relayed_history:
  "subseq (from_sender p (net_history (relayed e q) env cenv es N0)) (filter (is_update e) (net_history (heard p) env cenv es N0))"
proof -
  have "net_history (\<lambda>ev N N'. from_sender p (relayed e q ev N N')) env cenv es N0 =
      from_sender p (net_history (relayed e q) env cenv es N0)"
    by (rule history_hom) (simp_all add: from_sender_def)
  moreover have "net_history (\<lambda>ev N N'. filter (is_update e) (heard p ev N N')) env cenv es N0 =
      filter (is_update e) (net_history (heard p) env cenv es N0)"
    by (rule history_hom) simp_all
  moreover have "subseq (net_history (\<lambda>ev N N'. from_sender p (relayed e q ev N N')) env cenv es N0)
      (net_history (\<lambda>ev N N'. filter (is_update e) (heard p ev N N')) env cenv es N0)"
    by (rule history_subseq) (rule from_sender_relayed)
  ultimately show ?thesis by simp
qed

section \<open>Updates reach the members\<close>


definition sample_network :: network where
  "sample_network =
     \<lparr>srv = sample_server 10, peers = (\<lambda>_. client_connected (new_chat_client 0 0)),
      to_client = (\<lambda>_. []), to_server = (\<lambda>_. [])\<rparr>"

definition sample_delivery :: "net_event list" where
  "sample_delivery =
     [At_client 0 (Client_submit sample_update_frame), At_client 0 Client_run_posted,
      At_server (Frame_received 0 Session_read sample_update_frame), At_server (Run_posted 1),
      At_client 1 (Client_frame sample_update_frame)]"

lemma sample_network_ok: "net_ok sample_network"
  by (simp add: net_ok_def sample_network_def client_connected_def client_do_read_byte_def client_pending_def
      new_chat_client_def)

lemma sample_printable: "printable Little sample_update_frame"
proof -
  have "0 \<in> set (pua_buffer (init_participant_update_ack (\<lambda>_. 0)))"
    by (simp add: init_participant_update_ack_def stale_def)
  then show ?thesis
    by (simp add: printable_def sample_update)
      (simp add: sample_update_frame_def drop_frame participant_update_ack_codec.dec_enc_append)
qed

lemma sample_delivery_runs:
  "\<exists>N. run open_enabled (net_handle sample_env (\<lambda>_. sample_env)) sample_delivery sample_network = Some (Done N) \<and>
    net_history (relayed Little 1) sample_env (\<lambda>_. sample_env) sample_delivery sample_network = [(0, sample_update_frame)]"
proof -
  let ?f = "Frame_received 0 Session_read sample_update_frame" and ?w = "sample_server 10"
  have en: "server_enabled ?f ?w" by (simp add: sample_update)
  obtain v where v: "server_handle sample_env ?f ?w = Done v" "posted (heap v 1) = [sample_update_frame]"
      "room v = room ?w" "writing (heap v 1) = []" "writing (heap v 0) = []"
    using update_passed_on [OF sample_inv en, of sample_env] sample_update by auto
  have inv: "server_inv v" by (rule server_handle_inv [OF sample_inv en v(1)])
  have "alive 1 v" using v(3) by (simp add: alive_def)
  then have w: "run_posted 1 v = Done (upd_session 1 (\<lambda>s. s\<lparr>posted := [], deque_write_buffer := [], writing := writing s @ [sample_update_frame]\<rparr>) v)"
    using run_posted_eq [OF inv v(2)] by auto
  show ?thesis
    using en v w sample_update sample_printable server_handle_next_ptr [OF sample_inv en v(1)]
    by (simp add: sample_delivery_def sample_network_def client_connected_def client_do_read_byte_def new_chat_client_def
        write_byte_def client_post_write_def client_do_write_byte_def client_sends_def server_sends_def server_writes_before_def
        server_takes_def client_takes_def client_frame_full client_dispatch_full del: server_handle.simps(4))
qed


section \<open>Delivery to one session\<close>

lemma client_frame_reads:
  "length bs = 65536 \<Longrightarrow> printable (byte_order env) bs \<Longrightarrow> \<exists>c'. client_frame env bs c = Done c' \<and> cl_reading c'"
  by (simp add: client_frame_full client_dispatch_full client_do_read_byte_def Let_def del: head_code.simps)

definition deliverable :: "endian \<Rightarrow> ptr \<Rightarrow> network \<Rightarrow> bool" where
  "deliverable e q N \<longleftrightarrow> q \<in> set (participants (room (srv N))) \<and> cl_reading (peers N q) \<and>
     (\<forall>b \<in> set (to_client N q @ posted (heap (srv N) q)). printable e b)"

definition undelivered :: "ptr \<Rightarrow> network \<Rightarrow> nat" where
  "undelivered q N = 2 * length (posted (heap (srv N) q)) + length (to_client N q)"

text \<open>What a delivery to \<open>q\<close> leaves alone.\<close>

definition only_to :: "ptr set \<Rightarrow> network \<Rightarrow> network \<Rightarrow> bool" where
  "only_to Q N N' \<longleftrightarrow> room (srv N') = room (srv N) \<and>
     (\<forall>r. m_id (heap (srv N') r) = m_id (heap (srv N) r)) \<and>
     (\<forall>r. r \<notin> Q \<longrightarrow> to_client N' r = to_client N r \<and> posted (heap (srv N') r) = posted (heap (srv N) r) \<and>
        peers N' r = peers N r)"

lemma only_to_refl [simp]: "only_to Q N N"
  by (simp add: only_to_def)

lemma only_to_trans: "only_to Q L M \<Longrightarrow> only_to R M N \<Longrightarrow> only_to (Q \<union> R) L N"
  by (simp add: only_to_def)

lemma deliverable_only_to: "deliverable e r N \<Longrightarrow> only_to Q N N' \<Longrightarrow> r \<notin> Q \<Longrightarrow> deliverable e r N'"
  by (simp add: deliverable_def only_to_def)

text \<open>As long as something is left for \<open>q\<close>, an event brings it nearer.\<close>

lemma delivery_step:
  assumes ok: "net_ok N" and typed: "net_typed (byte_order env) N" and e: "byte_order (cenv q) = byte_order env"
    and d: "deliverable (byte_order env) q N" and left: "undelivered q N \<noteq> 0"
  shows "\<exists>ev N'. open_enabled ev N \<and> net_handle env cenv ev N = Done N' \<and> only_to {q} N N' \<and>
    deliverable (byte_order env) q N' \<and> undelivered q N' < undelivered q N \<and> (\<forall>r. r \<noteq> q \<longrightarrow> taken r ev N N' = []) \<and>
    taken q ev N N' @ to_client N' q @ posted (heap (srv N') q) = to_client N q @ posted (heap (srv N) q)"
proof -
  let ?w = "srv N"
  have inv: "server_inv ?w" and q: "q \<in> set (participants (room ?w))" using ok d by (auto simp: deliverable_def net_ok_def)
  have less: "q < next_ptr ?w" using room_ok_less [OF server_inv_room_ok [OF inv] q] .
  show ?thesis
  proof (cases "to_client N q")
    case (Cons b rest)
    let ?ev = "At_client q (Client_frame b)"
    have "server_frame (byte_order env) b" using typed Cons unfolding net_typed_def by (metis list.set_intros(1))
    then have b: "length b = 65536" "printable (byte_order (cenv q)) b"
      using d e Cons server_frame_length by (auto simp: deliverable_def)
    obtain c where c: "client_frame (cenv q) b ((peers N q)\<lparr>cl_reading := False\<rparr>) = Done c" "cl_reading c"
      using client_frame_reads [OF b] by blast
    let ?N = "N\<lparr>peers := (peers N)(q := c), to_server := (to_server N)(q := to_server N q @ client_sends (Client_frame b) (peers N q) c),
      to_client := (to_client N)(q := rest)\<rparr>"
    have "open_enabled ?ev N" "net_handle env cenv ?ev N = Done ?N"
      using less d b c Cons by (simp_all add: deliverable_def client_takes_def)
    then show ?thesis
      using d c(2) Cons
      by (intro exI [of _ ?ev] exI [of _ ?N]) (auto simp: deliverable_def undelivered_def only_to_def)
  next
    case none: Nil
    then obtain b rest where b: "posted (heap ?w q) = b # rest"
      using left by (cases "posted (heap ?w q)") (auto simp: undelivered_def)
    let ?ev = "At_server (Run_posted q)"
    let ?v = "upd_session q (\<lambda>s. s\<lparr>posted := rest, deque_write_buffer := [], writing := writing s @ [b]\<rparr>) ?w"
    let ?N = "N\<lparr>srv := ?v, to_client := (to_client N)(q := [b])\<rparr>"
    have "server_handle env (Run_posted q) ?w = Done ?v"
      using run_posted_eq [OF inv b] q by (simp add: alive_def)
    then have "open_enabled ?ev N" "net_handle env cenv ?ev N = Done ?N"
      using b none by (simp_all add: server_sends_def server_writes_before_def server_takes_def)
    then show ?thesis
      using d b none
      by (intro exI [of _ ?ev] exI [of _ ?N]) (auto simp: deliverable_def undelivered_def only_to_def)
  qed
qed

text \<open>A run that delivers to the sessions of \<open>Q\<close> what is there for them, and nothing else to anybody.\<close>

definition delivers :: "asio_env \<Rightarrow> (ptr \<Rightarrow> asio_env) \<Rightarrow> ptr set \<Rightarrow> net_event list \<Rightarrow> network \<Rightarrow> network \<Rightarrow> bool" where
  "delivers env cenv Q es N N' \<longleftrightarrow>
     run open_enabled (net_handle env cenv) es N = Some (Done N') \<and> only_to Q N N' \<and>
     (\<forall>q. net_history (taken q) env cenv es N =
        (if q \<in> Q then to_client N q @ posted (heap (srv N) q) else []))"

lemma delivers_keeps:
  "delivers env cenv Q es N N' \<Longrightarrow> net_ok N \<Longrightarrow> net_typed (byte_order env) N \<Longrightarrow>
   net_ok N' \<and> net_typed (byte_order env) N'"
  unfolding delivers_def using typed_net.run_inv [where env = env and cenv = cenv] by blast

lemma deliver_to_one:
  assumes e: "byte_order (cenv q) = byte_order env"
  shows "net_ok N \<Longrightarrow> net_typed (byte_order env) N \<Longrightarrow> deliverable (byte_order env) q N \<Longrightarrow>
    \<exists>es N'. delivers env cenv {q} es N N'"
proof (induction "undelivered q N" arbitrary: N rule: less_induct)
  case less
  show ?case
  proof (cases "undelivered q N = 0")
    case True
    then show ?thesis
      by (intro exI [of _ "[]"] exI [of _ N]) (simp add: undelivered_def delivers_def)
  next
    case False
    obtain ev M where ev: "open_enabled ev N" "net_handle env cenv ev N = Done M" "only_to {q} N M"
        "deliverable (byte_order env) q M" "undelivered q M < undelivered q N" "\<forall>r. r \<noteq> q \<longrightarrow> taken r ev N M = []"
        "taken q ev N M @ to_client M q @ posted (heap (srv M) q) = to_client N q @ posted (heap (srv N) q)"
      using delivery_step [where cenv = cenv and q = q, OF less.prems(1,2) e less.prems(3) False] by blast
    have keeps: "net_ok M" "net_typed (byte_order env) M"
      using net_ok_handle [OF less.prems(1) ev(1,2)] net_typed_handle [OF less.prems(1,2) ev(1,2)] .
    obtain es N' where es: "delivers env cenv {q} es M N'"
      using less.hyps [OF ev(5) keeps ev(4)] by blast
    then have "delivers env cenv {q} (ev # es) N N'"
      using ev only_to_trans [OF ev(3), of "{q}" N'] by (auto simp: delivers_def)
    then show ?thesis by blast
  qed
qed

lemma history_append_Done:
  "run en h es w = Some (Done w') \<Longrightarrow> history f h (es @ fs) w = history f h es w @ history f h fs w'"
  by (induction es arbitrary: w) (auto split: if_splits outcome.splits)

lemma delivers_append:
  assumes "delivers env cenv Q es L M" and "delivers env cenv R fs M N" and "Q \<inter> R = {}"
  shows "delivers env cenv (Q \<union> R) (es @ fs) L N"
  using assms only_to_trans [of Q L M R N]
  by (auto simp: delivers_def history_append_Done run_append_Done) (auto simp: only_to_def)

lemma deliver_to_all_of:
  assumes e: "\<And>p. byte_order (cenv p) = byte_order env"
  shows "distinct qs \<Longrightarrow> net_ok N \<Longrightarrow> net_typed (byte_order env) N \<Longrightarrow>
    \<forall>q \<in> set qs. deliverable (byte_order env) q N \<Longrightarrow> \<exists>es N'. delivers env cenv (set qs) es N N'"
proof (induction qs arbitrary: N)
  case Nil
  then show ?case by (intro exI [of _ "[]"] exI [of _ N]) (simp add: delivers_def)
next
  case (Cons q qs)
  obtain es M where es: "delivers env cenv {q} es N M"
    using deliver_to_one [where cenv = cenv and q = q, OF e Cons.prems(2,3)] Cons.prems(4) by (meson list.set_intros(1))
  have "\<forall>r \<in> set qs. deliverable (byte_order env) r M"
    using Cons.prems(1,4) es deliverable_only_to [of "byte_order env" _ N "{q}" M] by (fastforce simp: delivers_def)
  then obtain fs N' where "delivers env cenv (set qs) fs M N'"
    using Cons.IH [of M] Cons.prems delivers_keeps [OF es] by auto
  then have "delivers env cenv ({q} \<union> set qs) (es @ fs) N N'"
    using delivers_append [OF es] Cons.prems(1) by simp
  then show ?case by auto
qed

section \<open>An update goes round\<close>

text \<open>The client behind \<open>p\<close> sends an update, and the server reads it.\<close>

lemma update_reaches_server:
  assumes ok: "net_ok N" and p: "p < next_ptr (srv N)"
    and quiet: "cl_posted (peers N p) = []" "cl_deque (peers N p) = []" "to_server N p = []"
    and read: "Session_read \<in> set (reading (heap (srv N) p))"
    and bs: "length bs = 65536" "is_update (byte_order env) bs"
  shows "\<exists>N'. run open_enabled (net_handle env cenv) [At_client p (Client_submit bs), At_client p Client_run_posted,
        At_server (Frame_received p Session_read bs)] N = Some (Done N') \<and>
    room (srv N') = room (srv N) \<and> to_client N' = to_client N \<and> (\<forall>q. cl_reading (peers N' q) = cl_reading (peers N q)) \<and>
    (\<forall>q. posted (heap (srv N') q) = posted (heap (srv N) q) @
      (if q \<in> set (participants (room (srv N))) \<and> m_id (heap (srv N) q) \<noteq> m_id (heap (srv N) p) then [bs] else []))"
proof -
  have inv: "server_inv (srv N)" using ok by (simp add: net_ok_def)
  have en: "server_enabled (Frame_received p Session_read bs) (srv N)" using read bs by simp
  obtain w where w: "server_handle env (Frame_received p Session_read bs) (srv N) = Done w" "room w = room (srv N)"
      "\<forall>q. posted (heap w q) = posted (heap (srv N) q) @
        (if q \<in> set (participants (room (srv N))) \<and> m_id (heap (srv N) q) \<noteq> m_id (heap (srv N) p) then [bs] else [])"
      "writing (heap w p) = writing (heap (srv N) p)"
    using update_passed_on [OF inv en bs(2)] by blast
  show ?thesis
    using p quiet read bs w
    by (simp add: write_byte_def client_post_write_def client_do_write_byte_def client_sends_def server_sends_def
        server_writes_before_def server_takes_def client_takes_def del: server_handle.simps(4))
qed

lemma update_goes_round:
  assumes ok: "net_ok N" "net_typed (byte_order env) N" and e: "\<And>p. byte_order (cenv p) = byte_order env"
    and p: "p < next_ptr (srv N)" "cl_deque (peers N p) = []" "Session_read \<in> set (reading (heap (srv N) p))"
    and quiet: "\<And>q. q < next_ptr (srv N) \<Longrightarrow> said_all N q"
    and bs: "length bs = 65536" "is_update (byte_order env) bs" "printable (byte_order env) bs"
  shows "\<exists>es N'. run open_enabled (net_handle env cenv) es N = Some (Done N') \<and>
    (\<forall>q. net_history (taken q) env cenv es N =
      (if q \<in> set (participants (room (srv N))) \<and> m_id (heap (srv N) q) \<noteq> m_id (heap (srv N) p) then [bs] else []))"
proof -
  let ?evs = "[At_client p (Client_submit bs), At_client p Client_run_posted, At_server (Frame_received p Session_read bs)]"
  let ?ps = "participants (room (srv N))"
  have room: "room_ok (srv N)" using ok(1) by (simp add: net_ok_def server_inv_room_ok)
  obtain M where M: "run open_enabled (net_handle env cenv) ?evs N = Some (Done M)"
      "room (srv M) = room (srv N)" "to_client M = to_client N" "\<forall>q. cl_reading (peers M q) = cl_reading (peers N q)"
      "\<forall>q. posted (heap (srv M) q) = posted (heap (srv N) q) @
        (if q \<in> set ?ps \<and> m_id (heap (srv N) q) \<noteq> m_id (heap (srv N) p) then [bs] else [])"
    using update_reaches_server [OF ok(1) p(1) _ p(2) _ p(3) bs(1,2)] quiet [OF p(1)] unfolding said_all_def by metis
  have all: "\<forall>q \<in> set ?ps. deliverable (byte_order env) q M"
    using quiet room_ok_less [OF room] M bs(3) by (auto simp: deliverable_def said_all_def)
  have "net_ok M \<and> net_typed (byte_order env) M" using typed_net.run_inv [where env = env and cenv = cenv, OF _ M(1)] ok by blast
  then obtain es N' where es: "delivers env cenv (set ?ps) es M N'"
    using deliver_to_all_of [where cenv = cenv, OF e room_ok_distinct [OF room] _ _ all] by blast
  have none: "net_history (taken q) env cenv ?evs N = []" for q by (simp split: outcome.split)
  have "net_history (taken q) env cenv (?evs @ es) N =
      (if q \<in> set ?ps \<and> m_id (heap (srv N) q) \<noteq> m_id (heap (srv N) p) then [bs] else [])" for q
    unfolding history_append_Done [OF M(1)] none
    using es quiet [of q] room_ok_less [OF room, of q] M(3,5) by (auto simp: delivers_def said_all_def)
  moreover have "run open_enabled (net_handle env cenv) (?evs @ es) N = Some (Done N')"
    unfolding run_append_Done [OF M(1)] using es by (simp add: delivers_def)
  ultimately show ?thesis by blast
qed

text \<open>What can happen in the closed network can happen in the open one.\<close>

lemma closed_is_open:
  assumes inv: "net_inv env cenv n N" and en: "net_enabled ev N"
  shows "open_enabled ev N"
proof (cases ev)
  case (At_server e)
  have "to_client N p = []" if "posted (heap (srv N) p) \<noteq> []" for p
  proof -
    have "p < next_ptr (srv N)" using server_inv_posted [OF net_invD(1) [OF inv] that] .
    from talksD(1) [OF net_invD(8) [OF inv this]] show ?thesis
      by (cases rule: talk.cases) (use that in auto)
  qed
  then show ?thesis using en At_server by (cases e) auto
next
  case (At_client p e)
  then show ?thesis using en by (cases e) auto
qed (use en in auto)

lemma closed_run_is_open:
  "net_inv env cenv n N \<Longrightarrow> run net_enabled (net_handle env cenv) es N = Some (Done N') \<Longrightarrow>
   run open_enabled (net_handle env cenv) es N = Some (Done N')"
proof (induction es arbitrary: N)
  case (Cons ev es)
  then obtain M where M: "net_enabled ev N" "net_handle env cenv ev N = Done M"
      "run net_enabled (net_handle env cenv) es M = Some (Done N')"
    by (auto split: if_splits outcome.splits)
  then show ?case
    using Cons.IH [OF net.handle_inv [OF Cons.prems(1) M(1,2)] M(3)] closed_is_open [OF Cons.prems(1) M(1)] by simp
qed simp

lemma talk_over_deque:
  assumes "talk env cenv sid name s c tc ts"
    and "tc = []" "reading s = [Session_read]" "cl_writing c = []" "posted s = []"
  shows "cl_deque c = []"
  using assms(1) by (cases rule: talk.cases) (use assms(2-) in \<open>auto simp: wrote_def handshaking_def\<close>)



end
