(* ===== verification/Unity_Protocol.thy ===== *)
theory Unity_Protocol
  imports XRMessage
begin

text \<open>
  \<open>unity_codes/XRNetworkProtocol.cs\<close>: the message heads and structures of the Unity client, as the .NET
  marshaller lays them out, and what that client uses of .NET. The file holds unresolved merge
  conflicts. Modelled is the second side of each: the other client files use members that only that
  side has (\<open>PARTICIPANT_JOIN\<close>, \<open>GetBytes\<close>, \<open>ConcatByteArrays\<close>), and their comments give its sizes.
\<close>

section \<open>What the client uses of .NET\<close>

text \<open>A string is a sequence of UTF-16 code units; a surrogate without its partner encodes as U+FFFD.\<close>

type_synonym cs_string = "u16 list"

definition utf8_point :: "nat \<Rightarrow> byte list" where
  "utf8_point n =
     map word_of_nat
       (if n < 0x80 then [n]
        else if n < 0x800 then [0xC0 + n div 64, 0x80 + n mod 64]
        else if n < 0x10000 then [0xE0 + n div 4096, 0x80 + n div 64 mod 64, 0x80 + n mod 64]
        else [0xF0 + n div 262144, 0x80 + n div 4096 mod 64, 0x80 + n div 64 mod 64, 0x80 + n mod 64])"

definition high_surrogate :: "u16 \<Rightarrow> bool" where
  "high_surrogate u \<longleftrightarrow> 0xD800 \<le> u \<and> u < 0xDC00"

definition low_surrogate :: "u16 \<Rightarrow> bool" where
  "low_surrogate u \<longleftrightarrow> 0xDC00 \<le> u \<and> u < 0xE000"

definition utf8_unit :: "u16 \<Rightarrow> byte list" where
  "utf8_unit u = utf8_point (if high_surrogate u \<or> low_surrogate u then 0xFFFD else unat u)"

fun utf8 :: "cs_string \<Rightarrow> byte list" where
  "utf8 [] = []"
| "utf8 [u] = utf8_unit u"
| "utf8 (u # l # us) =
     (if high_surrogate u \<and> low_surrogate l
      then utf8_point (0x10000 + (unat u - 0xD800) * 1024 + (unat l - 0xDC00)) @ utf8 us
      else utf8_unit u @ utf8 (l # us))"

text \<open>A string of ASCII characters.\<close>

definition cs_str :: "string \<Rightarrow> cs_string" where
  "cs_str s = map (\<lambda>c. word_of_nat (of_char c)) s"

text \<open>
  What the sources do not determine: the byte order of the host, the clock, and what the marshaller
  makes of an array that is shorter than \<open>SizeConst\<close> says. A runtime may throw (\<open>None\<close>), or copy
  what lies behind the array.
\<close>

record clr_env =
  clr_order :: endian
  clr_now :: u64
  behind_array :: "(nat \<Rightarrow> byte) option"

fun clr_bind :: "exn + 'a \<Rightarrow> ('a \<Rightarrow> exn + 'b) \<Rightarrow> exn + 'b" where
  "clr_bind (Inl x) f = Inl x"
| "clr_bind (Inr y) f = f y"

text \<open>\<open>Array.Copy\<close> and \<open>Buffer.BlockCopy\<close> check both ranges before they write anything.\<close>

definition array_copy :: "byte list \<Rightarrow> nat \<Rightarrow> byte list \<Rightarrow> nat \<Rightarrow> nat \<Rightarrow> exn + byte list" where
  "array_copy src src_index dst dst_index count =
     (if src_index + count \<le> length src \<and> dst_index + count \<le> length dst
      then Inr (take dst_index dst @ take count (drop src_index src) @ drop (dst_index + count) dst)
      else Inl (Managed ''ArgumentException''))"

lemma array_copy_start:
  "array_copy src 0 dst 0 n =
     (if n \<le> length src \<and> n \<le> length dst then Inr (take n src @ drop n dst)
      else Inl (Managed ''ArgumentException''))"
  by (simp add: array_copy_def)

text \<open>A field of type \<open>ByValArray\<close>: a longer array is cut.\<close>

definition marshal_array :: "clr_env \<Rightarrow> nat \<Rightarrow> byte list \<Rightarrow> exn + byte list" where
  "marshal_array env n arr =
     (if n \<le> length arr then Inr (take n arr)
      else case behind_array env of
             None \<Rightarrow> Inl (Managed ''ArgumentException'')
           | Some mem \<Rightarrow> Inr (arr @ stale mem 0 (n - length arr)))"

lemma marshal_array_full [simp]: "length arr = n \<Longrightarrow> marshal_array env n arr = Inr arr"
  by (simp add: marshal_array_def)

text \<open>
  \<open>ByteArrayToStructure<T>\<close> reads \<open>sizeof(T)\<close> bytes from the address of the array, whatever its length.
\<close>

definition ByteArrayToStructure :: "nat \<Rightarrow> (byte list \<Rightarrow> 'a) \<Rightarrow> byte list \<Rightarrow> ub + 'a" where
  "ByteArrayToStructure sz dec bytes = mem_bind (read_at 0 sz bytes) (\<lambda>bs. Inr (dec bs))"

definition ConcatByteArrays :: "byte list \<Rightarrow> byte list \<Rightarrow> byte list" where
  "ConcatByteArrays arr1 arr2 = arr1 @ arr2"

section \<open>Message heads\<close>

datatype EN_RAW_MESSAGE_HEAD_cs =
    NONE_cs
  | HANDSHAKE_HELLO_cs
  | HANDSHAKE_HELLO_ACK_cs
  | HANDSHAKE_CREDENTIALS_cs
  | HANDSHAKE_CREDENTIALS_ACK_cs
  | HANDSHAKE_STATISTICS_REQUEST_cs
  | HANDSHAKE_STATISTICS_REQUEST_ACK_cs
  | HANDSHAKE_PARTICIPANT_UPDATE_cs
  | HANDSHAKE_PARTICIPANT_UPDATE_ACK_cs
  | PARTICIPANT_JOIN_cs
  | PARTICIPANT_JOIN_ACK_cs
  | MESSAGE_cs
  | MESSAGE_ACK_cs
  | PARTICIPANT_NEW_cs
  | PARTICIPANT_NEW_ACK_cs
  | PARTICIPANT_DELETE_cs
  | PARTICIPANT_DELETE_ACK_cs
  | PARTICIPANT_INFO_REQUEST_cs
  | PARTICIPANT_INFO_REQUEST_ACK_cs
  | PARTICIPANT_UPDATE_cs
  | PARTICIPANT_UPDATE_ACK_cs
  | PARTICIPANT_EVENT_cs
  | PARTICIPANT_EVENT_ACK_cs
  | AVATAR_MESSAGE_cs
  | CHAT_MESSAGE_cs
  | CONTROL_cs

definition all_heads_cs :: "EN_RAW_MESSAGE_HEAD_cs list" where
  "all_heads_cs =
    [NONE_cs, HANDSHAKE_HELLO_cs, HANDSHAKE_HELLO_ACK_cs, HANDSHAKE_CREDENTIALS_cs,
     HANDSHAKE_CREDENTIALS_ACK_cs, HANDSHAKE_STATISTICS_REQUEST_cs, HANDSHAKE_STATISTICS_REQUEST_ACK_cs,
     HANDSHAKE_PARTICIPANT_UPDATE_cs, HANDSHAKE_PARTICIPANT_UPDATE_ACK_cs, PARTICIPANT_JOIN_cs,
     PARTICIPANT_JOIN_ACK_cs, MESSAGE_cs, MESSAGE_ACK_cs, PARTICIPANT_NEW_cs, PARTICIPANT_NEW_ACK_cs,
     PARTICIPANT_DELETE_cs, PARTICIPANT_DELETE_ACK_cs, PARTICIPANT_INFO_REQUEST_cs,
     PARTICIPANT_INFO_REQUEST_ACK_cs, PARTICIPANT_UPDATE_cs, PARTICIPANT_UPDATE_ACK_cs,
     PARTICIPANT_EVENT_cs, PARTICIPANT_EVENT_ACK_cs, AVATAR_MESSAGE_cs, CHAT_MESSAGE_cs, CONTROL_cs]"

text \<open>Enumerators without a value count up from 0.\<close>

fun head_code_cs :: "EN_RAW_MESSAGE_HEAD_cs \<Rightarrow> u16" where
  "head_code_cs NONE_cs = 0"
| "head_code_cs HANDSHAKE_HELLO_cs = 1"
| "head_code_cs HANDSHAKE_HELLO_ACK_cs = 2"
| "head_code_cs HANDSHAKE_CREDENTIALS_cs = 3"
| "head_code_cs HANDSHAKE_CREDENTIALS_ACK_cs = 4"
| "head_code_cs HANDSHAKE_STATISTICS_REQUEST_cs = 5"
| "head_code_cs HANDSHAKE_STATISTICS_REQUEST_ACK_cs = 6"
| "head_code_cs HANDSHAKE_PARTICIPANT_UPDATE_cs = 7"
| "head_code_cs HANDSHAKE_PARTICIPANT_UPDATE_ACK_cs = 8"
| "head_code_cs PARTICIPANT_JOIN_cs = 9"
| "head_code_cs PARTICIPANT_JOIN_ACK_cs = 10"
| "head_code_cs MESSAGE_cs = 11"
| "head_code_cs MESSAGE_ACK_cs = 12"
| "head_code_cs PARTICIPANT_NEW_cs = 13"
| "head_code_cs PARTICIPANT_NEW_ACK_cs = 14"
| "head_code_cs PARTICIPANT_DELETE_cs = 15"
| "head_code_cs PARTICIPANT_DELETE_ACK_cs = 16"
| "head_code_cs PARTICIPANT_INFO_REQUEST_cs = 17"
| "head_code_cs PARTICIPANT_INFO_REQUEST_ACK_cs = 18"
| "head_code_cs PARTICIPANT_UPDATE_cs = 19"
| "head_code_cs PARTICIPANT_UPDATE_ACK_cs = 20"
| "head_code_cs PARTICIPANT_EVENT_cs = 21"
| "head_code_cs PARTICIPANT_EVENT_ACK_cs = 22"
| "head_code_cs AVATAR_MESSAGE_cs = 23"
| "head_code_cs CHAT_MESSAGE_cs = 24"
| "head_code_cs CONTROL_cs = 25"

section \<open>Structures\<close>

text \<open>All have \<open>LayoutKind.Sequential\<close> and \<open>Pack = 1\<close>: the fields lie one behind the other.\<close>

record ST_XR_MESSAGE_HEADER =
  xm_head :: u16
  xm_buffersize :: u32
  xm_payload_is_big_endian :: u16

definition enc_header_cs :: "endian \<Rightarrow> ST_XR_MESSAGE_HEADER \<Rightarrow> byte list" where
  "enc_header_cs e h = mem16 e (xm_head h) @ mem32 e (xm_buffersize h) @ mem16 e (xm_payload_is_big_endian h)"

lemma length_enc_header_cs [simp]: "length (enc_header_cs e h) = 8"
  by (simp add: enc_header_cs_def)

record ST_RAW_MESSAGE =
  rm_header :: ST_XR_MESSAGE_HEADER
  rm_buffer :: "byte list"

definition GetBytes_raw :: "clr_env \<Rightarrow> ST_RAW_MESSAGE \<Rightarrow> exn + byte list" where
  "GetBytes_raw env m =
     clr_bind (marshal_array env 65528 (rm_buffer m))
       (\<lambda>bs. Inr (enc_header_cs (clr_order env) (rm_header m) @ bs))"

record ST_PARTICIPANT_JOIN_cs =
  pjc_participant_id :: u64
  pjc_max_data_rate :: u16
  pjc_allow_asynchronous_messages :: u16
  pjc_message_buffersize :: u16
  pjc_message_buffer :: "byte list"

definition dec_participant_join_cs :: "endian \<Rightarrow> byte list \<Rightarrow> ST_PARTICIPANT_JOIN_cs" where
  "dec_participant_join_cs e bs =
     \<lparr>pjc_participant_id = get64 e 0 bs, pjc_max_data_rate = get16 e 8 bs,
      pjc_allow_asynchronous_messages = get16 e 10 bs, pjc_message_buffersize = get16 e 12 bs,
      pjc_message_buffer = get_buf 14 10240 bs\<rparr>"

record ST_HANDSHAKE_HELLO_cs =
  hhc_service_id :: u64
  hhc_participant_id :: u64
  hhc_service_timestamp :: u64
  hhc_service_name_buffersize :: u32
  hhc_service_name_buffer :: "byte list"

definition dec_handshake_hello_cs :: "endian \<Rightarrow> byte list \<Rightarrow> ST_HANDSHAKE_HELLO_cs" where
  "dec_handshake_hello_cs e bs =
     \<lparr>hhc_service_id = get64 e 0 bs, hhc_participant_id = get64 e 8 bs,
      hhc_service_timestamp = get64 e 16 bs, hhc_service_name_buffersize = get32 e 24 bs,
      hhc_service_name_buffer = get_buf 28 1024 bs\<rparr>"

record ST_HANDSHAKE_HELLO_ACK_cs =
  hac_participant_id :: u64
  hac_client_timestamp :: u64
  hac_participant_name_buffersize :: u16
  hac_participant_name :: "byte list"

definition enc_handshake_hello_ack_cs :: "endian \<Rightarrow> ST_HANDSHAKE_HELLO_ACK_cs \<Rightarrow> byte list" where
  "enc_handshake_hello_ack_cs e s =
     mem64 e (hac_participant_id s) @ mem64 e (hac_client_timestamp s) @
     mem16 e (hac_participant_name_buffersize s) @ hac_participant_name s"

definition GetBytes_hello_ack :: "clr_env \<Rightarrow> ST_HANDSHAKE_HELLO_ACK_cs \<Rightarrow> exn + byte list" where
  "GetBytes_hello_ack env s =
     clr_bind (marshal_array env 1024 (hac_participant_name s))
       (\<lambda>name. Inr (enc_handshake_hello_ack_cs (clr_order env) (s\<lparr>hac_participant_name := name\<rparr>)))"

record ST_HANDSHAKE_CREDENTIALS_cs =
  hcc_server_certificate_buffersize :: u32
  hcc_server_certificate_buffer :: "byte list"

definition dec_handshake_credentials_cs :: "endian \<Rightarrow> byte list \<Rightarrow> ST_HANDSHAKE_CREDENTIALS_cs" where
  "dec_handshake_credentials_cs e bs =
     \<lparr>hcc_server_certificate_buffersize = get32 e 0 bs,
      hcc_server_certificate_buffer = get_buf 4 20480 bs\<rparr>"

record ST_HANDSHAKE_CREDENTIALS_ACK_cs =
  hcac_participant_id :: u64
  hcac_login_buffersize :: u16
  hcac_login_buffer :: "byte list"
  hcac_password_buffersize :: u16
  hcac_password_buffer :: "byte list"
  hcac_participant_certificate_buffersize :: u16
  hcac_participant_certificate_buffer :: "byte list"

definition enc_handshake_credentials_ack_cs :: "endian \<Rightarrow> ST_HANDSHAKE_CREDENTIALS_ACK_cs \<Rightarrow> byte list" where
  "enc_handshake_credentials_ack_cs e s =
     mem64 e (hcac_participant_id s) @
     mem16 e (hcac_login_buffersize s) @ hcac_login_buffer s @
     mem16 e (hcac_password_buffersize s) @ hcac_password_buffer s @
     mem16 e (hcac_participant_certificate_buffersize s) @ hcac_participant_certificate_buffer s"

definition GetBytes_credentials_ack :: "clr_env \<Rightarrow> ST_HANDSHAKE_CREDENTIALS_ACK_cs \<Rightarrow> exn + byte list" where
  "GetBytes_credentials_ack env s =
     clr_bind (marshal_array env 1024 (hcac_login_buffer s))
       (\<lambda>login. clr_bind (marshal_array env 1024 (hcac_password_buffer s))
         (\<lambda>password. clr_bind (marshal_array env 20480 (hcac_participant_certificate_buffer s))
           (\<lambda>certificate. Inr (enc_handshake_credentials_ack_cs (clr_order env)
              (s\<lparr>hcac_login_buffer := login, hcac_password_buffer := password,
                 hcac_participant_certificate_buffer := certificate\<rparr>)))))"

end
