(* ===== verification/Unity_Client.thy ===== *)
theory Unity_Client
  imports Unity_Protocol
begin

text \<open>
  The Unity client: the participant of \<open>unity_codes/XRNetworkParticipant.cs\<close> on the connection of
  \<open>unity_codes/XRAsyncTCPClient.cs\<close>. Callbacks of the socket and calls of Unity are events, and each
  runs as a whole. The static members exist once per process; the model has one participant.
\<close>

section \<open>State\<close>

text \<open>
  \<open>m_client\<close>: not created, created, connected, closed. \<open>Connected\<close> holds in the third state, and a
  failed operation leads back to the second.
\<close>

datatype socket_state = No_socket | Unconnected | Connected_socket | Closed_socket

record tcp_client =
  tc_socket :: socket_state
  tc_connecting :: bool
  tc_rx_buffer :: "byte list"
  tc_tx_buffer :: "byte list"
  tc_sends :: nat
  tc_receiving :: bool

record unity_client = tcp_client +
  un_tcp_client :: bool
  un_service_id :: u64
  un_participant_id :: u64
  un_service_timestamp :: u64
  un_service_name :: "byte list"
  un_participant_name :: cs_string
  un_tcp_buffersize :: u32
  un_tcp_buffer :: "byte list"
  un_tcp_header :: u16
  un_payload_big_endian :: u16
  un_dt_ms :: int
  un_max_data_rate :: u16
  un_login :: cs_string
  un_password :: cs_string
  un_last_timestamp :: u64
  un_can_update :: bool

definition new_unity_client :: "cs_string \<Rightarrow> cs_string \<Rightarrow> cs_string \<Rightarrow> unity_client" where
  "new_unity_client name login password =
     \<lparr>tc_socket = No_socket, tc_connecting = False, tc_rx_buffer = [], tc_tx_buffer = zeros 65536,
      tc_sends = 0, tc_receiving = False, un_tcp_client = False, un_service_id = 0,
      un_participant_id = 0, un_service_timestamp = 0, un_service_name = [],
      un_participant_name = name, un_tcp_buffersize = 0, un_tcp_buffer = [], un_tcp_header = 0,
      un_payload_big_endian = 0, un_dt_ms = 0, un_max_data_rate = 0, un_login = login,
      un_password = password, un_last_timestamp = 0, un_can_update = False\<rparr>"

fun lift_clr :: "exn + 'a \<Rightarrow> 'w \<Rightarrow> ('a \<Rightarrow> 'w outcome) \<Rightarrow> 'w outcome" where
  "lift_clr (Inl x) w f = Throws x w"
| "lift_clr (Inr y) w f = f y"

section \<open>Sending\<close>

text \<open>
  \<open>AsyncSend\<close> always sends the whole of one buffer, which all sends share: \<open>BeginSend\<close> gets the
  buffer itself, not a copy of it. All exceptions inside are caught.
\<close>

definition AsyncSend :: "byte list \<Rightarrow> nat \<Rightarrow> 'a tcp_client_scheme \<Rightarrow> 'a tcp_client_scheme outcome" where
  "AsyncSend message buffer_size c =
     (if tc_socket c = No_socket then Throws (Managed ''NullReferenceException'') c
      else if tc_socket c \<noteq> Connected_socket then Done c
      else
        let c1 = c\<lparr>tc_tx_buffer := zeros 65536\<rparr>
        in catch_print
             (lift_clr (array_copy message 0 (tc_tx_buffer c1) 0 buffer_size) c1
                (\<lambda>tx. Done (c1\<lparr>tc_tx_buffer := tx, tc_sends := tc_sends c1 + 1\<rparr>))))"

text \<open>The completion of a send, and its failure.\<close>

definition asyncSendCallback :: "'a tcp_client_scheme \<Rightarrow> 'a tcp_client_scheme" where
  "asyncSendCallback c = c\<lparr>tc_sends := tc_sends c - 1\<rparr>"

definition drop_connection :: "'a tcp_client_scheme \<Rightarrow> 'a tcp_client_scheme" where
  "drop_connection c = (if tc_socket c = Connected_socket then c\<lparr>tc_socket := Unconnected\<rparr> else c)"

section \<open>Messages of the server\<close>

definition unity_hello_ack :: "clr_env \<Rightarrow> u64 \<Rightarrow> cs_string \<Rightarrow> exn + byte list" where
  "unity_hello_ack env pid name =
     (let pname = utf8 name
      in clr_bind (array_copy pname 0 (zeros 1024) 0 (length pname))
        (\<lambda>buffer. GetBytes_hello_ack env
           \<lparr>hac_participant_id = pid, hac_client_timestamp = clr_now env,
            hac_participant_name_buffersize = word_of_nat (length pname), hac_participant_name = buffer\<rparr>))"

text \<open>The buffer of this frame is made as long as its payload, not as long as \<open>SizeConst\<close> says.\<close>

definition unity_hello_ack_frame :: "clr_env \<Rightarrow> u64 \<Rightarrow> cs_string \<Rightarrow> exn + byte list" where
  "unity_hello_ack_frame env pid name =
     clr_bind (unity_hello_ack env pid name)
       (\<lambda>byte_hello_ack. clr_bind (array_copy byte_hello_ack 0 (zeros (length byte_hello_ack)) 0 (length byte_hello_ack))
         (\<lambda>buffer. GetBytes_raw env
            \<lparr>rm_header = \<lparr>xm_head = head_code_cs HANDSHAKE_HELLO_ACK_cs,
                          xm_buffersize = word_of_nat (length byte_hello_ack),
                          xm_payload_is_big_endian = (if clr_order env = Little then 0 else 0xFFFF)\<rparr>,
             rm_buffer = buffer\<rparr>))"

definition unity_on_hello :: "clr_env \<Rightarrow> byte list \<Rightarrow> unity_client \<Rightarrow> unity_client outcome" where
  "unity_on_hello env payload u =
     lift_mem (ByteArrayToStructure 1052 (dec_handshake_hello_cs (clr_order env)) payload)
       (\<lambda>st_hello.
          let u1 = u\<lparr>un_service_name := hhc_service_name_buffer st_hello,
                     un_service_id := hhc_service_id st_hello,
                     un_participant_id := hhc_participant_id st_hello,
                     un_service_timestamp := hhc_service_timestamp st_hello\<rparr>
          in lift_clr (unity_hello_ack_frame env (un_participant_id u1) (un_participant_name u1)) u1
               (\<lambda>raw. AsyncSend raw (length raw) u1))"

text \<open>The sizes count UTF-16 units, the buffers hold UTF-8.\<close>

definition unity_credentials_ack :: "clr_env \<Rightarrow> u64 \<Rightarrow> cs_string \<Rightarrow> cs_string \<Rightarrow> exn + byte list" where
  "unity_credentials_ack env pid login password =
     clr_bind (array_copy (utf8 login) 0 (zeros 1024) 0 (length (utf8 login)))
       (\<lambda>lb. clr_bind (array_copy (utf8 password) 0 (zeros 1024) 0 (length (utf8 password)))
         (\<lambda>pb. GetBytes_credentials_ack env
            \<lparr>hcac_participant_id = pid,
             hcac_login_buffersize = word_of_nat (length login), hcac_login_buffer = lb,
             hcac_password_buffersize = word_of_nat (length password), hcac_password_buffer = pb,
             hcac_participant_certificate_buffersize = 0,
             hcac_participant_certificate_buffer = zeros (20 * 1024)\<rparr>))"

definition unity_credentials_ack_frame :: "clr_env \<Rightarrow> u64 \<Rightarrow> cs_string \<Rightarrow> cs_string \<Rightarrow> exn + byte list" where
  "unity_credentials_ack_frame env pid login password =
     clr_bind (unity_credentials_ack env pid login password)
       (\<lambda>ack_byte. clr_bind (array_copy ack_byte 0 (zeros 65528) 0 (length ack_byte))
         (\<lambda>buffer. GetBytes_raw env
            \<lparr>rm_header = \<lparr>xm_head = head_code_cs HANDSHAKE_CREDENTIALS_ACK_cs,
                          xm_buffersize = word_of_nat (length ack_byte), xm_payload_is_big_endian = 0\<rparr>,
             rm_buffer = buffer\<rparr>))"

definition unity_on_credentials :: "clr_env \<Rightarrow> byte list \<Rightarrow> unity_client \<Rightarrow> unity_client outcome" where
  "unity_on_credentials env payload u =
     lift_mem (ByteArrayToStructure 20484 (dec_handshake_credentials_cs (clr_order env)) payload)
       (\<lambda>hcred.
          lift_clr (unity_credentials_ack_frame env (un_participant_id u) (un_login u) (un_password u)) u
            (\<lambda>raw. AsyncSend raw (length raw) u))"

text \<open>An integer division gives the update interval.\<close>

definition unity_on_join :: "clr_env \<Rightarrow> byte list \<Rightarrow> unity_client \<Rightarrow> unity_client outcome" where
  "unity_on_join env payload u =
     lift_mem (ByteArrayToStructure 10254 (dec_participant_join_cs (clr_order env)) payload)
       (\<lambda>join.
          let u1 = u\<lparr>un_participant_id := pjc_participant_id join, un_max_data_rate := pjc_max_data_rate join\<rparr>
          in if un_max_data_rate u1 = 0 then Throws (Managed ''DivideByZeroException'') u1
             else Done (u1\<lparr>un_dt_ms := 1 div uint (un_max_data_rate u1), un_can_update := True\<rparr>))"

text \<open>Three more cases of the switch only write to the log.\<close>

definition ProcessMessage :: "clr_env \<Rightarrow> u16 \<Rightarrow> byte list \<Rightarrow> unity_client \<Rightarrow> unity_client outcome" where
  "ProcessMessage env header payload u =
     (if header = head_code_cs HANDSHAKE_HELLO_cs then unity_on_hello env payload u
      else if header = head_code_cs HANDSHAKE_CREDENTIALS_cs then unity_on_credentials env payload u
      else if header = head_code_cs PARTICIPANT_JOIN_cs then unity_on_join env payload u
      else Done u)"

section \<open>Receiving\<close>

text \<open>\<open>BitConverter.ToUInt16\<close> and \<open>ToUInt32\<close>, which check the range.\<close>

definition to_uint16 :: "endian \<Rightarrow> nat \<Rightarrow> byte list \<Rightarrow> exn + u16" where
  "to_uint16 e i bs = (if i + 2 \<le> length bs then Inr (get16 e i bs) else Inl (Managed ''ArgumentException''))"

definition to_uint32 :: "endian \<Rightarrow> nat \<Rightarrow> byte list \<Rightarrow> exn + u32" where
  "to_uint32 e i bs = (if i + 4 \<le> length bs then Inr (get32 e i bs) else Inl (Managed ''ArgumentException''))"

definition SplitByteArray :: "byte list \<Rightarrow> nat \<Rightarrow> nat \<Rightarrow> exn + byte list" where
  "SplitByteArray buffer index count = array_copy buffer index (zeros count) 0 count"

text \<open>
  \<open>OnReceive\<close>: one message is taken from the front of what has come, and then all of it is dropped.
  The sum of the two sizes is one of \<open>long\<close>s and does not wrap.
\<close>

definition OnReceive :: "clr_env \<Rightarrow> byte list \<Rightarrow> unity_client \<Rightarrow> unity_client outcome" where
  "OnReceive env buffer u =
     (let u1 = (if un_tcp_buffer u \<noteq> [] then u\<lparr>un_tcp_buffer := ConcatByteArrays (un_tcp_buffer u) buffer\<rparr>
                else u\<lparr>un_tcp_buffer := buffer\<rparr>)
      in lift_clr (to_uint16 (clr_order env) 0 (un_tcp_buffer u1)) u1 (\<lambda>header.
         let u2 = u1\<lparr>un_tcp_header := header\<rparr>
         in lift_clr (to_uint32 (clr_order env) 2 (un_tcp_buffer u2)) u2 (\<lambda>buffersize.
            let u3 = u2\<lparr>un_tcp_buffersize := buffersize\<rparr>
            in lift_clr (to_uint16 (clr_order env) 6 (un_tcp_buffer u3)) u3 (\<lambda>big_endian.
               let u4 = u3\<lparr>un_payload_big_endian := big_endian\<rparr>
               in if unat (un_tcp_buffersize u4) + 8 \<le> length (un_tcp_buffer u4)
                  then if un_tcp_header u4 = 0 then Done u4
                       else lift_clr (SplitByteArray (un_tcp_buffer u4) 8 (unat (un_tcp_buffersize u4))) u4
                         (\<lambda>payload. and_then (ProcessMessage env (un_tcp_header u4) payload u4)
                            (\<lambda>u5. Done (u5\<lparr>un_tcp_buffer := []\<rparr>)))
                  else Done u4))))"

text \<open>
  \<open>asyncReceiveCallback\<close>: pieces are collected until the socket has no more, then handed on as a
  whole. The next read starts behind the handler, so an exception in it ends the reading.
\<close>

definition AsyncReceive :: "unity_client \<Rightarrow> unity_client outcome" where
  "AsyncReceive u =
     (case tc_socket u of
        Connected_socket \<Rightarrow> Done (u\<lparr>tc_receiving := True\<rparr>)
      | No_socket \<Rightarrow> Throws (Managed ''NullReferenceException'') u
      | Unconnected \<Rightarrow> Throws (Managed ''SocketException'') u
      | Closed_socket \<Rightarrow> Throws (Managed ''ObjectDisposedException'') u)"

definition asyncReceiveCallback :: "clr_env \<Rightarrow> byte list \<Rightarrow> bool \<Rightarrow> unity_client \<Rightarrow> unity_client outcome" where
  "asyncReceiveCallback env chunk available u =
     (let u1 = (if chunk \<noteq> [] then u\<lparr>tc_rx_buffer := ConcatByteArrays (tc_rx_buffer u) chunk\<rparr> else u)
      in catch_print
        (and_then
          (if chunk = [] \<or> \<not> available
           then and_then (OnReceive env (tc_rx_buffer u1) u1) (\<lambda>u2. Done (u2\<lparr>tc_rx_buffer := []\<rparr>))
           else Done u1)
          AsyncReceive))"

section \<open>The participant\<close>

definition OnConnect :: "unity_client \<Rightarrow> unity_client outcome" where
  "OnConnect u = AsyncReceive u"

text \<open>\<open>AsyncConnect\<close>: looking the host up can fail, before there is a socket.\<close>

definition AsyncConnect :: "bool \<Rightarrow> unity_client \<Rightarrow> unity_client" where
  "AsyncConnect found u = (if found then u\<lparr>tc_socket := Unconnected, tc_connecting := True\<rparr> else u)"

definition asyncConnectCallback :: "bool \<Rightarrow> unity_client \<Rightarrow> unity_client outcome" where
  "asyncConnectCallback succeeded u =
     (let u1 = u\<lparr>tc_connecting := False\<rparr>
      in if succeeded then catch_print (OnConnect (u1\<lparr>tc_socket := Connected_socket\<rparr>)) else Done u1)"

definition Start_cs :: "bool \<Rightarrow> unity_client \<Rightarrow> unity_client" where
  "Start_cs found u = AsyncConnect found (u\<lparr>un_tcp_client := True\<rparr>)"

definition Disconnect_cs :: "unity_client \<Rightarrow> unity_client outcome" where
  "Disconnect_cs u =
     (case tc_socket u of
        No_socket \<Rightarrow> Done u
      | Unconnected \<Rightarrow> Throws (Managed ''SocketException'') u
      | Connected_socket \<Rightarrow> Done (u\<lparr>tc_socket := Closed_socket\<rparr>)
      | Closed_socket \<Rightarrow> Throws (Managed ''ObjectDisposedException'') u)"

definition OnDestroy :: "unity_client \<Rightarrow> unity_client outcome" where
  "OnDestroy u = (if un_tcp_client u then Disconnect_cs u else Throws (Managed ''NullReferenceException'') u)"

text \<open>
  \<open>ParticipantUpdateFunction\<close>: the position and rotation as text. The text itself is a parameter, the
  printed form of a \<open>float\<close> depends on the runtime. It is the payload; no structure is around it.
\<close>

definition unity_update_frame :: "clr_env \<Rightarrow> cs_string \<Rightarrow> exn + byte list" where
  "unity_update_frame env message =
     (let payload = utf8 message;
          size = (word_of_nat (length payload) :: u16)
      in clr_bind (array_copy payload 0 (zeros 65528) 0 (unat size))
        (\<lambda>buffer. GetBytes_raw env
           \<lparr>rm_header = \<lparr>xm_head = head_code_cs PARTICIPANT_UPDATE_ACK_cs, xm_buffersize = ucast size,
                         xm_payload_is_big_endian = 0\<rparr>,
            rm_buffer = buffer\<rparr>))"

definition ParticipantUpdateFunction :: "clr_env \<Rightarrow> cs_string \<Rightarrow> unity_client \<Rightarrow> unity_client outcome" where
  "ParticipantUpdateFunction env message u =
     lift_clr (unity_update_frame env message) u (\<lambda>raw. AsyncSend raw (length raw) u)"

text \<open>Called by Unity once per picture.\<close>

definition Update_cs :: "clr_env \<Rightarrow> cs_string \<Rightarrow> unity_client \<Rightarrow> unity_client outcome" where
  "Update_cs env message u =
     (if \<not> un_tcp_client u then Done u
      else if tc_socket u = No_socket then Throws (Managed ''NullReferenceException'') u
      else if tc_socket u \<noteq> Connected_socket then Done u
      else if 0 < un_dt_ms u \<and> un_dt_ms u \<le> sint (clr_now env - un_last_timestamp u) \<and> un_can_update u
      then and_then (ParticipantUpdateFunction env message u)
             (\<lambda>u1. Done (u1\<lparr>un_last_timestamp := clr_now env\<rparr>))
      else Done u)"

section \<open>Events\<close>

datatype unity_event =
    Unity_start bool
  | Unity_connect bool
  | Unity_received "byte list" bool
  | Unity_receive_failed
  | Unity_sent
  | Unity_send_failed
  | Unity_frame cs_string
  | Unity_destroy

fun unity_enabled :: "unity_event \<Rightarrow> unity_client \<Rightarrow> bool" where
  "unity_enabled (Unity_start found) u = (\<not> un_tcp_client u)"
| "unity_enabled (Unity_connect succeeded) u = tc_connecting u"
| "unity_enabled (Unity_received chunk available) u =
     (tc_receiving u \<and> length chunk \<le> 65536 \<and> tc_socket u \<noteq> Closed_socket)"
| "unity_enabled Unity_receive_failed u = tc_receiving u"
| "unity_enabled Unity_sent u = (0 < tc_sends u)"
| "unity_enabled Unity_send_failed u = (0 < tc_sends u)"
| "unity_enabled (Unity_frame message) u = True"
| "unity_enabled Unity_destroy u = True"

fun unity_handle :: "clr_env \<Rightarrow> unity_event \<Rightarrow> unity_client \<Rightarrow> unity_client outcome" where
  "unity_handle env (Unity_start found) u = Done (Start_cs found u)"
| "unity_handle env (Unity_connect succeeded) u = asyncConnectCallback succeeded u"
| "unity_handle env (Unity_received chunk available) u = asyncReceiveCallback env chunk available (u\<lparr>tc_receiving := False\<rparr>)"
| "unity_handle env Unity_receive_failed u = Done (drop_connection (u\<lparr>tc_receiving := False\<rparr>))"
| "unity_handle env Unity_sent u = Done (asyncSendCallback u)"
| "unity_handle env Unity_send_failed u = Done (drop_connection (asyncSendCallback u))"
| "unity_handle env (Unity_frame message) u = Update_cs env message u"
| "unity_handle env Unity_destroy u = OnDestroy u"

text \<open>What goes over the wire: a completed send has sent what the shared buffer held when it was sent.\<close>

definition unity_sends :: "unity_event \<Rightarrow> unity_client \<Rightarrow> unity_client \<Rightarrow> byte list list" where
  "unity_sends e u u' = (if e = Unity_sent then [tc_tx_buffer u] else [])"

end
