(* ===== verification/Unity_Correct.thy ===== *)
theory Unity_Correct
  imports Unity_Client Samples
begin

text \<open>
  The Unity client against the server: where the two agree on the bytes of a message and where they do
  not, what the client makes of what it receives, and how it gets into the room.
\<close>

section \<open>Steps of the client\<close>

lemma GetBytes_raw_full:
  "length (rm_buffer m) = 65528 \<Longrightarrow>
   GetBytes_raw env m = Inr (enc_header_cs (clr_order env) (rm_header m) @ rm_buffer m)"
  by (simp add: GetBytes_raw_def)

lemma length_marshal_array: "marshal_array env n arr = Inr bs \<Longrightarrow> length bs = n"
  by (auto simp: marshal_array_def split: if_splits option.splits)

lemma clr_bind_eq_Inr [outcome_simps]: "clr_bind m f = Inr y \<longleftrightarrow> (\<exists>x. m = Inr x \<and> f x = Inr y)"
  by (cases m) auto

lemma lift_clr_eq_Done [outcome_simps]: "lift_clr m w f = Done w' \<longleftrightarrow> (\<exists>x. m = Inr x \<and> f x = Done w')"
  by (cases m) auto

lemma length_GetBytes_raw: "GetBytes_raw env m = Inr bs \<Longrightarrow> length bs = 65536"
  by (auto simp: GetBytes_raw_def outcome_simps dest: length_marshal_array)

lemma AsyncSend_full:
  assumes "length m = 65536"
  shows "AsyncSend m 65536 c =
    (case tc_socket c of
       No_socket \<Rightarrow> Throws (Managed ''NullReferenceException'') c
     | Connected_socket \<Rightarrow> Done (c\<lparr>tc_tx_buffer := m, tc_sends := tc_sends c + 1\<rparr>)
     | _ \<Rightarrow> Done c)"
  using assms by (simp add: AsyncSend_def Let_def array_copy_start split: socket_state.split)

lemma SplitByteArray_eq:
  "i + n \<le> length bs \<Longrightarrow> SplitByteArray bs i n = Inr (take n (drop i bs))"
  by (simp add: SplitByteArray_def array_copy_def)

text \<open>What the client has when a message that has come in one delivery is taken from it.\<close>

definition unity_received :: "clr_env \<Rightarrow> byte list \<Rightarrow> unity_client \<Rightarrow> unity_client" where
  "unity_received env bs u =
     u\<lparr>un_tcp_buffer := bs, un_tcp_header := get16 (clr_order env) 0 bs,
       un_tcp_buffersize := get32 (clr_order env) 2 bs, un_payload_big_endian := get16 (clr_order env) 6 bs\<rparr>"

lemma OnReceive_eq:
  assumes "8 \<le> length (un_tcp_buffer u @ buffer)"
  shows "OnReceive env buffer u =
    (let bs = un_tcp_buffer u @ buffer; size = unat (get32 (clr_order env) 2 bs);
         head = get16 (clr_order env) 0 bs; v = unity_received env bs u
     in if size + 8 \<le> length bs \<and> head \<noteq> 0
        then and_then (ProcessMessage env head (take size (drop 8 bs)) v) (\<lambda>u5. Done (u5\<lparr>un_tcp_buffer := []\<rparr>))
        else Done v)"
proof -
  have here: "(if un_tcp_buffer u \<noteq> [] then u\<lparr>un_tcp_buffer := ConcatByteArrays (un_tcp_buffer u) buffer\<rparr>
      else u\<lparr>un_tcp_buffer := buffer\<rparr>) = u\<lparr>un_tcp_buffer := un_tcp_buffer u @ buffer\<rparr>"
    by (simp add: ConcatByteArrays_def)
  show ?thesis
    using assms unfolding OnReceive_def here
    by (simp add: Let_def to_uint16_def to_uint32_def unity_received_def SplitByteArray_eq)
qed

text \<open>A client whose connection stands and that waits for a message.\<close>

definition unity_listening :: "unity_client \<Rightarrow> bool" where
  "unity_listening u \<longleftrightarrow>
     tc_socket u = Connected_socket \<and> tc_receiving u \<and> tc_rx_buffer u = [] \<and> un_tcp_buffer u = []"

lemma catch_print_and_then_Done: "catch_print (and_then (Done u) f) = catch_print (f u)"
  by simp

lemma length_frame_pos: "length payload \<le> 65528 \<Longrightarrow> frame e head payload \<noteq> []"
  using length_frame [of payload e head] by auto

lemma frame_header_fields:
  "get16 e 0 (frame e head payload @ rest) = head"
  "get32 e 2 (frame e head payload @ rest) = word_of_nat (length payload)"
  by (simp_all add: frame_def enc_header_def mk_xr_message_header_def layout_simps)

lemma frame_payload: "take (length payload) (drop 8 (frame e head payload @ rest)) = payload"
  by (simp add: frame_def)

text \<open>A frame of the server that comes in one delivery, with or without more behind it.\<close>

lemma OnReceive_frame:
  assumes "un_tcp_buffer u = []" and "length payload \<le> 65528" and "head \<noteq> 0" and e: "clr_order env = e"
  shows "OnReceive env (frame e head payload @ rest) u =
    and_then (ProcessMessage env head payload (unity_received env (frame e head payload @ rest) u))
      (\<lambda>u5. Done (u5\<lparr>un_tcp_buffer := []\<rparr>))"
  using assms frame_payload [of payload e head "[]"]
  by (simp add: OnReceive_eq Let_def length_frame frame_header_fields unat_of_nat)

lemma unity_frame_received:
  assumes "unity_listening u" and "length payload \<le> 65528" and "head \<noteq> 0" and e: "clr_order env = e"
  shows "unity_handle env (Unity_received (frame e head payload) False) u =
    catch_print (and_then
      (ProcessMessage env head payload
        (unity_received env (frame e head payload) (u\<lparr>tc_receiving := False, tc_rx_buffer := frame e head payload\<rparr>)))
      (\<lambda>u5. AsyncReceive (u5\<lparr>un_tcp_buffer := [], tc_rx_buffer := []\<rparr>)))"
  using assms OnReceive_frame [of "u\<lparr>tc_receiving := False, tc_rx_buffer := frame e head payload\<rparr>" payload head env e "[]"]
  by (simp add: asyncReceiveCallback_def Let_def length_frame_pos unity_listening_def ConcatByteArrays_def
      and_then_assoc)

section \<open>The answers of the client\<close>

definition unity_hello_ack_bytes :: "clr_env \<Rightarrow> u64 \<Rightarrow> cs_string \<Rightarrow> byte list" where
  "unity_hello_ack_bytes env pid name =
     mem64 (clr_order env) pid @ mem64 (clr_order env) (clr_now env) @
     mem16 (clr_order env) (word_of_nat (length (utf8 name))) @ utf8 name @ zeros (1024 - length (utf8 name))"

lemma length_unity_hello_ack_bytes:
  "length (utf8 name) \<le> 1024 \<Longrightarrow> length (unity_hello_ack_bytes env pid name) = 1042"
  by (simp add: unity_hello_ack_bytes_def)

lemma unity_hello_ack_frame_eq:
  "unity_hello_ack_frame env pid name =
     (if length (utf8 name) \<le> 1024
      then (case behind_array env of
              None \<Rightarrow> Inl (Managed ''ArgumentException'')
            | Some mem \<Rightarrow> Inr (enc_header_cs (clr_order env)
                \<lparr>xm_head = 2, xm_buffersize = 1042,
                 xm_payload_is_big_endian = (if clr_order env = Little then 0 else 0xFFFF)\<rparr> @
                unity_hello_ack_bytes env pid name @ stale mem 0 64486))
      else Inl (Managed ''ArgumentException''))"
proof (cases "length (utf8 name) \<le> 1024")
  case True
  then have "unity_hello_ack env pid name = Inr (unity_hello_ack_bytes env pid name)"
    by (simp add: unity_hello_ack_def Let_def array_copy_start GetBytes_hello_ack_def
        enc_handshake_hello_ack_cs_def unity_hello_ack_bytes_def)
  then show ?thesis
    using True by (simp add: unity_hello_ack_frame_def array_copy_start length_unity_hello_ack_bytes
        GetBytes_raw_def marshal_array_def split: option.splits)
qed (simp add: unity_hello_ack_frame_def unity_hello_ack_def Let_def array_copy_start)

definition unity_credentials :: "u64 \<Rightarrow> cs_string \<Rightarrow> cs_string \<Rightarrow> ST_HANDSHAKE_CREDENTIALS_ACK" where
  "unity_credentials pid login password =
     \<lparr>hca_participant_id = pid,
      hca_login_buffersize = word_of_nat (length login),
      hca_login_buffer = utf8 login @ zeros (1024 - length (utf8 login)),
      hca_password_buffersize = word_of_nat (length password),
      hca_password_buffer = utf8 password @ zeros (1024 - length (utf8 password)),
      hca_participant_certificate_buffersize = 0,
      hca_participant_certificate_buffer = zeros (20 * 1024)\<rparr>"

definition unity_credentials_bytes :: "endian \<Rightarrow> u64 \<Rightarrow> cs_string \<Rightarrow> cs_string \<Rightarrow> byte list" where
  "unity_credentials_bytes e pid login password =
     enc_header_cs e \<lparr>xm_head = 4, xm_buffersize = 22542, xm_payload_is_big_endian = 0\<rparr> @
     enc_handshake_credentials_ack e (unity_credentials pid login password) @ zeros 42986"

lemma wf_unity_credentials:
  "length (utf8 login) \<le> 1024 \<Longrightarrow> length (utf8 password) \<le> 1024 \<Longrightarrow>
   wf_handshake_credentials_ack (unity_credentials pid login password)"
  by (simp add: unity_credentials_def wf_handshake_credentials_ack_def)

lemma unity_credentials_ack_frame_eq:
  "unity_credentials_ack_frame env pid login password =
     (if length (utf8 login) \<le> 1024 \<and> length (utf8 password) \<le> 1024
      then Inr (unity_credentials_bytes (clr_order env) pid login password)
      else Inl (Managed ''ArgumentException''))"
proof (cases "length (utf8 login) \<le> 1024 \<and> length (utf8 password) \<le> 1024")
  case True
  then have "unity_credentials_ack env pid login password =
      Inr (enc_handshake_credentials_ack (clr_order env) (unity_credentials pid login password))"
    by (simp add: unity_credentials_ack_def array_copy_start GetBytes_credentials_ack_def
        enc_handshake_credentials_ack_cs_def enc_handshake_credentials_ack_def unity_credentials_def)
  then show ?thesis
    using True handshake_credentials_ack_codec.enc_length [OF wf_unity_credentials, of login password]
    by (simp add: unity_credentials_ack_frame_def array_copy_start GetBytes_raw_full unity_credentials_bytes_def)
qed (auto simp: unity_credentials_ack_frame_def unity_credentials_ack_def array_copy_start)

section \<open>The greeting\<close>

lemma dec_hello_cs:
  "wf_handshake_hello hh \<Longrightarrow> dec_handshake_hello_cs e (enc_handshake_hello e hh) =
     \<lparr>hhc_service_id = hh_service_id hh, hhc_participant_id = hh_participant_id hh,
      hhc_service_timestamp = hh_server_timestamp hh, hhc_service_name_buffersize = hh_servername_buffersize hh,
      hhc_service_name_buffer = hh_servername_buffer hh\<rparr>"
  using get_buf_here [of "hh_servername_buffer hh" 1024 "[]"]
  by (simp add: dec_handshake_hello_cs_def enc_handshake_hello_def wf_handshake_hello_def layout_simps)

lemma dec_credentials_cs:
  "wf_handshake_credentials hc \<Longrightarrow> dec_handshake_credentials_cs e (enc_handshake_credentials e hc) =
     \<lparr>hcc_server_certificate_buffersize = hc_server_certificate_buffersize hc,
      hcc_server_certificate_buffer = hc_server_certificate_buffer hc\<rparr>"
  using get_buf_here [of "hc_server_certificate_buffer hc" 20480 "[]"]
  by (simp add: dec_handshake_credentials_cs_def enc_handshake_credentials_def wf_handshake_credentials_def
      layout_simps)

lemma ByteArrayToStructure_eq:
  "ByteArrayToStructure n dec bs = (if n \<le> length bs then Inr (dec (take n bs)) else Inl OutOfBounds)"
  by (simp add: ByteArrayToStructure_def read_at_def)

text \<open>What the client has learnt from the greeting.\<close>

definition unity_greeted :: "ST_HANDSHAKE_HELLO \<Rightarrow> unity_client \<Rightarrow> unity_client" where
  "unity_greeted hh u =
     u\<lparr>un_service_name := hh_servername_buffer hh, un_service_id := hh_service_id hh,
       un_participant_id := hh_participant_id hh, un_service_timestamp := hh_server_timestamp hh\<rparr>"

lemma unity_hello_received:
  assumes u: "unity_listening u" and wf: "wf_handshake_hello hh" and e: "clr_order env = e"
  defines "fr \<equiv> frame e (head_code HANDSHAKE_HELLO) (enc_handshake_hello e hh)"
  shows "\<exists>v. unity_handle env (Unity_received fr False) u =
    (case unity_hello_ack_frame env (hh_participant_id hh) (un_participant_name u) of
       Inl x \<Rightarrow> Done v
     | Inr raw \<Rightarrow> Done (v\<lparr>tc_tx_buffer := raw, tc_sends := tc_sends u + 1, tc_receiving := True,
                        un_tcp_buffer := [], tc_rx_buffer := []\<rparr>)) \<and>
    tc_sends v = tc_sends u \<and> \<not> tc_receiving v \<and> tc_socket v = Connected_socket \<and>
    un_login v = un_login u \<and> un_password v = un_password u \<and> un_participant_id v = hh_participant_id hh"
proof -
  let ?v = "unity_greeted hh (unity_received env fr (u\<lparr>tc_receiving := False, tc_rx_buffer := fr\<rparr>))"
  have len: "length (enc_handshake_hello e hh) = 1052"
    using wf by (rule handshake_hello_codec.enc_length)
  have "ProcessMessage env (head_code HANDSHAKE_HELLO) (enc_handshake_hello e hh)
      (unity_received env fr (u\<lparr>tc_receiving := False, tc_rx_buffer := fr\<rparr>)) =
    lift_clr (unity_hello_ack_frame env (hh_participant_id hh) (un_participant_name u)) ?v
      (\<lambda>raw. AsyncSend raw (length raw) ?v)"
    using wf len by (simp add: ProcessMessage_def unity_on_hello_def ByteArrayToStructure_eq e dec_hello_cs Let_def
        unity_greeted_def unity_received_def)
  then have step: "unity_handle env (Unity_received fr False) u =
    catch_print (and_then (lift_clr (unity_hello_ack_frame env (hh_participant_id hh) (un_participant_name u)) ?v
      (\<lambda>raw. AsyncSend raw (length raw) ?v))
      (\<lambda>u5. AsyncReceive (u5\<lparr>un_tcp_buffer := [], tc_rx_buffer := []\<rparr>)))"
    using unity_frame_received [OF u, of "enc_handshake_hello e hh" "head_code HANDSHAKE_HELLO" env e] len e
    by (simp add: fr_def)
  have v: "tc_socket ?v = Connected_socket" "tc_sends ?v = tc_sends u" "\<not> tc_receiving ?v"
    "un_login ?v = un_login u" "un_password ?v = un_password u" "un_participant_id ?v = hh_participant_id hh"
    using u by (simp_all add: unity_listening_def unity_greeted_def unity_received_def)
  have raw: "length raw = 65536" if "unity_hello_ack_frame env (hh_participant_id hh) (un_participant_name u) = Inr raw" for raw
    using that by (auto simp: unity_hello_ack_frame_def outcome_simps dest: length_GetBytes_raw)
  show ?thesis
    unfolding step using v raw by (intro exI [of _ ?v]) (auto simp: AsyncSend_full AsyncReceive_def split: sum.split)
qed

text \<open>What the server takes for the size of a configuration is the size of the name and its first bytes.\<close>

lemma get32_over_name:
  assumes "l \<noteq> 0" and "b \<noteq> 0" and "2 \<le> length (b # bs)"
  shows "65536 \<le> unat (get32 e 0 (mem16 e l @ b # bs))"
proof -
  obtain c cs where bs: "bs = c # cs" using assms(3) by (cases bs) auto
  have l: "0 < unat l" "unat l < 65536" and b: "0 < unat b" "unat b < 256" and c: "unat c < 256"
    using assms(1,2) unat_bound [of l] unat_bound [of b] unat_bound [of c] by (auto simp: unat_gt_0)
  have size: "unat (get32 e 0 bs') = of_mem e (take 4 bs') mod 2 ^ 32" for bs'
    by (simp add: get32_def unat_of_nat)
  show ?thesis
  proof (cases e)
    case Little
    have "of_mem e (take 4 (mem16 e l @ b # bs)) = unat l + 65536 * (unat b + 256 * unat c)"
      using l by (simp add: Little bs mem16_def of_mem_def to_mem_def numeral_2_eq_2 unat_of_nat)
    then show ?thesis using b c l by (simp add: size)
  next
    case Big
    have "of_mem e (take 4 (mem16 e l @ b # bs)) = unat c + 256 * (unat b + 256 * unat l)"
      using l by (simp add: Big bs mem16_def of_mem_def to_mem_def numeral_2_eq_2 unat_of_nat)
    then show ?thesis using b c l by (simp add: size)
  qed
qed

lemma u16_of_nat_nonzero: "0 < n \<Longrightarrow> n < 65536 \<Longrightarrow> (word_of_nat n :: u16) \<noteq> 0"
  by (simp add: word_of_nat_eq_0_iff nat_dvd_not_less)

lemma rev_zeros: "rev (zeros n) = zeros n"
  by (simp add: zeros_def)

lemma le_val_zeros: "le_val (zeros n) = 0"
  using le_val_zeros_append [of n "[]"] by simp

lemma utf8_point_head: "0 < n \<Longrightarrow> n < 0x110000 \<Longrightarrow> \<exists>b bs. utf8_point n = b # bs \<and> b \<noteq> 0"
proof -
  assume n: "0 < n" "n < 0x110000"
  have nz: "(word_of_nat m :: byte) \<noteq> 0" if "0 < m" "m < 256" for m :: nat
    using that by (simp add: word_of_nat_eq_0_iff nat_dvd_not_less)
  show ?thesis
    using n nz [of n] nz [of "0xC0 + n div 64"] nz [of "0xE0 + n div 4096"] nz [of "0xF0 + n div 262144"]
    by (auto simp: utf8_point_def)
qed

lemma utf8_head: "u \<noteq> 0 \<Longrightarrow> \<exists>b bs. utf8 (u # us) = b # bs \<and> b \<noteq> 0"
proof -
  assume u: "u \<noteq> 0"
  have unit: "\<exists>b bs. utf8_unit u = b # bs \<and> b \<noteq> 0"
    unfolding utf8_unit_def using u unat_bound [of u] by (intro utf8_point_head) (auto simp: unat_gt_0)
  show ?thesis
  proof (cases us)
    case Nil
    then show ?thesis using unit by simp
  next
    case (Cons l ls)
    have "unat u < 0xDC00" if "high_surrogate u"
      using that by (simp add: high_surrogate_def word_less_nat_alt)
    moreover have "unat l < 0xE000" if "low_surrogate l"
      using that by (simp add: low_surrogate_def word_less_nat_alt)
    ultimately have "\<exists>b bs. utf8_point (0x10000 + (unat u - 0xD800) * 1024 + (unat l - 0xDC00)) = b # bs \<and> b \<noteq> 0"
      if "high_surrogate u" "low_surrogate l"
      using that by (intro utf8_point_head) simp_all
    then show ?thesis using Cons unit by auto
  qed
qed

section \<open>The other two messages\<close>

lemma unity_credentials_received:
  assumes u: "unity_listening u" and e: "clr_order env = e"
    and ok: "length (utf8 (un_login u)) \<le> 1024" "length (utf8 (un_password u)) \<le> 1024"
  defines "fr \<equiv> frame e (head_code HANDSHAKE_CREDENTIALS) (enc_handshake_credentials e build_handshake_credentials)"
  shows "\<exists>v. unity_handle env (Unity_received fr False) u =
      Done (v\<lparr>tc_tx_buffer := unity_credentials_bytes e (un_participant_id u) (un_login u) (un_password u),
              tc_sends := tc_sends u + 1\<rparr>) \<and> unity_listening v"
proof -
  let ?v = "unity_received env fr (u\<lparr>tc_receiving := False, tc_rx_buffer := fr\<rparr>)"
  let ?raw = "unity_credentials_bytes e (un_participant_id u) (un_login u) (un_password u)"
  have len: "length (enc_handshake_credentials e build_handshake_credentials) = 20484"
    by (simp add: handshake_credentials_codec.enc_length)
  have raw: "length ?raw = 65536"
    using handshake_credentials_ack_codec.enc_length [OF wf_unity_credentials [OF ok]]
    by (simp add: unity_credentials_bytes_def)
  have v: "un_participant_id ?v = un_participant_id u" "un_login ?v = un_login u" "un_password ?v = un_password u"
    "tc_socket ?v = Connected_socket" "tc_sends ?v = tc_sends u"
    using u by (simp_all add: unity_received_def unity_listening_def)
  have "ProcessMessage env (head_code HANDSHAKE_CREDENTIALS)
      (enc_handshake_credentials e build_handshake_credentials) ?v =
      Done (?v\<lparr>tc_tx_buffer := ?raw, tc_sends := tc_sends ?v + 1\<rparr>)"
    using len raw ok v by (simp add: ProcessMessage_def unity_on_credentials_def ByteArrayToStructure_eq e
        unity_credentials_ack_frame_eq AsyncSend_full)
  moreover have "unity_handle env (Unity_received fr False) u =
    catch_print (and_then (ProcessMessage env (head_code HANDSHAKE_CREDENTIALS)
      (enc_handshake_credentials e build_handshake_credentials) ?v)
      (\<lambda>u5. AsyncReceive (u5\<lparr>un_tcp_buffer := [], tc_rx_buffer := []\<rparr>)))"
    unfolding fr_def by (rule unity_frame_received [OF u _ _ e]) (use len in simp_all)
  ultimately show ?thesis
    using v by (intro exI [of _ "?v\<lparr>tc_receiving := True, un_tcp_buffer := [], tc_rx_buffer := []\<rparr>"])
      (simp add: AsyncReceive_def unity_listening_def)
qed

text \<open>\<open>PARTICIPANT_JOIN\<close> with any rate: 0 ends the reading, 1 gives one millisecond, more gives no updates.\<close>

lemma unity_join_received:
  assumes u: "unity_listening u" and e: "clr_order env = e" and wf: "wf_participant_join st"
  defines "fr \<equiv> frame e (head_code PARTICIPANT_JOIN) (enc_participant_join e st)"
  shows "\<exists>v. unity_handle env (Unity_received fr False) u =
      Done (if pj_max_data_rate st = 0 then v
            else v\<lparr>un_dt_ms := (if pj_max_data_rate st = 1 then 1 else 0), un_can_update := True,
                   un_tcp_buffer := [], tc_rx_buffer := [], tc_receiving := True\<rparr>) \<and>
    \<not> tc_receiving v \<and> tc_socket v = Connected_socket \<and> un_tcp_client v = un_tcp_client u \<and>
    un_participant_id v = pj_participant_id st \<and> un_dt_ms v = un_dt_ms u \<and> un_can_update v = un_can_update u"
proof -
  let ?w = "unity_received env fr (u\<lparr>tc_receiving := False, tc_rx_buffer := fr\<rparr>)"
  let ?v = "?w\<lparr>un_participant_id := pj_participant_id st, un_max_data_rate := pj_max_data_rate st\<rparr>"
  have len: "length (enc_participant_join e st) = 10256"
    using wf by (rule participant_join_codec.enc_length)
  have read: "pjc_participant_id (dec_participant_join_cs e (take 10254 (enc_participant_join e st))) = pj_participant_id st"
    "pjc_max_data_rate (dec_participant_join_cs e (take 10254 (enc_participant_join e st))) = pj_max_data_rate st"
    by (simp_all add: dec_participant_join_cs_def enc_participant_join_def take_append layout_simps)
  have rate: "1 div uint (pj_max_data_rate st) = (if pj_max_data_rate st = 1 then 1 else 0)"
    if "pj_max_data_rate st \<noteq> 0"
  proof (cases "uint (pj_max_data_rate st) = 1")
    case False
    moreover have "uint (pj_max_data_rate st) \<noteq> 0" using that by (simp add: word_uint_eq_iff)
    ultimately have "1 < uint (pj_max_data_rate st)"
      using uint_ge_0 [of "pj_max_data_rate st"] by linarith
    then show ?thesis by (simp add: word_uint_eq_iff div_pos_pos_trivial)
  qed (simp add: word_uint_eq_iff)
  have "ProcessMessage env (head_code PARTICIPANT_JOIN) (enc_participant_join e st) ?w =
      (if pj_max_data_rate st = 0 then Throws (Managed ''DivideByZeroException'') ?v
       else Done (?v\<lparr>un_dt_ms := (if pj_max_data_rate st = 1 then 1 else 0), un_can_update := True\<rparr>))"
    using len rate by (simp add: ProcessMessage_def unity_on_join_def ByteArrayToStructure_eq e read Let_def)
  moreover have "unity_handle env (Unity_received fr False) u =
    catch_print (and_then (ProcessMessage env (head_code PARTICIPANT_JOIN) (enc_participant_join e st) ?w)
      (\<lambda>u5. AsyncReceive (u5\<lparr>un_tcp_buffer := [], tc_rx_buffer := []\<rparr>)))"
    unfolding fr_def by (rule unity_frame_received [OF u _ _ e]) (use len in simp_all)
  ultimately show ?thesis
    using u by (intro exI [of _ ?v]) (simp add: AsyncReceive_def unity_listening_def unity_received_def)
qed

end
