(* ===== verification/Unity_Properties.thy ===== *)
theory Unity_Properties
  imports Unity_Correct
begin

text \<open>
  The properties of the Unity client: the layouts it shares with the server, the way into the room, and
  what splitting and joining of messages on the way does to it.
\<close>

section \<open>Layouts\<close>

text \<open>C34: the Unity client and the server agree on the numbers of the message heads, on the frame header
  and on the bytes of three structures, the greeting, the request for credentials and the answer to it.\<close>

theorem unity_agrees_on_layout:
  assumes "wf_handshake_hello hh" and "wf_handshake_credentials hc"
    and "length (hcac_login_buffer s) = 1024" "length (hcac_password_buffer s) = 1024"
      "length (hcac_participant_certificate_buffer s) = 20480"
  shows "map head_code_cs all_heads_cs = map head_code all_heads \<and>
    dec_header e (enc_header_cs e h @ rest) =
      \<lparr>xh_head = xm_head h, xh_buffersize = xm_buffersize h, xh_payload_is_big_endian = xm_payload_is_big_endian h\<rparr> \<and>
    ByteArrayToStructure 1052 (dec_handshake_hello_cs e) (enc_handshake_hello e hh) = Inr
      \<lparr>hhc_service_id = hh_service_id hh, hhc_participant_id = hh_participant_id hh,
       hhc_service_timestamp = hh_server_timestamp hh, hhc_service_name_buffersize = hh_servername_buffersize hh,
       hhc_service_name_buffer = hh_servername_buffer hh\<rparr> \<and>
    ByteArrayToStructure 20484 (dec_handshake_credentials_cs e) (enc_handshake_credentials e hc) = Inr
      \<lparr>hcc_server_certificate_buffersize = hc_server_certificate_buffersize hc,
       hcc_server_certificate_buffer = hc_server_certificate_buffer hc\<rparr> \<and>
    (\<exists>bs. GetBytes_credentials_ack env s = Inr bs \<and>
      dec_handshake_credentials_ack (clr_order env) (bs @ rest) =
      \<lparr>hca_participant_id = hcac_participant_id s,
       hca_login_buffersize = hcac_login_buffersize s, hca_login_buffer = hcac_login_buffer s,
       hca_password_buffersize = hcac_password_buffersize s, hca_password_buffer = hcac_password_buffer s,
       hca_participant_certificate_buffersize = hcac_participant_certificate_buffersize s,
       hca_participant_certificate_buffer = hcac_participant_certificate_buffer s\<rparr>)"
proof -
  have "map head_code_cs all_heads_cs = map head_code all_heads"
    by (simp add: all_heads_cs_def all_heads_def)
  moreover have "dec_header e (enc_header_cs e h @ rest) =
      \<lparr>xh_head = xm_head h, xh_buffersize = xm_buffersize h, xh_payload_is_big_endian = xm_payload_is_big_endian h\<rparr>"
    by (simp add: dec_header_def enc_header_cs_def layout_simps)
  ultimately show ?thesis
    using assms
    by (simp add: ByteArrayToStructure_eq handshake_hello_codec.enc_length dec_hello_cs
        handshake_credentials_codec.enc_length dec_credentials_cs GetBytes_credentials_ack_def
        enc_handshake_credentials_ack_cs_def dec_handshake_credentials_ack_def layout_simps)
qed

theorem unity_agrees_on_layout_witness:
  "\<exists>bs. GetBytes_credentials_ack \<lparr>clr_order = Big, clr_now = 0, behind_array = None\<rparr>
      \<lparr>hcac_participant_id = 7, hcac_login_buffersize = 1, hcac_login_buffer = 65 # zeros 1023,
       hcac_password_buffersize = 1, hcac_password_buffer = 66 # zeros 1023,
       hcac_participant_certificate_buffersize = 0, hcac_participant_certificate_buffer = zeros 20480\<rparr> = Inr bs \<and>
    hca_password_buffer (dec_handshake_credentials_ack Big bs) = 66 # zeros 1023"
proof -
  let ?s = "\<lparr>hcac_participant_id = 7, hcac_login_buffersize = 1, hcac_login_buffer = 65 # zeros 1023,
       hcac_password_buffersize = 1, hcac_password_buffer = 66 # zeros 1023,
       hcac_participant_certificate_buffersize = 0, hcac_participant_certificate_buffer = zeros 20480\<rparr>"
  have ok: "wf_handshake_hello \<lparr>hh_service_id = 0, hh_participant_id = 0, hh_server_timestamp = 0,
      hh_servername_buffersize = 0, hh_servername_buffer = zeros 1024\<rparr>"
    "wf_handshake_credentials build_handshake_credentials"
    "length (hcac_login_buffer ?s) = 1024" "length (hcac_password_buffer ?s) = 1024"
    "length (hcac_participant_certificate_buffer ?s) = 20480"
    by (simp_all add: wf_handshake_hello_def)
  show ?thesis
    using unity_agrees_on_layout [OF ok, where env = "\<lparr>clr_order = Big, clr_now = 0, behind_array = None\<rparr>"
        and rest = "[]" and e = Big and h = "\<lparr>xm_head = 0, xm_buffersize = 0, xm_payload_is_big_endian = 0\<rparr>"]
    by auto
qed

section \<open>Into the room\<close>

text \<open>The environment and the client of the witnesses.\<close>

definition sample_clr :: clr_env where
  "sample_clr = \<lparr>clr_order = Little, clr_now = 5000, behind_array = Some (\<lambda>_. 0xCC)\<rparr>"

definition sample_unity :: "cs_string \<Rightarrow> unity_client" where
  "sample_unity name =
     (new_unity_client name (cs_str ''login'') (cs_str ''password''))
       \<lparr>un_tcp_client := True, tc_socket := Connected_socket, tc_receiving := True\<rparr>"

lemma sample_clr_fields [simp]:
  "clr_order sample_clr = Little" "clr_now sample_clr = 5000" "behind_array sample_clr = Some (\<lambda>_. 0xCC)"
  by (simp_all add: sample_clr_def)

lemma sample_unity_fields [simp]:
  "unity_listening (sample_unity name)" "un_participant_name (sample_unity name) = name"
  "un_login (sample_unity name) = cs_str ''login''" "un_password (sample_unity name) = cs_str ''password''"
  "\<not> tc_connecting (sample_unity name)" "un_tcp_client (sample_unity name)"
  "tc_receiving (sample_unity name)" "tc_socket (sample_unity name) = Connected_socket"
  by (simp_all add: sample_unity_def new_unity_client_def unity_listening_def)

lemma unity_hello_ack_stops:
  assumes "un_participant_name u = c # cs" and "c \<noteq> 0" and e: "clr_order env = byte_order senv"
    and raw: "unity_hello_ack_frame env pid (c # cs) = Inr raw"
  shows "handshake_frame senv p raw w = Undefined OutOfBounds"
proof -
  obtain b bs where b: "utf8 (c # cs) = b # bs" "b \<noteq> 0" using utf8_head [OF assms(2)] by blast
  let ?n = "length (utf8 (c # cs))"
  obtain mem where n: "?n \<le> 1024" and raw_eq: "raw = enc_header_cs (clr_order env)
      \<lparr>xm_head = 2, xm_buffersize = 1042, xm_payload_is_big_endian = (if clr_order env = Little then 0 else 0xFFFF)\<rparr> @
      unity_hello_ack_bytes env pid (c # cs) @ stale mem 0 64486"
    using raw by (auto simp: unity_hello_ack_frame_eq split: if_splits option.splits)
  have len: "length raw = 65536" using raw by (auto simp: unity_hello_ack_frame_def outcome_simps dest: length_GetBytes_raw)
  have "(word_of_nat ?n :: u16) \<noteq> 0"
    by (rule u16_of_nat_nonzero) (use b(1) n in simp_all)
  moreover have "drop 8 raw = mem64 (clr_order env) pid @ mem64 (clr_order env) (clr_now env) @
      mem16 (clr_order env) (word_of_nat ?n) @ b # bs @ zeros (1024 - ?n) @ stale mem 0 64486"
    unfolding raw_eq unity_hello_ack_bytes_def b(1) by simp
  ultimately have "65536 \<le> unat (hha_configuration_buffersize (dec_handshake_hello_ack (byte_order senv) (drop 8 raw)))"
    using get32_over_name [of "word_of_nat ?n" b "bs @ zeros (1024 - ?n) @ stale mem 0 64486" "clr_order env"] b(2)
    by (simp add: dec_handshake_hello_ack_def e layout_simps)
  moreover have "xr_head (byte_order senv) raw = 2"
    by (simp add: xr_head_def raw_eq enc_header_cs_def e)
  ultimately show ?thesis
    using len by (simp add: handshake_frame_full check_handshake_hello_ack_def Let_def read_at_def)
qed

text \<open>C24: a participant with a name cannot join, and takes the server down: a client that is greeted
  either fails to build its answer, sends nothing and stops reading, or sends an answer whose name
  starts where the server reads the size of the configuration, and the server reads out of bounds.\<close>

theorem unity_name_stops_the_server:
  fixes w :: nr_server
  assumes "unity_listening u" and "wf_handshake_hello hh" and e: "clr_order env = byte_order senv"
    and name: "un_participant_name u = c # cs" "c \<noteq> 0"
  shows "\<exists>u'. unity_handle env (Unity_received
      (frame (byte_order senv) (head_code HANDSHAKE_HELLO) (enc_handshake_hello (byte_order senv) hh)) False) u = Done u' \<and>
    (tc_sends u' = tc_sends u \<and> \<not> tc_receiving u' \<or>
     tc_sends u' = tc_sends u + 1 \<and> handshake_frame senv p (tc_tx_buffer u') w = Undefined OutOfBounds)"
proof (cases "unity_hello_ack_frame env (hh_participant_id hh) (un_participant_name u)")
  case (Inl x)
  then show ?thesis using unity_hello_received [OF assms(1,2) e] by auto
next
  case (Inr raw)
  have "handshake_frame senv p raw w = Undefined OutOfBounds"
    by (rule unity_hello_ack_stops [OF name e Inr [unfolded name(1)]])
  then show ?thesis using unity_hello_received [OF assms(1,2) e] Inr by (auto simp del: head_code.simps unity_handle.simps)
qed

theorem unity_name_stops_the_server_witness:
  "\<exists>u'. unity_handle sample_clr (Unity_received (server_hello_frame sample_env 7 (str ''service'')) False)
      (sample_unity (cs_str ''JP Participant'')) = Done u' \<and>
    (tc_sends u' = 0 \<and> \<not> tc_receiving u' \<or>
     tc_sends u' = 1 \<and> handshake_frame sample_env 2 (tc_tx_buffer u') (sample_server 5) = Undefined OutOfBounds)"
proof -
  have "wf_handshake_hello (server_hello sample_env 7 (str ''service''))"
    by (simp add: wf_handshake_hello_def server_hello_def str_def)
  moreover have "cs_str ''JP Participant'' = 74 # cs_str ''P Participant''"
    by (simp add: cs_str_def)
  moreover have "tc_sends (sample_unity (cs_str ''JP Participant'')) = 0"
    by (simp add: sample_unity_def new_unity_client_def)
  ultimately show ?thesis
    using unity_name_stops_the_server [of "sample_unity (cs_str ''JP Participant'')"
        "server_hello sample_env 7 (str ''service'')" sample_clr sample_env 74 "cs_str ''P Participant''" 2 "sample_server 5"]
    by (simp add: server_hello_frame_def del: head_code.simps unity_handle.simps)
qed

text \<open>What the server reads in the two answers of a client without a name.\<close>

lemma unity_nameless_hello_ack:
  assumes e: "clr_order env = byte_order senv"
    and raw: "unity_hello_ack_frame env pid [] = Inr raw"
  shows "length raw = 65536" and "handshake_frame senv p raw w =
    Done (do_read_handshake p (deliver_byte p (credentials_request_frame senv)
      (upd_session p (\<lambda>s. s\<lparr>m_descriptor := m_descriptor s @ []\<rparr>) w)))"
proof -
  show len: "length raw = 65536" using raw by (auto simp: unity_hello_ack_frame_def outcome_simps dest: length_GetBytes_raw)
  obtain mem where raw_eq: "raw = enc_header_cs (clr_order env)
      \<lparr>xm_head = 2, xm_buffersize = 1042, xm_payload_is_big_endian = (if clr_order env = Little then 0 else 0xFFFF)\<rparr> @
      mem64 (clr_order env) pid @ mem64 (clr_order env) (clr_now env) @ zeros 4 @ zeros 1022 @ stale mem 0 64486"
    using raw by (auto simp: unity_hello_ack_frame_eq unity_hello_ack_bytes_def mem16_def to_mem_def le_bytes_zero
        rev_zeros split: if_splits option.splits endian.splits)
  have size: "get32 e 0 (zeros 4 @ bs) = 0" for e bs
    by (cases e) (simp_all add: get32_def of_mem_def rev_zeros le_val_zeros)
  have head: "xr_head (byte_order senv) raw = head_code HANDSHAKE_HELLO_ACK"
    by (simp add: xr_head_def raw_eq enc_header_cs_def e)
  have end_found: "0 \<in> set (drop 28 raw)"
    by (simp add: raw_eq del: zeros_append_rest)
  have cfg: "unat (hha_configuration_buffersize (dec_handshake_hello_ack (byte_order senv) (drop 8 raw))) = 0"
    by (simp add: raw_eq dec_handshake_hello_ack_def layout_simps size del: zeros_append_rest)
  show "handshake_frame senv p raw w =
    Done (do_read_handshake p (deliver_byte p (credentials_request_frame senv)
      (upd_session p (\<lambda>s. s\<lparr>m_descriptor := m_descriptor s @ []\<rparr>) w)))"
    by (rule handshake_frame_hello_ack_of [OF len head end_found cfg]) simp_all
qed

lemma unity_credentials_accepted:
  "credentials_rejected (unity_credentials pid (cs_str ''login'') (cs_str ''password'')) = Inr False"
proof -
  have utf8: "utf8 (cs_str ''login'') = str ''login''" "utf8 (cs_str ''password'') = str ''password''"
    by (simp_all add: cs_str_def str_def utf8_unit_def utf8_point_def high_surrogate_def low_surrogate_def)
  have "strcmp (str ''login'' @ zeros 1019) (cstr ''login'') = Inr 0"
    and "strcmp (str ''password'' @ zeros 1016) (cstr ''password'') = Inr 0"
    using strcmp_refl [of "str ''login''" "zeros 1018"] strcmp_refl [of "str ''password''" "zeros 1015"]
    by (simp_all add: zeros_pos [of 1019] zeros_pos [of 1016] cstr_def str_def)
  then show ?thesis by (simp add: credentials_rejected_def unity_credentials_def utf8)
qed

lemma unity_credentials_frame_read:
  fixes e :: endian and pid :: u64
  assumes ok: "length (utf8 login) \<le> 1024" "length (utf8 password) \<le> 1024"
  defines "k \<equiv> unity_credentials_bytes e pid login password"
  shows "length k = 65536" and "xr_head e k = head_code HANDSHAKE_CREDENTIALS_ACK" and "0 \<in> set (drop 2070 k)"
    and "dec_handshake_credentials_ack e (drop 8 k) = unity_credentials pid login password"
proof -
  note wf = wf_unity_credentials [OF ok, of pid]
  show "length k = 65536"
    by (simp add: k_def unity_credentials_bytes_def handshake_credentials_ack_codec.enc_length [OF wf])
  show "xr_head e k = head_code HANDSHAKE_CREDENTIALS_ACK"
    by (simp add: k_def unity_credentials_bytes_def xr_head_def enc_header_cs_def)
  show "dec_handshake_credentials_ack e (drop 8 k) = unity_credentials pid login password"
    by (simp add: k_def unity_credentials_bytes_def handshake_credentials_ack_codec.dec_enc_append [OF wf])
  have "drop 2070 k = zeros 63466"
    using ok by (simp add: k_def unity_credentials_bytes_def enc_handshake_credentials_ack_def unity_credentials_def)
  then show "0 \<in> set (drop 2070 k)" by simp
qed

lemma handshake_frame_unity_credentials:
  assumes e: "byte_order senv = e"
  shows "handshake_frame senv p (unity_credentials_bytes e pid (cs_str ''login'') (cs_str ''password'')) w =
    and_then (join senv p (do_read_byte p w))
      (\<lambda>w3. Done (deliver_byte p (participant_join_frame senv (m_id (heap w3 p))) w3))"
proof -
  have "length (utf8 (cs_str ''login'')) \<le> 1024" "length (utf8 (cs_str ''password'')) \<le> 1024"
    by (simp_all add: cs_str_def utf8_unit_def utf8_point_def high_surrogate_def low_surrogate_def)
  from unity_credentials_frame_read [OF this, of e pid] show ?thesis
    by (simp add: handshake_frame_full e check_handshake_credentials_ack_eq [OF unity_credentials_accepted]
        del: head_code.simps)
qed

text \<open>The three messages of a handshake as they reach the client, each answer on its way before the next.\<close>

definition unity_script :: "byte list list \<Rightarrow> unity_event list" where
  "unity_script ms =
     [Unity_received (ms ! 0) False, Unity_sent, Unity_received (ms ! 1) False, Unity_sent,
      Unity_received (ms ! 2) False]"

lemma unity_client_side:
  fixes senv :: asio_env and i :: u64
  assumes u: "unity_listening u" and e: "clr_order env = byte_order senv" and wf: "wf_handshake_hello hh"
    and raw: "unity_hello_ack_frame env (hh_participant_id hh) (un_participant_name u) = Inr a"
    and ok: "length (utf8 (un_login u)) \<le> 1024" "length (utf8 (un_password u)) \<le> 1024"
  defines "ms \<equiv> [frame (byte_order senv) (head_code HANDSHAKE_HELLO) (enc_handshake_hello (byte_order senv) hh),
      credentials_request_frame senv, participant_join_frame senv i]"
    and "k \<equiv> unity_credentials_bytes (byte_order senv) (hh_participant_id hh) (un_login u) (un_password u)"
  shows "\<exists>u'. run unity_enabled (unity_handle env) (unity_script ms) u = Some (Done u') \<and>
    history unity_sends (unity_handle env) (unity_script ms) u = [a, k] \<and>
    un_participant_id u' = i \<and> un_dt_ms u' = 1 \<and> un_can_update u' \<and> unity_listening u'"
proof -
  obtain v where v: "unity_handle env (Unity_received (ms ! 0) False) u = Done (v\<lparr>tc_tx_buffer := a,
      tc_sends := tc_sends u + 1, tc_receiving := True, un_tcp_buffer := [], tc_rx_buffer := []\<rparr>)" (is "_ = Done ?v1")
    "tc_socket v = Connected_socket" "un_login v = un_login u" "un_password v = un_password u"
    "un_participant_id v = hh_participant_id hh"
    using unity_hello_received [OF u wf e] raw by (auto simp: ms_def simp del: head_code.simps unity_handle.simps)
  define u1 where "u1 = asyncSendCallback ?v1"
  have u1: "unity_listening u1" "un_login u1 = un_login u" "un_password u1 = un_password u"
    "un_participant_id u1 = hh_participant_id hh"
    using v by (simp_all add: u1_def asyncSendCallback_def unity_listening_def)
  obtain v2 where v2: "unity_handle env (Unity_received (ms ! 1) False) u1 = Done (v2\<lparr>tc_tx_buffer := k, tc_sends := tc_sends u1 + 1\<rparr>)"
      "unity_listening v2"
    using unity_credentials_received [OF u1(1) e] ok u1(2-4)
    by (auto simp: ms_def k_def credentials_request_frame_def simp del: head_code.simps unity_handle.simps)
  define u2 where "u2 = asyncSendCallback (v2\<lparr>tc_tx_buffer := k, tc_sends := tc_sends u1 + 1\<rparr>)"
  have u2: "unity_listening u2" using v2(2) by (simp add: u2_def asyncSendCallback_def unity_listening_def)
  obtain u3 where u3: "unity_handle env (Unity_received (ms ! 2) False) u2 = Done u3"
      "un_participant_id u3 = i" "un_dt_ms u3 = 1" "un_can_update u3" "unity_listening u3"
    using unity_join_received [OF u2 e, of "init_participant_join
        \<lparr>pj_participant_id := i, pj_max_data_rate := 1, pj_allow_asynchronous_messages := 0xFFFF,
         pj_message_buffersize := 16, pj_message_buffer := welcome_message @ zeros 10224\<rparr>"]
    by (auto simp: ms_def participant_join_frame_def wf_participant_join_def unity_listening_def
        simp del: head_code.simps unity_handle.simps)
  have en: "unity_enabled (Unity_received m False) x" if "unity_listening x" "length m \<le> 65536" for m x
    using that by (simp add: unity_listening_def)
  have lens: "length (ms ! 0) \<le> 65536" "length (ms ! 1) \<le> 65536" "length (ms ! 2) \<le> 65536"
    by (simp_all add: ms_def credentials_request_frame_def participant_join_frame_def length_frame
        handshake_hello_codec.enc_length [OF wf] handshake_credentials_codec.enc_length
        participant_join_codec.enc_length wf_participant_join_def)
  note steps = en [OF u lens(1)] v(1) en [OF u1(1) lens(2)] v2(1) en [OF u2 lens(3)] u3(1)
  have "run unity_enabled (unity_handle env) (unity_script ms) u = Some (Done u3)"
    using steps by (simp add: unity_script_def u1_def u2_def del: unity_handle.simps unity_enabled.simps(3))
      (simp add: asyncSendCallback_def)
  moreover have "history unity_sends (unity_handle env) (unity_script ms) u = [a, k]"
    using steps by (simp add: unity_script_def unity_sends_def u1_def u2_def)
  ultimately show ?thesis using u3 by blast
qed



end
