(* ===== verification/Unity_Stream.thy ===== *)
theory Unity_Stream
  imports Unity_Properties
begin

text \<open>
  Frames as a stream of bytes: what the Unity client makes of messages that come in pieces, together, or
  cut short, and of the update rate it is given.
\<close>

text \<open>What the client knows from the messages of the server.\<close>

definition unity_knows :: "unity_client \<Rightarrow> u64 \<times> u64 \<times> u64 \<times> byte list \<times> u16 \<times> int \<times> bool" where
  "unity_knows u = (un_service_id u, un_participant_id u, un_service_timestamp u, un_service_name u,
     un_max_data_rate u, un_dt_ms u, un_can_update u)"

section \<open>Pieces\<close>

lemma unity_piece:
  assumes "tc_socket u = Connected_socket" and "c \<noteq> []"
  shows "unity_handle env (Unity_received c True) u =
    Done (u\<lparr>tc_rx_buffer := tc_rx_buffer u @ c, tc_receiving := True\<rparr>)"
  using assms by (simp add: asyncReceiveCallback_def Let_def AsyncReceive_def ConcatByteArrays_def)

lemma unity_piece_then:
  assumes "c \<noteq> []"
  shows "unity_handle env (Unity_received c False) (u\<lparr>tc_rx_buffer := tc_rx_buffer u @ b, tc_receiving := True\<rparr>) =
    unity_handle env (Unity_received (b @ c) False) u"
  using assms by (simp add: asyncReceiveCallback_def Let_def ConcatByteArrays_def)

text \<open>C35: pieces make a message: as long as the socket says that more is there, it does not matter how a
  delivery is cut, the client does the same as with the whole of it at once.\<close>

theorem unity_pieces_make_a_message:
  assumes "tc_receiving u" and "tc_socket u = Connected_socket"
    and "\<forall>c \<in> set (cs @ [c]). c \<noteq> [] \<and> length c \<le> 65536"
  shows "run unity_enabled (unity_handle env) (map (\<lambda>c. Unity_received c True) cs @ [Unity_received c False]) u =
    Some (unity_handle env (Unity_received (concat cs @ c) False) u)"
  using assms
proof (induction cs arbitrary: u)
  case Nil
  then show ?case by (cases "unity_handle env (Unity_received c False) u") simp_all
next
  case (Cons b bs)
  let ?v = "u\<lparr>tc_rx_buffer := tc_rx_buffer u @ b, tc_receiving := True\<rparr>"
  have step: "unity_handle env (Unity_received b True) u = Done ?v"
    by (rule unity_piece) (use Cons.prems in simp_all)
  have en: "unity_enabled (Unity_received b True) u" using Cons.prems by simp
  have "run unity_enabled (unity_handle env) (map (\<lambda>c. Unity_received c True) (b # bs) @ [Unity_received c False]) u =
      run unity_enabled (unity_handle env) (map (\<lambda>c. Unity_received c True) bs @ [Unity_received c False]) ?v"
    unfolding list.map append_Cons by (rule run_step [of unity_enabled _ _ "unity_handle env", OF en step])
  also have "\<dots> = Some (unity_handle env (Unity_received (concat bs @ c) False) ?v)"
    by (rule Cons.IH) (use Cons.prems in simp_all)
  also have "unity_handle env (Unity_received (concat bs @ c) False) ?v =
      unity_handle env (Unity_received (b @ concat bs @ c) False) u"
    by (rule unity_piece_then) (use Cons.prems in simp)
  finally show ?case by simp
qed

theorem unity_pieces_make_a_message_witness:
  "run unity_enabled (unity_handle sample_clr)
     (map (\<lambda>c. Unity_received c True) [[1, 0], [2]] @ [Unity_received [0, 0, 0, 0, 0, 7] False]) (sample_unity []) =
   Some (unity_handle sample_clr (Unity_received [1, 0, 2, 0, 0, 0, 0, 0, 7] False) (sample_unity []))"
  using unity_pieces_make_a_message [of "sample_unity []" "[[1, 0], [2]]" "[0, 0, 0, 0, 0, 7]" sample_clr]
  by (simp del: unity_handle.simps)

section \<open>What a message leaves alone\<close>

definition unity_frame_of :: "unity_client \<Rightarrow> unity_client \<Rightarrow> bool" where
  "unity_frame_of u u' \<longleftrightarrow>
     tc_receiving u' = tc_receiving u \<and> tc_connecting u' = tc_connecting u \<and> tc_socket u' = tc_socket u \<and>
     un_tcp_client u' = un_tcp_client u"

lemma AsyncSend_cases:
  "AsyncSend m n (u :: unity_client) =
     (case tc_socket u of
        No_socket \<Rightarrow> Throws (Managed ''NullReferenceException'') u
      | Connected_socket \<Rightarrow>
          Done (if n \<le> length m \<and> n \<le> 65536
                then u\<lparr>tc_tx_buffer := take n m @ zeros (65536 - n), tc_sends := tc_sends u + 1\<rparr>
                else u\<lparr>tc_tx_buffer := zeros 65536\<rparr>)
      | _ \<Rightarrow> Done u)"
  by (simp add: AsyncSend_def Let_def array_copy_start split: socket_state.split)

lemmas unity_process_defs =
  ProcessMessage_def unity_on_hello_def unity_on_credentials_def unity_on_join_def ByteArrayToStructure_eq

lemma lift_clr_case: "lift_clr m w f = (case m of Inl x \<Rightarrow> Throws x w | Inr y \<Rightarrow> f y)"
  by (cases m) simp_all

lemma ProcessMessage_frame: "u' \<in> set_outcome (ProcessMessage env h p u) \<Longrightarrow> unity_frame_of u u'"
  by (auto simp: unity_process_defs unity_frame_of_def AsyncSend_cases Let_def lift_clr_case
      split: if_splits socket_state.splits sum.splits)

text \<open>The bytes that wait in the buffers do not matter to it.\<close>

definition with_buffers :: "byte list \<Rightarrow> byte list \<Rightarrow> unity_client \<Rightarrow> unity_client" where
  "with_buffers b r u = u\<lparr>un_tcp_buffer := b, tc_rx_buffer := r\<rparr>"

lemma ProcessMessage_buffers:
  "ProcessMessage env h p (with_buffers b r u) = map_outcome (with_buffers b r) (ProcessMessage env h p u)"
  by (auto simp: unity_process_defs with_buffers_def AsyncSend_cases Let_def lift_clr_case
      split: socket_state.splits sum.splits)

section \<open>Two messages together\<close>

lemma unity_received_together:
  assumes "8 \<le> length fr"
  shows "unity_received env (fr @ rest) (u\<lparr>tc_receiving := False, tc_rx_buffer := fr @ rest\<rparr>) =
    with_buffers (fr @ rest) (fr @ rest) (unity_received env fr (u\<lparr>tc_receiving := False, tc_rx_buffer := fr\<rparr>))"
  using assms by (simp add: unity_received_def with_buffers_def get16_def get32_def)

lemma unity_frames_together:
  assumes u: "unity_listening u" and len: "length payload \<le> 65528" and head: "head \<noteq> 0" and e: "clr_order env = e"
    and end_state: "unity_handle env (Unity_received (frame e head payload @ rest) False) u = Done u'" "tc_receiving u'"
  shows "unity_handle env (Unity_received (frame e head payload) False) u = Done u'"
proof -
  let ?fr = "frame e head payload" and ?done = "\<lambda>u5. AsyncReceive (u5\<lparr>un_tcp_buffer := [], tc_rx_buffer := []\<rparr>)"
  let ?v = "unity_received env ?fr (u\<lparr>tc_receiving := False, tc_rx_buffer := ?fr\<rparr>)"
  let ?r = "ProcessMessage env head payload ?v"
  have long: "8 \<le> length ?fr" using length_frame [OF len, of e head] by simp
  have not_receiving: "\<not> tc_receiving x" if "x \<in> set_outcome ?r" for x
    using ProcessMessage_frame [OF that] by (simp add: unity_frame_of_def unity_received_def)
  have done_eq: "?done (with_buffers b r x) = ?done x" for b r x
    by (simp add: with_buffers_def)
  have one: "unity_handle env (Unity_received ?fr False) u = catch_print (and_then ?r ?done)"
    by (rule unity_frame_received [OF u len head e])
  have "unity_handle env (Unity_received (?fr @ rest) False) u =
      catch_print (and_then (map_outcome (with_buffers (?fr @ rest) (?fr @ rest)) ?r) ?done)"
    using OnReceive_frame [of "u\<lparr>tc_receiving := False, tc_rx_buffer := ?fr @ rest\<rparr>" payload head env e rest] u len head e
    by (simp add: asyncReceiveCallback_def Let_def length_frame_pos unity_listening_def ConcatByteArrays_def
        and_then_assoc unity_received_together [OF long] ProcessMessage_buffers)
  then show ?thesis
    using end_state not_receiving done_eq
    by (cases ?r) (auto simp: one with_buffers_def simp del: unity_handle.simps)
qed

text \<open>C36: two messages that arrive together are one too many: what stands behind the first message is
  dropped with it, whatever it is; when the client goes on reading, it is in the state it would be in
  had only the first message been sent.\<close>

theorem unity_loses_the_second:
  assumes "unity_listening u" and "length payload \<le> 65528" and "head \<noteq> 0" and "clr_order env = e"
    and "second \<noteq> []" and "length second \<le> 65536"
    and "run unity_enabled (unity_handle env)
      [Unity_received (frame e head payload) True, Unity_received second False] u = Some (Done u')"
    and "tc_receiving u'"
  shows "run unity_enabled (unity_handle env) [Unity_received (frame e head payload) False] u = Some (Done u')"
proof -
  have ready: "tc_receiving u" "tc_socket u = Connected_socket" using assms(1) by (simp_all add: unity_listening_def)
  have "unity_handle env (Unity_received (frame e head payload @ second) False) u = Done u'"
    using unity_pieces_make_a_message [OF ready, of "[frame e head payload]" second env]
      length_frame [OF assms(2), of e head] length_frame_pos [OF assms(2), of e head] assms(5-7)
    by (simp del: unity_handle.simps)
  then have "unity_handle env (Unity_received (frame e head payload) False) u = Done u'"
    by (rule unity_frames_together [OF assms(1-4) _ assms(8)])
  then show ?thesis using ready length_frame [OF assms(2), of e head] by (simp del: unity_handle.simps)
qed

text \<open>A message of a kind the client does not look at, and its rest.\<close>

lemma unity_ignored_step:
  assumes u: "unity_listening u" and "clr_order env = e" and len: "length payload \<le> 65528"
    and k: "8 + length payload \<le> k" "k \<le> 65536" and "head \<notin> {0, 1, 3, 9}"
    and bs: "bs = take k (frame e head payload) @ rest"
  shows "\<exists>u'. unity_handle env (Unity_received bs False) u = Done u' \<and> unity_listening u' \<and>
    unity_knows u' = unity_knows u \<and> tc_sends u' = tc_sends u"
proof -
  obtain z where z: "take k (frame e head payload) =
      enc_header e (mk_xr_message_header head (word_of_nat (length payload))) @ payload @ z"
    using len k(1) by (simp add: frame_def)
  have "get16 e 0 bs = head" "unat (get32 e 2 bs) = length payload" "8 + length payload \<le> length bs"
    using len unfolding bs z by (simp_all add: enc_header_def mk_xr_message_header_def layout_simps unat_of_nat)
  moreover from this have "bs \<noteq> []" by auto
  ultimately show ?thesis
    using assms by (auto simp: asyncReceiveCallback_def Let_def OnReceive_eq unity_listening_def ConcatByteArrays_def
        ProcessMessage_def AsyncReceive_def unity_received_def unity_knows_def)
qed

text \<open>Among these are the messages in which the server relays the updates of the other members.\<close>

lemma unity_ignores:
  assumes "unity_listening u" and "clr_order env = e" and "length payload \<le> 65528"
    and "head \<in> head_code ` {PARTICIPANT_UPDATE_ACK, PARTICIPANT_UPDATE, PARTICIPANT_NEW, PARTICIPANT_LEAVE}"
  shows "\<exists>u'. unity_handle env (Unity_received (frame e head payload) False) u = Done u' \<and> unity_listening u' \<and>
    unity_knows u' = unity_knows u \<and> tc_sends u' = tc_sends u"
  using assms length_frame [OF assms(3), of e head]
  by (intro unity_ignored_step [OF assms(1-3), where k = 65536 and rest = "[]" and head = head]) auto

theorem unity_loses_the_second_witness:
  "\<exists>u'. run unity_enabled (unity_handle sample_clr)
      [Unity_received (frame Little 15 []) True, Unity_received [9] False] (sample_unity []) = Some (Done u') \<and>
    run unity_enabled (unity_handle sample_clr) [Unity_received (frame Little 15 []) False] (sample_unity []) = Some (Done u')"
proof -
  obtain u' where u': "unity_handle sample_clr (Unity_received (frame Little 15 [] @ [9]) False) (sample_unity []) = Done u'"
      "unity_listening u'"
    using unity_ignored_step [of "sample_unity []" sample_clr Little "[]" 65536 15 "frame Little 15 [] @ [9]" "[9]"]
    by (auto simp: length_frame simp del: unity_handle.simps)
  then have on: "tc_receiving u'" by (simp add: unity_listening_def)
  have "run unity_enabled (unity_handle sample_clr)
      [Unity_received (frame Little 15 []) True, Unity_received [9] False] (sample_unity []) = Some (Done u')"
    using unity_piece [of "sample_unity []" "frame Little 15 []" sample_clr] length_frame [of "[]" Little 15] u'
      unity_piece_then [of "[9]" sample_clr "sample_unity []" "frame Little 15 []"] length_frame_pos [of "[]" Little 15]
    by (simp del: unity_handle.simps)
  with unity_loses_the_second [of "sample_unity []" "[]" 15 sample_clr Little "[9]" u'] show ?thesis
    using on by auto
qed

section \<open>A message cut short\<close>

text \<open>A client that will never take a message again: it does not read, or what it holds starts with the head 0.\<close>

definition unity_deaf :: "clr_env \<Rightarrow> unity_client \<Rightarrow> bool" where
  "unity_deaf env u \<longleftrightarrow> un_tcp_client u \<and> \<not> tc_connecting u \<and>
     (tc_receiving u \<longrightarrow> 8 \<le> length (un_tcp_buffer u) \<and> get16 (clr_order env) 0 (un_tcp_buffer u) = 0)"

lemma OnReceive_deaf:
  assumes "8 \<le> length (un_tcp_buffer u @ buffer)" and "get16 (clr_order env) 0 (un_tcp_buffer u @ buffer) = 0"
  shows "OnReceive env buffer u = Done (unity_received env (un_tcp_buffer u @ buffer) u)"
  using assms by (simp add: OnReceive_eq [OF assms(1)] Let_def)

lemma get16_append: "2 \<le> length bs \<Longrightarrow> get16 e 0 (bs @ cs) = get16 e 0 bs"
  by (simp add: get16_def)

lemma unity_deaf_callback:
  assumes deaf: "unity_deaf env u" "tc_receiving u"
    and r: "unity_handle env (Unity_received chunk available) u = Done u'"
  shows "unity_deaf env u' \<and> unity_knows u' = unity_knows u"
proof -
  define u1 where "u1 = (if chunk \<noteq> [] then u\<lparr>tc_receiving := False, tc_rx_buffer := tc_rx_buffer u @ chunk\<rparr>
    else u\<lparr>tc_receiving := False\<rparr>)"
  have buf: "8 \<le> length (un_tcp_buffer u1 @ cs)" "get16 (clr_order env) 0 (un_tcp_buffer u1 @ cs) = 0" for cs
    using deaf by (simp_all add: u1_def unity_deaf_def get16_append)
  have "unity_handle env (Unity_received chunk available) u =
      catch_print (and_then
        (if chunk = [] \<or> \<not> available
         then and_then (OnReceive env (tc_rx_buffer u1) u1) (\<lambda>u2. Done (u2\<lparr>tc_rx_buffer := []\<rparr>))
         else Done u1) AsyncReceive)"
    by (simp add: asyncReceiveCallback_def Let_def ConcatByteArrays_def u1_def)
  also have "\<dots> = catch_print (AsyncReceive
      (if chunk = [] \<or> \<not> available
       then (unity_received env (un_tcp_buffer u1 @ tc_rx_buffer u1) u1)\<lparr>tc_rx_buffer := []\<rparr> else u1))"
    by (simp add: OnReceive_deaf [OF buf])
  finally have step: "unity_handle env (Unity_received chunk available) u = \<dots>" .
  show ?thesis
    using r [unfolded step] deaf buf [of "[]"] buf [of "tc_rx_buffer u1"]
    by (auto simp: AsyncReceive_def unity_deaf_def unity_knows_def unity_received_def u1_def
        simp del: unity_handle.simps split: socket_state.splits if_splits)
qed

lemma unity_deaf_step:
  assumes "unity_deaf env u \<and> unity_knows u = k" and "unity_enabled ev u" and "unity_handle env ev u = Done u'"
  shows "unity_deaf env u' \<and> unity_knows u' = k"
proof (cases ev)
  case (Unity_received chunk available)
  then show ?thesis using unity_deaf_callback assms by (metis unity_enabled.simps(3))
next
  case (Unity_frame message)
  then show ?thesis
    using assms by (auto simp: Update_cs_def ParticipantUpdateFunction_def AsyncSend_cases lift_clr_case
        unity_deaf_def unity_knows_def split: if_splits sum.splits socket_state.splits)
next
  case Unity_destroy
  then show ?thesis
    using assms by (auto simp: OnDestroy_def Disconnect_cs_def unity_deaf_def unity_knows_def
        split: if_splits socket_state.splits)
qed (use assms in \<open>auto simp: unity_deaf_def unity_knows_def drop_connection_def asyncSendCallback_def
    split: if_splits\<close>)

interpretation unity_silence: event_system unity_enabled "unity_handle env" "\<lambda>u. unity_deaf env u \<and> unity_knows u = k" for env k
  by unfold_locales (rule unity_deaf_step)

text \<open>The rest of a frame behind its payload is zeros: the head of the next message is 0.\<close>

lemma drop_frame_zeros:
  assumes "length payload \<le> 65528" and "8 + length payload \<le> k"
  shows "drop k (frame e head payload) = zeros (65536 - k)"
  using assms by (simp add: frame_def)

lemma get16_zeros: "get16 e 0 (zeros n) = 0"
  by (cases e) (simp_all add: get16_def of_mem_def rev_zeros le_val_zeros)

lemma take_frame:
  assumes "length payload \<le> 65528" and "8 + length payload \<le> k"
  shows "take k (frame e head payload) =
    enc_header e (mk_xr_message_header head (word_of_nat (length payload))) @ payload @
    zeros (min (k - 8 - length payload) (65528 - length payload))"
  using assms by (simp add: frame_def)

lemma OnReceive_cut:
  assumes buf: "un_tcp_buffer u = []" and len: "length payload \<le> 65528" and head: "head \<noteq> 0" and e: "clr_order env = e"
    and k: "8 + length payload \<le> k"
  shows "OnReceive env (take k (frame e head payload)) u =
    and_then (ProcessMessage env head payload (unity_received env (take k (frame e head payload)) u))
      (\<lambda>u5. Done (u5\<lparr>un_tcp_buffer := []\<rparr>))"
proof -
  let ?bs = "take k (frame e head payload)"
  obtain z where z: "?bs = enc_header e (mk_xr_message_header head (word_of_nat (length payload))) @ payload @ z"
    using take_frame [OF len k] by blast
  have "get16 e 0 ?bs = head" "unat (get32 e 2 ?bs) = length payload" "take (length payload) (drop 8 ?bs) = payload"
    using len unfolding z by (simp_all add: enc_header_def mk_xr_message_header_def layout_simps unat_of_nat)
  moreover have "8 + length payload \<le> length ?bs" unfolding z by simp
  ultimately show ?thesis
    using buf head e by (simp add: OnReceive_eq Let_def add.commute)
qed

lemma OnReceive_short:
  assumes "length (un_tcp_buffer u @ buffer) < 8"
  shows "\<exists>x v. OnReceive env buffer u = Throws x v \<and> unity_knows v = unity_knows u \<and> unity_frame_of u v"
  using assms by (auto simp: OnReceive_def Let_def lift_clr_case to_uint16_def to_uint32_def ConcatByteArrays_def
      unity_knows_def unity_frame_of_def)

lemma unity_cut_received:
  assumes u: "unity_listening u" and len: "length payload \<le> 65528" and head: "head \<noteq> 0" and e: "clr_order env = e"
    and k: "8 + length payload \<le> k"
    and u1: "unity_handle env (Unity_received (take k (frame e head payload)) False) u = Done u1" "tc_receiving u1"
  shows "un_tcp_buffer u1 = [] \<and> tc_rx_buffer u1 = [] \<and> tc_connecting u1 = tc_connecting u \<and>
    un_tcp_client u1 = un_tcp_client u"
proof -
  let ?bs = "take k (frame e head payload)"
  let ?v = "unity_received env ?bs (u\<lparr>tc_receiving := False, tc_rx_buffer := ?bs\<rparr>)"
  let ?r = "ProcessMessage env head payload ?v"
  have ne: "?bs \<noteq> []" using k length_frame [OF len, of e head] by auto
  have "unity_handle env (Unity_received ?bs False) u =
      catch_print (and_then ?r (\<lambda>u5. AsyncReceive (u5\<lparr>un_tcp_buffer := [], tc_rx_buffer := []\<rparr>)))"
    using OnReceive_cut [of "u\<lparr>tc_receiving := False, tc_rx_buffer := ?bs\<rparr>", OF _ len head e k] u ne
    by (simp add: asyncReceiveCallback_def Let_def unity_listening_def ConcatByteArrays_def and_then_assoc)
  moreover have "unity_frame_of u x \<or> \<not> tc_receiving x" if "x \<in> set_outcome ?r" for x
    using ProcessMessage_frame [OF that] by (simp add: unity_frame_of_def unity_received_def)
  moreover have "tc_connecting x = tc_connecting u \<and> un_tcp_client x = un_tcp_client u \<and> \<not> tc_receiving x"
    if "x \<in> set_outcome ?r" for x
    using ProcessMessage_frame [OF that] by (simp add: unity_frame_of_def unity_received_def)
  ultimately show ?thesis
    using u1 by (cases ?r) (auto simp: AsyncReceive_def simp del: unity_handle.simps split: socket_state.splits)
qed

lemma unity_zeros_received:
  assumes "un_tcp_buffer u = []" and "tc_rx_buffer u = []" and "un_tcp_client u" and "\<not> tc_connecting u"
    and "0 < n" and u': "unity_handle env (Unity_received (zeros n) False) u = Done u'"
  shows "unity_deaf env u' \<and> unity_knows u' = unity_knows u"
proof -
  let ?u = "u\<lparr>tc_receiving := False, tc_rx_buffer := zeros n\<rparr>"
  have ne: "zeros n \<noteq> []" using assms(5) by (metis length_zeros list.size(3) less_irrefl)
  have step: "unity_handle env (Unity_received (zeros n) False) u =
      catch_print (and_then (and_then (OnReceive env (zeros n) ?u) (\<lambda>u2. Done (u2\<lparr>tc_rx_buffer := []\<rparr>))) AsyncReceive)"
    using assms(2) ne by (simp add: asyncReceiveCallback_def Let_def ConcatByteArrays_def)
  show ?thesis
  proof (cases "n < 8")
    case True
    then obtain x v where "OnReceive env (zeros n) ?u = Throws x v" "unity_knows v = unity_knows ?u" "unity_frame_of ?u v"
      using OnReceive_short [of ?u "zeros n" env] assms(1) by auto
    then show ?thesis
      using u' [unfolded step] assms(3,4) by (auto simp: unity_deaf_def unity_frame_of_def unity_knows_def)
  next
    case False
    then have "OnReceive env (zeros n) ?u = Done (unity_received env (zeros n) ?u)"
      using OnReceive_deaf [of ?u "zeros n" env] assms(1) by (simp add: get16_zeros)
    then show ?thesis
      using u' [unfolded step] assms(3,4) False
      by (auto simp: AsyncReceive_def unity_deaf_def unity_knows_def unity_received_def get16_zeros
          split: socket_state.splits)
  qed
qed

text \<open>C37: a message cut behind its payload is the last one: the client takes it, and takes the zeros that
  follow for the head of the next message; from then on no event, in any order, brings it to learn
  anything from the server again.\<close>

theorem unity_deaf_after_a_cut:
  assumes "unity_listening u" and "\<not> tc_connecting u" and "un_tcp_client u"
    and "length payload \<le> 65528" and "head \<noteq> 0" and "clr_order env = e"
    and "8 + length payload \<le> k" and "k < 65536"
    and u1: "unity_handle env (Unity_received (take k (frame e head payload)) False) u = Done u1"
    and run: "run unity_enabled (unity_handle env) (Unity_received (drop k (frame e head payload)) False # es) u1 = Some (Done u')"
  shows "unity_knows u' = unity_knows u1"
proof -
  have rest: "drop k (frame e head payload) = zeros (65536 - k)"
    by (rule drop_frame_zeros [OF assms(4,7)])
  obtain u2 where on: "tc_receiving u1" and u2: "unity_handle env (Unity_received (zeros (65536 - k)) False) u1 = Done u2"
    and more: "run unity_enabled (unity_handle env) es u2 = Some (Done u')"
    using run unfolding rest by (auto simp del: unity_handle.simps split: if_splits outcome.splits)
  have "unity_deaf env u2 \<and> unity_knows u2 = unity_knows u1"
    by (rule unity_zeros_received [OF _ _ _ _ _ u2])
      (use unity_cut_received [OF assms(1,4-7) u1 on] assms(2,3,8) in simp_all)
  from unity_silence.run_inv [OF this more] show ?thesis by simp
qed

theorem unity_deaf_after_a_cut_witness:
  "\<exists>u1 u'. unity_handle sample_clr (Unity_received (take 100 (frame Little 15 [])) False) (sample_unity []) = Done u1 \<and>
    run unity_enabled (unity_handle sample_clr)
      [Unity_received (drop 100 (frame Little 15 [])) False, Unity_destroy] u1 = Some (Done u') \<and>
    unity_knows u' = unity_knows u1"
proof -
  let ?fr = "frame Little 15 []" and ?u = "sample_unity []"
  obtain u1 where on: "unity_handle sample_clr (Unity_received (take 100 ?fr) False) ?u = Done u1" "unity_listening u1"
    using unity_ignored_step [of ?u sample_clr Little "[]" 100 15 "take 100 ?fr" "[]"]
    by (auto simp del: unity_handle.simps)
  then have u1: "unity_handle sample_clr (Unity_received (take 100 ?fr) False) ?u = Done u1"
      "tc_receiving u1" "tc_socket u1 = Connected_socket"
    by (simp_all add: unity_listening_def del: unity_handle.simps)
  have "un_tcp_buffer u1 = []" "tc_rx_buffer u1 = []" "un_tcp_client u1"
    using unity_cut_received [of ?u "[]" 15 sample_clr Little 100 u1] u1 by (simp_all del: unity_handle.simps)
  moreover from this have "OnReceive sample_clr (zeros 65436) (u1\<lparr>tc_receiving := False, tc_rx_buffer := zeros 65436\<rparr>) =
      Done (unity_received sample_clr (zeros 65436) (u1\<lparr>tc_receiving := False, tc_rx_buffer := zeros 65436\<rparr>))"
    using OnReceive_deaf [of "u1\<lparr>tc_receiving := False, tc_rx_buffer := zeros 65436\<rparr>" "zeros 65436" sample_clr]
    by (simp add: get16_zeros)
  moreover have "zeros 65436 \<noteq> []" by (simp add: zeros_def)
  ultimately obtain u' where u': "run unity_enabled (unity_handle sample_clr)
      [Unity_received (drop 100 ?fr) False, Unity_destroy] u1 = Some (Done u')"
    using u1(2,3) by (simp add: drop_frame_zeros asyncReceiveCallback_def Let_def ConcatByteArrays_def
        AsyncReceive_def unity_received_def OnDestroy_def Disconnect_cs_def)
  have "unity_knows u' = unity_knows u1"
    by (rule unity_deaf_after_a_cut [of ?u "[]" 15 sample_clr Little 100 u1 "[Unity_destroy]" u']) (use u1(1) u' in simp_all)
  then show ?thesis using u1(1) u' by blast
qed

section \<open>The rate of the updates\<close>

lemma unity_update_frame_eq:
  assumes "length (utf8 message) \<le> 65528"
  shows "unity_update_frame env message = Inr (enc_header_cs (clr_order env)
    \<lparr>xm_head = 20, xm_buffersize = word_of_nat (length (utf8 message)), xm_payload_is_big_endian = 0\<rparr> @
    utf8 message @ zeros (65528 - length (utf8 message)))"
proof -
  let ?n = "length (utf8 message)"
  have n: "unat (word_of_nat ?n :: u16) = ?n"
    using assms by (simp add: unat_of_nat)
  have u: "ucast (word_of_nat ?n :: u16) = (word_of_nat ?n :: u32)"
    using assms by (simp add: unsigned_of_nat take_bit_nat_eq_self)
  show ?thesis
    using assms by (simp add: unity_update_frame_def Let_def n u array_copy_start GetBytes_raw_full)
qed

text \<open>The rate a server grants is divided into 1 as an integer and taken for milliseconds: for the rate
  1 the client sends its text as a frame whenever a millisecond has passed, for every higher rate it
  never sends an update, and the rate 0 makes it stop reading.\<close>

theorem unity_rate_is_an_interval:
  assumes "unity_listening u" and "un_tcp_client u" and "clr_order env = e" and "wf_participant_join st"
  shows "\<exists>u'. unity_handle env (Unity_received (frame e (head_code PARTICIPANT_JOIN) (enc_participant_join e st)) False) u = Done u' \<and>
    un_participant_id u' = pj_participant_id st \<and>
    (pj_max_data_rate st = 0 \<longrightarrow> \<not> tc_receiving u') \<and>
    (1 < pj_max_data_rate st \<longrightarrow> (\<forall>now message. Update_cs (env\<lparr>clr_now := now\<rparr>) message u' = Done u')) \<and>
    (pj_max_data_rate st = 1 \<longrightarrow> (\<forall>now message. 1 \<le> sint (now - un_last_timestamp u') \<and> length (utf8 message) \<le> 65528 \<longrightarrow>
      (\<exists>u''. Update_cs (env\<lparr>clr_now := now\<rparr>) message u' = Done u'' \<and> un_last_timestamp u'' = now \<and>
        tc_sends u'' = tc_sends u' + 1 \<and>
        xr_head e (tc_tx_buffer u'') = head_code PARTICIPANT_UPDATE_ACK \<and>
        xr_payload (tc_tx_buffer u'') = Some (utf8 message @ zeros (65528 - length (utf8 message))))))"
proof -
  obtain v where v: "unity_handle env (Unity_received (frame e (head_code PARTICIPANT_JOIN) (enc_participant_join e st)) False) u =
      Done (if pj_max_data_rate st = 0 then v
            else v\<lparr>un_dt_ms := (if pj_max_data_rate st = 1 then 1 else 0), un_can_update := True,
                   un_tcp_buffer := [], tc_rx_buffer := [], tc_receiving := True\<rparr>)"
    "\<not> tc_receiving v" "tc_socket v = Connected_socket" "un_tcp_client v" "un_participant_id v = pj_participant_id st"
    using unity_join_received [OF assms(1,3,4)] assms(2) by blast
  have sends: "\<exists>u''. Update_cs (env\<lparr>clr_now := now\<rparr>) message x = Done u'' \<and> un_last_timestamp u'' = now \<and>
        tc_sends u'' = tc_sends x + 1 \<and> xr_head e (tc_tx_buffer u'') = head_code PARTICIPANT_UPDATE_ACK \<and>
        xr_payload (tc_tx_buffer u'') = Some (utf8 message @ zeros (65528 - length (utf8 message)))"
    if "un_tcp_client x" "tc_socket x = Connected_socket" "un_dt_ms x = 1" "un_can_update x"
      "1 \<le> sint (now - un_last_timestamp x)" "length (utf8 message) \<le> 65528" for x now message
    using that assms(3) unity_update_frame_eq [OF that(6), of "env\<lparr>clr_now := now\<rparr>"]
    by (simp add: Update_cs_def ParticipantUpdateFunction_def AsyncSend_full xr_head_def xr_payload_def enc_header_cs_def)
  show ?thesis
  proof (cases "pj_max_data_rate st = 1")
    case True
    let ?x = "v\<lparr>un_dt_ms := 1, un_can_update := True, un_tcp_buffer := [], tc_rx_buffer := [], tc_receiving := True\<rparr>"
    show ?thesis
      unfolding v(1) using True v(3-5) sends [of ?x] by (intro exI [of _ ?x]) simp
  next
    case False
    then show ?thesis unfolding v(1) using v(2-5) by (auto simp: Update_cs_def)
  qed
qed

theorem unity_rate_is_an_interval_witness:
  "\<exists>u'. unity_handle sample_clr (Unity_received (participant_join_frame sample_env 77) False) (sample_unity []) = Done u' \<and>
    un_participant_id u' = 77"
proof -
  have "wf_participant_join (init_participant_join
      \<lparr>pj_participant_id := 77, pj_max_data_rate := 1, pj_allow_asynchronous_messages := 0xFFFF,
       pj_message_buffersize := 16, pj_message_buffer := welcome_message @ zeros 10224\<rparr>)"
    by (simp add: wf_participant_join_def)
  from unity_rate_is_an_interval [of "sample_unity []" sample_clr Little, OF _ _ _ this] show ?thesis
    by (auto simp: participant_join_frame_def simp del: head_code.simps unity_handle.simps)
qed

section \<open>One buffer for all sends\<close>

text \<open>
  A second send that starts before the first has gone out overwrites it: the second frame is sent twice
  and the first never.
\<close>

lemma second_send_overwrites:
  assumes "tc_socket u = Connected_socket" and "tc_sends u = 0" and "length m = 65536" and "length m' = 65536"
    and "AsyncSend m 65536 u = Done v" and "AsyncSend m' 65536 v = Done v'"
  shows "history unity_sends (unity_handle env) [Unity_sent, Unity_sent] v' = [m', m'] \<and> tc_sends v' = 2"
proof -
  have "v' = u\<lparr>tc_tx_buffer := m', tc_sends := 2\<rparr>"
    using assms by (auto simp: AsyncSend_full)
  then show ?thesis by (simp add: unity_sends_def asyncSendCallback_def)
qed

end
