(* ===== verification/Spec2Isabelle.thy ===== *)
theory Spec2Isabelle
  imports Room_Properties Server_Properties Client_Correct Wire_Correct Console_Progress
    Server_Contracts Server_Order Server_Presence Hostile_Peers Chat_Main Client_End Text_Correct Error_Messages
    Network_Order Unity_Stream
begin

text \<open>
  XRNetwork is a TCP lobby service for shared virtual rooms. A server accepts connections, puts each
  through a handshake with credentials, gives it an identifier and a place in a room, introduces it to
  the others and relays what participants send. This development models the C++ program: the
  protocol, the server, the service that runs the server in a thread, the operator's console and the
  test client; and the client of the Unity side, in C#. The paths below are relative to \<open>src/\<close>.

  \<^bold>\<open>The program and its theories\<close>

  \<^item> \<open>Prelude\<close>: how a piece of C++ ends (\<open>outcome\<close>), checked memory, event systems and their runs.
  \<^item> \<open>Bytes\<close> (\<open>nr_base.hpp\<close>): integers in memory on either byte order, \<open>swap_endian\<close>,
    \<open>swap_byte_vector\<close>; the locale \<open>byte_codec\<close>, the contract of a fixed layout.
  \<^item> \<open>Protocol\<close> (\<open>protocol.hpp\<close>): the message heads and the packed structures, each with its
    constructor, its layout (\<open>enc_\<dots>\<close>), the read back through a cast pointer (\<open>dec_\<dots>\<close>) and an
    interpretation of \<open>byte_codec\<close>.
  \<^item> \<open>XRMessage\<close> (\<open>XRMessage.hpp\<close>): the frame of 65536 bytes that carries every message.
  \<^item> \<open>Mersenne\<close>: the standard library's \<open>mt19937_64\<close>, from which identifiers are drawn.
  \<^item> \<open>Ordered_Set\<close>: \<open>std::set\<close> of pointers ordered by a key behind the pointer; the locale
    \<open>keyed_set\<close> and the sorted list that implements it.
  \<^item> \<open>Participant\<close> (\<open>participant.hpp\<close>): a participant's state, information block and comparisons.
  \<^item> \<open>Session_Object\<close> (\<open>session.hpp\<close>, and the members of \<open>handshake.hpp\<close> and \<open>room.hpp\<close>): the heap of
    sessions, the write queue, closing and the socket options.
  \<^item> \<open>Room\<close> (\<open>room.hpp\<close>): \<open>network_room\<close>; lookup, join, leave, introduction, delivery, settings.
  \<^item> \<open>Session\<close> (\<open>session.hpp\<close>): the read loop of a member and the dispatch on the message head.
  \<^item> \<open>Handshake\<close> (\<open>handshake.hpp\<close>): greeting, answers, credentials, and the read loop before joining.
  \<^item> \<open>Nr_Server\<close> (\<open>nr_server.hpp\<close>): construction, the accept loop, settings, stop; the handlers of the
    whole server as one event system (\<open>server_enabled\<close>, \<open>server_handle\<close>).
  \<^item> \<open>Lobby_Service\<close> (\<open>XRNetworkLobbyService.hpp\<close>): the thread of the service, start, stop, settings
    and their forwarding to the server.
  \<^item> \<open>Console\<close> (\<open>nr_service_console.cpp\<close>): the menu and the callback that configures the service;
    keys, thread and network as one event system (\<open>console_enabled\<close>, \<open>console_handle\<close>).
  \<^item> \<open>Chat_Client\<close> (\<open>nr_client.cpp\<close>): the client's write queue, read handler and timer.
  \<^item> \<open>Chat_Main\<close> (\<open>nr_client.cpp\<close>, \<open>main\<close>): the loop over the lines of the standard input, and the program
    around it.
  \<^item> \<open>Network\<close>: the server and running clients connected to each other, as one closed event system;
    \<open>Network_Open\<close>: the same with connections that fail, updates that are sent and calls of the owner.
  \<^item> \<open>Text_Output\<close> (the operators \<open><<\<close> of \<open>nr_base.hpp\<close>, \<open>protocol.hpp\<close>, \<open>XRMessage.hpp\<close>, and
    \<open>print_buffer\<close>): the output stream and what the program prints of its messages.
  \<^item> \<open>Error_Messages\<close> (\<open>error_messages.hpp\<close>): the texts of error codes.
  \<^item> \<open>Unity_Protocol\<close> (\<open>unity_codes/XRNetworkProtocol.cs\<close>): the messages as the Unity client lays them
    out, and what it uses of .NET. \<open>Unity_Client\<close> (\<open>unity_codes/XRNetworkParticipant.cs\<close> and
    \<open>XRAsyncTCPClient.cs\<close>): its connection, handlers and updates as an event system (\<open>unity_enabled\<close>,
    \<open>unity_handle\<close>).
  \<^item> \<open>Nr_Message\<close> (\<open>message.hpp\<close>, \<open>message_node.hpp\<close>): the older message with its textual length.

  The console calls the service; the service owns a server and runs its event loop; the server owns
  the room and creates the sessions; a session calls the room (join, leave, deliver, introduce) and the
  room calls back into sessions (\<open>deliver\<close>, \<open>disconnect\<close>, the socket options), as the code does. The
  theories follow that order, with the room before the parts of the session that call it.

  \<^bold>\<open>How state corresponds\<close>

  A record has the fields of its class. Sessions live in \<open>heap\<close>, a map from addresses; \<open>next_ptr\<close> is the
  next free address. A \<open>shared_ptr\<close> is an address; \<open>alive\<close> says whether the room or a pending
  handler still owns the session there. \<open>world\<close> is the room with the heap,
  \<open>nr_server\<close> extends it, \<open>xrnls\<close> holds an optional server and, in \<open>svc_destroyed\<close>, what is left of those
  that later starts have replaced: their handlers stay in the \<open>io_context\<close> and run as the events
  \<open>Old_net\<close>. \<open>console\<close> extends \<open>xrnls\<close>. The room's set is
  the list of its elements in iteration order. Raising a signal records in \<open>emitted\<close> one call per
  connected callback, with its arguments. Machine integers keep their width; a \<open>std::string\<close> or a buffer is
  the list of its bytes, and allocation sizes are list lengths, so an access beyond them is detected.

  Every step returns an \<open>outcome\<close>: \<open>Done\<close> with the new state, \<open>Throws\<close> with the exception and the state
  reached, or \<open>Undefined\<close> with the kind of undefined behaviour. A step that reaches undefined behaviour
  has no state after it, and a run ends there. The exceptions of the Unity client are those of .NET
  (\<open>Managed\<close>); its record \<open>unity_client\<close> extends that of its connection, \<open>tcp_client\<close>, and static members are
  fields like the others, for one participant per process.

  \<^bold>\<open>Boost.Asio and the environment\<close>

  The library itself is not modelled. What the code hands to it is recorded in the session (\<open>posted\<close>
  for \<open>post\<close>, \<open>writing\<close> for \<open>async_write\<close>, \<open>reading\<close> for \<open>async_read\<close>, \<open>accepting\<close> for
  \<open>async_accept\<close>), and an event completes one of them; \<open>server_enabled\<close> allows exactly the events whose
  operation is pending. Theorems over runs quantify over all event sequences, so over all completion
  orders. In \<open>Network\<close> and \<open>Network_Open\<close> the bytes of a write are on their way to the other end, whole and
  in order, from the moment the write starts; everywhere else what arrives is chosen freely by the
  events. One handler is one step, and so is one call from another thread: the mutexes, and data races
  between the console's thread and the event loop inside a step, are not modelled.

  What the sources cannot determine is the record \<open>asio_env\<close>, an argument of the definitions: the byte
  order of the host, which socket options fail on an open or closed socket, the content of memory that
  a constructor leaves uninitialised, and the clock. Structure sizes are those of the packed layouts,
  and of x86-64 alignment where a translation unit includes a structure outside the packing. For the
  Unity client the record is \<open>clr_env\<close>: the byte order, the clock, and what the marshaller does with an array
  that is too short. A send of that client goes out at an event of its own, with what the buffer then holds.
  The text a handler prints is not kept: a handler continues when printing succeeds, and is undefined
  when it reads out of bounds. \<open>insert_all_outcome\<close> shows that this depends on the terminators alone.
  No definition uses fuel: every loop of the program that is modelled is structural, or has a measure
  that decreases (the buffer of a stream, the digits of a number, the rest of the input), and the
  endless loops (reading, accepting, the menu) are runs of events.

  \<^bold>\<open>What is shown\<close>

  \<^item> \<open>Room_Correct\<close>: delivery as one parallel update of the heap, the invariant \<open>room_ok\<close>, and the effect of
    join, leave and introduction.
  \<^item> \<open>Server_Correct\<close>: the invariant \<open>server_inv\<close> of the event system and the effect of each event;
    \<open>Server_Progress\<close>: what well-behaved peers send, and that it never leads to undefined behaviour.
  \<^item> \<open>Client_Correct\<close>: the locale \<open>fifo_writer\<close>, a contract of a writer with its refinement to a queue,
    interpreted on the client; that no event but the timer and a frame without a terminator can fail.
    \<open>Client_End\<close>: after \<open>close\<close> the client is a terminating event system.
  \<^item> \<open>Handshake_Correct\<close>: client and server answer each other.
  \<^item> \<open>Lobby_Spec\<close>: an abstract lobby, with an operation for everything that happens to it, and the
    simulation by the server. \<open>Server_Wire\<close>: the type of what the server sends. \<open>Server_Drain\<close>: its
    output as a terminating event system. \<open>Server_Order\<close>: the posted buffers as a queue, and the order of updates.
    \<open>Server_Presence\<close>: the read that is pending for every member.
  \<^item> \<open>Network_Correct\<close>: the conversation of a connection as an inductive relation, the invariant of the
    network and the number of events that are left, which every event makes smaller. \<open>Network_Open\<close>:
    three queues, from what a client is given to what another one reads. \<open>Network_Order\<close>: what they
    deliver along a run, and that an update can be brought to everybody.
  \<^item> \<open>Unity_Correct\<close>: the steps of the Unity client on each message of the server, and its answers as
    bytes; \<open>Unity_Properties\<close>: which of these the server understands; \<open>Unity_Stream\<close>: frames in pieces,
    together and cut short, with the invariant of a client that no longer hears (\<open>unity_deaf\<close>).
  \<^item> \<open>Samples\<close>: the concrete states at which the theorems with hypotheses are instantiated.
  \<^item> \<open>Room_Properties\<close>, \<open>Server_Properties\<close>, \<open>Server_Contracts\<close>, \<open>Server_Order\<close>, \<open>Server_Presence\<close>, \<open>Hostile_Peers\<close>,
    \<open>Client_Correct\<close>, \<open>Chat_Main\<close>, \<open>Wire_Correct\<close>, \<open>Lobby_Correct\<close>, \<open>Console_Progress\<close>,
    \<open>Network_Correct\<close>, \<open>Network_Order\<close>, \<open>Client_End\<close>,
    \<open>Unity_Properties\<close>, \<open>Unity_Stream\<close> and this theory
    state the properties C1 to C40: the lobby that the server implements; what holds along every run;
    who gets into the room and who is told; that all clients get in, whatever the order of events; that
    updates arrive once and in order, and that they go round from client to client; that nobody stays in
    the room unattended; that output ends and has a type; that messages and streams read back; that the
    service and its thread stay consistent, and do not fail among well-behaved peers; what the Unity
    client and the server agree on.

  Several properties state exactly how the program fails: a repeated leave (C31), overlapping writes
  (C25), a handler that outlives its session (C26) or its server (C27), credentials that end the service
  (C21), texts without a terminator, on the server (C23) and on the clients (C22), the leaving of
  somebody who never came (C30), a start over a thread that ended by itself (C29), the client's timer
  (C38), the name of a Unity client (C24), and messages that reach that client together or cut (C36,
  C37).

  \<^bold>\<open>What is not modelled\<close>

  The mutexes and the interleaving of threads inside one step; the log object, which logs nothing; the
  timestamps of \<open>message_node\<close>. Of the Unity code, the scripts that move objects in the scene, its
  log, and the structures of \<open>XRNetworkProtocol.cs\<close> that no code uses; in that file the second side of every
  unresolved merge conflict is modelled. The certificates and the Makefile hold no logic.
  Of the C++ sources nothing else is left but declarations that have no use and code that is commented
  out. The interleaving inside a step would need a memory model of C++.
\<close>

section \<open>The handshake from both sides\<close>

text \<open>C10: server and client complete the handshake: the three messages the server queues for a new
  connection are the ones the client answers, the answers of the client are accepted, and in the end the
  connection is a member of the room, reads as one, has the client's configuration as its descriptor,
  and the client knows the identifier the server drew for it.\<close>

theorem handshake_completes:
  fixes w :: nr_server
  defines "p \<equiv> next_ptr w"
  assumes safe: "safe w" and en: "accepting w" and ip: "length ip \<le> 512"
    and free: "length (participants (room w)) < unat (max_participants (room w))"
    and unused: "get_participant_ptr (fst (mt_next (room_rng (room w)))) w = None"
    and opt: "\<not> set_option_fails env True" and e: "byte_order cenv = byte_order env"
  shows "\<exists>w' h r j a k c1 c2 c3.
    run server_enabled (server_handle env)
      [Accept_ok (Some ip), Frame_received p Handshake_read a, Frame_received p Handshake_read k] w = Some (Done w') \<and>
    posted (heap w' p) = [h, r, j] \<and>
    client_frame cenv h c = Done c1 \<and> cl_posted c1 = cl_posted c @ [Post_write a] \<and>
    client_frame cenv r c1 = Done c2 \<and> cl_posted c2 = cl_posted c1 @ [Post_write k] \<and>
    client_frame cenv j c2 = Done c3 \<and> cl_participant_id c3 = m_id (heap w' p) \<and> cl_timers c3 = 1 \<and>
    p \<in> set (participants (room w')) \<and> m_id (heap w' p) = fst (mt_next (room_rng (room w))) \<and>
    reading (heap w' p) = [Session_read] \<and> m_descriptor (heap w' p) = client_configuration"
proof -
  let ?i = "fst (mt_next (room_rng (room w)))" and ?sid = "srv_service_id w" and ?name = "srv_service_name w"
  let ?a = "client_hello_ack_frame cenv ?sid" and ?k = "client_credentials_frame cenv"
  have name: "length ?name < 1024" using safe by (simp add: safe_def texts_ok_def)
  have ok: "room_ok w" using safe by (simp add: safe_def server_inv_room_ok)
  obtain w' where w': "run server_enabled (server_handle env) (handshake_run p ip ?a ?k) w = Some (Done w')"
    "posted (heap w' p) = [server_hello_frame env ?sid ?name, credentials_request_frame env, participant_join_frame env ?i]"
    "m_id (heap w' p) = ?i" "m_descriptor (heap w' p) = client_configuration" "reading (heap w' p) = [Session_read]"
    "participants (room w') = oset_insert ((pkey w)(p := ?i)) p (participants (room w))"
    using handshake_server_side [OF safe en ip free opt e] unfolding p_def by blast
  have out: "p \<notin> set (participants (room w))"
    using room_ok_less [OF ok, of p] by (auto simp: p_def)
  have "p \<in> set (participants (room w'))"
    using oset.elems_ins [OF oset_ok_new_key [OF ok out, of ?i], of p] find_new_key [OF out, of ?i ?i] unused w'(6)
    by simp
  then show ?thesis
    using w' client_greeted [OF name e, of ?sid c] client_asked [OF e] client_welcomed [OF e]
    unfolding handshake_run_def
    by (intro exI conjI) (assumption | simp add: client_do_read_byte_def write_byte_def begin_participant_update_def)+
qed

theorem handshake_completes_witness:
  "\<exists>w' a k. run server_enabled (server_handle sample_env)
      [Accept_ok (Some []), Frame_received 3 Handshake_read a, Frame_received 3 Handshake_read k]
      (sample_server 10) = Some (Done w') \<and> 3 \<in> set (participants (room w'))"
  using handshake_completes [of "sample_server 10" "[]" sample_env sample_env "new_chat_client 0 0"]
  by (auto simp: first_id_unused simp del: run.simps)

text \<open>Server and room draw from two engines with the same default seed, so the first participant of
  a server gets the identifier of the service itself, and it is the same number in every run.\<close>

theorem first_participant_has_the_service_id:
  assumes "length ip \<le> 512" and "\<not> set_option_fails env True" and "byte_order cenv = byte_order env"
  shows "\<exists>w'. run server_enabled (server_handle env)
      (handshake_run 0 ip (client_hello_ack_frame cenv (srv_service_id (new_nr_server raw)))
        (client_credentials_frame cenv)) (new_nr_server raw) = Some (Done w') \<and>
    participants (room w') = [0] \<and> m_id (heap w' 0) = srv_service_id (new_nr_server raw) \<and>
    srv_service_id (new_nr_server raw) = 14514284786278117030"
  using handshake_server_side [of "new_nr_server raw" ip env cenv] safe_new [of raw] assms
  by (auto simp: mt_default_first)

theorem first_participant_has_the_service_id_witness:
  "\<exists>w'. run server_enabled (server_handle sample_env)
      (handshake_run 0 [] (client_hello_ack_frame sample_env (srv_service_id (new_nr_server sample_raw_room)))
        (client_credentials_frame sample_env)) (new_nr_server sample_raw_room) = Some (Done w') \<and>
    m_id (heap w' 0) = 14514284786278117030"
  using first_participant_has_the_service_id [of "[]" sample_env sample_env sample_raw_room] by auto

section \<open>The service under a hostile peer\<close>

text \<open>C21: a peer that gets the credentials wrong ends the whole service: its socket is closed, the join that
  follows all the same throws when it sets an option on the closed socket, the exception leaves the event
  loop, and the next start ends the process.\<close>

theorem wrong_credentials_end_the_service:
  assumes run: "running s w" and read: "Handshake_read \<in> set (reading (heap w p))"
    and len: "length bs = 65536" and head: "xr_head (byte_order env) bs = head_code HANDSHAKE_CREDENTIALS_ACK"
    and bad: "credentials_rejected (dec_handshake_credentials_ack (byte_order env) (drop 8 bs)) = Inr True"
    and shown: "0 \<in> set (drop 2070 bs)"
    and free: "length (participants (room w)) < unat (max_participants (room w))"
    and options: "options_need_open env"
  shows "\<exists>s' w'. console_enabled (Net (Frame_received p Handshake_read bs)) s \<and>
    console_handle env raw (Net (Frame_received p Handshake_read bs)) s = Done s' \<and>
    \<not> b_thread_running s' \<and> service_thread s' = Finished \<and>
    svc_server s' = Some w' \<and> participants (room w') = participants (room w) \<and> \<not> is_open (heap w' p) \<and>
    console_key env CHR ''n'' s' = Undefined Terminate"
proof -
  let ?v = "do_read_byte p (disconnect p (read_over p Handshake_read w))"
  have v: "room ?v = room w" "is_open (heap ?v p) = False" by (simp_all add: do_read_byte_def)
  let ?w = "upd_session p (\<lambda>s. s\<lparr>m_id := fst (mt_next (room_rng (room ?v)))\<rparr>)
      (upd_room (\<lambda>r. r\<lparr>room_rng := snd (mt_next (room_rng (room ?v)))\<rparr>) ?v)"
  have "join env p ?v = Throws (SystemError ''set_option'') ?w"
    by (rule join_throws) (use free options v in \<open>simp_all add: options_need_open_def\<close>)
  then have step: "server_handle env (Frame_received p Handshake_read bs) w = Throws (SystemError ''set_option'') ?w"
    using check_handshake_credentials_ack_eq [OF bad, of env p "read_over p Handshake_read w"]
    by (simp add: handshake_frame_full len head shown)
  have "console_enabled (Net (Frame_received p Handshake_read bs)) s"
    using run read len by (auto simp: running_def lobby_inv_def)
  moreover have "console_handle env raw (Net (Frame_received p Handshake_read bs)) s =
      Done (thread_function_end (s\<lparr>svc_server := Some ?w\<rparr>))"
    using run step by (simp add: thread_function_run_def on_server_def running_def del: server_handle.simps)
  moreover have "console_key env CHR ''n'' (thread_function_end (s\<lparr>svc_server := Some ?w\<rparr>)) = Undefined Terminate"
    by (simp add: console_key_def console_switch_def svc_start_def thread_function_end_def)
  ultimately show ?thesis
    using v by (intro exI [of _ "thread_function_end (s\<lparr>svc_server := Some ?w\<rparr>)"] exI [of _ ?w])
      (simp add: thread_function_end_def do_read_byte_def)
qed

definition sample_wrong_frame :: "byte list" where
  "sample_wrong_frame = frame Little (head_code HANDSHAKE_CREDENTIALS_ACK) (zeros 65528)"

lemma sample_wrong_shown: "0 \<in> set (drop 2070 sample_wrong_frame)"
  by (simp add: sample_wrong_frame_def frame_def)

lemma sample_wrong_rejected:
  "credentials_rejected (dec_handshake_credentials_ack Little (drop 8 sample_wrong_frame)) = Inr True"
proof -
  have "hca_login_buffer (dec_handshake_credentials_ack Little (drop 8 sample_wrong_frame)) = 0 # zeros 1023"
    using zeros_pos [of 1024]
    by (simp add: sample_wrong_frame_def drop_frame dec_handshake_credentials_ack_def get_buf_def)
  then show ?thesis by (simp add: credentials_rejected_def cstr_def str_def)
qed

theorem wrong_credentials_end_the_service_witness:
  "\<exists>s'. console_handle sample_env sample_raw_room (Net (Frame_received 2 Handshake_read sample_wrong_frame))
      (sample_console (sample_server 10)) = Done s' \<and>
    service_thread s' = Finished \<and> console_key sample_env CHR ''n'' s' = Undefined Terminate"
  using wrong_credentials_end_the_service [OF running_sample_console [OF sample_inv [of 10]],
      of 2 sample_wrong_frame sample_env sample_raw_room] sample_wrong_rejected sample_wrong_shown
  by (auto simp: options_need_open_def sample_wrong_frame_def length_frame simp del: console_handle.simps)

end
